(* ===== verification/Prelude.thy ===== *)
theory Prelude
  imports Complex_Main "HOL-Library.Option_ord"
begin

text \<open>
  Shared vocabulary of the development: JavaScript numbers and dates, results of a
  call that may throw, database tables with the Prisma operations the services
  use, and the lemmas about them every component builds on. Nothing here is
  specific to one service.
\<close>

section \<open>Collections of facts\<close>

named_theorems table_simps \<open>how the table operations act on the rows of a table\<close>
named_theorems frame_simps \<open>fields and tables an operation leaves alone\<close>
named_theorems machine_defs \<open>definitions a transition-table proof unfolds\<close>

section \<open>Numbers and dates\<close>

text \<open>
  A finite JavaScript number is a rational; \<open>None\<close> stands for a reading that
  fails \<open>Number.isFinite\<close> (\<open>NaN\<close>, an infinity, or a missing value where the code
  treats them alike). A \<open>Date\<close> is its time in milliseconds.
\<close>

type_synonym number = rat
type_synonym time = int
type_synonym uid = nat

definition js_round :: "number \<Rightarrow> int" where
  "js_round x = \<lfloor>x + 1 / 2\<rfloor>"

text \<open>The idiom \<open>Math.round(x * 100) / 100\<close>.\<close>

definition round2 :: "number \<Rightarrow> number" where
  "round2 x = of_int (js_round (x * 100)) / 100"

text \<open>\<open>new Date(x)\<close> keeps the integral part of \<open>x\<close>, rounding towards zero.\<close>

definition time_clip :: "number \<Rightarrow> time" where
  "time_clip x = (if 0 \<le> x then \<lfloor>x\<rfloor> else - \<lfloor>- x\<rfloor>)"

abbreviation hour_ms :: number where
  "hour_ms \<equiv> 60 * 60 * 1000"

abbreviation day_ms :: number where
  "day_ms \<equiv> 24 * 60 * 60 * 1000"

text \<open>An amount with at most two decimals, as the \<open>Decimal(18, 2)\<close> columns hold them.\<close>

definition is_money :: "number \<Rightarrow> bool" where
  "is_money x \<longleftrightarrow> of_int \<lfloor>x * 100\<rfloor> = x * 100"

lemma is_money_of_cents [simp, intro]: "is_money (of_int c / 100)"
  by (simp add: is_money_def)

lemma is_moneyE:
  assumes "is_money x"
  obtains c where "x = of_int c / 100"
proof -
  from assms have "of_int \<lfloor>x * 100\<rfloor> = x * 100"
    by (simp only: is_money_def)
  then have "x = of_int \<lfloor>x * 100\<rfloor> / 100"
    by (simp only:)
  then show thesis by (rule that)
qed

lemma js_round_of_int [simp]: "js_round (of_int n) = n"
  by (simp add: js_round_def floor_eq_iff)

lemma js_round_mono: "x \<le> y \<Longrightarrow> js_round x \<le> js_round y"
  by (simp add: js_round_def floor_mono)

lemma js_round_bounds: "x - 1 / 2 < of_int (js_round x)" "of_int (js_round x) \<le> x + 1 / 2"
  unfolding js_round_def by (simp_all add: floor_le_iff) linarith

lemma js_round_nonneg: "0 \<le> x \<Longrightarrow> 0 \<le> js_round x"
  using js_round_mono [of 0 x] js_round_of_int [of 0] by simp

lemma round2_money [simp, intro]: "is_money (round2 x)"
  by (simp add: round2_def)

lemma round2_id [simp]: "is_money x \<Longrightarrow> round2 x = x"
  by (auto elim!: is_moneyE simp: round2_def)

lemma round2_nonneg: "0 \<le> x \<Longrightarrow> 0 \<le> round2 x"
  by (simp add: round2_def js_round_nonneg)

lemma round2_mono: "x \<le> y \<Longrightarrow> round2 x \<le> round2 y"
  by (simp add: round2_def js_round_mono divide_right_mono)

lemma round2_error: "\<bar>round2 x - x\<bar> \<le> 1 / 200"
proof -
  let ?r = "of_int (js_round (x * 100)) :: rat"
  have "?r \<le> x * 100 + 1 / 2" and "x * 100 - 1 / 2 < ?r"
    by (rule js_round_bounds)+
  then have "?r / 100 - x \<le> 1 / 200" and "x - ?r / 100 \<le> 1 / 200"
    by linarith+
  then show ?thesis unfolding round2_def by linarith
qed

lemma is_money_diff: "is_money x \<Longrightarrow> is_money y \<Longrightarrow> is_money (x - y)"
  by (auto elim!: is_moneyE simp: diff_divide_distrib [symmetric] simp flip: of_int_diff)

lemma is_money_add: "is_money x \<Longrightarrow> is_money y \<Longrightarrow> is_money (x + y)"
  by (auto elim!: is_moneyE simp: add_divide_distrib [symmetric] simp flip: of_int_add)

lemma is_money_0 [simp]: "is_money 0"
  using is_money_of_cents [of 0] by simp

lemma time_clip_of_int [simp]: "time_clip (of_int n) = n"
  by (simp add: time_clip_def flip: of_int_minus)

lemma time_clip_mono:
  assumes "x \<le> y"
  shows "time_clip x \<le> time_clip y"
proof (cases "0 \<le> x")
  case True
  with assms show ?thesis by (simp add: time_clip_def floor_mono)
next
  case neg: False
  show ?thesis
  proof (cases "0 \<le> y")
    case True
    have "0 \<le> \<lfloor>- x\<rfloor>" using neg by simp
    moreover have "0 \<le> \<lfloor>y\<rfloor>" using True by simp
    ultimately have "- \<lfloor>- x\<rfloor> \<le> \<lfloor>y\<rfloor>" by linarith
    then show ?thesis using neg True by (simp add: time_clip_def)
  next
    case False
    with assms neg show ?thesis by (simp add: time_clip_def floor_mono)
  qed
qed

lemma time_clip_add_ge: "0 \<le> d \<Longrightarrow> t \<le> time_clip (of_int t + d)"
  using time_clip_mono [of "of_int t" "of_int t + d"] by simp

text \<open>\<open>Number.isInteger\<close>.\<close>

definition is_integer :: "number \<Rightarrow> bool" where
  "is_integer x \<longleftrightarrow> of_int \<lfloor>x\<rfloor> = x"

section \<open>Text\<close>

text \<open>
  The string methods the services use, on ASCII text. \<open>trim\<close> drops the white space
  of the language at both ends.
\<close>

definition js_space :: "char \<Rightarrow> bool" where
  "js_space c = (of_char c \<in> {9, 10, 11, 12, 13, 32 :: nat})"

definition js_trim :: "string \<Rightarrow> string" where
  "js_trim s = rev (dropWhile js_space (rev (dropWhile js_space s)))"

definition upper_char :: "char \<Rightarrow> char" where
  "upper_char c = (let n = of_char c :: nat in if 97 \<le> n \<and> n \<le> 122 then char_of (n - 32) else c)"

definition js_upper :: "string \<Rightarrow> string" where
  "js_upper s = map upper_char s"

definition js_slice :: "nat \<Rightarrow> string \<Rightarrow> string" where
  "js_slice n s = take n s"

fun js_includes :: "string \<Rightarrow> string \<Rightarrow> bool" where
  "js_includes [] p = (p = [])"
| "js_includes (c # s) p = (take (length p) (c # s) = p \<or> js_includes s p)"

section \<open>Calls that may throw\<close>

text \<open>
  A function of the source that may throw returns \<open>Inl\<close> of the error or \<open>Inr\<close> of
  its result; sequencing stops at the first error.
\<close>

definition bindr :: "'e + 'a \<Rightarrow> ('a \<Rightarrow> 'e + 'b) \<Rightarrow> 'e + 'b" where
  "bindr m f = (case m of Inl e \<Rightarrow> Inl e | Inr x \<Rightarrow> f x)"

definition guardr :: "bool \<Rightarrow> 'e \<Rightarrow> 'e + unit" where
  "guardr b e = (if b then Inr () else Inl e)"

text \<open>\<open>prisma.$transaction\<close>: an error thrown in the body rolls every write back.\<close>

definition transact :: "('db \<Rightarrow> 'e + 'db \<times> 'a) \<Rightarrow> 'db \<Rightarrow> 'db \<times> ('e + 'a)" where
  "transact body db =
     (case body db of Inl e \<Rightarrow> (db, Inl e) | Inr (db', x) \<Rightarrow> (db', Inr x))"

lemma bindr_simps [simp]:
  "bindr (Inl e) f = Inl e"
  "bindr (Inr x) f = f x"
  by (simp_all add: bindr_def)

lemma bindr_eq_Inr: "bindr m f = Inr y \<longleftrightarrow> (\<exists>x. m = Inr x \<and> f x = Inr y)"
  by (cases m) auto

lemma bindr_eq_Inl: "bindr m f = Inl e \<longleftrightarrow> m = Inl e \<or> (\<exists>x. m = Inr x \<and> f x = Inl e)"
  by (cases m) auto

lemma guardr_eq [simp]:
  "guardr b e = Inr u \<longleftrightarrow> b"
  "guardr b e = Inl e' \<longleftrightarrow> \<not> b \<and> e' = e"
  by (auto simp: guardr_def)

lemma guardr_simps [simp]:
  "guardr True e = Inr ()"
  "guardr False e = Inl e"
  by (simp_all add: guardr_def)

lemma transact_Inl [simp]: "body db = Inl e \<Longrightarrow> transact body db = (db, Inl e)"
  by (simp add: transact_def)

lemma transact_Inr [simp]: "body db = Inr (db', x) \<Longrightarrow> transact body db = (db', Inr x)"
  by (simp add: transact_def)

text \<open>A property every successful body keeps is kept by the transaction, rolled back or not.\<close>

lemma transact_preserves:
  assumes "\<And>db' x. body db = Inr (db', x) \<Longrightarrow> P db'" and "P db"
  shows "P (fst (transact body db))"
  using assms by (auto simp: transact_def split: sum.splits)

text \<open>A rolled back transaction leaves the database as it was.\<close>

lemma transact_rollback: "snd (transact body db) = Inl e \<Longrightarrow> fst (transact body db) = db"
  by (auto simp: transact_def split: sum.splits)

section \<open>Tables\<close>

text \<open>
  A table is the list of its rows. \<open>find_unique\<close>, \<open>find_first\<close>, \<open>update_many\<close> and
  \<open>count_where\<close> are the Prisma calls of the same names with the \<open>where\<close> clause as a
  predicate; \<open>update_many\<close> also has the number of rows it matched, which the
  services compare with 1 to claim a row.
\<close>

definition find_first :: "('r \<Rightarrow> bool) \<Rightarrow> 'r list \<Rightarrow> 'r option" where
  "find_first P t = List.find P t"

definition find_unique :: "('r \<Rightarrow> 'k) \<Rightarrow> 'k \<Rightarrow> 'r list \<Rightarrow> 'r option" where
  "find_unique key k t = List.find (\<lambda>r. key r = k) t"

definition update_rows :: "('r \<Rightarrow> bool) \<Rightarrow> ('r \<Rightarrow> 'r) \<Rightarrow> 'r list \<Rightarrow> 'r list" where
  "update_rows P f t = map (\<lambda>r. if P r then f r else r) t"

definition count_where :: "('r \<Rightarrow> bool) \<Rightarrow> 'r list \<Rightarrow> nat" where
  "count_where P t = length (filter P t)"

definition update_many :: "('r \<Rightarrow> bool) \<Rightarrow> ('r \<Rightarrow> 'r) \<Rightarrow> 'r list \<Rightarrow> 'r list \<times> nat" where
  "update_many P f t = (update_rows P f t, count_where P t)"

definition insert_row :: "'r \<Rightarrow> 'r list \<Rightarrow> 'r list" where
  "insert_row r t = t @ [r]"

text \<open>\<open>findFirst\<close> with an \<open>orderBy\<close>: the first row no other row comes before.\<close>

fun pick :: "('r \<Rightarrow> 'r \<Rightarrow> bool) \<Rightarrow> 'r list \<Rightarrow> 'r option" where
  "pick before [] = None"
| "pick before (x # xs) =
     (case pick before xs of
        None \<Rightarrow> Some x
      | Some y \<Rightarrow> if before y x then Some y else Some x)"

lemma find_first_Some:
  "find_first P t = Some r \<Longrightarrow> r \<in> set t \<and> P r"
  by (auto simp: find_first_def find_Some_iff)

lemma find_first_None: "find_first P t = None \<longleftrightarrow> (\<forall>r \<in> set t. \<not> P r)"
  by (auto simp: find_first_def find_None_iff)

lemma find_unique_Some:
  "find_unique key k t = Some r \<Longrightarrow> r \<in> set t \<and> key r = k"
  by (auto simp: find_unique_def find_Some_iff)

lemma find_unique_None: "find_unique key k t = None \<longleftrightarrow> (\<forall>r \<in> set t. key r \<noteq> k)"
  by (auto simp: find_unique_def find_None_iff)

lemma key_inj:
  assumes "distinct (map key t)" and "a \<in> set t" and "b \<in> set t" and "key a = key b"
  shows "a = b"
  using assms by (metis distinct_map inj_onD)

lemma find_unique_in:
  assumes "distinct (map key t)" and "r \<in> set t"
  shows "find_unique key (key r) t = Some r"
proof (cases "find_unique key (key r) t")
  case None
  with assms(2) show ?thesis by (auto simp: find_unique_None)
next
  case (Some r')
  then have "r' \<in> set t" and "key r' = key r" by (auto dest: find_unique_Some)
  with assms Some show ?thesis by (metis key_inj)
qed

lemma set_update_rows:
  "set (update_rows P f t) = {r \<in> set t. \<not> P r} \<union> f ` {r \<in> set t. P r}"
  by (auto simp: update_rows_def)

lemma update_rows_length [table_simps, simp]: "length (update_rows P f t) = length t"
  by (simp add: update_rows_def)

lemma update_rows_none: "\<forall>r \<in> set t. \<not> P r \<Longrightarrow> update_rows P f t = t"
  by (induction t) (auto simp: update_rows_def)

lemma map_update_rows:
  "(\<And>r. P r \<Longrightarrow> g (f r) = g r) \<Longrightarrow> map g (update_rows P f t) = map g t"
  by (induction t) (auto simp: update_rows_def)

lemma find_unique_update_rows [table_simps]:
  assumes "\<And>r. key (f r) = key r"
  shows "find_unique key k (update_rows P f t) =
    map_option (\<lambda>r. if P r then f r else r) (find_unique key k t)"
  by (induction t) (auto simp: find_unique_def update_rows_def assms)

lemma find_unique_insert_row [table_simps]:
  "find_unique key k (insert_row r t) =
     (case find_unique key k t of Some x \<Rightarrow> Some x | None \<Rightarrow> if key r = k then Some r else None)"
  by (induction t) (auto simp: find_unique_def insert_row_def)

text \<open>A \<open>where\<close> clause on the key alone reads and writes one row.\<close>

lemma update_rows_id: "(\<And>r. r \<in> set t \<Longrightarrow> P r \<Longrightarrow> f r = r) \<Longrightarrow> update_rows P f t = t"
  by (induction t) (auto simp: update_rows_def)

lemma update_rows_cong:
  "(\<And>r. r \<in> set t \<Longrightarrow> P r \<Longrightarrow> f r = g r) \<Longrightarrow> update_rows P f t = update_rows P g t"
  by (induction t) (auto simp: update_rows_def)

lemma update_rows_compose:
  assumes "\<And>r. Q (f r) = Q r"
  shows "update_rows Q g (update_rows P f t) =
    map (\<lambda>r. let r' = (if P r then f r else r) in if Q r then g r' else r') t"
  by (induction t) (auto simp: update_rows_def assms)

lemma update_rows_Nil [table_simps, simp]: "update_rows P f [] = []"
  by (simp add: update_rows_def)

lemma update_rows_Cons [table_simps]:
  "update_rows P f (r # t) = (if P r then f r else r) # update_rows P f t"
  by (simp add: update_rows_def)

lemma count_where_0: "count_where P t = 0 \<longleftrightarrow> (\<forall>r \<in> set t. \<not> P r)"
  by (auto simp: count_where_def filter_empty_conv)

lemma count_where_pos: "0 < count_where P t \<longleftrightarrow> (\<exists>r \<in> set t. P r)"
  by (metis count_where_0 neq0_conv)

lemma count_where_Nil [table_simps, simp]: "count_where P [] = 0"
  by (simp add: count_where_def)

lemma count_where_Cons [table_simps]:
  "count_where P (r # t) = (if P r then Suc (count_where P t) else count_where P t)"
  by (simp add: count_where_def)

lemma update_many_simps [table_simps]:
  "fst (update_many P f t) = update_rows P f t"
  "snd (update_many P f t) = count_where P t"
  by (simp_all add: update_many_def)

lemma set_insert_row [table_simps, simp]: "set (insert_row r t) = insert r (set t)"
  by (auto simp: insert_row_def)

lemma map_insert_row [table_simps, simp]: "map g (insert_row r t) = map g t @ [g r]"
  by (simp add: insert_row_def)

text \<open>Claiming a row by its key and a condition: with unique keys the count is 1 or 0.\<close>

lemma count_where_key:
  assumes "distinct (map key t)"
  shows "count_where (\<lambda>r. key r = k \<and> P r) t =
    (case find_unique key k t of None \<Rightarrow> 0 | Some r \<Rightarrow> if P r then 1 else 0)"
  using assms
proof (induction t)
  case Nil
  then show ?case by (simp add: find_unique_def)
next
  case (Cons a t)
  show ?case
  proof (cases "key a = k")
    case True
    with Cons.prems have "k \<notin> key ` set t" by simp
    then have "\<forall>r \<in> set t. key r \<noteq> k" by blast
    then have "count_where (\<lambda>r. key r = k \<and> P r) t = 0" by (simp add: count_where_0)
    with True show ?thesis by (simp add: find_unique_def table_simps)
  next
    case False
    with Cons show ?thesis by (simp add: find_unique_def table_simps)
  qed
qed

text \<open>
  The pattern of a claim followed by an unconditional update of the same row: together
  they are one update of the row.
\<close>

lemma claim_then_update:
  assumes dist: "distinct (map key t)" and kf: "\<And>r. key (f r) = key r"
    and c: "count_where (\<lambda>r. key r = k \<and> P r) t = 1"
  obtains r where "find_unique key k t = Some r" and "P r" and "r \<in> set t" and "key r = k"
    and "find_unique key k (update_rows (\<lambda>r. key r = k \<and> P r) f t) = Some (f r)"
    and "\<And>g. update_rows (\<lambda>r. key r = k) g (update_rows (\<lambda>r. key r = k \<and> P r) f t) =
           update_rows (\<lambda>r. key r = k) (\<lambda>r. g (f r)) t"
proof -
  from c dist obtain r where r: "find_unique key k t = Some r" "P r"
    by (auto simp: count_where_key split: option.splits if_splits)
  then have m: "r \<in> set t" "key r = k" by (auto dest: find_unique_Some)
  have only: "x = r" if "x \<in> set t" "key x = k" for x
    using key_inj [OF dist that(1) m(1)] that(2) m(2) by simp
  have look: "find_unique key k (update_rows (\<lambda>r. key r = k \<and> P r) f t) = Some (f r)"
    using r m by (simp add: find_unique_update_rows kf)
  have two: "update_rows (\<lambda>r. key r = k) g (update_rows (\<lambda>r. key r = k \<and> P r) f t) =
      update_rows (\<lambda>r. key r = k) (\<lambda>r. g (f r)) t" for g
    unfolding update_rows_def using only r(2) by (auto simp: kf)
  show thesis by (rule that [OF r m look two])
qed

text \<open>
  A loop over rows read earlier, each turn changing the row with the same key: with
  unique keys every row meets at most one turn.
\<close>

lemma fold_by_key:
  assumes "distinct (map key pos)" and kF: "\<And>p q. key (F p q) = key q"
  shows "fold (\<lambda>p q. if key q = key p then F p q else q) pos q =
    (case find_unique key (key q) pos of None \<Rightarrow> q | Some p \<Rightarrow> F p q)"
  using assms(1)
proof (induction pos arbitrary: q)
  case Nil
  then show ?case by (simp add: find_unique_def)
next
  case (Cons a pos)
  show ?case
  proof (cases "key q = key a")
    case True
    from Cons.prems have "key a \<notin> key ` set pos" by simp
    then have "find_unique key (key q) pos = None"
      unfolding find_unique_None True by (metis image_eqI)
    with Cons True show ?thesis by (simp add: kF) (simp add: find_unique_def)
  next
    case False
    with Cons show ?thesis by (simp add: find_unique_def)
  qed
qed

lemma fold_update_rows:
  assumes kF: "\<And>p q. key (F p q) = key q"
  shows "fold (\<lambda>p. update_rows (\<lambda>q. key q = key p) (F p)) pos t =
    map (\<lambda>q. fold (\<lambda>p q. if key q = key p then F p q else q) pos q) t"
  by (induction pos arbitrary: t) (simp_all add: update_rows_def comp_def)

lemma fold_claims:
  assumes dist: "distinct (map key t)" and kf: "\<And>r. key (f r) = key r"
  shows "fold (\<lambda>p. update_rows (\<lambda>q. key q = key p \<and> Q q) f) (filter P t) t =
    update_rows (\<lambda>q. P q \<and> Q q) f t"
proof -
  let ?F = "\<lambda>_ q. if Q q then f q else q"
  have kF: "key (?F p q) = key q" for p q by (simp add: kf)
  have dp: "distinct (map key (filter P t))" using dist by (simp add: distinct_map_filter)
  have as_F: "update_rows (\<lambda>q. key q = key p \<and> Q q) f = update_rows (\<lambda>q. key q = key p) (?F p)" for p
    by (rule ext) (simp add: update_rows_def)
  have step: "fold (\<lambda>p q. if key q = key p then ?F p q else q) (filter P t) q =
      (case find_unique key (key q) (filter P t) of None \<Rightarrow> q | Some p \<Rightarrow> ?F p q)" for q
    by (rule fold_by_key [where key = key and F = ?F and pos = "filter P t" and q = q, OF dp]) (rule kF)
  have row: "fold (\<lambda>p q. if key q = key p then ?F p q else q) (filter P t) q =
      (if P q \<and> Q q then f q else q)" if q: "q \<in> set t" for q
  proof (cases "P q")
    case True
    with q have "q \<in> set (filter P t)" by simp
    from find_unique_in [OF dp this] True step [of q] show ?thesis by (simp only: option.case simp_thms)
  next
    case False
    have "key r \<noteq> key q" if "r \<in> set (filter P t)" for r
      using key_inj [OF dist _ q, of r] that False by auto
    then have "find_unique key (key q) (filter P t) = None" by (simp add: find_unique_None)
    with False step [of q] show ?thesis by (simp only: option.case if_False simp_thms)
  qed
  have "fold (\<lambda>p. update_rows (\<lambda>q. key q = key p \<and> Q q) f) (filter P t) t =
      map (\<lambda>q. fold (\<lambda>p q. if key q = key p then ?F p q else q) (filter P t) q) t"
    unfolding as_F by (rule fold_update_rows) (rule kF)
  also have "\<dots> = update_rows (\<lambda>q. P q \<and> Q q) f t"
    unfolding update_rows_def by (rule map_cong) (simp_all only: row)
  finally show ?thesis .
qed

lemma pick_Some: "pick before t = Some r \<Longrightarrow> r \<in> set t"
  by (induction t arbitrary: r) (auto split: option.splits if_splits)

lemma pick_None: "pick before t = None \<longleftrightarrow> t = []"
  by (cases t) (auto split: option.splits)

lemma pick_first:
  assumes "\<And>a b c. before a b \<Longrightarrow> before b c \<Longrightarrow> before a c"
    and "\<And>a. \<not> before a a"
    and "\<And>a b c. \<not> before a b \<Longrightarrow> \<not> before b c \<Longrightarrow> \<not> before a c"
    and "pick before t = Some r" and "x \<in> set t"
  shows "\<not> before x r"
  using assms(4,5)
proof (induction t arbitrary: r x)
  case Nil
  then show ?case by simp
next
  case (Cons a t)
  show ?case
  proof (cases "pick before t")
    case None
    with Cons.prems show ?thesis by (auto simp: pick_None assms(2))
  next
    case (Some y)
    have y: "\<not> before z y" if "z \<in> set t" for z
      using Cons.IH [OF Some that] .
    show ?thesis
    proof (cases "before y a")
      case True
      with Cons.prems Some have r: "r = y" by simp
      from True have "\<not> before a y" using assms(1,2) by blast
      with y Cons.prems(2) r show ?thesis by auto
    next
      case False
      with Cons.prems Some have r: "r = a" by simp
      have "\<not> before z a" if "z \<in> set t" for z
        using y [OF that] False assms(3) by blast
      with Cons.prems(2) r show ?thesis by (auto simp: assms(2))
    qed
  qed
qed

end
