(* ===== verification/Domain.thy ===== *)
theory Domain
  imports Prelude
begin

text \<open>
  The data model of \<open>backend/prisma/schema.prisma\<close> that the modelled services read
  and write: its enumerations, one record per table with the columns that take part
  in a decision or a later read, and the database as the record of its tables. Rows
  are identified by natural numbers (\<open>uuid()\<close> in the schema); \<open>next_id\<close> is above
  every identifier in use. Columns that are only displayed (titles, photographs,
  free text, market price snapshots, audit metadata) have no counterpart.
\<close>

section \<open>Enumerations\<close>

datatype role = SELLER | BUYER | INSPECTOR_ROLE | TRUCK_OWNER | ADVERTISER | ADMIN

datatype listing_category = AGRICULTURAL | PRODUCT | DIGITAL_GOODS

datatype listing_status =
  L_DRAFT | L_ACTIVE | L_UNDER_NEGOTIATION | L_SOLD | L_CANCELLED | L_EXPIRED

datatype offer_status =
  Of_PENDING | Of_SELECTED | Of_COUNTERED | Of_PROVISIONAL | Of_ACCEPTED
| Of_REJECTED | Of_WITHDRAWN | Of_EXPIRED

datatype offer_party = By_BUYER | By_SELLER

datatype order_status =
  PENDING_PAYMENT | CONFIRMED | TRANSPORT_ARRANGED | IN_TRANSIT
| DELIVERED | COMPLETED | DISPUTED | CANCELLED

datatype buyer_decision = BUY | CANCEL

datatype payment_type =
  MARKETPLACE | TRANSPORT | INSPECTOR | ADVERTISING | DIGITAL | MARKETPLACE_INSTALLMENT

datatype payment_method = TELEBIRR | CBE | QR | OTHER_METHOD

datatype payment_status =
  P_PENDING | P_PROCESSING | P_PAID | P_FAILED | P_REFUNDED
| P_REFUND_PENDING | P_RECONCILIATION_REQUIRED

datatype obligation_status = Ob_OPEN | Ob_PAID | Ob_CANCELLED

datatype refund_status = Rf_REQUESTED | Rf_PROCESSING | Rf_COMPLETED | Rf_FAILED | Rf_CANCELLED

datatype payee_role = Payee_SELLER | Payee_TRANSPORTER | Payee_INSPECTOR

datatype payout_status = Po_HELD | Po_ON_HOLD_DISPUTE | Po_RELEASED | Po_PAID_OUT | Po_CANCELLED

datatype inspection_status =
  I_REQUESTED | I_ACCEPTED | I_IN_PROGRESS | I_COMPLETED | I_CANCELLED | I_STALLED

text \<open>\<open>InspectionQuoteStatus\<close> and \<open>TransportQuoteStatus\<close> have the same values.\<close>

datatype quote_status =
  Q_PENDING | Q_SELECTED | Q_COUNTERED | Q_ACCEPTED | Q_REJECTED | Q_WITHDRAWN | Q_EXPIRED

datatype transport_status =
  T_REQUESTED | T_ACCEPTED | T_QUOTED | T_PICKUP | T_IN_TRANSIT | T_DELIVERED | T_CANCELLED

datatype transport_method = OWN_TRUCK | HIRE_TRANSPORTER

datatype truck_availability = AVAILABLE | BUSY | OFFLINE

datatype fee_payer = Fee_BUYER | Fee_SELLER | Fee_SPLIT

datatype fee_party = Share_BUYER | Share_SELLER

datatype ledger_type =
  SELLER_EARNING | TRANSPORTER_EARNING | INSPECTOR_EARNING
| PLATFORM_COMMISSION | PLATFORM_REVENUE | Le_REFUND

datatype reconciliation_status = Rc_OPEN | Rc_RESOLVED | Rc_DISMISSED

datatype reconciliation_reason =
  PROVIDER_AMOUNT_MISSING | PROVIDER_AMOUNT_MISMATCH | PROVIDER_CURRENCY_MISMATCH
| PAYMENT_RECEIVED_WHILE_ORDER_DISPUTED | PAYMENT_RECEIVED_FOR_CANCELLED_ORDER
| INSUFFICIENT_INVENTORY_AFTER_PROVIDER_PAYMENT

datatype digital_purchase_status = Dp_PENDING | Dp_COMPLETED | Dp_REFUNDED | Dp_CANCELLED

datatype ad_type =
  FEATURED_LISTING | TOP_OF_CATEGORY | SPONSORED_SEARCH | BANNER | TELEGRAM_PROMOTION

datatype ad_status =
  Ad_PENDING | Ad_ACTIVE | Ad_PENDING_PAYMENT | Ad_PAID_PENDING_REVIEW | Ad_APPROVED
| Ad_SCHEDULED | Ad_PUBLISHED | Ad_EXPIRED | Ad_REJECTED | Ad_CANCELLED

text \<open>
  \<open>obligationKey\<close> is the text \<open>ORDER:...:MARKETPLACE\<close> and so on; one constructor per shape.
\<close>

datatype obligation_key =
  K_ORDER uid payment_type
| K_INSPECTOR uid "uid option"
| K_INSPECTOR_SHARE uid uid fee_party

datatype standing_status = S_GOOD | S_PROBATION | S_SUSPENDED | S_REJOIN_PENDING

datatype order_event_type =
  ORDER_CREATED | Ev_ORDER_CANCELLED | RECEIPT_CONFIRMED
| Ev_REFUND_REQUESTED | Ev_REFUNDED | Ev_REFUND_FAILED
| INSPECTION_AGREEMENT_CLOSED | PROVIDER_STANDING_CHANGED
| Ev_PAYMENT_STATUS_CHANGED | Ev_PAYMENT_RECONCILIATION_REQUIRED | Ev_PAYMENT_RECONCILIATION_RESOLVED
| INSPECTION_PAYMENT_COMPLETE | Ev_INSPECTION_WORKFLOW_EXPIRED | Ev_INSPECTION_STALLED
| Ev_TRANSPORT_WORKFLOW_EXPIRED | Ev_BUYER_DECISION_DEADLINE_EXPIRED
| Ev_SELLER_PREPARATION_DEADLINE_EXPIRED | Ev_BUYER_LOADING_DEADLINE_EXPIRED

datatype offer_action =
  OFFER_CREATED | OFFER_SELECTED | OFFER_COUNTERED | OFFER_EXPIRED | OFFER_EXPIRED_AUTOMATICALLY
| OFFER_PROVISIONAL_AGREED | OFFER_ACCEPTED | ORDER_CREATED_FROM_OFFER | OFFER_RELEASED
| OFFER_PROVISIONAL_RELEASED | OFFER_PROVISIONAL_RELEASED_BY_BUYER
| OFFER_RELEASE_BLOCKED_ADMIN_REVIEW | OFFER_WITHDRAWN | OFFER_REJECTED
| LISTING_BIDDING_REOPENED | WAITING_BUYER_PROMOTED | WAITING_BIDS_RELEASED

datatype money_action =
  PAYOUT_HELD_FOR_DISPUTE | PAYOUT_RESUMED_AFTER_DISPUTE | PAYOUT_CANCELLED_AFTER_DISPUTE
| PAYOUT_CANCELLED_ORDER_CANCELLED | PAYOUT_PAID_OUT
| PAYMENT_REFUND_REQUESTED | PAYMENT_REFUND_SUBMITTED | PAYMENT_REFUND_COMPLETED
| PAYMENT_REFUND_FAILED
| PAYMENT_CREATED | PAYMENT_STATUS_CHANGED | PAYMENT_RECONCILIATION_REQUIRED
| PAYMENT_RECONCILIATION_RESOLVED

datatype provider_action =
  TRANSPORT_ACCEPTED_RELEASED_BY_PROVIDER | INSPECTION_ACCEPTED_RELEASED_BY_PROVIDER
| RELEASE_LIMIT_OVERRIDE
| PROVIDER_SUSPENDED | PROVIDER_PROBATION_COMPLETED | PROVIDER_REJOINED_ON_PROBATION
| PROVIDER_SUSPENSION_APPEALED | PROVIDER_REINSTATED_BY_ADMIN

datatype lapse_code =
  SELLER_DECLINED | SELLER_CONFIRMATION_EXPIRED | INSPECTION_PAYMENT_EXPIRED

datatype order_action =
  Au_ORDER_CANCELLED | INSPECTION_AGREEMENT lapse_code
| INSPECTION_WORKFLOW_EXPIRED | INSPECTION_STALLED | TRANSPORT_WORKFLOW_EXPIRED
| SELLER_PREPARATION_DEADLINE_EXPIRED | BUYER_LOADING_DEADLINE_EXPIRED

datatype audit_action =
  Offer_Act offer_action | Money_Act money_action
| Provider_Act provider_action | Order_Act order_action

section \<open>Rows\<close>

record listing =
  l_id :: uid
  l_sellerId :: uid
  l_category :: listing_category
  l_quantity :: number
  l_available :: number
  l_minPrice :: "number option"
  l_status :: listing_status
  l_pickupEnd :: "time option"
  l_inspectionRequired :: bool

record offer =
  of_id :: uid
  of_listingId :: uid
  of_buyerId :: uid
  of_sellerId :: uid
  of_amount :: number
  of_quantity :: "number option"
  of_parent :: "uid option"
  of_expiresAt :: "time option"
  of_status :: offer_status
  of_counterAmount :: "number option"
  of_counteredBy :: "offer_party option"
  of_createdAt :: time
  of_updatedAt :: time

record order =
  o_id :: uid
  o_listingId :: uid
  o_buyerId :: uid
  o_sellerId :: uid
  o_finalPrice :: number
  o_originalFinalPrice :: "number option"
  o_quantity :: number
  o_status :: order_status
  o_agreedOfferId :: "uid option"
  o_agreedAt :: "time option"
  o_buyerDecision :: "buyer_decision option"
  o_buyerDecisionDueAt :: "time option"
  o_paymentDueAt :: "time option"
  o_updatedAt :: time

record payment =
  p_id :: uid
  p_orderId :: "uid option"
  p_createdById :: "uid option"
  p_inspectionRequestId :: "uid option"
  p_transportJobId :: "uid option"
  p_obligationId :: "uid option"
  p_installmentCount :: "nat option"
  p_installmentSequence :: "nat option"
  p_parentPaymentId :: "uid option"
  p_type :: payment_type
  p_amount :: number
  p_currency :: string
  p_method :: payment_method
  p_status :: payment_status
  p_provider :: "string option"
  p_chapaTxRef :: "string option"
  p_commissionAmount :: "number option"
  p_netAmount :: "number option"
  p_transportQuoteId :: "uid option"
  p_digitalProductId :: "uid option"
  p_advertisementId :: "uid option"
  p_idempotencyKey :: "string option"
  p_providerTransactionId :: "string option"

record obligation =
  ob_id :: uid
  ob_orderId :: uid
  ob_type :: payment_type
  ob_inspectionRequestId :: "uid option"
  ob_transportJobId :: "uid option"
  ob_payerId :: uid
  ob_beneficiaryId :: "uid option"
  ob_amount :: number
  ob_status :: obligation_status
  ob_key :: obligation_key

record refund =
  r_id :: uid
  r_paymentId :: uid
  r_requestedById :: "uid option"
  r_amount :: number
  r_currency :: string
  r_status :: refund_status
  r_provider :: "string option"
  r_providerRefundId :: "string option"
  r_uncertain :: bool
  r_createdAt :: time
  r_completedAt :: "time option"

record payout =
  po_id :: uid
  po_orderId :: "uid option"
  po_payeeRole :: payee_role
  po_payeeId :: uid
  po_paymentId :: uid
  po_amount :: number
  po_currency :: string
  po_status :: payout_status
  po_releaseAt :: time
  po_releasedAt :: "time option"
  po_paidOutAt :: "time option"
  po_paidOutById :: "uid option"
  po_reference :: "string option"

record inspection =
  i_id :: uid
  i_orderId :: "uid option"
  i_status :: inspection_status
  i_inspectorId :: "uid option"
  i_workflowDueAt :: "time option"
  i_startDueAt :: "time option"
  i_completionDueAt :: "time option"
  i_completedAt :: "time option"
  i_reportAcceptedAt :: "time option"
  i_updatedAt :: time
  i_fee :: "number option"
  i_feePayer :: fee_payer
  i_sellerConfirmedAt :: "time option"
  i_onSiteConfirmedAt :: "time option"
  i_feeTermsLockedAt :: "time option"
  i_lockedFee :: "number option"
  i_lockedFeePayer :: "fee_payer option"
  i_lockedBuyerFee :: "number option"
  i_lockedSellerFee :: "number option"

record inspection_quote =
  iq_id :: uid
  iq_requestId :: uid
  iq_inspectorId :: uid
  iq_status :: quote_status

record transport_job =
  t_id :: uid
  t_orderId :: uid
  t_method :: transport_method
  t_status :: transport_status
  t_truckOwnerId :: "uid option"
  t_truckId :: "uid option"
  t_agreedAmount :: "number option"
  t_workflowDueAt :: "time option"
  t_sellerPickupConfirmedAt :: "time option"
  t_buyerLoadingConfirmedAt :: "time option"
  t_sellerPreparationDueAt :: "time option"
  t_buyerLoadingDueAt :: "time option"

record transport_quote =
  tq_id :: uid
  tq_jobId :: uid
  tq_truckOwnerId :: uid
  tq_truckId :: uid
  tq_amount :: number
  tq_status :: quote_status
  tq_expiresAt :: "time option"

record truck =
  tk_id :: uid
  tk_availability :: truck_availability

record standing =
  st_id :: uid
  st_userId :: uid
  st_status :: standing_status
  st_suspensionCount :: nat
  st_suspendedAt :: "time option"
  st_suspendedUntil :: "time option"
  st_probationUntil :: "time option"
  st_ratingPenalty :: number
  st_appealMessage :: "string option"
  st_appealedAt :: "time option"

record rating =
  rt_toUserId :: uid
  rt_score :: number

record ledger_entry =
  le_paymentId :: uid
  le_userId :: "uid option"
  le_type :: ledger_type
  le_amount :: number
  le_currency :: string

record payment_event =
  pe_paymentId :: uid
  pe_provider :: string
  pe_eventId :: string
  pe_status :: payment_status

record reconciliation =
  rc_id :: uid
  rc_paymentId :: uid
  rc_expectedAmount :: number
  rc_observedAmount :: "number option"
  rc_reason :: reconciliation_reason
  rc_status :: reconciliation_status

record digital_product =
  dg_id :: uid
  dg_sellerId :: uid

record digital_purchase =
  dp_id :: uid
  dp_productId :: uid
  dp_paymentId :: uid
  dp_status :: digital_purchase_status

record advertisement =
  ad_id :: uid
  ad_type :: ad_type
  ad_status :: ad_status
  ad_startDate :: time
  ad_endDate :: time
  ad_amountPaid :: "number option"
  ad_publishedAt :: "time option"

text \<open>The contact exchange of an inspection; only whether it is superseded matters here.\<close>

record inspection_coordination =
  ic_requestId :: uid
  ic_supersededAt :: "time option"

record order_event =
  ev_orderId :: uid
  ev_type :: order_event_type
  ev_createdAt :: time

text \<open>
  An audit event keeps the metadata key the code reads back, the job (or listing) a
  release was made on.
\<close>

record audit_event =
  au_actorId :: "uid option"
  au_action :: audit_action
  au_resourceId :: uid
  au_jobId :: "uid option"
  au_createdAt :: time

section \<open>The database\<close>

record db =
  listings :: "listing list"
  offers :: "offer list"
  orders :: "order list"
  payments :: "payment list"
  obligations :: "obligation list"
  refunds :: "refund list"
  payouts :: "payout list"
  inspections :: "inspection list"
  inspectionQuotes :: "inspection_quote list"
  transportJobs :: "transport_job list"
  transportQuotes :: "transport_quote list"
  trucks :: "truck list"
  standings :: "standing list"
  ratings :: "rating list"
  userRatings :: "(uid \<times> number) list"
  orderEvents :: "order_event list"
  auditEvents :: "audit_event list"
  ledger :: "ledger_entry list"
  paymentEvents :: "payment_event list"
  reconciliations :: "reconciliation list"
  digitalProducts :: "digital_product list"
  digitalPurchases :: "digital_purchase list"
  advertisements :: "advertisement list"
  inspectionCoordinations :: "inspection_coordination list"
  next_id :: uid

definition empty_db :: db where
  "empty_db = \<lparr>listings = [], offers = [], orders = [], payments = [], obligations = [],
     refunds = [], payouts = [], inspections = [], inspectionQuotes = [], transportJobs = [],
     transportQuotes = [], trucks = [], standings = [], ratings = [], userRatings = [],
     orderEvents = [], auditEvents = [], ledger = [], paymentEvents = [], reconciliations = [],
     digitalProducts = [], digitalPurchases = [], advertisements = [], inspectionCoordinations = [],
     next_id = 0\<rparr>"

text \<open>The logged-in user a request carries (\<open>req.user\<close>).\<close>

record user =
  u_id :: uid
  u_roles :: "role list"

definition isAdmin :: "user \<Rightarrow> bool" where
  "isAdmin u = (ADMIN \<in> set (u_roles u))"

section \<open>Configuration\<close>

text \<open>
  \<open>process.env\<close>, read as \<open>Number(process.env[name])\<close>: \<open>None\<close> when that is not finite.
\<close>

datatype env_var =
  SELLER_PAYOUT_HOLD_DAYS | INSPECTION_REPORT_REVIEW_HOURS | OFFER_RELEASE_AFTER_HOURS
| OFFER_PROVISIONAL_RELEASE_AFTER_HOURS | ORDER_PAYMENT_TIMEOUT_HOURS
| RELEASE_AFTER_ACCEPT_HOURS | MAX_ACCEPTED_RELEASES_PER_JOB | PROVIDER_RELEASE_FLAG_THRESHOLD
| MARKETPLACE_COMMISSION_RATE | TRANSPORT_COMMISSION_RATE | INSPECTION_COMMISSION_RATE
| ADVERTISING_COMMISSION_RATE | DIGITAL_COMMISSION_RATE
| INSPECTION_SELLER_CONFIRM_HOURS | INSPECTION_PAYMENT_HOURS | INSPECTION_START_TIMEOUT_HOURS
| BUYER_DECISION_TIMEOUT_HOURS | SELLER_TRANSPORT_PREPARATION_TIMEOUT_HOURS
| LOADING_APPROVAL_TIMEOUT_HOURS
| INSPECTION_ARRIVAL_LATE_GRACE_MINUTES | INSPECTION_ARRIVAL_LATE_FALLBACK_HOURS

type_synonym env = "env_var \<Rightarrow> number option"

definition env_default :: env where
  "env_default = (\<lambda>_. None)"

section \<open>Errors\<close>

text \<open>
  An error thrown by a service: the HTTP status it carries and which throw it was.
\<close>

datatype order_reason =
  INVALID_ORDER_TRANSITION | ORDER_STATE_CONFLICT | ORDER_NOT_ACTIONABLE
| ORDER_NOT_CANCELLABLE | TRANSPORT_MOVEMENT_STARTED

datatype stock_reason = BAD_QUANTITY | INSUFFICIENT_INVENTORY | LISTING_NOT_FOUND

datatype offer_reason =
  BAD_OFFER | OFFER_NOT_FOUND | NOT_ALLOWED | WRONG_STATUS | OFFER_HAS_EXPIRED | NOT_YOUR_TURN
| MOVED_ON | SUPERSEDED | NOT_ELAPSED | BAD_PRICE | BELOW_MINIMUM | NEGOTIATION_BUSY
| ORDER_IN_PROGRESS | WINDOW_CLOSED | RELEASE_LIMIT_REACHED | UNIQUE_CONFLICT

datatype refund_reason =
  PAYMENT_NOT_FOUND | REFUND_NOT_FOUND | PAYMENT_NOT_REFUNDABLE | FULL_REFUND_ONLY
| REFUND_IN_PROGRESS | REFUND_PROVIDER_NOT_CONFIGURED | CHAPA_TX_REF_MISSING
| REFUND_BLOCKED_ORDER_ACTIVE | REFUND_WRONG_STATE | CHAPA_REFUND_REFERENCE_MISSING
| REFUND_PROCESSING_PROVIDER_CONTROLLED | PROVIDER_CALL_FAILED
| INVALID_PAYMENT_STATE_TRANSITION

datatype payment_reason =
  PAYOUT_NOT_FOUND | PAYOUT_NOT_RELEASED | INSTALLMENT_NOT_FOUND
| INSTALLMENT_NOT_FAILED | INSTALLMENT_ALREADY_REPLACED | INSTALLMENT_PLAN_CLOSED
| ORDER_NOT_PAYABLE | NOT_AUTHORIZED | BAD_AMOUNT | BAD_LIMIT
| SETTLED_PAYMENT_NOT_FOUND | IDEMPOTENCY_KEY_REUSED | QUOTE_REQUIRED | NOT_HIRED_TRANSPORT
| QUOTE_NOT_ACCEPTED | TRANSPORT_NOT_READY_FOR_PAYMENT | QUOTE_MISMATCH
| INSPECTION_NOT_FOUND | INSPECTION_SELLER_CONFIRMATION_REQUIRED
| INSPECTOR_ARRIVAL_CONFIRMATION_REQUIRED | OBLIGATION_ALREADY_PAID | OBLIGATION_AMOUNT_MISMATCH
| PAYMENT_UNIQUE_CONFLICT | ACTIVE_TRANSPORT_PAYMENT_EXISTS | PAYMENT_EVENT_CONFLICT
| TRANSPORT_JOB_UNAVAILABLE | TRANSPORT_MISALIGNED | TRUCK_UNAVAILABLE | INSPECTION_UNAVAILABLE
| RECONCILIATION_NOT_FOUND | BAD_RESOLUTION

datatype provider_reason =
  PROVIDER_IS_SUSPENDED | PROVIDER_REJOIN_REQUIRED | NOT_SUSPENDED | NOT_REJOIN_PENDING
| APPEAL_TOO_SHORT | ALREADY_APPEALED | BAD_TARGET | BAD_RELEASE_REASON | STANDING_NOT_FOUND

datatype err =
  Order_Err nat order_reason | Stock_Err nat stock_reason | Offer_Err nat offer_reason
| Refund_Err nat refund_reason | Payment_Err nat payment_reason
| Provider_Err nat provider_reason

type_synonym 'a res = "err + 'a"

section \<open>Writes every service makes\<close>

definition recordAuditEvent ::
    "time \<Rightarrow> uid option \<Rightarrow> audit_action \<Rightarrow> uid \<Rightarrow> uid option \<Rightarrow> db \<Rightarrow> db" where
  "recordAuditEvent now actor act resource job d =
     d\<lparr>auditEvents := insert_row
        \<lparr>au_actorId = actor, au_action = act, au_resourceId = resource,
         au_jobId = job, au_createdAt = now\<rparr> (auditEvents d)\<rparr>"

definition recordOrderEvent :: "time \<Rightarrow> uid \<Rightarrow> order_event_type \<Rightarrow> db \<Rightarrow> db" where
  "recordOrderEvent now ord typ d =
     d\<lparr>orderEvents := insert_row
        \<lparr>ev_orderId = ord, ev_type = typ, ev_createdAt = now\<rparr> (orderEvents d)\<rparr>"

text \<open>The logs are the only tables these two touch.\<close>

lemma recordAuditEvent_frame [simp, frame_simps]:
  "listings (recordAuditEvent now a c r j d) = listings d"
  "offers (recordAuditEvent now a c r j d) = offers d"
  "orders (recordAuditEvent now a c r j d) = orders d"
  "payments (recordAuditEvent now a c r j d) = payments d"
  "obligations (recordAuditEvent now a c r j d) = obligations d"
  "refunds (recordAuditEvent now a c r j d) = refunds d"
  "payouts (recordAuditEvent now a c r j d) = payouts d"
  "inspections (recordAuditEvent now a c r j d) = inspections d"
  "inspectionQuotes (recordAuditEvent now a c r j d) = inspectionQuotes d"
  "transportJobs (recordAuditEvent now a c r j d) = transportJobs d"
  "transportQuotes (recordAuditEvent now a c r j d) = transportQuotes d"
  "trucks (recordAuditEvent now a c r j d) = trucks d"
  "standings (recordAuditEvent now a c r j d) = standings d"
  "ratings (recordAuditEvent now a c r j d) = ratings d"
  "userRatings (recordAuditEvent now a c r j d) = userRatings d"
  "orderEvents (recordAuditEvent now a c r j d) = orderEvents d"
  "ledger (recordAuditEvent now a c r j d) = ledger d"
  "paymentEvents (recordAuditEvent now a c r j d) = paymentEvents d"
  "reconciliations (recordAuditEvent now a c r j d) = reconciliations d"
  "digitalProducts (recordAuditEvent now a c r j d) = digitalProducts d"
  "digitalPurchases (recordAuditEvent now a c r j d) = digitalPurchases d"
  "advertisements (recordAuditEvent now a c r j d) = advertisements d"
  "inspectionCoordinations (recordAuditEvent now a c r j d) = inspectionCoordinations d"
  "next_id (recordAuditEvent now a c r j d) = next_id d"
  by (simp_all add: recordAuditEvent_def)

lemma recordOrderEvent_frame [simp, frame_simps]:
  "listings (recordOrderEvent now i t d) = listings d"
  "offers (recordOrderEvent now i t d) = offers d"
  "orders (recordOrderEvent now i t d) = orders d"
  "payments (recordOrderEvent now i t d) = payments d"
  "obligations (recordOrderEvent now i t d) = obligations d"
  "refunds (recordOrderEvent now i t d) = refunds d"
  "payouts (recordOrderEvent now i t d) = payouts d"
  "inspections (recordOrderEvent now i t d) = inspections d"
  "inspectionQuotes (recordOrderEvent now i t d) = inspectionQuotes d"
  "transportJobs (recordOrderEvent now i t d) = transportJobs d"
  "transportQuotes (recordOrderEvent now i t d) = transportQuotes d"
  "trucks (recordOrderEvent now i t d) = trucks d"
  "standings (recordOrderEvent now i t d) = standings d"
  "ratings (recordOrderEvent now i t d) = ratings d"
  "userRatings (recordOrderEvent now i t d) = userRatings d"
  "auditEvents (recordOrderEvent now i t d) = auditEvents d"
  "ledger (recordOrderEvent now i t d) = ledger d"
  "paymentEvents (recordOrderEvent now i t d) = paymentEvents d"
  "reconciliations (recordOrderEvent now i t d) = reconciliations d"
  "digitalProducts (recordOrderEvent now i t d) = digitalProducts d"
  "digitalPurchases (recordOrderEvent now i t d) = digitalPurchases d"
  "advertisements (recordOrderEvent now i t d) = advertisements d"
  "inspectionCoordinations (recordOrderEvent now i t d) = inspectionCoordinations d"
  "next_id (recordOrderEvent now i t d) = next_id d"
  by (simp_all add: recordOrderEvent_def)

lemma recordAuditEvent_audits [simp]:
  "auditEvents (recordAuditEvent now a c r j d) =
     auditEvents d @ [\<lparr>au_actorId = a, au_action = c, au_resourceId = r,
       au_jobId = j, au_createdAt = now\<rparr>]"
  by (simp add: recordAuditEvent_def insert_row_def)

end
