(* ===== verification/Lifecycle.thy ===== *)
theory Lifecycle
  imports Domain
begin

text \<open>
  The two interfaces the services share. \<open>row_claim\<close> is the conditional
  \<open>updateMany\<close> by which a service claims a row before it acts on it: the condition is
  used up by the update, so of two racing claims one matches no row. \<open>lifecycle\<close> is a
  status field with a transition table; \<open>ranked_lifecycle\<close> adds a rank that rises on
  every real move outside the detours (disputes, reconciliation, refunds).
\<close>

section \<open>Claiming a row\<close>

locale row_claim =
  fixes key :: "'r \<Rightarrow> uid"
    and cond :: "'r \<Rightarrow> bool"
    and upd :: "'r \<Rightarrow> 'r"
  assumes upd_key: "key (upd r) = key r"
    and upd_uses_up: "cond r \<Longrightarrow> \<not> cond (upd r)"
begin

lemma claim_keys: "map key (update_rows (\<lambda>r. key r = k \<and> cond r) upd t) = map key t"
  by (rule map_update_rows) (simp add: upd_key)

lemma second_claim_loses:
  "count_where (\<lambda>r. key r = k \<and> cond r) (update_rows (\<lambda>r. key r = k \<and> cond r) upd t) = 0"
  by (auto simp: count_where_0 set_update_rows dest: upd_uses_up)

lemma claim_others:
  assumes "key r \<noteq> k"
  shows "r \<in> set (update_rows (\<lambda>r. key r = k \<and> cond r) upd t) \<longleftrightarrow> r \<in> set t"
  using assms by (auto simp: set_update_rows upd_key)

lemma claim_row:
  assumes "distinct (map key t)"
    and "count_where (\<lambda>r. key r = k \<and> cond r) t = 1"
  obtains r where "find_unique key k t = Some r" and "cond r"
    and "find_unique key k (update_rows (\<lambda>r. key r = k \<and> cond r) upd t) = Some (upd r)"
proof -
  from assms obtain r where r: "find_unique key k t = Some r" "cond r"
    by (auto simp: count_where_key split: option.splits if_splits)
  let ?t = "update_rows (\<lambda>r. key r = k \<and> cond r) upd t"
  from r have "r \<in> set t" and kr: "key r = k" by (auto dest: find_unique_Some)
  with r(2) have "upd r \<in> set ?t" by (auto simp: set_update_rows)
  moreover have "distinct (map key ?t)" using assms(1) by (simp add: claim_keys)
  ultimately have "find_unique key (key (upd r)) ?t = Some (upd r)"
    by (rule find_unique_in [rotated])
  with kr have "find_unique key k ?t = Some (upd r)" by (simp add: upd_key)
  with r show thesis by (rule that)
qed

end

section \<open>Status fields with a transition table\<close>

fun status_path :: "('s \<Rightarrow> 's \<Rightarrow> bool) \<Rightarrow> 's \<Rightarrow> 's list \<Rightarrow> bool" where
  "status_path can s [] = True"
| "status_path can s (t # ts) = (can s t \<and> status_path can t ts)"

locale lifecycle =
  fixes moves :: "'s \<Rightarrow> 's list"
    and can :: "'s \<Rightarrow> 's \<Rightarrow> bool"
  assumes can_iff: "can s t \<longleftrightarrow> s = t \<or> t \<in> set (moves s)"
begin

lemma can_refl: "can s s"
  by (simp add: can_iff)

lemma terminal_stuck: "moves s = [] \<Longrightarrow> can s t \<longleftrightarrow> t = s"
  by (auto simp: can_iff)

lemma terminal_path: "moves s = [] \<Longrightarrow> status_path can s ts \<Longrightarrow> t \<in> set ts \<Longrightarrow> t = s"
  by (induction ts arbitrary: t) (auto simp: terminal_stuck)

end

locale ranked_lifecycle = lifecycle moves can
  for moves :: "'s \<Rightarrow> 's list" and can :: "'s \<Rightarrow> 's \<Rightarrow> bool" +
  fixes rank :: "'s \<Rightarrow> nat"
    and detour :: "'s \<Rightarrow> bool"
  assumes move_rises: "t \<in> set (moves s) \<Longrightarrow> \<not> detour s \<Longrightarrow> \<not> detour t \<Longrightarrow> rank s < rank t"
begin

lemma can_rises: "can s t \<Longrightarrow> \<not> detour s \<Longrightarrow> \<not> detour t \<Longrightarrow> t = s \<or> rank s < rank t"
  by (auto simp: can_iff dest: move_rises)

lemma path_rises:
  assumes "status_path can s ts" and "\<not> detour s" and "\<forall>t \<in> set ts. \<not> detour t"
    and "t \<in> set ts"
  shows "t = s \<or> rank s < rank t"
  using assms
proof (induction ts arbitrary: s t)
  case Nil
  then show ?case by simp
next
  case (Cons u us)
  from Cons.prems have u: "u = s \<or> rank s < rank u" by (simp add: can_rises)
  show ?case
  proof (cases "t = u")
    case True
    with u show ?thesis by simp
  next
    case False
    with Cons.prems Cons.IH [of u t] have "t = u \<or> rank u < rank t" by auto
    with u False show ?thesis by auto
  qed
qed

text \<open>Once left, a status is never entered again along a path without detours.\<close>

lemma path_no_return:
  assumes "status_path can s (t # ts)" and "\<not> detour s" and "\<forall>u \<in> set (t # ts). \<not> detour u"
    and "t \<noteq> s"
  shows "s \<notin> set (t # ts)"
proof
  assume "s \<in> set (t # ts)"
  moreover from assms have t: "rank s < rank t" by (auto dest: can_rises)
  ultimately have "s \<in> set ts" using assms(4) by auto
  with assms have "s = t \<or> rank t < rank s"
    using path_rises [of t ts s] by simp
  with t assms(4) show False by auto
qed

end

section \<open>Systems with an invariant\<close>

text \<open>
  The states a program can get to, as the least set closed under its steps, and the
  interface of a program with an invariant: whatever the first state satisfies and
  every step keeps holds of everything reachable.
\<close>

inductive reachable :: "('s \<Rightarrow> 's \<Rightarrow> bool) \<Rightarrow> 's \<Rightarrow> 's \<Rightarrow> bool" for step where
  reachable_refl: "reachable step s s"
| reachable_step: "reachable step s t \<Longrightarrow> step t u \<Longrightarrow> reachable step s u"

locale invariant_system =
  fixes step :: "'s \<Rightarrow> 's \<Rightarrow> bool"
    and inv :: "'s \<Rightarrow> bool"
  assumes step_inv: "step s t \<Longrightarrow> inv s \<Longrightarrow> inv t"
begin

lemma reachable_inv: "reachable step s t \<Longrightarrow> inv s \<Longrightarrow> inv t"
  by (induction rule: reachable.induct) (auto intro: step_inv)

lemma never_leaves:
  assumes "reachable step s t" and "inv s" and "\<And>u. inv u \<Longrightarrow> safe u"
  shows "safe t"
  using assms reachable_inv by blast

end

end
