(* ===== verification/Payment_Machine.thy ===== *)
theory Payment_Machine
  imports Lifecycle
begin

text \<open>
  \<open>backend/src/services/paymentStateMachine.js\<close>: the payment status table and the check
  the refund service makes before it moves a payment.
\<close>

fun TRANSITIONS :: "payment_status \<Rightarrow> payment_status list" where
  "TRANSITIONS P_PENDING = [P_PROCESSING, P_FAILED, P_RECONCILIATION_REQUIRED]"
| "TRANSITIONS P_PROCESSING = [P_PAID, P_FAILED, P_RECONCILIATION_REQUIRED]"
| "TRANSITIONS P_PAID = [P_REFUND_PENDING, P_RECONCILIATION_REQUIRED]"
| "TRANSITIONS P_RECONCILIATION_REQUIRED = [P_PROCESSING, P_PAID, P_FAILED]"
| "TRANSITIONS P_REFUND_PENDING = [P_REFUNDED, P_PAID, P_RECONCILIATION_REQUIRED]"
| "TRANSITIONS P_FAILED = []"
| "TRANSITIONS P_REFUNDED = []"

definition canTransition :: "payment_status \<Rightarrow> payment_status \<Rightarrow> bool" where
  "canTransition s t = (if s = t then True else t \<in> set (TRANSITIONS s))"

definition assertTransition :: "payment_status \<Rightarrow> payment_status \<Rightarrow> unit res" where
  "assertTransition s t =
     (if \<not> canTransition s t then Inl (Refund_Err 409 INVALID_PAYMENT_STATE_TRANSITION)
      else Inr ())"

fun payment_rank :: "payment_status \<Rightarrow> nat" where
  "payment_rank P_PENDING = 0"
| "payment_rank P_PROCESSING = 1"
| "payment_rank P_PAID = 2"
| "payment_rank P_REFUNDED = 3"
| "payment_rank P_FAILED = 3"
| "payment_rank P_REFUND_PENDING = 0"
| "payment_rank P_RECONCILIATION_REQUIRED = 0"

text \<open>
  Reconciliation and a pending refund may both lead back to \<open>PAID\<close>; outside these two
  detours a payment only moves forward.
\<close>

abbreviation payment_detour :: "payment_status \<Rightarrow> bool" where
  "payment_detour s \<equiv> s \<in> {P_REFUND_PENDING, P_RECONCILIATION_REQUIRED}"

interpretation payment_life: ranked_lifecycle TRANSITIONS canTransition payment_rank payment_detour
proof
  show "canTransition s t \<longleftrightarrow> s = t \<or> t \<in> set (TRANSITIONS s)" for s t
    by (simp add: canTransition_def)
  show "t \<in> set (TRANSITIONS s) \<Longrightarrow> \<not> payment_detour s \<Longrightarrow> \<not> payment_detour t \<Longrightarrow>
      payment_rank s < payment_rank t" for s t
    by (cases s) auto
qed

abbreviation payment_terminal :: "payment_status \<Rightarrow> bool" where
  "payment_terminal s \<equiv> s \<in> {P_FAILED, P_REFUNDED}"

lemma payment_terminal_moves [machine_defs]: "TRANSITIONS s = [] \<longleftrightarrow> payment_terminal s"
  by (cases s) auto

lemma assertTransition_ok [simp]: "assertTransition s t = Inr u \<longleftrightarrow> canTransition s t"
  by (simp add: assertTransition_def)

lemma assertTransition_Inl [simp]:
  "assertTransition s t = Inl e \<longleftrightarrow>
     \<not> canTransition s t \<and> e = Refund_Err 409 INVALID_PAYMENT_STATE_TRANSITION"
  by (auto simp: assertTransition_def)

text \<open>Only a pending refund leads to \<open>REFUNDED\<close>.\<close>

lemma canTransition_REFUNDED [simp]:
  "canTransition s P_REFUNDED \<longleftrightarrow> s \<in> {P_REFUND_PENDING, P_REFUNDED}"
  by (cases s) (auto simp: canTransition_def)

lemma canTransition_REFUND_PENDING [simp]:
  "canTransition s P_REFUND_PENDING \<longleftrightarrow> s \<in> {P_PAID, P_REFUND_PENDING}"
  by (cases s) (auto simp: canTransition_def)

end
