(* ===== verification/Order_Machine.thy ===== *)
theory Order_Machine
  imports Lifecycle
begin

text \<open>
  \<open>backend/src/services/orderStateMachine.js\<close>: the order status table, the
  optimistic status transition (an \<open>updateMany\<close> guarded by the expected status) and the
  lock that refuses an action on a disputed or cancelled order.
\<close>

section \<open>The transition table\<close>

fun ORDER_TRANSITIONS :: "order_status \<Rightarrow> order_status list" where
  "ORDER_TRANSITIONS PENDING_PAYMENT = [CONFIRMED, CANCELLED, DISPUTED]"
| "ORDER_TRANSITIONS CONFIRMED = [TRANSPORT_ARRANGED, CANCELLED, DISPUTED]"
| "ORDER_TRANSITIONS TRANSPORT_ARRANGED = [IN_TRANSIT, DELIVERED, CANCELLED, DISPUTED]"
| "ORDER_TRANSITIONS IN_TRANSIT = [DELIVERED, DISPUTED]"
| "ORDER_TRANSITIONS DELIVERED = [COMPLETED, DISPUTED]"
| "ORDER_TRANSITIONS COMPLETED = []"
| "ORDER_TRANSITIONS DISPUTED =
     [PENDING_PAYMENT, CONFIRMED, TRANSPORT_ARRANGED, IN_TRANSIT, DELIVERED, COMPLETED, CANCELLED]"
| "ORDER_TRANSITIONS CANCELLED = []"

text \<open>The keys of the table, in the order of \<open>Object.keys\<close>.\<close>

instantiation order_status :: enum
begin

definition enum_order_status :: "order_status list" where
  "enum_order_status = [PENDING_PAYMENT, CONFIRMED, TRANSPORT_ARRANGED, IN_TRANSIT,
     DELIVERED, COMPLETED, DISPUTED, CANCELLED]"

definition enum_all_order_status :: "(order_status \<Rightarrow> bool) \<Rightarrow> bool" where
  "enum_all_order_status P = list_all P enum_class.enum"

definition enum_ex_order_status :: "(order_status \<Rightarrow> bool) \<Rightarrow> bool" where
  "enum_ex_order_status P = list_ex P enum_class.enum"

instance
proof
  show univ: "(UNIV :: order_status set) = set enum_class.enum"
    by (auto simp: enum_order_status_def intro: order_status.exhaust)
  show "distinct (enum_class.enum :: order_status list)"
    by (simp add: enum_order_status_def)
  show "enum_class.enum_all P \<longleftrightarrow> Ball (UNIV :: order_status set) P" for P
    by (simp add: enum_all_order_status_def univ list_all_iff)
  show "enum_class.enum_ex P \<longleftrightarrow> Bex (UNIV :: order_status set) P" for P
    by (simp add: enum_ex_order_status_def univ list_ex_iff)
qed

end

definition canTransitionOrder :: "order_status \<Rightarrow> order_status \<Rightarrow> bool" where
  "canTransitionOrder s t = (if s = t then True else t \<in> set (ORDER_TRANSITIONS s))"

definition DISPUTABLE_STATUSES :: "order_status list" where
  "DISPUTABLE_STATUSES = filter (\<lambda>s. DISPUTED \<in> set (ORDER_TRANSITIONS s)) enum_class.enum"

definition assertOrderTransition :: "order_status \<Rightarrow> order_status \<Rightarrow> unit res" where
  "assertOrderTransition s t =
     (if \<not> canTransitionOrder s t then Inl (Order_Err 409 INVALID_ORDER_TRANSITION) else Inr ())"

section \<open>The guarded write\<close>

text \<open>\<open>extra\<close> is the caller's \<open>extraData\<close>; a write also stamps \<open>updatedAt\<close>.\<close>

definition set_order_status :: "time \<Rightarrow> order_status \<Rightarrow> (order \<Rightarrow> order) \<Rightarrow> order \<Rightarrow> order" where
  "set_order_status now to extra o1 = extra (o1\<lparr>o_status := to, o_updatedAt := now\<rparr>)"

definition transitionOrderStatus ::
    "time \<Rightarrow> uid \<Rightarrow> order_status \<Rightarrow> order_status \<Rightarrow> (order \<Rightarrow> order) \<Rightarrow> db \<Rightarrow>
     (db \<times> order option) res" where
  "transitionOrderStatus now oid from to extra d =
     bindr (assertOrderTransition from to) (\<lambda>_.
       let (rows, count) = update_many (\<lambda>o1. o_id o1 = oid \<and> o_status o1 = from)
                             (set_order_status now to extra) (orders d);
           d' = d\<lparr>orders := rows\<rparr>
       in if count \<noteq> 1 then Inl (Order_Err 409 ORDER_STATE_CONFLICT)
          else Inr (d', find_unique o_id oid (orders d')))"

definition lockOrderAndAssertNotClosed :: "uid option \<Rightarrow> db \<Rightarrow> unit res" where
  "lockOrderAndAssertNotClosed oid d =
     (case oid of
        None \<Rightarrow> Inr ()
      | Some i \<Rightarrow>
          (case find_unique o_id i (orders d) of
             None \<Rightarrow> Inr ()
           | Some o1 \<Rightarrow>
               if o_status o1 \<in> {DISPUTED, CANCELLED}
               then Inl (Order_Err 409 ORDER_NOT_ACTIONABLE) else Inr ()))"

section \<open>Facts about the table\<close>

fun order_rank :: "order_status \<Rightarrow> nat" where
  "order_rank PENDING_PAYMENT = 0"
| "order_rank CONFIRMED = 1"
| "order_rank TRANSPORT_ARRANGED = 2"
| "order_rank IN_TRANSIT = 3"
| "order_rank DELIVERED = 4"
| "order_rank COMPLETED = 5"
| "order_rank CANCELLED = 6"
| "order_rank DISPUTED = 0"

interpretation order_life:
  ranked_lifecycle ORDER_TRANSITIONS canTransitionOrder order_rank "\<lambda>s. s = DISPUTED"
proof
  show "canTransitionOrder s t \<longleftrightarrow> s = t \<or> t \<in> set (ORDER_TRANSITIONS s)" for s t
    by (simp add: canTransitionOrder_def)
  show "t \<in> set (ORDER_TRANSITIONS s) \<Longrightarrow> s \<noteq> DISPUTED \<Longrightarrow> t \<noteq> DISPUTED \<Longrightarrow>
      order_rank s < order_rank t" for s t
    by (cases s) auto
qed

abbreviation order_terminal :: "order_status \<Rightarrow> bool" where
  "order_terminal s \<equiv> s \<in> {COMPLETED, CANCELLED}"

lemma order_terminal_moves [machine_defs]: "ORDER_TRANSITIONS s = [] \<longleftrightarrow> order_terminal s"
  by (cases s) auto

lemma assertOrderTransition_ok [simp]:
  "assertOrderTransition s t = Inr u \<longleftrightarrow> canTransitionOrder s t"
  by (simp add: assertOrderTransition_def)

section \<open>Facts about the write\<close>

text \<open>\<open>extraData\<close> sets other columns: it leaves the identifier and the status alone.\<close>

definition extra_ok :: "(order \<Rightarrow> order) \<Rightarrow> bool" where
  "extra_ok extra \<longleftrightarrow> (\<forall>o1. o_id (extra o1) = o_id o1 \<and> o_status (extra o1) = o_status o1)"

lemma extra_ok_id [simp, intro]: "extra_ok (\<lambda>o1. o1)"
  by (simp add: extra_ok_def)

lemma set_order_status_sel [simp]:
  assumes "extra_ok extra"
  shows "o_id (set_order_status now to extra o1) = o_id o1"
    and "o_status (set_order_status now to extra o1) = to"
  using assms by (simp_all add: set_order_status_def extra_ok_def)

lemma transitionOrderStatus_Inr:
  "transitionOrderStatus now oid from to extra d = Inr (d', r) \<longleftrightarrow>
     canTransitionOrder from to \<and>
     count_where (\<lambda>o1. o_id o1 = oid \<and> o_status o1 = from) (orders d) = 1 \<and>
     d' = d\<lparr>orders := update_rows (\<lambda>o1. o_id o1 = oid \<and> o_status o1 = from)
             (set_order_status now to extra) (orders d)\<rparr> \<and>
     r = find_unique o_id oid (orders d')"
  by (auto simp: transitionOrderStatus_def bindr_eq_Inr update_many_def Let_def split: if_splits)

lemma transitionOrderStatus_Inl:
  assumes "canTransitionOrder from to"
    and "count_where (\<lambda>o1. o_id o1 = oid \<and> o_status o1 = from) (orders d) \<noteq> 1"
  shows "transitionOrderStatus now oid from to extra d = Inl (Order_Err 409 ORDER_STATE_CONFLICT)"
  using assms by (simp add: transitionOrderStatus_def assertOrderTransition_def update_many_def)

lemma order_claim: "extra_ok extra \<Longrightarrow> from \<noteq> to \<Longrightarrow>
    row_claim o_id (\<lambda>o1. o_status o1 = from) (set_order_status now to extra)"
  by unfold_locales simp_all

text \<open>What a successful transition did to the order and to the rest of the database.\<close>

lemma transition_effect:
  assumes t: "transitionOrderStatus now oid from to extra d = Inr (d', r)"
    and dist: "distinct (map o_id (orders d))" and ex: "extra_ok extra"
  obtains o1 where "find_unique o_id oid (orders d) = Some o1" and "o_status o1 = from"
    and "find_unique o_id oid (orders d') = Some (set_order_status now to extra o1)"
proof (cases "from = to")
  case False
  let ?P = "\<lambda>o1. o_id o1 = oid \<and> o_status o1 = from"
  from t have c: "count_where ?P (orders d) = 1"
    and d': "orders d' = update_rows ?P (set_order_status now to extra) (orders d)"
    by (simp_all add: transitionOrderStatus_Inr)
  show thesis
    by (rule row_claim.claim_row [OF order_claim [OF ex False] dist c])
       (rule that, simp_all add: d')
next
  case True
  let ?P = "\<lambda>o1. o_id o1 = oid \<and> o_status o1 = from"
  from t have c: "count_where ?P (orders d) = 1"
    and d': "orders d' = update_rows ?P (set_order_status now to extra) (orders d)"
    by (simp_all add: transitionOrderStatus_Inr)
  from c dist obtain o1 where o1: "find_unique o_id oid (orders d) = Some o1" "o_status o1 = from"
    by (auto simp: count_where_key split: option.splits if_splits)
  then have "o1 \<in> set (orders d)" "o_id o1 = oid" by (auto dest: find_unique_Some)
  with o1 have "set_order_status now to extra o1 \<in> set (orders d')"
    by (auto simp: d' set_update_rows)
  moreover have "distinct (map o_id (orders d'))"
    using dist ex by (simp add: d' map_update_rows)
  ultimately have "find_unique o_id (o_id (set_order_status now to extra o1)) (orders d')
      = Some (set_order_status now to extra o1)"
    by (rule find_unique_in [rotated])
  with ex \<open>o_id o1 = oid\<close> o1 show thesis by (intro that) auto
qed

lemma transition_keys:
  assumes "transitionOrderStatus now oid from to extra d = Inr (d', r)" and "extra_ok extra"
  shows "map o_id (orders d') = map o_id (orders d)"
  using assms by (auto simp: transitionOrderStatus_Inr intro: map_update_rows)

lemma transition_frame:
  assumes "transitionOrderStatus now oid from to extra d = Inr (d', r)"
  shows "d'\<lparr>orders := orders d\<rparr> = d"
  using assms by (auto simp: transitionOrderStatus_Inr)

end
