(* ===== verification/Release_Limits.thy ===== *)
theory Release_Limits
  imports Lifecycle
begin

text \<open>
  \<open>backend/src/services/releaseLimitsService.js\<close>: the reasons a release must give, the
  waiting time after an acceptance, the cap on releases per job with the admin overrides
  that raise it, and the count of a provider's recent cancellations. The reasons are the
  code's strings; text is ASCII.
\<close>

section \<open>The code\<close>

definition RELEASE_REASONS :: "string list" where
  "RELEASE_REASONS = [''PROVIDER_UNAVAILABLE'', ''NO_RESPONSE'', ''PRICE_CHANGED'',
     ''SCHEDULE_CONFLICT'', ''OTHER'']"

definition PROVIDER_RELEASE_REASONS :: "string list" where
  "PROVIDER_RELEASE_REASONS = [''VEHICLE_OR_EQUIPMENT_ISSUE'', ''SCHEDULE_CONFLICT'',
     ''PRICE_NOT_VIABLE'', ''REQUESTER_UNRESPONSIVE'', ''SITE_OR_ROUTE_ISSUE'',
     ''PROVIDER_UNAVAILABLE'', ''OTHER'']"

definition PROVIDER_RELEASE_ACTIONS :: "audit_action list" where
  "PROVIDER_RELEASE_ACTIONS = [Provider_Act TRANSPORT_ACCEPTED_RELEASED_BY_PROVIDER,
     Provider_Act INSPECTION_ACCEPTED_RELEASED_BY_PROVIDER]"

definition providerFlagThreshold :: "env \<Rightarrow> number" where
  "providerFlagThreshold e = (case e PROVIDER_RELEASE_FLAG_THRESHOLD of
     None \<Rightarrow> 3 | Some c \<Rightarrow> if is_integer c \<and> 0 < c then c else 3)"

definition NOTE_MAX_LENGTH :: nat where
  "NOTE_MAX_LENGTH = 200"

definition acceptedReleaseWaitHours :: "env \<Rightarrow> number" where
  "acceptedReleaseWaitHours e = (case e RELEASE_AFTER_ACCEPT_HOURS of
     None \<Rightarrow> 24 | Some c \<Rightarrow> if 0 \<le> c then c else 24)"

definition maxAcceptedReleases :: "env \<Rightarrow> number" where
  "maxAcceptedReleases e = (case e MAX_ACCEPTED_RELEASES_PER_JOB of
     None \<Rightarrow> 2 | Some c \<Rightarrow> if is_integer c \<and> 0 \<le> c then c else 2)"

text \<open>The request body's \<open>reason\<close> and \<open>note\<close>; a missing field reads as the empty text.\<close>

record release_body =
  rb_reason :: "string option"
  rb_note :: "string option"

definition or_empty :: "string option \<Rightarrow> string" where
  "or_empty v = (case v of None \<Rightarrow> [] | Some s \<Rightarrow> s)"

definition parseReleaseReason ::
    "bool \<Rightarrow> release_body \<Rightarrow> (string \<times> string option) res" where
  "parseReleaseReason provider body =
     (let allowedReasons = (if provider then PROVIDER_RELEASE_REASONS else RELEASE_REASONS);
          reason = js_upper (js_trim (or_empty (rb_reason body)));
          note = js_slice NOTE_MAX_LENGTH (js_trim (or_empty (rb_note body)))
      in if reason \<notin> set allowedReasons then Inl (Provider_Err 400 BAD_RELEASE_REASON)
         else if reason = ''OTHER'' \<and> note = [] then Inl (Provider_Err 400 BAD_RELEASE_REASON)
         else Inr (reason, if note = [] then None else Some note))"

text \<open>A quote is given by its \<open>updatedAt\<close>, which the schema never leaves null.\<close>

definition acceptedReleaseAvailableAt :: "env \<Rightarrow> time option \<Rightarrow> time option" where
  "acceptedReleaseAvailableAt e acceptedQuote =
     map_option (\<lambda>since. time_clip (of_int since + acceptedReleaseWaitHours e * hour_ms)) acceptedQuote"

definition assertAcceptedReleaseWindowElapsed ::
    "env \<Rightarrow> time \<Rightarrow> time option \<Rightarrow> unit res" where
  "assertAcceptedReleaseWindowElapsed e now acceptedQuote =
     (case acceptedReleaseAvailableAt e acceptedQuote of
        None \<Rightarrow> Inr ()
      | Some availableAt \<Rightarrow>
          if availableAt > now then Inl (Offer_Err 409 NOT_ELAPSED) else Inr ())"

definition countAcceptedReleases :: "audit_action \<Rightarrow> uid \<Rightarrow> db \<Rightarrow> nat" where
  "countAcceptedReleases action jobId d =
     count_where (\<lambda>a. au_action a = action \<and> au_jobId a = Some jobId) (auditEvents d)"

definition providerReleaseCountLast30d :: "time \<Rightarrow> uid \<Rightarrow> db \<Rightarrow> nat" where
  "providerReleaseCountLast30d now userId d =
     count_where (\<lambda>a. au_actorId a = Some userId \<and> au_action a \<in> set PROVIDER_RELEASE_ACTIONS \<and>
       now - 30 * 24 * 60 * 60 * 1000 \<le> au_createdAt a) (auditEvents d)"

definition OVERRIDE_ACTION :: audit_action where
  "OVERRIDE_ACTION = Provider_Act RELEASE_LIMIT_OVERRIDE"

definition releaseAllowance :: "env \<Rightarrow> audit_action \<Rightarrow> uid \<Rightarrow> db \<Rightarrow> nat \<times> number" where
  "releaseAllowance e action jobId d =
     (let used = countAcceptedReleases action jobId d;
          overrides = count_where (\<lambda>a. au_action a = OVERRIDE_ACTION \<and> au_jobId a = Some jobId)
            (auditEvents d)
      in (used, maxAcceptedReleases e + of_nat overrides))"

section \<open>Facts\<close>

lemma acceptedReleaseWaitHours_nonneg: "0 \<le> acceptedReleaseWaitHours e"
  by (simp add: acceptedReleaseWaitHours_def split: option.splits)

lemma maxAcceptedReleases_nonneg: "0 \<le> maxAcceptedReleases e"
  by (simp add: maxAcceptedReleases_def split: option.splits)

lemma count_where_append [table_simps]:
  "count_where P (xs @ ys) = count_where P xs + count_where P ys"
  by (simp add: count_where_def)

lemma countAcceptedReleases_record [simp]:
  "countAcceptedReleases act job (recordAuditEvent now a c r j d) =
     countAcceptedReleases act job d + (if c = act \<and> j = Some job then 1 else 0)"
  by (simp add: countAcceptedReleases_def table_simps)

lemma parseReleaseReason_allowed:
  "parseReleaseReason provider body = Inr (reason, note) \<Longrightarrow>
     reason \<in> set (if provider then PROVIDER_RELEASE_REASONS else RELEASE_REASONS) \<and>
     (reason = ''OTHER'' \<longrightarrow> note \<noteq> None) \<and>
     (\<forall>n. note = Some n \<longrightarrow> n \<noteq> [] \<and> length n \<le> NOTE_MAX_LENGTH)"
  by (auto simp: parseReleaseReason_def Let_def js_slice_def split: if_splits)

end
