(* ===== verification/Offers.thy ===== *)
theory Offers
  imports Order_Machine Release_Limits
begin

text \<open>
  \<open>backend/src/services/offers\<close>: the helpers of the negotiation routes
  (\<open>offerHelpers.js\<close>) and the two moves that end a negotiation, to a provisional
  agreement and from there to an order (\<open>offerOrderService.js\<close>), with the amount check of
  \<open>utils/contactGuard.js\<close> and the payment deadline of \<open>utils/orderTiming.js\<close> they use.

  A counter-chain is a list of rows linked by \<open>of_parent\<close>; its leaf, the row without a
  child, carries the current price. \<open>idx\<close> says whether the partial unique index of
  migration \<open>202610040001\<close> is installed: the migration creates it, \<open>schema.prisma\<close> does
  not declare it. Every write to the offers that can add a row to the index goes through
  \<open>put_offers\<close>, which fails as the index does.
\<close>

section \<open>Helpers\<close>

text \<open>
  A field of a request body read as \<open>Number(value)\<close>: \<open>None\<close> when it is missing,
  \<open>Some None\<close> when it is not a finite number.
\<close>

type_synonym field = "number option option"

definition isPositiveNumber :: "field \<Rightarrow> bool" where
  "isPositiveNumber v = (case v of Some (Some n) \<Rightarrow> 0 < n | _ \<Rightarrow> False)"

datatype amount_problem =
  AMOUNT_REQUIRED | AMOUNT_NOT_POSITIVE | AMOUNT_TOO_LARGE | AMOUNT_TOO_PRECISE

definition AMOUNT_LIMIT_offer :: number where
  "AMOUNT_LIMIT_offer = 50000000"

definition amountProblem :: "field \<Rightarrow> number \<Rightarrow> amount_problem option" where
  "amountProblem v limit =
     (case v of
        None \<Rightarrow> Some AMOUNT_REQUIRED
      | Some None \<Rightarrow> Some AMOUNT_NOT_POSITIVE
      | Some (Some n) \<Rightarrow>
          if n \<le> 0 then Some AMOUNT_NOT_POSITIVE
          else if n > limit then Some AMOUNT_TOO_LARGE
          else if \<bar>n * 100 - of_int (js_round (n * 100))\<bar> > 1 / 10 ^ 6 then Some AMOUNT_TOO_PRECISE
          else None)"

definition offerExpiry :: "listing \<Rightarrow> time option" where
  "offerExpiry l = (if l_category l = AGRICULTURAL then l_pickupEnd l else None)"

text \<open>\<open>True\<close> when the pickup window has closed (the message is the code's error text).\<close>

definition validateNegotiationWindow :: "time \<Rightarrow> listing \<Rightarrow> bool" where
  "validateNegotiationWindow now l =
     (if l_category l \<noteq> AGRICULTURAL then False
      else case l_pickupEnd l of None \<Rightarrow> False | Some deadline \<Rightarrow> deadline \<le> now)"

definition releaseAfterHours :: "env \<Rightarrow> number" where
  "releaseAfterHours e = (case e OFFER_RELEASE_AFTER_HOURS of
     None \<Rightarrow> 72 | Some c \<Rightarrow> if 0 \<le> c then c else 72)"

definition releaseAvailableAt :: "env \<Rightarrow> offer \<Rightarrow> time option" where
  "releaseAvailableAt e f =
     (let buyersTurn = (of_status f = Of_SELECTED \<or>
            (of_status f = Of_COUNTERED \<and> of_counteredBy f = Some By_SELLER))
      in if \<not> buyersTurn then None
         else Some (time_clip (of_int (of_updatedAt f) + releaseAfterHours e * hour_ms)))"

definition PROVISIONAL_RELEASE_AFTER_HOURS :: "env \<Rightarrow> number" where
  "PROVISIONAL_RELEASE_AFTER_HOURS e = (case e OFFER_PROVISIONAL_RELEASE_AFTER_HOURS of
     None \<Rightarrow> 24 | Some c \<Rightarrow> if 0 \<le> c then c else 24)"

definition provisionalReleaseAvailableAt :: "env \<Rightarrow> offer \<Rightarrow> time" where
  "provisionalReleaseAvailableAt e f =
     time_clip (of_int (of_updatedAt f) + PROVISIONAL_RELEASE_AFTER_HOURS e * hour_ms)"

definition isOfferExpired :: "time \<Rightarrow> offer \<Rightarrow> bool" where
  "isOfferExpired now f = (case of_expiresAt f of None \<Rightarrow> False | Some t \<Rightarrow> t \<le> now)"

definition paymentTimeoutHours :: "env \<Rightarrow> number" where
  "paymentTimeoutHours e = (case e ORDER_PAYMENT_TIMEOUT_HOURS of
     None \<Rightarrow> 48 | Some c \<Rightarrow> if 0 < c then c else 48)"

definition computePaymentDueAt :: "env \<Rightarrow> time \<Rightarrow> time" where
  "computePaymentDueAt e start = time_clip (of_int start + paymentTimeoutHours e * hour_ms)"

section \<open>Leaves and writes\<close>

definition leaf :: "offer list \<Rightarrow> offer \<Rightarrow> bool" where
  "leaf offs f = (\<not> list_ex (\<lambda>c. of_parent c = Some (of_id f)) offs)"

definition findLeafOffer :: "uid \<Rightarrow> db \<Rightarrow> offer option" where
  "findLeafOffer i d = find_first (\<lambda>f. of_id f = i \<and> leaf (offers d) f) (offers d)"

definition set_offer_status :: "time \<Rightarrow> offer_status \<Rightarrow> offer \<Rightarrow> offer" where
  "set_offer_status now s f = f\<lparr>of_status := s, of_updatedAt := now\<rparr>"

definition active_unique :: "offer list \<Rightarrow> bool" where
  "active_unique offs = distinct (map (\<lambda>f. (of_listingId f, of_buyerId f))
     (filter (\<lambda>f. of_status f \<in> {Of_PENDING, Of_SELECTED, Of_COUNTERED, Of_ACCEPTED}) offs))"

definition put_offers :: "bool \<Rightarrow> offer list \<Rightarrow> db \<Rightarrow> db res" where
  "put_offers idx offs d =
     (if idx \<and> \<not> active_unique offs then Inl (Offer_Err 409 UNIQUE_CONFLICT)
      else Inr (d\<lparr>offers := offs\<rparr>))"

abbreviation update_offer :: "time \<Rightarrow> uid \<Rightarrow> offer_status \<Rightarrow> offer list \<Rightarrow> offer list" where
  "update_offer now i s \<equiv> update_rows (\<lambda>f. of_id f = i) (set_offer_status now s)"

text \<open>\<open>updateMany\<close> on one offer with a status condition, failing unless it changed one row.\<close>

definition claim_offer ::
    "bool \<Rightarrow> time \<Rightarrow> uid \<Rightarrow> offer_status list \<Rightarrow> offer_status \<Rightarrow> err \<Rightarrow> db \<Rightarrow> db res" where
  "claim_offer idx now i from to e d =
     (let (rows, count) = update_many (\<lambda>f. of_id f = i \<and> of_status f \<in> set from)
            (set_offer_status now to) (offers d)
      in bindr (put_offers idx rows d) (\<lambda>d'. if count \<noteq> 1 then Inl e else Inr d'))"

definition expireOfferIfNeeded :: "time \<Rightarrow> offer \<Rightarrow> uid option \<Rightarrow> db \<Rightarrow> db \<times> bool" where
  "expireOfferIfNeeded now f actor d =
     (if \<not> isOfferExpired now f then (d, False)
      else if of_status f \<notin> {Of_PENDING, Of_SELECTED, Of_COUNTERED, Of_PROVISIONAL} then (d, False)
      else
        let d' = d\<lparr>offers := update_offer now (of_id f) Of_EXPIRED (offers d)\<rparr>
        in (recordAuditEvent now actor (Offer_Act OFFER_EXPIRED) (of_id f) None d', True))"

text \<open>The listing an offer includes; the foreign key keeps it from being missing.\<close>

definition offer_listing :: "offer \<Rightarrow> db \<Rightarrow> listing res" where
  "offer_listing f d = (case find_unique l_id (of_listingId f) (listings d) of
     None \<Rightarrow> Inl (Offer_Err 404 BAD_OFFER) | Some l \<Rightarrow> Inr l)"

definition physical_category :: "listing_category \<Rightarrow> bool" where
  "physical_category c = (c \<in> {AGRICULTURAL, PRODUCT})"

definition order_open :: "order_status \<Rightarrow> bool" where
  "order_open s = (s \<notin> {CANCELLED, COMPLETED})"

section \<open>Agreement and order\<close>

definition moveOfferToProvisional ::
    "bool \<Rightarrow> time \<Rightarrow> offer \<Rightarrow> listing \<Rightarrow> number option \<Rightarrow> uid \<Rightarrow> db \<Rightarrow> (db \<times> offer) res" where
  "moveOfferToProvisional idx now f l finalUnitPrice actor d =
     (if \<not> physical_category (l_category l) then Inl (Offer_Err 400 BAD_OFFER)
      else if isOfferExpired now f then Inl (Offer_Err 409 OFFER_HAS_EXPIRED)
      else case finalUnitPrice of
        None \<Rightarrow> Inl (Offer_Err 400 BAD_PRICE)
      | Some unitPrice \<Rightarrow>
          if unitPrice \<le> 0 then Inl (Offer_Err 400 BAD_PRICE)
          else bindr (claim_offer idx now (of_id f) [Of_SELECTED, Of_COUNTERED] Of_PROVISIONAL
                       (Offer_Err 409 SUPERSEDED) d) (\<lambda>d1.
            case find_unique of_id (of_id f) (offers d1) of
              None \<Rightarrow> Inl (Offer_Err 500 OFFER_NOT_FOUND)
            | Some updated \<Rightarrow>
                Inr (recordAuditEvent now (Some actor) (Offer_Act OFFER_PROVISIONAL_AGREED)
                       (of_id updated) None d1, updated)))"

text \<open>The checks of \<open>acceptOfferAndCreateOrder\<close> before its first write, in order.\<close>

definition check_acceptance ::
    "time \<Rightarrow> offer \<Rightarrow> listing \<Rightarrow> number option \<Rightarrow> uid \<Rightarrow> db \<Rightarrow> (number \<times> number) res" where
  "check_acceptance now f l finalUnitPrice sellerId d =
     bindr (guardr (physical_category (l_category l)) (Offer_Err 400 BAD_OFFER)) (\<lambda>_.
     bindr (guardr (\<not> isOfferExpired now f) (Offer_Err 409 OFFER_HAS_EXPIRED)) (\<lambda>_.
     bindr (case of_quantity f of
              None \<Rightarrow> Inl (Offer_Err 400 BAD_OFFER)
            | Some q \<Rightarrow> if q \<le> 0 then Inl (Offer_Err 400 BAD_OFFER) else Inr q) (\<lambda>requestedQuantity.
     bindr (case finalUnitPrice of
              None \<Rightarrow> Inl (Offer_Err 400 BAD_PRICE)
            | Some p \<Rightarrow> if p \<le> 0 then Inl (Offer_Err 400 BAD_PRICE) else Inr p) (\<lambda>unitPrice.
     case find_unique l_id (of_listingId f) (listings d) of
       None \<Rightarrow> Inl (Offer_Err 404 OFFER_NOT_FOUND)
     | Some locked \<Rightarrow>
         bindr (guardr (physical_category (l_category locked)) (Offer_Err 400 BAD_OFFER)) (\<lambda>_.
         bindr (guardr (l_sellerId locked = sellerId) (Offer_Err 409 MOVED_ON)) (\<lambda>_.
         bindr (guardr (\<not> l_available locked < requestedQuantity)
                  (Stock_Err 409 INSUFFICIENT_INVENTORY)) (\<lambda>_.
         bindr (guardr (case l_minPrice locked of None \<Rightarrow> True | Some m \<Rightarrow> \<not> unitPrice < m)
                  (Offer_Err 409 BELOW_MINIMUM)) (\<lambda>_.
         Inr (requestedQuantity, unitPrice)))))))))"

definition new_order ::
    "env \<Rightarrow> time \<Rightarrow> uid \<Rightarrow> offer \<Rightarrow> listing \<Rightarrow> uid \<Rightarrow> number \<Rightarrow> number \<Rightarrow> order" where
  "new_order e now i f l sellerId requestedQuantity unitPrice =
     (let totalPrice = round2 (unitPrice * requestedQuantity);
          inspectionRequired = (l_category l = AGRICULTURAL \<or> l_inspectionRequired l)
      in \<lparr>o_id = i, o_listingId = of_listingId f, o_buyerId = of_buyerId f, o_sellerId = sellerId,
          o_finalPrice = totalPrice, o_originalFinalPrice = Some totalPrice,
          o_quantity = requestedQuantity, o_status = PENDING_PAYMENT,
          o_agreedOfferId = Some (of_id f), o_agreedAt = Some now, o_buyerDecision = None,
          o_buyerDecisionDueAt = None,
          o_paymentDueAt = (if inspectionRequired then None else Some (computePaymentDueAt e now)),
          o_updatedAt = now\<rparr>)"

definition acceptOfferAndCreateOrder ::
    "bool \<Rightarrow> env \<Rightarrow> time \<Rightarrow> offer \<Rightarrow> listing \<Rightarrow> number option \<Rightarrow> uid \<Rightarrow> uid \<Rightarrow> db \<Rightarrow>
     (db \<times> offer \<times> order) res" where
  "acceptOfferAndCreateOrder idx e now f l finalUnitPrice sellerId actor d =
     bindr (check_acceptance now f l finalUnitPrice sellerId d) (\<lambda>(requestedQuantity, unitPrice).
     bindr (claim_offer idx now (of_id f) [Of_PENDING, Of_SELECTED, Of_COUNTERED, Of_PROVISIONAL]
              Of_ACCEPTED (Offer_Err 409 SUPERSEDED) d) (\<lambda>d1.
       case find_unique of_id (of_id f) (offers d1) of
         None \<Rightarrow> Inl (Offer_Err 500 OFFER_NOT_FOUND)
       | Some updated \<Rightarrow>
           (case find_first (\<lambda>o1. o_listingId o1 = of_listingId f \<and> order_open (o_status o1)) (orders d1) of
              Some _ \<Rightarrow> Inl (Offer_Err 409 ORDER_IN_PROGRESS)
            | None \<Rightarrow>
                let ord = new_order e now (next_id d1) f l sellerId requestedQuantity unitPrice;
                    d2 = d1\<lparr>orders := insert_row ord (orders d1), next_id := Suc (next_id d1)\<rparr>;
                    d3 = recordOrderEvent now (o_id ord) ORDER_CREATED d2;
                    d4 = recordAuditEvent now (Some actor) (Offer_Act OFFER_ACCEPTED) (of_id updated) None d3;
                    d5 = recordAuditEvent now (Some actor) (Offer_Act ORDER_CREATED_FROM_OFFER) (o_id ord) None d4
                in Inr (d5, updated, ord))))"

section \<open>Facts\<close>

lemma set_offer_status_sel [simp]:
  "of_id (set_offer_status now s f) = of_id f"
  "of_listingId (set_offer_status now s f) = of_listingId f"
  "of_buyerId (set_offer_status now s f) = of_buyerId f"
  "of_sellerId (set_offer_status now s f) = of_sellerId f"
  "of_amount (set_offer_status now s f) = of_amount f"
  "of_quantity (set_offer_status now s f) = of_quantity f"
  "of_parent (set_offer_status now s f) = of_parent f"
  "of_expiresAt (set_offer_status now s f) = of_expiresAt f"
  "of_status (set_offer_status now s f) = s"
  "of_counterAmount (set_offer_status now s f) = of_counterAmount f"
  "of_counteredBy (set_offer_status now s f) = of_counteredBy f"
  "of_createdAt (set_offer_status now s f) = of_createdAt f"
  "of_updatedAt (set_offer_status now s f) = now"
  by (simp_all add: set_offer_status_def)

lemma leaf_iff: "leaf offs f \<longleftrightarrow> (\<forall>c \<in> set offs. of_parent c \<noteq> Some (of_id f))"
  by (auto simp: leaf_def list_ex_iff)

lemma findLeafOffer_Some:
  "findLeafOffer i d = Some f \<Longrightarrow> f \<in> set (offers d) \<and> of_id f = i \<and> leaf (offers d) f"
  by (auto simp: findLeafOffer_def dest: find_first_Some)

lemma put_offers_Inr [simp]:
  "put_offers idx offs d = Inr d' \<longleftrightarrow> (idx \<longrightarrow> active_unique offs) \<and> d' = d\<lparr>offers := offs\<rparr>"
  by (auto simp: put_offers_def)

lemma claim_offer_Inr:
  "claim_offer idx now i from to e d = Inr d' \<longleftrightarrow>
     count_where (\<lambda>f. of_id f = i \<and> of_status f \<in> set from) (offers d) = 1 \<and>
     (idx \<longrightarrow> active_unique (offers d')) \<and>
     d' = d\<lparr>offers := update_rows (\<lambda>f. of_id f = i \<and> of_status f \<in> set from)
             (set_offer_status now to) (offers d)\<rparr>"
  by (auto simp: claim_offer_def bindr_eq_Inr update_many_def split: if_splits)

lemma offer_claim: "to \<notin> set from \<Longrightarrow>
    row_claim of_id (\<lambda>f. of_status f \<in> set from) (set_offer_status now to)"
  by unfold_locales simp_all

lemma claim_offer_effect:
  assumes "claim_offer idx now i from to e d = Inr d'" and "to \<notin> set from"
    and "distinct (map of_id (offers d))"
  obtains f where "find_unique of_id i (offers d) = Some f" and "of_status f \<in> set from"
    and "find_unique of_id i (offers d') = Some (set_offer_status now to f)"
proof -
  from assms(1) have c: "count_where (\<lambda>f. of_id f = i \<and> of_status f \<in> set from) (offers d) = 1"
    and d': "offers d' = update_rows (\<lambda>f. of_id f = i \<and> of_status f \<in> set from)
             (set_offer_status now to) (offers d)"
    by (simp_all add: claim_offer_Inr)
  show thesis
    by (rule row_claim.claim_row [OF offer_claim [OF assms(2), of now] assms(3) c])
       (rule that, simp_all add: d')
qed

text \<open>The three checks an acceptance passed, and what it took from the offer and the listing.\<close>

lemma check_acceptance_Inr:
  "check_acceptance now f l fp sellerId d = Inr (q, p) \<longleftrightarrow>
     physical_category (l_category l) \<and> \<not> isOfferExpired now f \<and> of_quantity f = Some q \<and> 0 < q \<and>
     fp = Some p \<and> 0 < p \<and>
     (\<exists>locked. find_unique l_id (of_listingId f) (listings d) = Some locked \<and>
        physical_category (l_category locked) \<and> l_sellerId locked = sellerId \<and>
        q \<le> l_available locked \<and> (\<forall>m. l_minPrice locked = Some m \<longrightarrow> m \<le> p))"
  by (auto simp: check_acceptance_def bindr_eq_Inr split: option.splits if_splits)

lemma new_order_sel [simp]:
  "o_id (new_order e now i f l s q p) = i"
  "o_listingId (new_order e now i f l s q p) = of_listingId f"
  "o_buyerId (new_order e now i f l s q p) = of_buyerId f"
  "o_sellerId (new_order e now i f l s q p) = s"
  "o_finalPrice (new_order e now i f l s q p) = round2 (p * q)"
  "o_quantity (new_order e now i f l s q p) = q"
  "o_status (new_order e now i f l s q p) = PENDING_PAYMENT"
  "o_agreedOfferId (new_order e now i f l s q p) = Some (of_id f)"
  by (simp_all add: new_order_def Let_def)

lemma acceptOfferAndCreateOrder_Inr:
  assumes "acceptOfferAndCreateOrder idx e now f l fp sellerId actor d = Inr (d', g, ord)"
  obtains q p d1 where "check_acceptance now f l fp sellerId d = Inr (q, p)"
    and "claim_offer idx now (of_id f) [Of_PENDING, Of_SELECTED, Of_COUNTERED, Of_PROVISIONAL]
           Of_ACCEPTED (Offer_Err 409 SUPERSEDED) d = Inr d1"
    and "find_unique of_id (of_id f) (offers d1) = Some g"
    and "\<forall>o1 \<in> set (orders d). o_listingId o1 = of_listingId f \<longrightarrow> \<not> order_open (o_status o1)"
    and "ord = new_order e now (next_id d) f l sellerId q p"
    and "offers d' = offers d1" and "orders d' = insert_row ord (orders d)"
    and "next_id d' = Suc (next_id d)" and "listings d' = listings d"
  using assms
  by (auto simp: acceptOfferAndCreateOrder_def bindr_eq_Inr Let_def find_first_None claim_offer_Inr
      split: option.splits prod.splits intro!: that)

text \<open>
  The acceptance is a claim: of two acceptances of one offer only the first finds the row.
\<close>

interpretation acceptance: row_claim of_id
  "\<lambda>f. of_status f \<in> set [Of_PENDING, Of_SELECTED, Of_COUNTERED, Of_PROVISIONAL]"
  "set_offer_status now Of_ACCEPTED" for now
  by (rule offer_claim) simp

lemma accept_claim_once:
  assumes "claim_offer idx now i [Of_PENDING, Of_SELECTED, Of_COUNTERED, Of_PROVISIONAL] Of_ACCEPTED e d = Inr d'"
  shows "isl (claim_offer idx2 now2 i [Of_PENDING, Of_SELECTED, Of_COUNTERED, Of_PROVISIONAL] Of_ACCEPTED e2 d')"
proof -
  let ?c = "claim_offer idx2 now2 i [Of_PENDING, Of_SELECTED, Of_COUNTERED, Of_PROVISIONAL] Of_ACCEPTED e2 d'"
  have "?c \<noteq> Inr d2" for d2
    using assms acceptance.second_claim_loses [of i now "offers d"] by (auto simp: claim_offer_Inr)
  then show ?thesis by (cases ?c) auto
qed

end
