(* ===== verification/Offer_Actions.thy ===== *)
theory Offer_Actions
  imports Offers
begin

text \<open>
  \<open>backend/src/routes/offerHandlers\<close>: creating an offer, the actions of
  \<open>PATCH /offers/:id\<close> and their dispatcher, reopening the bidding of a listing, the
  release of the waiting bids after a payment (\<open>waitingListService.js\<close>) and the offer
  reset of an approved recovery request (\<open>recoveryRequests.js\<close>).

  A handler of the dispatcher gets the offer as it was loaded before its transaction
  (\<open>f\<close>) and re-reads it inside; the model passes any snapshot. A handler returns the
  database and either the error it responds with or the offer. Notices to waiting buyers
  write to tables of their own and are not modelled. All readings of the clock in one
  call are the one time \<open>now\<close>.
\<close>

section \<open>Creating an offer\<close>

text \<open>
  \<open>amount\<close> and \<open>quantity\<close> are the fields of the request; a \<open>Decimal(18, 2)\<close> column
  rounds what is stored.
\<close>

definition new_offer ::
    "time \<Rightarrow> uid \<Rightarrow> listing \<Rightarrow> uid \<Rightarrow> number \<Rightarrow> number \<Rightarrow> offer" where
  "new_offer now i l buyer amount quantity =
     \<lparr>of_id = i, of_listingId = l_id l, of_buyerId = buyer, of_sellerId = l_sellerId l,
      of_amount = round2 amount, of_quantity = Some quantity, of_parent = None,
      of_expiresAt = offerExpiry l, of_status = Of_PENDING, of_counterAmount = None,
      of_counteredBy = None, of_createdAt = now, of_updatedAt = now\<rparr>"

definition number_or :: "number \<Rightarrow> field \<Rightarrow> number" where
  "number_or n v = (case v of Some (Some x) \<Rightarrow> x | _ \<Rightarrow> n)"

definition past :: "time \<Rightarrow> time option \<Rightarrow> bool" where
  "past now t = (case t of None \<Rightarrow> False | Some x \<Rightarrow> x \<le> now)"

definition live_or_accepted :: "offer_status \<Rightarrow> bool" where
  "live_or_accepted s = (s \<in> {Of_PENDING, Of_SELECTED, Of_COUNTERED, Of_PROVISIONAL, Of_ACCEPTED})"

definition createOffer_tx ::
    "bool \<Rightarrow> time \<Rightarrow> user \<Rightarrow> uid \<Rightarrow> field \<Rightarrow> field \<Rightarrow> db \<Rightarrow> (db \<times> offer) res" where
  "createOffer_tx idx now u listingId amount quantity d =
     (bindr (guardr (amountProblem amount AMOUNT_LIMIT_offer = None) (Offer_Err 400 BAD_OFFER)) (\<lambda>_.
     bindr (guardr (quantity = None \<or> isPositiveNumber quantity) (Offer_Err 400 BAD_OFFER)) (\<lambda>_.
     case find_unique l_id listingId (listings d) of
       None \<Rightarrow> Inl (Offer_Err 404 OFFER_NOT_FOUND)
     | Some l \<Rightarrow>
         bindr (guardr (physical_category (l_category l)) (Offer_Err 400 BAD_OFFER)) (\<lambda>_.
         let avail = l_available l;
             offerQuantity = number_or avail quantity;
             expires = offerExpiry l
         in
         bindr (guardr (0 < avail) (Stock_Err 409 INSUFFICIENT_INVENTORY)) (\<lambda>_.
         bindr (guardr (\<not> offerQuantity > avail + 1 / 10 ^ 9) (Stock_Err 409 INSUFFICIENT_INVENTORY)) (\<lambda>_.
         bindr (guardr (l_status l \<in> {L_ACTIVE, L_UNDER_NEGOTIATION}) (Offer_Err 400 WRONG_STATUS)) (\<lambda>_.
         bindr (guardr (l_sellerId l \<noteq> u_id u) (Offer_Err 403 NOT_ALLOWED)) (\<lambda>_.
         bindr (guardr (\<not> validateNegotiationWindow now l) (Offer_Err 409 WINDOW_CLOSED)) (\<lambda>_.
         bindr (guardr (\<not> past now expires)
                  (Offer_Err 409 WINDOW_CLOSED)) (\<lambda>_.
         case find_first (\<lambda>f. of_listingId f = listingId \<and> of_buyerId f = u_id u \<and>
                live_or_accepted (of_status f) \<and> leaf (offers d) f) (offers d) of
           Some _ \<Rightarrow> Inl (Offer_Err 409 NEGOTIATION_BUSY)
         | None \<Rightarrow>
             let amt = number_or 0 amount;
                 f = new_offer now (next_id d) l (u_id u) amt offerQuantity
             in bindr (put_offers idx (insert_row f (offers d)) d) (\<lambda>d1.
                  Inr (recordAuditEvent now (Some (u_id u)) (Offer_Act OFFER_CREATED) (of_id f) None
                         (d1\<lparr>next_id := Suc (next_id d1)\<rparr>), f))))))))))))"

definition createOffer ::
    "bool \<Rightarrow> time \<Rightarrow> user \<Rightarrow> uid \<Rightarrow> field \<Rightarrow> field \<Rightarrow> db \<Rightarrow> db \<times> offer res" where
  "createOffer idx now u listingId amount quantity d =
     transact (createOffer_tx idx now u listingId amount quantity) d"

section \<open>The actions\<close>

text \<open>The participants as the dispatcher determines them.\<close>

definition is_seller :: "user \<Rightarrow> uid \<Rightarrow> bool" where
  "is_seller u sellerId = (sellerId = u_id u)"

definition is_buyer :: "user \<Rightarrow> offer \<Rightarrow> bool" where
  "is_buyer u f = (of_buyerId f = u_id u)"

definition read_leaf :: "uid \<Rightarrow> err \<Rightarrow> db \<Rightarrow> (offer \<times> listing) res" where
  "read_leaf i e d =
     (case findLeafOffer i d of
        None \<Rightarrow> Inl e
      | Some fresh \<Rightarrow> bindr (offer_listing fresh d) (\<lambda>l. Inr (fresh, l)))"

text \<open>\<open>if (await expireOfferIfNeeded(...)) throw\<close>: the throw rolls the expiry back.\<close>

definition refuse_expired :: "time \<Rightarrow> offer \<Rightarrow> uid \<Rightarrow> db \<Rightarrow> unit res" where
  "refuse_expired now f actor d =
     guardr (\<not> snd (expireOfferIfNeeded now f (Some actor) d)) (Offer_Err 409 OFFER_HAS_EXPIRED)"

definition negotiating :: "offer_status \<Rightarrow> bool" where
  "negotiating s = (s \<in> {Of_SELECTED, Of_COUNTERED, Of_PROVISIONAL})"

text \<open>The bid in negotiation on the listing, if any, must be of the same buyer.\<close>

definition check_exclusive :: "offer \<Rightarrow> db \<Rightarrow> unit res" where
  "check_exclusive fresh d =
     (case find_first (\<lambda>g. of_listingId g = of_listingId fresh \<and> negotiating (of_status g) \<and>
             leaf (offers d) g) (offers d) of
        None \<Rightarrow> Inr ()
      | Some g \<Rightarrow>
          if of_buyerId g \<noteq> of_buyerId fresh then Inl (Offer_Err 409 NEGOTIATION_BUSY) else Inr ())"

definition selectOffer_tx ::
    "bool \<Rightarrow> time \<Rightarrow> user \<Rightarrow> offer \<Rightarrow> uid \<Rightarrow> db \<Rightarrow> (db \<times> offer) res" where
  "selectOffer_tx idx now u f sellerId d =
     (case find_unique l_id (of_listingId f) (listings d) of
       None \<Rightarrow> Inl (Offer_Err 404 OFFER_NOT_FOUND)
     | Some locked \<Rightarrow>
         bindr (guardr (l_sellerId locked = sellerId) (Offer_Err 409 MOVED_ON)) (\<lambda>_.
         bindr (read_leaf (of_id f) (Offer_Err 404 OFFER_NOT_FOUND) d) (\<lambda>(fresh, l).
         bindr (refuse_expired now fresh (u_id u) d) (\<lambda>_.
         bindr (guardr (of_status fresh = Of_PENDING) (Offer_Err 409 WRONG_STATUS)) (\<lambda>_.
         bindr (guardr (\<not> validateNegotiationWindow now l) (Offer_Err 409 WINDOW_CLOSED)) (\<lambda>_.
         bindr (check_exclusive fresh d) (\<lambda>_.
         bindr (guardr (find_first (\<lambda>o1. o_listingId o1 = of_listingId fresh \<and>
                           order_open (o_status o1)) (orders d) = None)
                  (Offer_Err 409 ORDER_IN_PROGRESS)) (\<lambda>_.
         bindr (claim_offer idx now (of_id fresh) [Of_PENDING] Of_SELECTED
                  (Offer_Err 409 MOVED_ON) d) (\<lambda>d1.
         case find_unique of_id (of_id fresh) (offers d1) of
           None \<Rightarrow> Inl (Offer_Err 500 OFFER_NOT_FOUND)
         | Some selected \<Rightarrow>
             Inr (recordAuditEvent now (Some (u_id u)) (Offer_Act OFFER_SELECTED) (of_id fresh) None d1,
                  selected))))))))))"

definition selectOffer ::
    "bool \<Rightarrow> time \<Rightarrow> user \<Rightarrow> offer \<Rightarrow> uid \<Rightarrow> db \<Rightarrow> db \<times> offer res" where
  "selectOffer idx now u f sellerId d =
     (if \<not> is_seller u sellerId \<and> \<not> isAdmin u then (d, Inl (Offer_Err 403 NOT_ALLOWED))
      else if of_status f \<noteq> Of_PENDING then (d, Inl (Offer_Err 409 WRONG_STATUS))
      else transact (selectOffer_tx idx now u f sellerId) d)"

definition acceptSelected_tx ::
    "bool \<Rightarrow> time \<Rightarrow> user \<Rightarrow> offer \<Rightarrow> db \<Rightarrow> (db \<times> offer) res" where
  "acceptSelected_tx idx now u f d =
     (bindr (read_leaf (of_id f) (Offer_Err 409 MOVED_ON) d) (\<lambda>(fresh, l).
     bindr (refuse_expired now fresh (u_id u) d) (\<lambda>_.
     bindr (guardr (of_status fresh = Of_SELECTED) (Offer_Err 409 MOVED_ON)) (\<lambda>_.
     moveOfferToProvisional idx now fresh l (Some (of_amount fresh)) (u_id u) d))))"

definition acceptSelected ::
    "bool \<Rightarrow> time \<Rightarrow> user \<Rightarrow> offer \<Rightarrow> db \<Rightarrow> db \<times> offer res" where
  "acceptSelected idx now u f d =
     (if \<not> is_buyer u f \<and> \<not> isAdmin u then (d, Inl (Offer_Err 403 NOT_ALLOWED))
      else if of_status f \<noteq> Of_SELECTED then (d, Inl (Offer_Err 400 WRONG_STATUS))
      else transact (acceptSelected_tx idx now u f) d)"

definition acceptCounter_tx ::
    "bool \<Rightarrow> time \<Rightarrow> user \<Rightarrow> offer \<Rightarrow> db \<Rightarrow> (db \<times> offer) res" where
  "acceptCounter_tx idx now u f d =
     (bindr (read_leaf (of_id f) (Offer_Err 409 MOVED_ON) d) (\<lambda>(fresh, l).
     bindr (refuse_expired now fresh (u_id u) d) (\<lambda>_.
     bindr (guardr (of_status fresh \<in> {Of_SELECTED, Of_COUNTERED}) (Offer_Err 409 WRONG_STATUS)) (\<lambda>_.
     bindr (guardr (\<not> (of_status fresh = Of_COUNTERED \<and> of_counteredBy fresh \<noteq> Some By_SELLER))
              (Offer_Err 409 NOT_YOUR_TURN)) (\<lambda>_.
     bindr (guardr (isPositiveNumber (map_option Some (of_counterAmount fresh)))
              (Offer_Err 400 BAD_PRICE)) (\<lambda>_.
     moveOfferToProvisional idx now fresh l (of_counterAmount fresh) (u_id u) d))))))"

definition acceptCounter ::
    "bool \<Rightarrow> time \<Rightarrow> user \<Rightarrow> offer \<Rightarrow> db \<Rightarrow> db \<times> offer res" where
  "acceptCounter idx now u f d =
     (if \<not> is_buyer u f \<and> \<not> isAdmin u then (d, Inl (Offer_Err 403 NOT_ALLOWED))
      else if of_status f \<noteq> Of_COUNTERED then (d, Inl (Offer_Err 400 WRONG_STATUS))
      else if of_counteredBy f \<noteq> Some By_SELLER then (d, Inl (Offer_Err 409 NOT_YOUR_TURN))
      else if \<not> isPositiveNumber (map_option Some (of_counterAmount f))
        then (d, Inl (Offer_Err 400 BAD_PRICE))
      else transact (acceptCounter_tx idx now u f) d)"

definition accept_price :: "offer \<Rightarrow> number" where
  "accept_price fresh =
     (if of_status fresh = Of_COUNTERED
      then (case of_counterAmount fresh of None \<Rightarrow> 0 | Some c \<Rightarrow> c)
      else of_amount fresh)"

definition acceptOffer_tx ::
    "bool \<Rightarrow> time \<Rightarrow> user \<Rightarrow> offer \<Rightarrow> db \<Rightarrow> (db \<times> offer) res" where
  "acceptOffer_tx idx now u f d =
     (bindr (read_leaf (of_id f) (Offer_Err 409 MOVED_ON) d) (\<lambda>(fresh, l).
     bindr (refuse_expired now fresh (u_id u) d) (\<lambda>_.
     bindr (guardr (of_status fresh \<in> {Of_SELECTED, Of_COUNTERED}) (Offer_Err 409 WRONG_STATUS)) (\<lambda>_.
     bindr (guardr (\<not> (of_status fresh = Of_COUNTERED \<and> of_counteredBy fresh \<noteq> Some By_BUYER))
              (Offer_Err 409 NOT_YOUR_TURN)) (\<lambda>_.
     bindr (guardr (0 < accept_price fresh) (Offer_Err 400 BAD_PRICE)) (\<lambda>_.
     moveOfferToProvisional idx now fresh l (Some (accept_price fresh)) (u_id u) d))))))"

definition acceptOffer ::
    "bool \<Rightarrow> time \<Rightarrow> user \<Rightarrow> offer \<Rightarrow> uid \<Rightarrow> db \<Rightarrow> db \<times> offer res" where
  "acceptOffer idx now u f sellerId d =
     (if \<not> is_seller u sellerId \<and> \<not> isAdmin u then (d, Inl (Offer_Err 403 NOT_ALLOWED))
      else if of_status f \<notin> {Of_SELECTED, Of_COUNTERED} then (d, Inl (Offer_Err 400 WRONG_STATUS))
      else if of_status f = Of_COUNTERED \<and> of_counteredBy f \<noteq> Some By_BUYER
        then (d, Inl (Offer_Err 409 NOT_YOUR_TURN))
      else transact (acceptOffer_tx idx now u f) d)"

text \<open>
  A counter by \<open>party\<close> answering the other side: the parent row becomes \<open>COUNTERED\<close> and a
  child row carries the new price. \<open>counterOffer\<close> and \<open>reCounter\<close> share this body.
\<close>

definition counter_child ::
    "time \<Rightarrow> uid \<Rightarrow> offer \<Rightarrow> listing \<Rightarrow> number \<Rightarrow> offer_party \<Rightarrow> offer" where
  "counter_child now i fresh l numericCounter party =
     \<lparr>of_id = i, of_listingId = of_listingId fresh, of_buyerId = of_buyerId fresh,
      of_sellerId = of_sellerId fresh, of_amount = round2 numericCounter,
      of_quantity = of_quantity fresh, of_parent = Some (of_id fresh),
      of_expiresAt = offerExpiry l, of_status = Of_COUNTERED,
      of_counterAmount = Some (round2 numericCounter), of_counteredBy = Some party,
      of_createdAt = now, of_updatedAt = now\<rparr>"

definition counter_body ::
    "bool \<Rightarrow> time \<Rightarrow> user \<Rightarrow> uid \<Rightarrow> number \<Rightarrow> offer_party \<Rightarrow> offer_party \<Rightarrow> db \<Rightarrow>
     (db \<times> offer) res" where
  "counter_body idx now u i numericCounter party other d =
     bindr (read_leaf i (Offer_Err 409 MOVED_ON) d) (\<lambda>(fresh, l).
     bindr (refuse_expired now fresh (u_id u) d) (\<lambda>_.
     bindr (guardr (of_status fresh \<in> {Of_SELECTED, Of_COUNTERED}) (Offer_Err 409 WRONG_STATUS)) (\<lambda>_.
     bindr (guardr (\<not> (of_status fresh = Of_COUNTERED \<and> of_counteredBy fresh \<noteq> Some other))
              (Offer_Err 409 NOT_YOUR_TURN)) (\<lambda>_.
     bindr (guardr (\<not> validateNegotiationWindow now l) (Offer_Err 409 WINDOW_CLOSED)) (\<lambda>_.
     bindr (guardr (\<not> past now (offerExpiry l))
              (Offer_Err 409 WINDOW_CLOSED)) (\<lambda>_.
     bindr (put_offers idx (update_offer now (of_id fresh) Of_COUNTERED (offers d)) d) (\<lambda>d1.
     let child = counter_child now (next_id d1) fresh l numericCounter party
     in bindr (put_offers idx (insert_row child (offers d1)) d1) (\<lambda>d2.
     Inr (recordAuditEvent now (Some (u_id u)) (Offer_Act OFFER_COUNTERED) (of_id child) None
            (d2\<lparr>next_id := Suc (next_id d2)\<rparr>), child)))))))))"

definition counterOffer ::
    "bool \<Rightarrow> time \<Rightarrow> user \<Rightarrow> offer \<Rightarrow> uid \<Rightarrow> field \<Rightarrow> db \<Rightarrow> db \<times> offer res" where
  "counterOffer idx now u f sellerId counterAmount d =
     (if \<not> is_seller u sellerId \<and> \<not> isAdmin u then (d, Inl (Offer_Err 403 NOT_ALLOWED))
      else if amountProblem counterAmount AMOUNT_LIMIT_offer \<noteq> None
        then (d, Inl (Offer_Err 400 BAD_OFFER))
      else if of_status f \<notin> {Of_SELECTED, Of_COUNTERED} then (d, Inl (Offer_Err 400 WRONG_STATUS))
      else if of_status f = Of_COUNTERED \<and> of_counteredBy f \<noteq> Some By_BUYER
        then (d, Inl (Offer_Err 409 NOT_YOUR_TURN))
      else let numericCounter = number_or 0 counterAmount
           in transact (counter_body idx now u (of_id f) numericCounter By_SELLER By_BUYER) d)"

definition reCounter ::
    "bool \<Rightarrow> time \<Rightarrow> user \<Rightarrow> offer \<Rightarrow> field \<Rightarrow> db \<Rightarrow> db \<times> offer res" where
  "reCounter idx now u f counterAmount d =
     (if \<not> is_buyer u f \<and> \<not> isAdmin u then (d, Inl (Offer_Err 403 NOT_ALLOWED))
      else if of_status f \<notin> {Of_SELECTED, Of_COUNTERED} then (d, Inl (Offer_Err 400 WRONG_STATUS))
      else if of_status f = Of_COUNTERED \<and> of_counteredBy f \<noteq> Some By_SELLER
        then (d, Inl (Offer_Err 409 NOT_YOUR_TURN))
      else if amountProblem counterAmount AMOUNT_LIMIT_offer \<noteq> None
        then (d, Inl (Offer_Err 400 BAD_OFFER))
      else let numericCounter = number_or 0 counterAmount
           in transact (counter_body idx now u (of_id f) numericCounter By_BUYER By_SELLER) d)"

text \<open>
  Closing a leaf and, when no live leaf is left, showing the listing as \<open>ACTIVE\<close> again:
  shared by the release, rejection and withdrawal handlers.
\<close>

definition live :: "offer_status \<Rightarrow> bool" where
  "live s = (s \<in> {Of_PENDING, Of_SELECTED, Of_COUNTERED, Of_PROVISIONAL})"

definition close_leaf :: "time \<Rightarrow> offer \<Rightarrow> offer_status \<Rightarrow> db \<Rightarrow> db" where
  "close_leaf now fresh s d =
     (let d1 = d\<lparr>offers := update_offer now (of_id fresh) s (offers d)\<rparr>;
          remaining = count_where (\<lambda>g. of_listingId g = of_listingId fresh \<and> live (of_status g) \<and>
                        leaf (offers d1) g) (offers d1)
      in if remaining = 0
         then d1\<lparr>listings := update_rows (\<lambda>l. l_id l = of_listingId fresh)
                (\<lambda>l. l\<lparr>l_status := L_ACTIVE\<rparr>) (listings d1)\<rparr>
         else d1)"

definition releaseBuyer_tx ::
    "env \<Rightarrow> time \<Rightarrow> user \<Rightarrow> offer \<Rightarrow> db \<Rightarrow> (db \<times> offer) res" where
  "releaseBuyer_tx e now u f d =
     (case findLeafOffer (of_id f) d of
       None \<Rightarrow> Inl (Offer_Err 409 MOVED_ON)
     | Some fresh \<Rightarrow>
         bindr (guardr (case releaseAvailableAt e fresh of
                          None \<Rightarrow> False
                        | Some t \<Rightarrow> \<not> (\<not> isAdmin u \<and> t > now))
                  (Offer_Err 409 MOVED_ON)) (\<lambda>_.
         bindr (guardr (\<not> count_where (\<lambda>g. of_parent g = Some (of_id fresh)) (offers d) > 0)
                  (Offer_Err 409 SUPERSEDED)) (\<lambda>_.
         let d1 = close_leaf now fresh Of_WITHDRAWN d;
             d2 = recordAuditEvent now (Some (u_id u)) (Offer_Act OFFER_RELEASED) (of_id fresh) None d1
         in Inr (d2, set_offer_status now Of_WITHDRAWN fresh))))"

definition releaseBuyer ::
    "env \<Rightarrow> time \<Rightarrow> user \<Rightarrow> offer \<Rightarrow> uid \<Rightarrow> db \<Rightarrow> db \<times> offer res" where
  "releaseBuyer e now u f sellerId d =
     (if \<not> is_seller u sellerId \<and> \<not> isAdmin u then (d, Inl (Offer_Err 403 NOT_ALLOWED))
      else case releaseAvailableAt e f of
        None \<Rightarrow> (d, Inl (Offer_Err 409 NOT_YOUR_TURN))
      | Some availableAt \<Rightarrow>
          if \<not> isAdmin u \<and> availableAt > now then (d, Inl (Offer_Err 409 NOT_ELAPSED))
          else transact (releaseBuyer_tx e now u f) d)"

text \<open>\<open>Number(null)\<close> is 0, which the order creation then refuses.\<close>

definition confirm_price :: "offer \<Rightarrow> number" where
  "confirm_price fresh =
     (case of_counteredBy fresh of
        Some _ \<Rightarrow> (case of_counterAmount fresh of None \<Rightarrow> 0 | Some c \<Rightarrow> c)
      | None \<Rightarrow> of_amount fresh)"

definition confirmProvisional_tx ::
    "bool \<Rightarrow> env \<Rightarrow> time \<Rightarrow> user \<Rightarrow> offer \<Rightarrow> db \<Rightarrow> (db \<times> (offer \<times> order)) res" where
  "confirmProvisional_tx idx e now u f d =
     (bindr (read_leaf (of_id f) (Offer_Err 409 MOVED_ON) d) (\<lambda>(fresh, l).
     bindr (refuse_expired now fresh (u_id u) d) (\<lambda>_.
     bindr (guardr (of_status fresh = Of_PROVISIONAL) (Offer_Err 409 MOVED_ON)) (\<lambda>_.
     acceptOfferAndCreateOrder idx e now fresh l (Some (confirm_price fresh)) (l_sellerId l) (u_id u) d))))"

definition confirmProvisional ::
    "bool \<Rightarrow> env \<Rightarrow> time \<Rightarrow> user \<Rightarrow> offer \<Rightarrow> uid \<Rightarrow> db \<Rightarrow> db \<times> (offer \<times> order) res" where
  "confirmProvisional idx e now u f sellerId d =
     (if \<not> is_buyer u f \<and> \<not> is_seller u sellerId \<and> \<not> isAdmin u
        then (d, Inl (Offer_Err 403 NOT_ALLOWED))
      else if of_status f \<noteq> Of_PROVISIONAL then (d, Inl (Offer_Err 400 WRONG_STATUS))
      else transact (confirmProvisional_tx idx e now u f) d)"

definition releaseProvisional_body ::
    "env \<Rightarrow> time \<Rightarrow> user \<Rightarrow> offer \<Rightarrow> uid \<Rightarrow> db \<Rightarrow> (db \<times> offer option) res" where
  "releaseProvisional_body e now u f sellerId d =
     (case find_unique l_id (of_listingId f) (listings d) of
        None \<Rightarrow> Inl (Offer_Err 404 OFFER_NOT_FOUND)
      | Some _ \<Rightarrow>
          let (used, allowed) = releaseAllowance e (Offer_Act OFFER_PROVISIONAL_RELEASED) (of_listingId f) d
          in if is_seller u sellerId \<and> \<not> isAdmin u \<and> of_nat used \<ge> allowed
             then Inr (recordAuditEvent now (Some (u_id u)) (Offer_Act OFFER_RELEASE_BLOCKED_ADMIN_REVIEW)
                         (of_id f) (Some (of_listingId f)) d, None)
             else case findLeafOffer (of_id f) d of
               None \<Rightarrow> Inl (Offer_Err 409 MOVED_ON)
             | Some fresh \<Rightarrow>
                 bindr (guardr (of_status fresh = Of_PROVISIONAL) (Offer_Err 409 MOVED_ON)) (\<lambda>_.
                 bindr (guardr (\<not> (\<not> isAdmin u \<and> provisionalReleaseAvailableAt e fresh > now))
                          (Offer_Err 409 NOT_ELAPSED)) (\<lambda>_.
                 let d1 = close_leaf now fresh Of_WITHDRAWN d;
                     d2 = recordAuditEvent now (Some (u_id u))
                            (Offer_Act (if is_buyer u f then OFFER_PROVISIONAL_RELEASED_BY_BUYER
                                        else OFFER_PROVISIONAL_RELEASED))
                            (of_id fresh) (Some (of_listingId fresh)) d1
                 in Inr (d2, Some (set_offer_status now Of_WITHDRAWN fresh)))))"

definition releaseProvisional ::
    "env \<Rightarrow> time \<Rightarrow> user \<Rightarrow> offer \<Rightarrow> uid \<Rightarrow> release_body \<Rightarrow> db \<Rightarrow> db \<times> offer res" where
  "releaseProvisional e now u f sellerId body d =
     (if \<not> is_buyer u f \<and> \<not> is_seller u sellerId \<and> \<not> isAdmin u
        then (d, Inl (Offer_Err 403 NOT_ALLOWED))
      else if of_status f \<noteq> Of_PROVISIONAL then (d, Inl (Offer_Err 400 WRONG_STATUS))
      else if \<not> isAdmin u \<and> provisionalReleaseAvailableAt e f > now
        then (d, Inl (Offer_Err 409 NOT_ELAPSED))
      else case parseReleaseReason (is_buyer u f) body of
        Inl err \<Rightarrow> (d, Inl err)
      | Inr _ \<Rightarrow>
          (case transact (releaseProvisional_body e now u f sellerId) d of
             (d', Inl err) \<Rightarrow> (d', Inl err)
           | (d', Inr None) \<Rightarrow> (d', Inl (Offer_Err 409 RELEASE_LIMIT_REACHED))
           | (d', Inr (Some released)) \<Rightarrow> (d', Inr released)))"

definition rejectOrWithdraw_tx ::
    "bool \<Rightarrow> time \<Rightarrow> user \<Rightarrow> offer \<Rightarrow> db \<Rightarrow> (db \<times> offer) res" where
  "rejectOrWithdraw_tx isWithdraw now u f d =
     (let allowedStatuses = (if isWithdraw then [Of_PENDING] else [Of_SELECTED, Of_COUNTERED]);
          terminalStatus = (if isWithdraw then Of_WITHDRAWN else Of_REJECTED)
      in
     bindr (read_leaf (of_id f) (Offer_Err 409 MOVED_ON) d) (\<lambda>(fresh, l).
     bindr (guardr (of_status fresh \<in> set allowedStatuses) (Offer_Err 409 WRONG_STATUS)) (\<lambda>_.
     bindr (guardr (\<not> count_where (\<lambda>g. of_parent g = Some (of_id fresh)) (offers d) > 0)
              (Offer_Err 409 SUPERSEDED)) (\<lambda>_.
     let d1 = close_leaf now fresh terminalStatus d;
         d2 = recordAuditEvent now (Some (u_id u))
                (Offer_Act (if isWithdraw then OFFER_WITHDRAWN else OFFER_REJECTED)) (of_id fresh) None d1
     in Inr (d2, set_offer_status now terminalStatus fresh)))))"

definition rejectOrWithdraw ::
    "bool \<Rightarrow> time \<Rightarrow> user \<Rightarrow> offer \<Rightarrow> uid \<Rightarrow> db \<Rightarrow> db \<times> offer res" where
  "rejectOrWithdraw isWithdraw now u f sellerId d =
     (let allowedStatuses = (if isWithdraw then [Of_PENDING] else [Of_SELECTED, Of_COUNTERED]);
          terminalStatus = (if isWithdraw then Of_WITHDRAWN else Of_REJECTED)
      in if is_seller u sellerId \<and> \<not> isAdmin u then (d, Inl (Offer_Err 403 NOT_ALLOWED))
         else if \<not> is_buyer u f \<and> \<not> isAdmin u then (d, Inl (Offer_Err 403 NOT_ALLOWED))
         else if of_status f \<notin> set allowedStatuses then (d, Inl (Offer_Err 400 WRONG_STATUS))
         else transact (rejectOrWithdraw_tx isWithdraw now u f) d)"

section \<open>The dispatcher\<close>

datatype respond_action =
  SELECT | ACCEPT_SELECTED | ACCEPT_COUNTER | ACCEPT | COUNTER field | RE_COUNTER field
| RELEASE | CONFIRM_PROVISIONAL | RELEASE_PROVISIONAL release_body | REJECT | WITHDRAW

definition run_action ::
    "bool \<Rightarrow> env \<Rightarrow> time \<Rightarrow> user \<Rightarrow> respond_action \<Rightarrow> offer \<Rightarrow> uid \<Rightarrow> db \<Rightarrow> db \<times> offer res" where
  "run_action idx e now u act f sellerId d =
     (case act of
        SELECT \<Rightarrow> selectOffer idx now u f sellerId d
      | ACCEPT_SELECTED \<Rightarrow> acceptSelected idx now u f d
      | ACCEPT_COUNTER \<Rightarrow> acceptCounter idx now u f d
      | ACCEPT \<Rightarrow> acceptOffer idx now u f sellerId d
      | COUNTER a \<Rightarrow> counterOffer idx now u f sellerId a d
      | RE_COUNTER a \<Rightarrow> reCounter idx now u f a d
      | RELEASE \<Rightarrow> releaseBuyer e now u f sellerId d
      | CONFIRM_PROVISIONAL \<Rightarrow>
          (case confirmProvisional idx e now u f sellerId d of
             (d', Inl err) \<Rightarrow> (d', Inl err) | (d', Inr (g, _)) \<Rightarrow> (d', Inr g))
      | RELEASE_PROVISIONAL b \<Rightarrow> releaseProvisional e now u f sellerId b d
      | REJECT \<Rightarrow> rejectOrWithdraw False now u f sellerId d
      | WITHDRAW \<Rightarrow> rejectOrWithdraw True now u f sellerId d)"

text \<open>
  \<open>snapshot\<close> is the offer as the dispatcher loaded it, before the transaction of the
  action; \<open>None\<close> when there is none. \<open>d\<close> is the database its transaction runs on.
\<close>

definition respond_to ::
    "bool \<Rightarrow> env \<Rightarrow> time \<Rightarrow> user \<Rightarrow> respond_action \<Rightarrow> offer \<Rightarrow> uid \<Rightarrow> db \<Rightarrow> db \<times> offer res" where
  "respond_to idx e now u act f sellerId d =
     (if \<not> is_seller u sellerId \<and> \<not> is_buyer u f \<and> \<not> isAdmin u
        then (d, Inl (Offer_Err 403 NOT_ALLOWED))
      else if isOfferExpired now f
        then (fst (expireOfferIfNeeded now f (Some (u_id u)) d), Inl (Offer_Err 409 OFFER_HAS_EXPIRED))
      else run_action idx e now u act f sellerId d)"

definition respondToOffer ::
    "bool \<Rightarrow> env \<Rightarrow> time \<Rightarrow> user \<Rightarrow> respond_action \<Rightarrow> uid \<Rightarrow> db \<Rightarrow> db \<times> offer res" where
  "respondToOffer idx e now u act i d =
     (case find_unique of_id i (offers d) of
        None \<Rightarrow> (d, Inl (Offer_Err 404 OFFER_NOT_FOUND))
      | Some f \<Rightarrow>
          (case offer_listing f d of
             Inl err \<Rightarrow> (d, Inl err)
           | Inr l \<Rightarrow> respond_to idx e now u act f (l_sellerId l) d))"

section \<open>Reopening and closing the bidding\<close>

definition reopenBidding_tx ::
    "time \<Rightarrow> user \<Rightarrow> uid \<Rightarrow> db \<Rightarrow> (db \<times> unit) res" where
  "reopenBidding_tx now u listingId d =
     (case find_unique l_id listingId (listings d) of
       None \<Rightarrow> Inl (Offer_Err 404 OFFER_NOT_FOUND)
     | Some l \<Rightarrow>
         bindr (guardr (l_status l \<in> {L_ACTIVE, L_UNDER_NEGOTIATION, L_SOLD}) (Offer_Err 409 WRONG_STATUS)) (\<lambda>_.
         bindr (guardr (\<not> count_where (\<lambda>g. of_listingId g = listingId \<and> live_or_accepted (of_status g) \<and>
                            leaf (offers d) g) (offers d) > 0) (Offer_Err 409 NEGOTIATION_BUSY)) (\<lambda>_.
         bindr (guardr (find_first (\<lambda>o1. o_listingId o1 = listingId \<and> order_open (o_status o1))
                          (orders d) = None) (Offer_Err 409 ORDER_IN_PROGRESS)) (\<lambda>_.
         bindr (guardr (find_first (\<lambda>p. (case p_orderId p of
                            None \<Rightarrow> False
                          | Some i \<Rightarrow> list_ex (\<lambda>o1. o_id o1 = i \<and> o_listingId o1 = listingId) (orders d)) \<and>
                          p_status p \<in> {P_PENDING, P_PROCESSING, P_PAID, P_RECONCILIATION_REQUIRED})
                          (payments d) = None) (Offer_Err 409 ORDER_IN_PROGRESS)) (\<lambda>_.
         Inr (recordAuditEvent now (Some (u_id u)) (Offer_Act LISTING_BIDDING_REOPENED) listingId None
                (d\<lparr>listings := update_rows (\<lambda>l. l_id l = listingId)
                     (\<lambda>l. l\<lparr>l_status := L_ACTIVE\<rparr>) (listings d)\<rparr>), ()))))))"

definition reopenBidding :: "time \<Rightarrow> user \<Rightarrow> uid \<Rightarrow> db \<Rightarrow> db \<times> unit res" where
  "reopenBidding now u listingId d =
     transact (reopenBidding_tx now u listingId) d"

definition waitingOffers :: "uid \<Rightarrow> uid option \<Rightarrow> db \<Rightarrow> offer list" where
  "waitingOffers listingId exceptBuyer d =
     filter (\<lambda>f. of_listingId f = listingId \<and> of_status f = Of_PENDING \<and> leaf (offers d) f \<and>
       (case exceptBuyer of None \<Rightarrow> True | Some b \<Rightarrow> of_buyerId f \<noteq> b)) (offers d)"

definition releaseWaitingBidders :: "time \<Rightarrow> uid \<Rightarrow> uid option \<Rightarrow> db \<Rightarrow> db \<times> nat" where
  "releaseWaitingBidders now listingId actor d =
     (let waiting = waitingOffers listingId None d
      in if waiting = [] then (d, 0)
         else
           let d1 = d\<lparr>offers := update_rows (\<lambda>f. of_id f \<in> set (map of_id waiting) \<and> of_status f = Of_PENDING)
                  (set_offer_status now Of_WITHDRAWN) (offers d)\<rparr>
           in (recordAuditEvent now actor (Offer_Act WAITING_BIDS_RELEASED) listingId None d1, length waiting))"

text \<open>The \<open>OFFER\<close> branch of an approved recovery request, for the request's order.\<close>

definition recover_offers :: "time \<Rightarrow> order \<Rightarrow> db \<Rightarrow> db res" where
  "recover_offers now ord d =
     (if o_status ord \<in> {CANCELLED, COMPLETED} then Inl (Order_Err 409 ORDER_NOT_ACTIONABLE)
      else case find_first (\<lambda>o1. o_listingId o1 = o_listingId ord \<and>
             o_status o1 \<notin> {CANCELLED, COMPLETED, DISPUTED}) (orders d) of
        Some _ \<Rightarrow> Inl (Offer_Err 409 ORDER_IN_PROGRESS)
      | None \<Rightarrow>
          Inr (d\<lparr>offers := update_rows (\<lambda>f. of_listingId f = o_listingId ord \<and> live (of_status f))
                   (set_offer_status now Of_EXPIRED) (offers d),
                 listings := update_rows (\<lambda>l. l_id l = o_listingId ord)
                   (\<lambda>l. l\<lparr>l_status := L_ACTIVE\<rparr>) (listings d)\<rparr>))"

section \<open>What a successful handler found and did\<close>

lemma read_leafE:
  assumes "read_leaf i e d = Inr (fresh, l)"
  obtains "fresh \<in> set (offers d)" and "leaf (offers d) fresh" and "of_id fresh = i"
    and "find_unique l_id (of_listingId fresh) (listings d) = Some l"
  using assms
  by (auto simp: read_leaf_def bindr_eq_Inr offer_listing_def dest: findLeafOffer_Some
      split: option.splits)

lemma refuse_expired_Inr [simp]:
  "refuse_expired now f a d = Inr v \<longleftrightarrow>
     \<not> (isOfferExpired now f \<and> live (of_status f))"
  by (auto simp: refuse_expired_def expireOfferIfNeeded_def live_def Let_def)

lemma amountProblem_None:
  "amountProblem v limit = None \<longleftrightarrow>
     (\<exists>n. v = Some (Some n) \<and> 0 < n \<and> n \<le> limit \<and> \<bar>n * 100 - of_int (js_round (n * 100))\<bar> \<le> 1 / 10 ^ 6)"
  by (auto simp: amountProblem_def split: option.splits if_splits)

lemma isPositiveNumber_iff: "isPositiveNumber v \<longleftrightarrow> (\<exists>n. v = Some (Some n) \<and> 0 < n)"
  by (auto simp: isPositiveNumber_def split: option.splits)

lemma number_or_Some: "number_or n (Some (Some x)) = x"
  by (simp add: number_or_def)

lemma number_or_pos: "v = None \<or> isPositiveNumber v \<Longrightarrow> 0 < n \<Longrightarrow> 0 < number_or n v"
  by (auto simp: number_or_def isPositiveNumber_def split: option.splits)

lemma createOffer_txE:
  assumes "createOffer_tx idx now u lid amount quantity d = Inr (d', f)"
  obtains l amt q where "find_unique l_id lid (listings d) = Some l" and "l_id l = lid"
    and "amount = Some (Some amt)" and "0 < amt" and "amt \<le> AMOUNT_LIMIT_offer"
    and "l_sellerId l \<noteq> u_id u" and "q \<le> l_available l + 1 / 10 ^ 9" and "0 < q"
    and "\<forall>g \<in> set (offers d). of_listingId g = lid \<and> of_buyerId g = u_id u \<and>
           live_or_accepted (of_status g) \<longrightarrow> \<not> leaf (offers d) g"
    and "f = new_offer now (next_id d) l (u_id u) amt q"
    and "offers d' = insert_row f (offers d)" and "next_id d' = Suc (next_id d)"
    and "orders d' = orders d" and "listings d' = listings d"
    and "idx \<longrightarrow> active_unique (offers d')"
proof -
  from assms obtain l amt where *: "find_unique l_id lid (listings d) = Some l" "amount = Some (Some amt)"
    "0 < amt" "amt \<le> AMOUNT_LIMIT_offer" "l_sellerId l \<noteq> u_id u"
    "number_or (l_available l) quantity \<le> l_available l + 1 / 10 ^ 9"
    "quantity = None \<or> isPositiveNumber quantity" "0 < l_available l"
    "find_first (\<lambda>f. of_listingId f = lid \<and> of_buyerId f = u_id u \<and>
       live_or_accepted (of_status f) \<and> leaf (offers d) f) (offers d) = None"
    "f = new_offer now (next_id d) l (u_id u) amt (number_or (l_available l) quantity)"
    "offers d' = insert_row f (offers d)" "next_id d' = Suc (next_id d)"
    "orders d' = orders d" "listings d' = listings d"
    "idx \<longrightarrow> active_unique (offers d')"
    unfolding createOffer_tx_def
    by (auto simp: bindr_eq_Inr Let_def amountProblem_None number_or_Some split: option.splits)
  from *(1) have "l_id l = lid" by (auto dest: find_unique_Some)
  moreover have "\<forall>g \<in> set (offers d). of_listingId g = lid \<and> of_buyerId g = u_id u \<and>
      live_or_accepted (of_status g) \<longrightarrow> \<not> leaf (offers d) g"
    using *(9) by (auto simp: find_first_None)
  ultimately show thesis
    using that [OF *(1) _ *(2-6) number_or_pos [OF *(7,8)] _ *(10-15)] by blast
qed

lemma check_exclusiveD:
  assumes "check_exclusive fresh d = Inr v"
  shows "\<forall>x \<in> set (offers d). leaf (offers d) x \<and> negotiating (of_status x) \<and>
           of_listingId x = of_listingId fresh \<longrightarrow>
           (\<exists>y \<in> set (offers d). leaf (offers d) y \<and> negotiating (of_status y) \<and>
              of_listingId y = of_listingId fresh \<and> of_buyerId y = of_buyerId fresh)"
  using assms
  by (auto simp: check_exclusive_def find_first_None dest!: find_first_Some split: option.splits if_splits)

lemma selectOffer_txE:
  assumes "selectOffer_tx idx now u f sellerId d = Inr (d', g)"
  obtains fresh l d1 where "read_leaf (of_id f) (Offer_Err 404 OFFER_NOT_FOUND) d = Inr (fresh, l)"
    and "of_status fresh = Of_PENDING" and "\<not> isOfferExpired now fresh"
    and "\<forall>x \<in> set (offers d). leaf (offers d) x \<and> negotiating (of_status x) \<and>
           of_listingId x = of_listingId fresh \<longrightarrow>
           (\<exists>y \<in> set (offers d). leaf (offers d) y \<and> negotiating (of_status y) \<and>
              of_listingId y = of_listingId fresh \<and> of_buyerId y = of_buyerId fresh)"
    and "\<forall>o1 \<in> set (orders d). order_open (o_status o1) \<longrightarrow> o_listingId o1 \<noteq> of_listingId fresh"
    and "claim_offer idx now (of_id fresh) [Of_PENDING] Of_SELECTED (Offer_Err 409 MOVED_ON) d = Inr d1"
    and "d' = recordAuditEvent now (Some (u_id u)) (Offer_Act OFFER_SELECTED) (of_id fresh) None d1"
proof -
  from assms obtain fresh l d1 where 1: "read_leaf (of_id f) (Offer_Err 404 OFFER_NOT_FOUND) d = Inr (fresh, l)"
    "of_status fresh = Of_PENDING" "\<not> isOfferExpired now fresh"
    and talk: "check_exclusive fresh d = Inr ()"
    and 2: "find_first (\<lambda>o1. o_listingId o1 = of_listingId fresh \<and> order_open (o_status o1)) (orders d) = None"
      "claim_offer idx now (of_id fresh) [Of_PENDING] Of_SELECTED (Offer_Err 409 MOVED_ON) d = Inr d1"
      "d' = recordAuditEvent now (Some (u_id u)) (Offer_Act OFFER_SELECTED) (of_id fresh) None d1"
    by (auto simp: selectOffer_tx_def bindr_eq_Inr live_def split: option.splits prod.splits)
  show thesis
    by (rule that [OF 1 check_exclusiveD [OF talk] _ 2(2,3)]) (use 2(1) in \<open>auto simp: find_first_None\<close>)
qed

text \<open>
  The four ways to a provisional agreement: the offer moved is the live leaf, in a
  negotiating status and not expired, and the price agreed on is positive.
\<close>

lemma moveOfferToProvisionalE:
  assumes "moveOfferToProvisional idx now f l fp actor d = Inr (d', g)"
  obtains p d1 where "fp = Some p" and "0 < p" and "\<not> isOfferExpired now f"
    and "physical_category (l_category l)"
    and "claim_offer idx now (of_id f) [Of_SELECTED, Of_COUNTERED] Of_PROVISIONAL
           (Offer_Err 409 SUPERSEDED) d = Inr d1"
    and "find_unique of_id (of_id f) (offers d1) = Some g"
    and "d' = recordAuditEvent now (Some actor) (Offer_Act OFFER_PROVISIONAL_AGREED) (of_id g) None d1"
proof -
  from assms obtain p d1 where *: "fp = Some p" "0 < p" "\<not> isOfferExpired now f"
    "physical_category (l_category l)"
    "claim_offer idx now (of_id f) [Of_SELECTED, Of_COUNTERED] Of_PROVISIONAL
       (Offer_Err 409 SUPERSEDED) d = Inr d1"
    "find_unique of_id (of_id f) (offers d1) = Some g"
    "d' = recordAuditEvent now (Some actor) (Offer_Act OFFER_PROVISIONAL_AGREED) (of_id g) None d1"
    unfolding moveOfferToProvisional_def by (auto simp: bindr_eq_Inr split: option.splits if_splits)
  show thesis by (rule that [OF *])
qed

lemma acceptSelected_txE:
  assumes "acceptSelected_tx idx now u f d = Inr (d', g)"
  obtains fresh l e where "read_leaf (of_id f) e d = Inr (fresh, l)" and "of_status fresh = Of_SELECTED"
    and "moveOfferToProvisional idx now fresh l (Some (of_amount fresh)) (u_id u) d = Inr (d', g)"
  using assms
  by (auto simp: acceptSelected_tx_def bindr_eq_Inr split: prod.splits intro!: that)

lemma acceptCounter_txE:
  assumes "acceptCounter_tx idx now u f d = Inr (d', g)"
  obtains fresh l e where "read_leaf (of_id f) e d = Inr (fresh, l)"
    and "of_status fresh \<in> {Of_SELECTED, Of_COUNTERED}"
    and "of_status fresh = Of_COUNTERED \<longrightarrow> of_counteredBy fresh = Some By_SELLER"
    and "moveOfferToProvisional idx now fresh l (of_counterAmount fresh) (u_id u) d = Inr (d', g)"
  using assms
  by (auto simp: acceptCounter_tx_def bindr_eq_Inr split: prod.splits intro!: that)

lemma acceptOffer_txE:
  assumes "acceptOffer_tx idx now u f d = Inr (d', g)"
  obtains fresh l e where "read_leaf (of_id f) e d = Inr (fresh, l)"
    and "of_status fresh \<in> {Of_SELECTED, Of_COUNTERED}"
    and "of_status fresh = Of_COUNTERED \<longrightarrow> of_counteredBy fresh = Some By_BUYER"
    and "moveOfferToProvisional idx now fresh l (Some (accept_price fresh)) (u_id u) d = Inr (d', g)"
  using assms
  by (auto simp: acceptOffer_tx_def bindr_eq_Inr split: prod.splits intro!: that)

lemma counter_bodyE:
  assumes "counter_body idx now u i a party other d = Inr (d', g)"
  obtains fresh l e where "read_leaf i e d = Inr (fresh, l)"
    and "of_status fresh \<in> {Of_SELECTED, Of_COUNTERED}"
    and "of_status fresh = Of_COUNTERED \<longrightarrow> of_counteredBy fresh = Some other"
    and "\<not> isOfferExpired now fresh"
    and "g = counter_child now (next_id d) fresh l a party"
    and "offers d' = insert_row g (update_offer now (of_id fresh) Of_COUNTERED (offers d))"
    and "next_id d' = Suc (next_id d)" and "orders d' = orders d" and "listings d' = listings d"
    and "idx \<longrightarrow> active_unique (offers d')"
  using assms
  by (auto simp: counter_body_def bindr_eq_Inr Let_def live_def split: prod.splits intro!: that)

lemma close_leaf_sel [simp]:
  "offers (close_leaf now f s d) = update_offer now (of_id f) s (offers d)"
  "orders (close_leaf now f s d) = orders d"
  "next_id (close_leaf now f s d) = next_id d"
  "auditEvents (close_leaf now f s d) = auditEvents d"
  by (simp_all add: close_leaf_def Let_def)

lemma releaseBuyer_txE:
  assumes "releaseBuyer_tx e now u f d = Inr (d', g)"
  obtains fresh where "findLeafOffer (of_id f) d = Some fresh" and "releaseAvailableAt e fresh \<noteq> None"
    and "g = set_offer_status now Of_WITHDRAWN fresh"
    and "d' = recordAuditEvent now (Some (u_id u)) (Offer_Act OFFER_RELEASED) (of_id fresh) None
           (close_leaf now fresh Of_WITHDRAWN d)"
  using assms
  by (auto simp: releaseBuyer_tx_def bindr_eq_Inr Let_def split: option.splits intro!: that)

lemma rejectOrWithdraw_txE:
  assumes "rejectOrWithdraw_tx w now u f d = Inr (d', g)"
  obtains fresh l e where "read_leaf (of_id f) e d = Inr (fresh, l)"
    and "of_status fresh \<in> set (if w then [Of_PENDING] else [Of_SELECTED, Of_COUNTERED])"
    and "g = set_offer_status now (if w then Of_WITHDRAWN else Of_REJECTED) fresh"
    and "d' = recordAuditEvent now (Some (u_id u))
           (Offer_Act (if w then OFFER_WITHDRAWN else OFFER_REJECTED)) (of_id fresh) None
           (close_leaf now fresh (if w then Of_WITHDRAWN else Of_REJECTED) d)"
  using assms
  by (auto simp: rejectOrWithdraw_tx_def bindr_eq_Inr Let_def split: prod.splits intro!: that)

lemma confirmProvisional_txE:
  assumes "confirmProvisional_tx idx e now u f d = Inr (d', g, ord)"
  obtains fresh l e' where "read_leaf (of_id f) e' d = Inr (fresh, l)"
    and "of_status fresh = Of_PROVISIONAL" and "\<not> isOfferExpired now fresh"
    and "acceptOfferAndCreateOrder idx e now fresh l (Some (confirm_price fresh)) (l_sellerId l)
           (u_id u) d = Inr (d', g, ord)"
  using assms
  by (auto simp: confirmProvisional_tx_def bindr_eq_Inr live_def split: prod.splits intro!: that)

lemma releaseProvisional_bodyE:
  assumes "releaseProvisional_body e now u f sellerId d = Inr (d', r)"
  obtains (blocked) "r = None"
      and "d' = recordAuditEvent now (Some (u_id u)) (Offer_Act OFFER_RELEASE_BLOCKED_ADMIN_REVIEW)
         (of_id f) (Some (of_listingId f)) d"
  | (released) fresh where "findLeafOffer (of_id f) d = Some fresh" and "of_status fresh = Of_PROVISIONAL"
      and "r = Some (set_offer_status now Of_WITHDRAWN fresh)"
      and "is_seller u sellerId \<Longrightarrow> \<not> isAdmin u \<Longrightarrow>
         of_nat (countAcceptedReleases (Offer_Act OFFER_PROVISIONAL_RELEASED) (of_listingId f) d) <
         snd (releaseAllowance e (Offer_Act OFFER_PROVISIONAL_RELEASED) (of_listingId f) d)"
      and "d' = recordAuditEvent now (Some (u_id u))
         (Offer_Act (if is_buyer u f then OFFER_PROVISIONAL_RELEASED_BY_BUYER
                     else OFFER_PROVISIONAL_RELEASED))
         (of_id fresh) (Some (of_listingId fresh)) (close_leaf now fresh Of_WITHDRAWN d)"
  using assms
  by (auto simp: releaseProvisional_body_def bindr_eq_Inr Let_def releaseAllowance_def
      split: option.splits if_splits intro: blocked released)

end
