(* ===== verification/Exclusivity.thy ===== *)
theory Exclusivity
  imports Offer_Actions
begin

text \<open>
  The invariant of the negotiations and the proof that every operation of the offer
  routes keeps it: on a listing at most one buyer's bid is being negotiated, none is
  while an order on the listing is open, and at most one order on it is open. Rows that
  have been countered (they have a child) are never waiting, selected or agreed.
\<close>

section \<open>The invariant\<close>

definition offer_keys :: "offer list \<Rightarrow> uid \<Rightarrow> bool" where
  "offer_keys offs n = (distinct (map of_id offs) \<and>
     (\<forall>f \<in> set offs. of_id f < n \<and> (\<forall>p. of_parent f = Some p \<longrightarrow> p < n)))"

definition exclusive :: "offer list \<Rightarrow> bool" where
  "exclusive offs = (\<forall>a \<in> set offs. \<forall>b \<in> set offs.
     leaf offs a \<and> leaf offs b \<and> negotiating (of_status a) \<and> negotiating (of_status b) \<and>
     of_listingId a = of_listingId b \<longrightarrow> a = b)"

definition one_live_bid :: "offer list \<Rightarrow> bool" where
  "one_live_bid offs = (\<forall>a \<in> set offs. \<forall>b \<in> set offs.
     leaf offs a \<and> leaf offs b \<and> live (of_status a) \<and> live (of_status b) \<and>
     of_listingId a = of_listingId b \<and> of_buyerId a = of_buyerId b \<longrightarrow> a = b)"

definition countered_closed :: "offer list \<Rightarrow> bool" where
  "countered_closed offs = (\<forall>f \<in> set offs. \<not> leaf offs f \<longrightarrow>
     of_status f \<notin> {Of_PENDING, Of_SELECTED, Of_PROVISIONAL})"

definition no_talks_on_order :: "offer list \<Rightarrow> order list \<Rightarrow> bool" where
  "no_talks_on_order offs ords = (\<forall>f \<in> set offs. \<forall>o1 \<in> set ords.
     leaf offs f \<and> negotiating (of_status f) \<and> order_open (o_status o1) \<longrightarrow>
     o_listingId o1 \<noteq> of_listingId f)"

definition one_open_order :: "order list \<Rightarrow> bool" where
  "one_open_order ords = (\<forall>a \<in> set ords. \<forall>b \<in> set ords.
     order_open (o_status a) \<and> order_open (o_status b) \<and> o_listingId a = o_listingId b \<longrightarrow> a = b)"

definition order_keys :: "order list \<Rightarrow> uid \<Rightarrow> bool" where
  "order_keys ords n = (distinct (map o_id ords) \<and> (\<forall>o1 \<in> set ords. o_id o1 < n))"

definition negotiation_inv :: "db \<Rightarrow> bool" where
  "negotiation_inv d = (offer_keys (offers d) (next_id d) \<and> order_keys (orders d) (next_id d) \<and>
     exclusive (offers d) \<and> one_live_bid (offers d) \<and> countered_closed (offers d) \<and>
     no_talks_on_order (offers d) (orders d) \<and> one_open_order (orders d))"

lemmas negotiation_defs = negotiation_inv_def offer_keys_def order_keys_def exclusive_def
  one_live_bid_def countered_closed_def no_talks_on_order_def one_open_order_def

lemma negotiating_live: "negotiating s \<Longrightarrow> live s"
  by (auto simp: negotiating_def live_def)

lemma negotiation_inv_empty: "negotiation_inv empty_db"
  by (simp add: negotiation_defs empty_db_def)

lemma inv_offer_keys: "negotiation_inv d \<Longrightarrow> distinct (map of_id (offers d))"
  by (simp add: negotiation_inv_def offer_keys_def)

lemma inv_order_keys: "negotiation_inv d \<Longrightarrow> distinct (map o_id (orders d))"
  by (simp add: negotiation_inv_def order_keys_def)

text \<open>The invariant looks at the offers, the orders and the identifier counter only.\<close>

lemma negotiation_inv_cong:
  "offers d' = offers d \<Longrightarrow> orders d' = orders d \<Longrightarrow> next_id d' = next_id d \<Longrightarrow>
     negotiation_inv d' = negotiation_inv d"
  by (simp add: negotiation_inv_def)

lemma negotiation_inv_audit [simp]:
  "negotiation_inv (recordAuditEvent now a c r j d) = negotiation_inv d"
  by (rule negotiation_inv_cong) simp_all

lemma negotiation_inv_event [simp]:
  "negotiation_inv (recordOrderEvent now i t d) = negotiation_inv d"
  by (rule negotiation_inv_cong) simp_all

lemma negotiation_inv_listings [simp]: "negotiation_inv (d\<lparr>listings := ls\<rparr>) = negotiation_inv d"
  by (rule negotiation_inv_cong) simp_all

section \<open>Changing statuses row by row\<close>

text \<open>
  A change that keeps each row's identity and link, and moves its status only as far as
  \<open>ok\<close> allows. Leaves stay leaves.
\<close>

definition same_row :: "offer \<Rightarrow> offer \<Rightarrow> bool" where
  "same_row f g = (of_id g = of_id f \<and> of_parent g = of_parent f \<and>
     of_listingId g = of_listingId f \<and> of_buyerId g = of_buyerId f)"

lemma same_row_status [simp]: "same_row f (set_offer_status now s f)" "same_row f f"
  by (simp_all add: same_row_def)

lemma leaf_map:
  assumes "\<And>f. same_row f (g f)"
  shows "leaf (map g offs) (g f) = leaf offs f"
  using assms by (auto simp: leaf_def list_ex_iff same_row_def)

lemma keys_map:
  assumes "\<And>f. same_row f (g f)" and "offer_keys offs n"
  shows "offer_keys (map g offs) n"
  using assms by (auto simp: offer_keys_def same_row_def comp_def)

text \<open>Closing rows keeps everything: no row becomes live, none starts to be negotiated.\<close>

lemma inv_shrink:
  assumes inv: "negotiation_inv d" and row: "\<And>f. same_row f (g f)"
    and st: "\<And>f. f \<in> set (offers d) \<Longrightarrow> of_status (g f) = of_status f \<or> \<not> live (of_status (g f))"
    and same: "\<And>f. f \<in> set (offers d) \<Longrightarrow> live (of_status (g f)) \<Longrightarrow> of_status (g f) = of_status f"
  shows "negotiation_inv (d\<lparr>offers := map g (offers d)\<rparr>)"
proof -
  have neg: "negotiating (of_status (g f)) \<Longrightarrow> negotiating (of_status f)"
    "live (of_status (g f)) \<Longrightarrow> live (of_status f)"
    if "f \<in> set (offers d)" for f
    using st [OF that] by (auto simp: negotiating_live)
  have sel: "of_status (g f) \<in> {Of_PENDING, Of_SELECTED, Of_PROVISIONAL} \<Longrightarrow>
      of_status f \<in> {Of_PENDING, Of_SELECTED, Of_PROVISIONAL}"
    if "f \<in> set (offers d)" for f
    using same [OF that] by (auto simp: live_def)
  have idl: "of_listingId (g f) = of_listingId f" "of_buyerId (g f) = of_buyerId f" for f
    using row [of f] by (auto simp: same_row_def)
  note lf = leaf_map [where g = g, OF row]
  have "exclusive (map g (offers d))"
    using inv neg unfolding negotiation_inv_def exclusive_def
    by (auto simp: lf idl)
  moreover have "one_live_bid (map g (offers d))"
    using inv neg unfolding negotiation_inv_def one_live_bid_def
    by (auto simp: lf idl)
  moreover have "countered_closed (map g (offers d))"
    using inv sel unfolding negotiation_inv_def countered_closed_def
    by (auto simp: lf)
  moreover have "no_talks_on_order (map g (offers d)) (orders d)"
    using inv neg unfolding negotiation_inv_def no_talks_on_order_def
    by (auto simp: lf idl)
  ultimately show ?thesis
    using inv keys_map [of g, OF row] by (simp add: negotiation_inv_def)
qed

lemma inv_close:
  assumes "negotiation_inv d" and "\<not> live s"
  shows "negotiation_inv (d\<lparr>offers := update_rows P (set_offer_status now s) (offers d)\<rparr>)"
  unfolding update_rows_def
  by (rule inv_shrink [OF assms(1)]) (use assms(2) in auto)

text \<open>Moving the one row with identifier \<open>i\<close>, a leaf, between negotiating statuses.\<close>

lemma update_by_id:
  assumes "distinct (map of_id offs)" and "f0 \<in> set offs"
  shows "update_rows (\<lambda>f. of_id f = of_id f0 \<and> P f) u offs =
     (if P f0 then map (\<lambda>f. if f = f0 then u f else f) offs else offs)"
proof -
  have *: "of_id f = of_id f0 \<longleftrightarrow> f = f0" if "f \<in> set offs" for f
    using key_inj [OF assms(1) that assms(2)] by auto
  show ?thesis
  proof (cases "P f0")
    case True
    have "map (\<lambda>r. if of_id r = of_id f0 \<and> P r then u r else r) offs =
        map (\<lambda>f. if f = f0 then u f else f) offs"
      by (rule map_cong) (auto simp: * True)
    then show ?thesis by (simp add: update_rows_def True)
  next
    case False
    then show ?thesis by (simp add: update_rows_none *)
  qed
qed

lemma inv_move:
  assumes inv: "negotiation_inv d" and f0: "f0 \<in> set (offers d)" "leaf (offers d) f0"
    and lv: "live (of_status f0)"
    and only: "\<And>x. x \<in> set (offers d) \<Longrightarrow> leaf (offers d) x \<Longrightarrow> negotiating (of_status x) \<Longrightarrow>
       of_listingId x = of_listingId f0 \<Longrightarrow> x = f0"
    and free: "\<And>o1. o1 \<in> set (orders d) \<Longrightarrow> order_open (o_status o1) \<Longrightarrow>
       o_listingId o1 \<noteq> of_listingId f0"
  shows "negotiation_inv (d\<lparr>offers := map (\<lambda>f. if f = f0 then set_offer_status now s f else f) (offers d)\<rparr>)"
proof -
  let ?g = "\<lambda>f. if f = f0 then set_offer_status now s f else f"
  have row: "same_row f (?g f)" for f by simp
  note lf = leaf_map [where g = ?g, OF row]
  have idl: "of_listingId (?g f) = of_listingId f" "of_buyerId (?g f) = of_buyerId f" for f
    by simp_all
  have neg: "negotiating (of_status (?g f)) \<Longrightarrow> f = f0 \<or> negotiating (of_status f)" for f
    by (cases "f = f0") auto
  have lvg: "live (of_status (?g f)) \<Longrightarrow> live (of_status f)" for f
    using lv by (cases "f = f0") auto
  have "exclusive (map ?g (offers d))"
    unfolding exclusive_def
  proof (intro ballI impI)
    fix a b
    assume ab: "a \<in> set (map ?g (offers d))" "b \<in> set (map ?g (offers d))"
      and h: "leaf (map ?g (offers d)) a \<and> leaf (map ?g (offers d)) b \<and> negotiating (of_status a) \<and>
        negotiating (of_status b) \<and> of_listingId a = of_listingId b"
    from ab obtain a0 b0 where 0: "a = ?g a0" "b = ?g b0" "a0 \<in> set (offers d)" "b0 \<in> set (offers d)"
      unfolding set_map by blast
    from h have l: "leaf (offers d) a0" "leaf (offers d) b0"
      "of_listingId a0 = of_listingId b0"
      unfolding 0(1,2) lf idl by blast+
    from h have n: "a0 = f0 \<or> negotiating (of_status a0)" "b0 = f0 \<or> negotiating (of_status b0)"
      unfolding 0(1,2) using neg by blast+
    have "a0 = b0"
      using n only [OF 0(3) l(1)] only [OF 0(4) l(2)] l inv 0(3,4)
      unfolding negotiation_inv_def exclusive_def by metis
    then show "a = b" by (simp add: 0)
  qed
  moreover have "one_live_bid (map ?g (offers d))"
    unfolding one_live_bid_def
  proof (intro ballI impI)
    fix a b
    assume ab: "a \<in> set (map ?g (offers d))" "b \<in> set (map ?g (offers d))"
      and h: "leaf (map ?g (offers d)) a \<and> leaf (map ?g (offers d)) b \<and> live (of_status a) \<and>
        live (of_status b) \<and> of_listingId a = of_listingId b \<and> of_buyerId a = of_buyerId b"
    from ab obtain a0 b0 where 0: "a = ?g a0" "b = ?g b0" "a0 \<in> set (offers d)" "b0 \<in> set (offers d)"
      unfolding set_map by blast
    from h have "leaf (offers d) a0" "leaf (offers d) b0" "of_listingId a0 = of_listingId b0"
      "of_buyerId a0 = of_buyerId b0" "live (of_status a0)" "live (of_status b0)"
      unfolding 0(1,2) lf idl using lvg by blast+
    with inv 0(3,4) have "a0 = b0" unfolding negotiation_inv_def one_live_bid_def by blast
    then show "a = b" by (simp add: 0)
  qed
  moreover have "countered_closed (map ?g (offers d))"
    unfolding countered_closed_def
  proof (intro ballI impI)
    fix a
    assume "a \<in> set (map ?g (offers d))" and n: "\<not> leaf (map ?g (offers d)) a"
    then obtain a0 where 0: "a = ?g a0" "a0 \<in> set (offers d)"
      unfolding set_map by blast
    from n have "\<not> leaf (offers d) a0" unfolding 0(1) lf .
    with f0(2) have "a0 \<noteq> f0" by blast
    with inv 0 \<open>\<not> leaf (offers d) a0\<close> show "of_status a \<notin> {Of_PENDING, Of_SELECTED, Of_PROVISIONAL}"
      unfolding negotiation_inv_def countered_closed_def by auto
  qed
  moreover have "no_talks_on_order (map ?g (offers d)) (orders d)"
    unfolding no_talks_on_order_def
  proof (intro ballI impI)
    fix a o1
    assume "a \<in> set (map ?g (offers d))" and o1: "o1 \<in> set (orders d)"
      and h: "leaf (map ?g (offers d)) a \<and> negotiating (of_status a) \<and> order_open (o_status o1)"
    then obtain a0 where 0: "a = ?g a0" "a0 \<in> set (offers d)"
      unfolding set_map by blast
    from h have "leaf (offers d) a0" "a0 = f0 \<or> negotiating (of_status a0)"
      unfolding 0(1) lf using neg by blast+
    with free [OF o1] inv 0(2) o1 h have "o_listingId o1 \<noteq> of_listingId a0"
      unfolding negotiation_inv_def no_talks_on_order_def by metis
    then show "o_listingId o1 \<noteq> of_listingId a" unfolding 0(1) idl .
  qed
  ultimately show ?thesis
    using inv keys_map [of ?g, OF row] by (simp add: negotiation_inv_def)
qed

text \<open>A row that is already being negotiated satisfies the two conditions by the invariant.\<close>

lemma inv_move_negotiating:
  assumes inv: "negotiation_inv d" and f0: "f0 \<in> set (offers d)" "leaf (offers d) f0"
    and neg: "negotiating (of_status f0)"
  shows "negotiation_inv (d\<lparr>offers := map (\<lambda>f. if f = f0 then set_offer_status now s f else f) (offers d)\<rparr>)"
proof (rule inv_move [OF inv f0 negotiating_live [OF neg]])
  show "x = f0" if "x \<in> set (offers d)" "leaf (offers d) x" "negotiating (of_status x)"
      "of_listingId x = of_listingId f0" for x
    using inv that f0 neg unfolding negotiation_inv_def exclusive_def by blast
  show "o_listingId o1 \<noteq> of_listingId f0" if "o1 \<in> set (orders d)" "order_open (o_status o1)" for o1
    using inv that f0 neg unfolding negotiation_inv_def no_talks_on_order_def by blast
qed

section \<open>New rows\<close>

lemma leaf_insert:
  "leaf (insert_row c offs) f \<longleftrightarrow> leaf offs f \<and> of_parent c \<noteq> Some (of_id f)"
  by (auto simp: leaf_iff)

lemma leaf_fresh: "offer_keys offs n \<Longrightarrow> n \<le> of_id c \<Longrightarrow> leaf offs c"
  unfolding offer_keys_def leaf_iff by force

lemma fresh_not_in: "offer_keys offs n \<Longrightarrow> of_id c = n \<Longrightarrow> f \<in> set offs \<Longrightarrow> of_id f \<noteq> of_id c"
  unfolding offer_keys_def by auto

lemma keys_insert:
  assumes "offer_keys offs n" and "of_id c = n" and "\<forall>p. of_parent c = Some p \<longrightarrow> p < n"
  shows "offer_keys (insert_row c offs) (Suc n)"
  using assms unfolding offer_keys_def by (auto simp: less_Suc_eq)

lemma order_keys_Suc: "order_keys ords n \<Longrightarrow> order_keys ords (Suc n)"
  unfolding order_keys_def by (auto simp: less_Suc_eq)

lemma inv_create:
  assumes inv: "negotiation_inv d" and c: "of_id c = next_id d" "of_parent c = None" "of_status c = Of_PENDING"
    and free: "\<And>f. f \<in> set (offers d) \<Longrightarrow> leaf (offers d) f \<Longrightarrow> live (of_status f) \<Longrightarrow>
       of_listingId f = of_listingId c \<Longrightarrow> of_buyerId f \<noteq> of_buyerId c"
  shows "negotiation_inv (d\<lparr>offers := insert_row c (offers d), next_id := Suc (next_id d)\<rparr>)"
proof -
  from inv have k: "offer_keys (offers d) (next_id d)" by (simp add: negotiation_inv_def)
  have lf: "leaf (insert_row c (offers d)) f = leaf (offers d) f" for f
    by (simp add: leaf_insert c(2))
  have nneg: "\<not> negotiating (of_status c)" by (simp add: c negotiating_def)
  have "exclusive (insert_row c (offers d))"
    using inv nneg unfolding negotiation_inv_def exclusive_def lf by auto
  moreover have "one_live_bid (insert_row c (offers d))"
    unfolding one_live_bid_def lf set_insert_row
  proof (intro ballI impI)
    fix a b
    assume "a \<in> insert c (set (offers d))" "b \<in> insert c (set (offers d))"
      and h: "leaf (offers d) a \<and> leaf (offers d) b \<and> live (of_status a) \<and> live (of_status b) \<and>
        of_listingId a = of_listingId b \<and> of_buyerId a = of_buyerId b"
    then consider "a = c" "b = c" | "a = c" "b \<in> set (offers d)" | "a \<in> set (offers d)" "b = c"
      | "a \<in> set (offers d)" "b \<in> set (offers d)" by blast
    then show "a = b"
    proof cases
      case 2 with h free [of b] show ?thesis by auto
    next
      case 3 with h free [of a] show ?thesis by auto
    next
      case 4 with h inv show ?thesis unfolding negotiation_inv_def one_live_bid_def by blast
    qed simp
  qed
  moreover have "countered_closed (insert_row c (offers d))"
    using inv leaf_fresh [OF k, of c] c(1) unfolding negotiation_inv_def countered_closed_def lf by auto
  moreover have "no_talks_on_order (insert_row c (offers d)) (orders d)"
    using inv nneg unfolding negotiation_inv_def no_talks_on_order_def lf by auto
  ultimately show ?thesis
    using inv keys_insert [OF k c(1)] c(2) by (simp add: negotiation_inv_def order_keys_Suc)
qed

lemma inv_child:
  assumes inv: "negotiation_inv d" and f0: "f0 \<in> set (offers d)" "leaf (offers d) f0"
    and st: "of_status f0 = Of_COUNTERED"
    and c: "of_id c = next_id d" "of_parent c = Some (of_id f0)" "of_status c = Of_COUNTERED"
      "of_listingId c = of_listingId f0" "of_buyerId c = of_buyerId f0"
  shows "negotiation_inv (d\<lparr>offers := insert_row c (offers d), next_id := Suc (next_id d)\<rparr>)"
proof -
  from inv have k: "offer_keys (offers d) (next_id d)" by (simp add: negotiation_inv_def)
  then have dist: "distinct (map of_id (offers d))" by (simp add: offer_keys_def)
  have idf: "of_id f = of_id f0 \<longleftrightarrow> f = f0" if "f \<in> set (offers d)" for f
    using key_inj [OF dist that f0(1)] by auto
  have "of_id f0 < next_id d" using k f0(1) by (auto simp: offer_keys_def)
  then have lc: "leaf (insert_row c (offers d)) c"
    using leaf_fresh [OF k, of c] c(1,2) by (simp add: leaf_insert)
  have lf: "leaf (insert_row c (offers d)) f \<longleftrightarrow> leaf (offers d) f \<and> f \<noteq> f0" if "f \<in> set (offers d)" for f
    using idf [OF that] by (auto simp: leaf_insert c(2))
  have n0: "negotiating (of_status f0)" "live (of_status f0)" by (simp_all add: st negotiating_def live_def)
  have neg: "x = f0" if "x \<in> set (offers d)" "leaf (offers d) x" "negotiating (of_status x)"
      "of_listingId x = of_listingId f0" for x
    using inv that f0 n0 unfolding negotiation_inv_def exclusive_def by blast
  have lv: "x = f0" if "x \<in> set (offers d)" "leaf (offers d) x" "live (of_status x)"
      "of_listingId x = of_listingId f0" "of_buyerId x = of_buyerId f0" for x
    using inv that f0 n0 unfolding negotiation_inv_def one_live_bid_def by blast
  have "exclusive (insert_row c (offers d))"
    unfolding exclusive_def set_insert_row
    using inv neg lf lc c(4) unfolding negotiation_inv_def exclusive_def by (simp; metis)
  moreover have "one_live_bid (insert_row c (offers d))"
    unfolding one_live_bid_def set_insert_row
  proof (intro ballI impI)
    let ?L = "leaf (insert_row c (offers d))"
    fix a b
    assume "a \<in> insert c (set (offers d))" "b \<in> insert c (set (offers d))"
      and h: "?L a \<and> ?L b \<and> live (of_status a) \<and> live (of_status b) \<and>
        of_listingId a = of_listingId b \<and> of_buyerId a = of_buyerId b"
    then consider "a = c" "b = c" | "a = c" "b \<in> set (offers d)" | "a \<in> set (offers d)" "b = c"
      | "a \<in> set (offers d)" "b \<in> set (offers d)" by blast
    then show "a = b"
    proof cases
      case 2 with h lf [of b] lv [of b] c(4,5) show ?thesis by auto
    next
      case 3 with h lf [of a] lv [of a] c(4,5) show ?thesis by auto
    next
      case 4 with h lf [of a] lf [of b] inv show ?thesis
        unfolding negotiation_inv_def one_live_bid_def by blast
    qed simp
  qed
  moreover have "countered_closed (insert_row c (offers d))"
    unfolding countered_closed_def set_insert_row
    using inv lf lc st unfolding negotiation_inv_def countered_closed_def by (simp; metis offer_status.distinct)
  moreover have "no_talks_on_order (insert_row c (offers d)) (orders d)"
    unfolding no_talks_on_order_def set_insert_row
    using inv lf lc c(4) f0 n0 unfolding negotiation_inv_def no_talks_on_order_def by (simp; metis)
  ultimately show ?thesis
    using inv keys_insert [OF k c(1)] c(2) \<open>of_id f0 < next_id d\<close>
    by (simp add: negotiation_inv_def order_keys_Suc)
qed

lemma inv_new_order:
  assumes inv: "negotiation_inv d"
    and o1: "o_id ord = next_id d"
    and free: "\<And>f. f \<in> set (offers d) \<Longrightarrow> leaf (offers d) f \<Longrightarrow> negotiating (of_status f) \<Longrightarrow>
       of_listingId f \<noteq> o_listingId ord"
    and first: "\<And>o2. o2 \<in> set (orders d) \<Longrightarrow> order_open (o_status o2) \<Longrightarrow> o_listingId o2 \<noteq> o_listingId ord"
  shows "negotiation_inv (d\<lparr>orders := insert_row ord (orders d), next_id := Suc (next_id d)\<rparr>)"
proof -
  have "offer_keys (offers d) (Suc (next_id d))"
    using inv unfolding negotiation_inv_def offer_keys_def by (auto simp: less_Suc_eq)
  moreover have "order_keys (insert_row ord (orders d)) (Suc (next_id d))"
    using inv o1 unfolding negotiation_inv_def order_keys_def by (auto simp: less_Suc_eq)
  moreover have "no_talks_on_order (offers d) (insert_row ord (orders d))"
    using inv free unfolding negotiation_inv_def no_talks_on_order_def by (simp; metis)
  moreover have "one_open_order (insert_row ord (orders d))"
    using inv first unfolding negotiation_inv_def one_open_order_def by (simp; metis)
  ultimately show ?thesis using inv by (simp add: negotiation_inv_def)
qed

text \<open>Orders change without reopening.\<close>

lemma inv_orders:
  assumes inv: "negotiation_inv d"
    and h: "\<And>o1. o_id (h o1) = o_id o1" "\<And>o1. o_listingId (h o1) = o_listingId o1"
    and op: "\<And>o1. o1 \<in> set (orders d) \<Longrightarrow> order_open (o_status (h o1)) \<Longrightarrow> order_open (o_status o1)"
  shows "negotiation_inv (d\<lparr>orders := map h (orders d)\<rparr>)"
proof -
  have "order_keys (map h (orders d)) (next_id d)"
    using inv h unfolding negotiation_inv_def order_keys_def by (auto simp: comp_def)
  moreover have "no_talks_on_order (offers d) (map h (orders d))"
    using inv h op unfolding negotiation_inv_def no_talks_on_order_def by fastforce
  moreover have "one_open_order (map h (orders d))"
    using inv h op unfolding negotiation_inv_def one_open_order_def by (simp; metis)
  ultimately show ?thesis using inv by (simp add: negotiation_inv_def)
qed

section \<open>The handlers\<close>

lemma expireOfferIfNeeded_inv: "negotiation_inv d \<Longrightarrow> negotiation_inv (fst (expireOfferIfNeeded now f a d))"
  by (simp add: expireOfferIfNeeded_def Let_def inv_close live_def)

lemma createOffer_inv:
  assumes "negotiation_inv d"
  shows "negotiation_inv (fst (createOffer idx now u lid amount quantity d))"
  unfolding createOffer_def
proof (rule transact_preserves)
  fix d' f
  assume "createOffer_tx idx now u lid amount quantity d = Inr (d', f)"
  then show "negotiation_inv d'"
  proof (rule createOffer_txE)
    fix l amt q
    assume l: "l_id l = lid"
      and free: "\<forall>g \<in> set (offers d). of_listingId g = lid \<and> of_buyerId g = u_id u \<and>
           live_or_accepted (of_status g) \<longrightarrow> \<not> leaf (offers d) g"
      and f: "f = new_offer now (next_id d) l (u_id u) amt q"
      and d': "offers d' = insert_row f (offers d)" "next_id d' = Suc (next_id d)" "orders d' = orders d"
    have "negotiation_inv (d\<lparr>offers := insert_row f (offers d), next_id := Suc (next_id d)\<rparr>)"
      by (rule inv_create [OF assms])
         (use free l in \<open>auto simp: f new_offer_def live_def live_or_accepted_def\<close>)
    then show ?thesis by (rule negotiation_inv_cong [THEN iffD2, rotated -1]) (simp_all add: d')
  qed
qed (rule assms)

lemma claim_as_map:
  assumes inv: "negotiation_inv d" and f: "fresh \<in> set (offers d)" "of_status fresh \<in> set from"
    and c: "claim_offer idx now (of_id fresh) from to e d = Inr d1"
  shows "d1 = d\<lparr>offers := map (\<lambda>f. if f = fresh then set_offer_status now to f else f) (offers d)\<rparr>"
  using c f update_by_id [OF inv_offer_keys [OF inv] f(1), of "\<lambda>f. of_status f \<in> set from"]
  by (simp add: claim_offer_Inr)

lemma selectOffer_inv:
  assumes inv: "negotiation_inv d"
  shows "negotiation_inv (fst (selectOffer idx now u f sellerId d))"
proof -
  have "negotiation_inv d'" if "selectOffer_tx idx now u f sellerId d = Inr (d', g)" for d' g
    using that
  proof (rule selectOffer_txE)
    fix fresh l d1
    assume r: "read_leaf (of_id f) (Offer_Err 404 OFFER_NOT_FOUND) d = Inr (fresh, l)"
      and st: "of_status fresh = Of_PENDING"
      and talk: "\<forall>x \<in> set (offers d). leaf (offers d) x \<and> negotiating (of_status x) \<and>
           of_listingId x = of_listingId fresh \<longrightarrow>
           (\<exists>y \<in> set (offers d). leaf (offers d) y \<and> negotiating (of_status y) \<and>
              of_listingId y = of_listingId fresh \<and> of_buyerId y = of_buyerId fresh)"
      and ord: "\<forall>o1 \<in> set (orders d). order_open (o_status o1) \<longrightarrow> o_listingId o1 \<noteq> of_listingId fresh"
      and c: "claim_offer idx now (of_id fresh) [Of_PENDING] Of_SELECTED (Offer_Err 409 MOVED_ON) d = Inr d1"
      and d': "d' = recordAuditEvent now (Some (u_id u)) (Offer_Act OFFER_SELECTED) (of_id fresh) None d1"
    from r have fr: "fresh \<in> set (offers d)" "leaf (offers d) fresh" by (auto elim: read_leafE)
    have lv: "live (of_status fresh)" by (simp add: st live_def)
    have "negotiation_inv (d\<lparr>offers :=
        map (\<lambda>f. if f = fresh then set_offer_status now Of_SELECTED f else f) (offers d)\<rparr>)"
    proof (rule inv_move [OF inv fr lv])
      fix x
      assume x: "x \<in> set (offers d)" "leaf (offers d) x" "negotiating (of_status x)"
        "of_listingId x = of_listingId fresh"
      with talk obtain y where y: "y \<in> set (offers d)" "leaf (offers d) y" "negotiating (of_status y)"
        "of_listingId y = of_listingId fresh" "of_buyerId y = of_buyerId fresh" by blast
      with inv fr lv have "y = fresh"
        using negotiating_live unfolding negotiation_inv_def one_live_bid_def by blast
      with y(3) st show "x = fresh" by (simp add: negotiating_def)
    qed (use ord in blast)
    then show "negotiation_inv d'"
      using claim_as_map [OF inv fr(1) _ c] st by (simp add: d')
  qed
  with inv show ?thesis
    by (auto simp: selectOffer_def intro: transact_preserves)
qed

lemma move_inv:
  assumes inv: "negotiation_inv d" and r: "read_leaf i e d = Inr (fresh, l)"
    and st: "of_status fresh \<in> {Of_SELECTED, Of_COUNTERED}"
    and m: "moveOfferToProvisional idx now fresh l fp actor d = Inr (d', g)"
  shows "negotiation_inv d'"
  using m
proof (rule moveOfferToProvisionalE)
  fix d1
  assume c: "claim_offer idx now (of_id fresh) [Of_SELECTED, Of_COUNTERED] Of_PROVISIONAL
       (Offer_Err 409 SUPERSEDED) d = Inr d1"
    and d': "d' = recordAuditEvent now (Some actor) (Offer_Act OFFER_PROVISIONAL_AGREED) (of_id g) None d1"
  from r have fr: "fresh \<in> set (offers d)" "leaf (offers d) fresh" by (auto elim: read_leafE)
  have "negotiation_inv (d\<lparr>offers :=
      map (\<lambda>f. if f = fresh then set_offer_status now Of_PROVISIONAL f else f) (offers d)\<rparr>)"
    by (rule inv_move_negotiating [OF inv fr]) (use st in \<open>auto simp: negotiating_def\<close>)
  then show "negotiation_inv d'"
    using claim_as_map [OF inv fr(1) _ c] st by (simp add: d')
qed

lemma acceptSelected_tx_inv:
  assumes "negotiation_inv d" and "acceptSelected_tx idx now u f d = Inr (d', g)"
  shows "negotiation_inv d'"
  using assms(2) by (rule acceptSelected_txE) (erule (1) move_inv [OF assms(1), rotated 2], simp)

lemma acceptCounter_tx_inv:
  assumes "negotiation_inv d" and "acceptCounter_tx idx now u f d = Inr (d', g)"
  shows "negotiation_inv d'"
  using assms(2) by (rule acceptCounter_txE) (rule move_inv [OF assms(1)])

lemma acceptOffer_tx_inv:
  assumes "negotiation_inv d" and "acceptOffer_tx idx now u f d = Inr (d', g)"
  shows "negotiation_inv d'"
  using assms(2) by (rule acceptOffer_txE) (rule move_inv [OF assms(1)])

lemma accept_handlers_inv:
  assumes "negotiation_inv d"
  shows "negotiation_inv (fst (acceptSelected idx now u f d))"
    and "negotiation_inv (fst (acceptCounter idx now u f d))"
    and "negotiation_inv (fst (acceptOffer idx now u f sellerId d))"
  using assms acceptSelected_tx_inv [OF assms] acceptCounter_tx_inv [OF assms]
    acceptOffer_tx_inv [OF assms]
  by (auto simp: acceptSelected_def acceptCounter_def acceptOffer_def intro: transact_preserves)

lemma counter_body_inv:
  assumes inv: "negotiation_inv d" and b: "counter_body idx now u i a party other d = Inr (d', g)"
  shows "negotiation_inv d'"
  using b
proof (rule counter_bodyE)
  fix fresh l e
  assume r: "read_leaf i e d = Inr (fresh, l)" and st: "of_status fresh \<in> {Of_SELECTED, Of_COUNTERED}"
    and g: "g = counter_child now (next_id d) fresh l a party"
    and d': "offers d' = insert_row g (update_offer now (of_id fresh) Of_COUNTERED (offers d))"
      "next_id d' = Suc (next_id d)" "orders d' = orders d"
  let ?f = "set_offer_status now Of_COUNTERED fresh"
  let ?m = "map (\<lambda>f. if f = fresh then set_offer_status now Of_COUNTERED f else f) (offers d)"
  from r have fr: "fresh \<in> set (offers d)" "leaf (offers d) fresh" by (auto elim: read_leafE)
  have m: "update_offer now (of_id fresh) Of_COUNTERED (offers d) = ?m"
    using update_by_id [OF inv_offer_keys [OF inv] fr(1), of "\<lambda>_. True"] by simp
  have 1: "negotiation_inv (d\<lparr>offers := ?m\<rparr>)"
    by (rule inv_move_negotiating [OF inv fr]) (use st in \<open>auto simp: negotiating_def\<close>)
  have lf: "leaf ?m (if fresh = fresh then set_offer_status now Of_COUNTERED fresh else fresh)"
    by (subst leaf_map [where g = "\<lambda>f. if f = fresh then set_offer_status now Of_COUNTERED f else f"])
       (simp_all add: fr)
  have "negotiation_inv ((d\<lparr>offers := ?m\<rparr>)\<lparr>offers := insert_row g (offers (d\<lparr>offers := ?m\<rparr>)),
      next_id := Suc (next_id (d\<lparr>offers := ?m\<rparr>))\<rparr>)"
    by (rule inv_child [OF 1, of ?f]) (use fr lf in \<open>auto simp: g counter_child_def\<close>)
  then show "negotiation_inv d'"
    by (rule negotiation_inv_cong [THEN iffD2, rotated -1]) (simp_all add: d' m)
qed

lemma counter_handlers_inv:
  assumes "negotiation_inv d"
  shows "negotiation_inv (fst (counterOffer idx now u f sellerId a d))"
    and "negotiation_inv (fst (reCounter idx now u f a d))"
  using assms counter_body_inv [OF assms]
  by (auto simp: counterOffer_def reCounter_def Let_def intro: transact_preserves)

lemma close_leaf_inv:
  assumes "negotiation_inv d" and "\<not> live s"
  shows "negotiation_inv (close_leaf now f s d)"
  using inv_close [OF assms, of "\<lambda>g. of_id g = of_id f" now]
  by (rule negotiation_inv_cong [THEN iffD2, rotated -1]) simp_all

lemma releaseBuyer_tx_inv:
  assumes "negotiation_inv d" and "releaseBuyer_tx e now u f d = Inr (d', g)"
  shows "negotiation_inv d'"
  using assms(2) by (rule releaseBuyer_txE) (simp add: close_leaf_inv [OF assms(1)] live_def)

lemma rejectOrWithdraw_tx_inv:
  assumes "negotiation_inv d" and "rejectOrWithdraw_tx w now u f d = Inr (d', g)"
  shows "negotiation_inv d'"
  using assms(2) by (rule rejectOrWithdraw_txE) (simp add: close_leaf_inv [OF assms(1)] live_def)

lemma close_handlers_inv:
  assumes "negotiation_inv d"
  shows "negotiation_inv (fst (releaseBuyer e now u f sellerId d))"
    and "negotiation_inv (fst (rejectOrWithdraw w now u f sellerId d))"
  using assms releaseBuyer_tx_inv [OF assms] rejectOrWithdraw_tx_inv [OF assms]
  by (auto simp: releaseBuyer_def rejectOrWithdraw_def Let_def intro: transact_preserves split: option.splits)

lemma releaseProvisional_body_inv:
  assumes "negotiation_inv d" and "releaseProvisional_body e now u f sellerId d = Inr (d', r)"
  shows "negotiation_inv d'"
  using assms(2)
  by (rule releaseProvisional_bodyE) (simp_all add: assms(1) close_leaf_inv [OF assms(1)] live_def)

lemma releaseProvisional_inv:
  assumes "negotiation_inv d"
  shows "negotiation_inv (fst (releaseProvisional e now u f sellerId b d))"
proof -
  have "negotiation_inv (fst (transact (releaseProvisional_body e now u f sellerId) d))"
    using assms releaseProvisional_body_inv [OF assms] by (auto intro: transact_preserves)
  with assms show ?thesis
    by (auto simp: releaseProvisional_def split: sum.splits prod.splits option.splits)
qed

lemma confirmProvisional_inv:
  assumes inv: "negotiation_inv d"
  shows "negotiation_inv (fst (confirmProvisional idx e now u f sellerId d))"
proof -
  have "negotiation_inv d'" if "confirmProvisional_tx idx e now u f d = Inr (d', go)" for d' go
  proof -
    obtain g ord where go: "go = (g, ord)" by (cases go)
    from that [unfolded go] show ?thesis
    proof (rule confirmProvisional_txE)
      fix fresh l e'
      assume r: "read_leaf (of_id f) e' d = Inr (fresh, l)" and st: "of_status fresh = Of_PROVISIONAL"
        and a: "acceptOfferAndCreateOrder idx e now fresh l (Some (confirm_price fresh)) (l_sellerId l)
           (u_id u) d = Inr (d', g, ord)"
      from r have fr: "fresh \<in> set (offers d)" "leaf (offers d) fresh" by (auto elim: read_leafE)
      let ?m = "map (\<lambda>f. if f = fresh then set_offer_status now Of_ACCEPTED f else f) (offers d)"
      from a show ?thesis
      proof (rule acceptOfferAndCreateOrder_Inr)
        fix q p d1
        assume c: "claim_offer idx now (of_id fresh) [Of_PENDING, Of_SELECTED, Of_COUNTERED, Of_PROVISIONAL]
             Of_ACCEPTED (Offer_Err 409 SUPERSEDED) d = Inr d1"
          and none: "\<forall>o1\<in>set (orders d). o_listingId o1 = of_listingId fresh \<longrightarrow> \<not> order_open (o_status o1)"
          and ord: "ord = new_order e now (next_id d) fresh l (l_sellerId l) q p"
          and d': "offers d' = offers d1" "orders d' = insert_row ord (orders d)" "next_id d' = Suc (next_id d)"
        have d1: "d1 = d\<lparr>offers := ?m\<rparr>"
          by (rule claim_as_map [OF inv fr(1) _ c]) (simp add: st)
        have 1: "negotiation_inv (d\<lparr>offers := ?m\<rparr>)"
          by (rule inv_shrink [OF inv]) (auto simp: live_def)
        have "negotiation_inv ((d\<lparr>offers := ?m\<rparr>)\<lparr>orders := insert_row ord (orders (d\<lparr>offers := ?m\<rparr>)),
            next_id := Suc (next_id (d\<lparr>offers := ?m\<rparr>))\<rparr>)"
        proof (rule inv_new_order [OF 1])
          fix h
          assume h: "h \<in> set (offers (d\<lparr>offers := ?m\<rparr>))" "leaf (offers (d\<lparr>offers := ?m\<rparr>)) h"
            "negotiating (of_status h)"
          let ?g = "\<lambda>f. if f = fresh then set_offer_status now Of_ACCEPTED f else f"
          from h(1) have "h \<in> ?g ` set (offers d)" by simp
          then obtain h0 where h0: "h = ?g h0" "h0 \<in> set (offers d)" by blast
          with h(3) have "h0 \<noteq> fresh" by (auto simp: negotiating_def)
          with h0 have "h = h0" by simp
          have "leaf (offers d) h0"
            using h(2) leaf_map [where g = ?g and f = h0 and offs = "offers d"] h0(1) by simp
          with \<open>h0 \<noteq> fresh\<close> \<open>h = h0\<close> h(3) h0(2) inv fr st show "of_listingId h \<noteq> o_listingId ord"
            unfolding negotiation_inv_def exclusive_def ord
            by (simp; metis negotiating_def insertCI)
        qed (use none in \<open>auto simp: ord\<close>)
        then show ?thesis
          by (rule negotiation_inv_cong [THEN iffD2, rotated -1]) (simp_all add: d' d1)
      qed
    qed
  qed
  with inv show ?thesis by (auto simp: confirmProvisional_def intro: transact_preserves)
qed

lemma respondToOffer_inv:
  assumes "negotiation_inv d"
  shows "negotiation_inv (fst (respond_to idx e now u act f sellerId d))"
proof -
  have "negotiation_inv (fst (run_action idx e now u act f sellerId d))"
    using assms confirmProvisional_inv [OF assms, of idx e now u f sellerId]
    by (cases act)
       (auto simp: run_action_def selectOffer_inv accept_handlers_inv counter_handlers_inv
        close_handlers_inv releaseProvisional_inv split: prod.splits sum.splits)
  with assms show ?thesis by (simp add: respond_to_def expireOfferIfNeeded_inv)
qed

lemma reopenBidding_inv:
  "negotiation_inv d \<Longrightarrow> negotiation_inv (fst (reopenBidding now u lid d))"
  unfolding reopenBidding_def
  by (rule transact_preserves) (auto simp: reopenBidding_tx_def bindr_eq_Inr split: option.splits)

lemma releaseWaitingBidders_inv:
  "negotiation_inv d \<Longrightarrow> negotiation_inv (fst (releaseWaitingBidders now lid a d))"
  by (simp add: releaseWaitingBidders_def Let_def inv_close live_def)

lemma recover_offers_inv:
  assumes "negotiation_inv d" and "recover_offers now ord d = Inr d'"
  shows "negotiation_inv d'"
proof -
  from assms(2) obtain P where "offers d' = update_rows P (set_offer_status now Of_EXPIRED) (offers d)"
    "orders d' = orders d" "next_id d' = next_id d"
    by (auto simp: recover_offers_def split: if_splits option.splits)
  then show ?thesis
    using inv_close [OF assms(1), of Of_EXPIRED P now]
    by (auto simp: live_def intro: negotiation_inv_cong [THEN iffD2, rotated -1])
qed

end
