(* ===== verification/Inventory.thy ===== *)
theory Inventory
  imports Lifecycle
begin

text \<open>
  \<open>backend/src/services/inventoryService.js\<close>: reserving, committing and returning the
  quantity of a listing. \<open>availableQuantity\<close> and \<open>quantity\<close> are non-null \<open>Float\<close>
  columns, so the fallback of \<open>availableQuantity()\<close> for a missing value is not reached
  from a stored row.
\<close>

section \<open>The code\<close>

definition EPSILON :: number where
  "EPSILON = 1 / 10 ^ 9"

definition normalizeQuantity :: "number option \<Rightarrow> number res" where
  "normalizeQuantity value =
     (case value of
        None \<Rightarrow> Inl (Stock_Err 400 BAD_QUANTITY)
      | Some quantity \<Rightarrow>
          if quantity \<le> 0 then Inl (Stock_Err 400 BAD_QUANTITY) else Inr quantity)"

definition availableQuantity :: "listing \<Rightarrow> number" where
  "availableQuantity l = l_available l"

definition physical :: "listing_category \<Rightarrow> bool" where
  "physical c = (c \<in> {AGRICULTURAL, PRODUCT})"

text \<open>The \<open>where\<close> clause of both claims: an open physical listing with enough left.\<close>

definition stock_open :: "number \<Rightarrow> listing \<Rightarrow> bool" where
  "stock_open quantity l \<longleftrightarrow> physical (l_category l) \<and>
     l_status l \<in> {L_ACTIVE, L_UNDER_NEGOTIATION} \<and> quantity \<le> l_available l"

definition reserveListingQuantity ::
    "uid \<Rightarrow> number option \<Rightarrow> db \<Rightarrow> (db \<times> number \<times> number) res" where
  "reserveListingQuantity lid requested d =
     bindr (normalizeQuantity requested) (\<lambda>quantity.
       let (rows, count) =
             update_many (\<lambda>l. l_id l = lid \<and> stock_open quantity l)
               (\<lambda>l. l\<lparr>l_available := l_available l - quantity\<rparr>) (listings d)
       in if count \<noteq> 1 then Inl (Stock_Err 409 INSUFFICIENT_INVENTORY)
          else case find_unique l_id lid rows of
            None \<Rightarrow> Inl (Stock_Err 404 LISTING_NOT_FOUND)
          | Some listing \<Rightarrow>
              let remaining = availableQuantity listing;
                  rows' = update_rows (\<lambda>l. l_id l = lid)
                    (\<lambda>l. l\<lparr>l_status := if remaining \<le> EPSILON then L_SOLD
                                      else L_UNDER_NEGOTIATION\<rparr>) rows
              in Inr (d\<lparr>listings := rows'\<rparr>, quantity, remaining))"

text \<open>Committing also closes the open bids once nothing is left.\<close>

definition commitListingQuantity ::
    "time \<Rightarrow> uid \<Rightarrow> number option \<Rightarrow> db \<Rightarrow> (db \<times> number \<times> number) res" where
  "commitListingQuantity now lid requested d =
     bindr (normalizeQuantity requested) (\<lambda>quantity.
       let (rows, count) =
             update_many (\<lambda>l. l_id l = lid \<and> stock_open quantity l)
               (\<lambda>l. l\<lparr>l_available := l_available l - quantity\<rparr>) (listings d)
       in if count \<noteq> 1 then Inl (Stock_Err 409 INSUFFICIENT_INVENTORY)
          else case find_unique l_id lid rows of
            None \<Rightarrow> Inl (Stock_Err 404 LISTING_NOT_FOUND)
          | Some listing \<Rightarrow>
              let remaining = availableQuantity listing;
                  rows' = update_rows (\<lambda>l. l_id l = lid)
                    (\<lambda>l. l\<lparr>l_status := if remaining \<le> EPSILON then L_SOLD
                                      else L_UNDER_NEGOTIATION\<rparr>) rows;
                  d1 = d\<lparr>listings := rows'\<rparr>;
                  d2 = (if remaining \<le> EPSILON
                        then d1\<lparr>offers := update_rows
                               (\<lambda>f. of_listingId f = lid \<and>
                                    of_status f \<in> {Of_PENDING, Of_COUNTERED, Of_SELECTED})
                               (\<lambda>f. f\<lparr>of_status := Of_REJECTED, of_updatedAt := now\<rparr>) (offers d1)\<rparr>
                        else d1)
              in Inr (d2, quantity, remaining))"

text \<open>
  The order comes with the payments its caller loaded (\<open>None\<close> when it loaded none);
  the result is the listing it wrote, if it wrote one.
\<close>

definition releaseListingQuantity ::
    "order \<Rightarrow> payment list option \<Rightarrow> db \<Rightarrow> (db \<times> listing option) res" where
  "releaseListingQuantity ord pays d =
     (let paidGoodsPayment =
            (case pays of None \<Rightarrow> False
             | Some ps \<Rightarrow> list_ex (\<lambda>p. p_type p = MARKETPLACE \<and>
                 p_status p \<in> {P_PAID, P_REFUND_PENDING, P_REFUNDED}) ps)
      in if o_status ord = PENDING_PAYMENT \<and> \<not> paidGoodsPayment then Inr (d, None)
         else bindr (normalizeQuantity (Some (o_quantity ord))) (\<lambda>quantity.
           case find_unique l_id (o_listingId ord) (listings d) of
             None \<Rightarrow> Inr (d, None)
           | Some listing \<Rightarrow>
               if \<not> physical (l_category listing) then Inr (d, None)
               else
                 let currentAvailable = availableQuantity listing;
                     restored = min (l_quantity listing) (currentAvailable + quantity);
                     activeOffers = count_where
                       (\<lambda>f. of_listingId f = o_listingId ord \<and>
                            of_status f \<in> {Of_PENDING, Of_COUNTERED}) (offers d);
                     nextStatus = (if restored \<le> EPSILON then L_SOLD
                                   else if 0 < activeOffers then L_UNDER_NEGOTIATION
                                   else L_ACTIVE);
                     d' = d\<lparr>listings := update_rows (\<lambda>l. l_id l = o_listingId ord)
                       (\<lambda>l. l\<lparr>l_available := restored, l_status := nextStatus\<rparr>) (listings d)\<rparr>
                 in Inr (d', find_unique l_id (o_listingId ord) (listings d'))))"

section \<open>A stock that is taken from and returned to\<close>

datatype stock_op = Take number | Put number

text \<open>
  A history of takings and returns; \<open>out\<close> is the quantity taken and not returned. A
  return is made for a quantity that is out, as a cancellation returns a committed order.
\<close>

fun stock_run ::
    "(number \<Rightarrow> 's \<Rightarrow> 's option) \<Rightarrow> (number \<Rightarrow> 's \<Rightarrow> 's) \<Rightarrow> stock_op list \<Rightarrow> 's \<times> number \<Rightarrow> 's \<times> number"
where
  "stock_run takeq putq [] (s, out) = (s, out)"
| "stock_run takeq putq (Take q # ops) (s, out) =
     (case takeq q s of
        None \<Rightarrow> stock_run takeq putq ops (s, out)
      | Some s' \<Rightarrow> stock_run takeq putq ops (s', out + q))"
| "stock_run takeq putq (Put q # ops) (s, out) =
     (if 0 < q \<and> q \<le> out then stock_run takeq putq ops (putq q s, out - q)
      else stock_run takeq putq ops (s, out))"

locale stock =
  fixes ok :: "'s \<Rightarrow> bool"
    and avail :: "'s \<Rightarrow> number"
    and total :: "'s \<Rightarrow> number"
    and takeq :: "number \<Rightarrow> 's \<Rightarrow> 's option"
    and putq :: "number \<Rightarrow> 's \<Rightarrow> 's"
  assumes take_ok: "ok s \<Longrightarrow> takeq q s = Some s' \<Longrightarrow> ok s'"
    and take_pos: "ok s \<Longrightarrow> takeq q s = Some s' \<Longrightarrow> 0 < q \<and> q \<le> avail s"
    and take_avail: "ok s \<Longrightarrow> takeq q s = Some s' \<Longrightarrow> avail s' = avail s - q"
    and take_total: "ok s \<Longrightarrow> takeq q s = Some s' \<Longrightarrow> total s' = total s"
    and put_ok: "ok s \<Longrightarrow> 0 < q \<Longrightarrow> ok (putq q s)"
    and put_avail: "ok s \<Longrightarrow> 0 < q \<Longrightarrow> avail (putq q s) = min (total s) (avail s + q)"
    and put_total: "ok s \<Longrightarrow> 0 < q \<Longrightarrow> total (putq q s) = total s"
begin

text \<open>Nothing is lost and nothing is sold twice, whatever the history.\<close>

lemma conservation:
  assumes "ok s" and "0 \<le> out" and "0 \<le> avail s" and "avail s + out \<le> total s"
    and "stock_run takeq putq ops (s, out) = (s', out')"
  shows "ok s' \<and> avail s' + out' = avail s + out \<and> total s' = total s \<and>
    0 \<le> avail s' \<and> 0 \<le> out'"
  using assms
proof (induction ops arbitrary: s out)
  case Nil
  then show ?case by simp
next
  case (Cons x ops)
  show ?case
  proof (cases x)
    case (Take q)
    show ?thesis
    proof (cases "takeq q s")
      case None
      with Take Cons show ?thesis by simp
    next
      case (Some s1)
      note t = take_ok [OF Cons.prems(1) Some] take_pos [OF Cons.prems(1) Some]
        take_avail [OF Cons.prems(1) Some] take_total [OF Cons.prems(1) Some]
      from Cons.prems Take Some have "stock_run takeq putq ops (s1, out + q) = (s', out')" by simp
      from Cons.IH [OF _ _ _ _ this] t Cons.prems show ?thesis by simp
    qed
  next
    case (Put q)
    show ?thesis
    proof (cases "0 < q \<and> q \<le> out")
      case False
      with Put Cons show ?thesis by auto
    next
      case True
      then have q: "0 < q" "q \<le> out" by auto
      note p = put_ok [OF Cons.prems(1) q(1)] put_avail [OF Cons.prems(1) q(1)]
        put_total [OF Cons.prems(1) q(1)]
      from Cons.prems(4) q have a: "avail (putq q s) = avail s + q" by (simp add: p)
      from Cons.prems Put True have "stock_run takeq putq ops (putq q s, out - q) = (s', out')" by simp
      from Cons.IH [OF _ _ _ _ this] p a q Cons.prems show ?thesis by simp
    qed
  qed
qed

end

section \<open>Facts about the code\<close>

lemma normalizeQuantity_Inr [simp]:
  "normalizeQuantity v = Inr q \<longleftrightarrow> v = Some q \<and> 0 < q"
  by (auto simp: normalizeQuantity_def split: option.splits)

lemma normalizeQuantity_Some [simp]: "0 < q \<Longrightarrow> normalizeQuantity (Some q) = Inr q"
  by simp

definition take_stock :: "number \<Rightarrow> listing \<Rightarrow> listing" where
  "take_stock q l = l\<lparr>l_available := l_available l - q,
     l_status := if l_available l - q \<le> EPSILON then L_SOLD else L_UNDER_NEGOTIATION\<rparr>"

lemma take_stock_sel [simp]:
  "l_id (take_stock q l) = l_id l"
  "l_available (take_stock q l) = l_available l - q"
  "l_quantity (take_stock q l) = l_quantity l"
  "l_category (take_stock q l) = l_category l"
  by (simp_all add: take_stock_def)

abbreviation listing_of :: "uid \<Rightarrow> db \<Rightarrow> listing option" where
  "listing_of lid d \<equiv> find_unique l_id lid (listings d)"

text \<open>What a reservation and a commitment do to the listing and the offers.\<close>

lemma take_claim:
  assumes dist: "distinct (map l_id (listings d))"
    and c: "count_where (\<lambda>l. l_id l = lid \<and> stock_open q l) (listings d) = 1"
  obtains l where "listing_of lid d = Some l" and "stock_open q l"
    and "find_unique l_id lid (update_rows (\<lambda>l. l_id l = lid \<and> stock_open q l)
      (\<lambda>l. l\<lparr>l_available := l_available l - q\<rparr>) (listings d)) = Some (l\<lparr>l_available := l_available l - q\<rparr>)"
    and "update_rows (\<lambda>l. l_id l = lid)
      (\<lambda>k. k\<lparr>l_status := if l_available l - q \<le> EPSILON then L_SOLD else L_UNDER_NEGOTIATION\<rparr>)
      (update_rows (\<lambda>l. l_id l = lid \<and> stock_open q l)
      (\<lambda>l. l\<lparr>l_available := l_available l - q\<rparr>) (listings d)) =
      update_rows (\<lambda>l. l_id l = lid) (take_stock q) (listings d)"
proof -
  let ?f = "\<lambda>l. l\<lparr>l_available := l_available l - q\<rparr>"
  obtain l where l: "listing_of lid d = Some l" "stock_open q l"
    and m: "l \<in> set (listings d)" "l_id l = lid"
    and look: "find_unique l_id lid (update_rows (\<lambda>l. l_id l = lid \<and> stock_open q l)
      ?f (listings d)) = Some (?f l)"
    and two: "\<And>g. update_rows (\<lambda>l. l_id l = lid) g (update_rows (\<lambda>l. l_id l = lid \<and> stock_open q l)
      ?f (listings d)) =
      update_rows (\<lambda>l. l_id l = lid) (\<lambda>r. g (?f r)) (listings d)"
    by (rule claim_then_update [OF dist _ c, of ?f]) auto
  have only: "r = l" if "r \<in> set (listings d)" "l_id r = lid" for r
    using key_inj [OF dist that(1) m(1)] that(2) m(2) by simp
  show thesis
    by (rule that [OF l look], unfold two, rule update_rows_cong)
      (use only in \<open>auto simp: take_stock_def\<close>)
qed

lemma claim_fails:
  assumes "distinct (map l_id (listings d))"
    and "count_where (\<lambda>l. l_id l = lid \<and> stock_open q l) (listings d) \<noteq> 1"
  shows "listing_of lid d = None \<or> (\<exists>l. listing_of lid d = Some l \<and> \<not> stock_open q l)"
  using assms count_where_key [OF assms(1), of lid "stock_open q"]
  by (auto split: option.splits if_splits)

lemma reserve_eq:
  assumes dist: "distinct (map l_id (listings d))"
  shows "reserveListingQuantity lid (Some q) d =
    (if q \<le> 0 then Inl (Stock_Err 400 BAD_QUANTITY)
     else case listing_of lid d of
       None \<Rightarrow> Inl (Stock_Err 409 INSUFFICIENT_INVENTORY)
     | Some l \<Rightarrow>
         if stock_open q l
         then Inr (d\<lparr>listings := update_rows (\<lambda>l. l_id l = lid) (take_stock q) (listings d)\<rparr>,
                   q, l_available l - q)
         else Inl (Stock_Err 409 INSUFFICIENT_INVENTORY))"
proof (cases "count_where (\<lambda>l. l_id l = lid \<and> stock_open q l) (listings d) = 1")
  case False
  then show ?thesis using claim_fails [OF dist False]
    by (auto simp: reserveListingQuantity_def normalizeQuantity_def update_many_def)
next
  case True
  then show ?thesis
    by (rule take_claim [OF dist])
       (simp add: reserveListingQuantity_def normalizeQuantity_def update_many_def True
        availableQuantity_def Let_def)
qed

definition close_bids :: "time \<Rightarrow> uid \<Rightarrow> offer list \<Rightarrow> offer list" where
  "close_bids now lid = update_rows
     (\<lambda>f. of_listingId f = lid \<and> of_status f \<in> {Of_PENDING, Of_COUNTERED, Of_SELECTED})
     (\<lambda>f. f\<lparr>of_status := Of_REJECTED, of_updatedAt := now\<rparr>)"

lemma commit_eq:
  assumes dist: "distinct (map l_id (listings d))"
  shows "commitListingQuantity now lid (Some q) d =
    (if q \<le> 0 then Inl (Stock_Err 400 BAD_QUANTITY)
     else case listing_of lid d of
       None \<Rightarrow> Inl (Stock_Err 409 INSUFFICIENT_INVENTORY)
     | Some l \<Rightarrow>
         if stock_open q l
         then Inr (d\<lparr>listings := update_rows (\<lambda>l. l_id l = lid) (take_stock q) (listings d),
                     offers := (if l_available l - q \<le> EPSILON then close_bids now lid (offers d)
                                else offers d)\<rparr>,
                   q, l_available l - q)
         else Inl (Stock_Err 409 INSUFFICIENT_INVENTORY))"
proof (cases "count_where (\<lambda>l. l_id l = lid \<and> stock_open q l) (listings d) = 1")
  case False
  then show ?thesis using claim_fails [OF dist False]
    by (auto simp: commitListingQuantity_def normalizeQuantity_def update_many_def)
next
  case True
  then obtain l where l: "listing_of lid d = Some l" "stock_open q l"
    and look: "find_unique l_id lid (update_rows (\<lambda>l. l_id l = lid \<and> stock_open q l)
      (\<lambda>l. l\<lparr>l_available := l_available l - q\<rparr>) (listings d)) = Some (l\<lparr>l_available := l_available l - q\<rparr>)"
    and two: "update_rows (\<lambda>l. l_id l = lid)
      (\<lambda>k. k\<lparr>l_status := if l_available l - q \<le> EPSILON then L_SOLD else L_UNDER_NEGOTIATION\<rparr>)
      (update_rows (\<lambda>l. l_id l = lid \<and> stock_open q l)
      (\<lambda>l. l\<lparr>l_available := l_available l - q\<rparr>) (listings d)) =
      update_rows (\<lambda>l. l_id l = lid) (take_stock q) (listings d)"
    by (rule take_claim [OF dist])
  show ?thesis
  proof (cases "l_available l - q \<le> EPSILON")
    case sold: True
    with two show ?thesis
      by (simp add: commitListingQuantity_def normalizeQuantity_def update_many_def True l look
          availableQuantity_def Let_def close_bids_def)
  next
    case False
    with two show ?thesis
      by (simp add: commitListingQuantity_def normalizeQuantity_def update_many_def True l look
          availableQuantity_def Let_def)
  qed
qed

lemma release_eq:
  assumes "\<not> (o_status ord = PENDING_PAYMENT \<and> pays = None)" and "0 < o_quantity ord"
    and "listing_of (o_listingId ord) d = Some l" and "physical (l_category l)"
    and "pays = None"
  obtains s where "releaseListingQuantity ord pays d =
    Inr (d\<lparr>listings := update_rows (\<lambda>l. l_id l = o_listingId ord)
       (\<lambda>k. k\<lparr>l_available := min (l_quantity l) (l_available l + o_quantity ord), l_status := s\<rparr>)
       (listings d)\<rparr>,
     Some (l\<lparr>l_available := min (l_quantity l) (l_available l + o_quantity ord), l_status := s\<rparr>))"
    and "s = L_SOLD \<longleftrightarrow> min (l_quantity l) (l_available l + o_quantity ord) \<le> EPSILON"
    and "s \<in> {L_SOLD, L_UNDER_NEGOTIATION, L_ACTIVE}"
proof -
  from assms(3) have "l_id l = o_listingId ord" by (auto dest: find_unique_Some)
  with assms show thesis
    by (intro that) (auto simp: releaseListingQuantity_def availableQuantity_def Let_def
        find_unique_update_rows normalizeQuantity_def split: if_splits)
qed

section \<open>Commitment and release as a stock\<close>

text \<open>
  A listing's stock as the payment settlement and the order cancellation see it: taken
  by a committed payment of some quantity, put back by the cancellation of a confirmed
  order of that quantity.
\<close>

definition goods_ok :: "uid \<Rightarrow> db \<Rightarrow> bool" where
  "goods_ok lid d = (distinct (map l_id (listings d)) \<and>
     (case listing_of lid d of None \<Rightarrow> False | Some l \<Rightarrow> physical (l_category l)))"

definition goods_avail :: "uid \<Rightarrow> db \<Rightarrow> number" where
  "goods_avail lid d = (case listing_of lid d of None \<Rightarrow> 0 | Some l \<Rightarrow> l_available l)"

definition goods_total :: "uid \<Rightarrow> db \<Rightarrow> number" where
  "goods_total lid d = (case listing_of lid d of None \<Rightarrow> 0 | Some l \<Rightarrow> l_quantity l)"

definition goods_take :: "time \<Rightarrow> uid \<Rightarrow> number \<Rightarrow> db \<Rightarrow> db option" where
  "goods_take now lid q d =
     (case commitListingQuantity now lid (Some q) d of Inl _ \<Rightarrow> None | Inr (d', _) \<Rightarrow> Some d')"

definition goods_put :: "order \<Rightarrow> uid \<Rightarrow> number \<Rightarrow> db \<Rightarrow> db" where
  "goods_put ord lid q d =
     (case releaseListingQuantity
        (ord\<lparr>o_listingId := lid, o_quantity := q, o_status := CONFIRMED\<rparr>) None d of
        Inl _ \<Rightarrow> d | Inr (d', _) \<Rightarrow> d')"

lemma goods_takeE:
  assumes "goods_ok lid d" and "goods_take now lid q d = Some d'"
  obtains l where "listing_of lid d = Some l" and "stock_open q l" and "0 < q"
    and "listings d' = update_rows (\<lambda>l. l_id l = lid) (take_stock q) (listings d)"
    and "listing_of lid d' = Some (take_stock q l)"
  using assms
  by (auto simp: goods_take_def goods_ok_def commit_eq find_unique_update_rows
      dest: find_unique_Some split: if_splits option.splits intro: that)

lemma goods_putE:
  assumes "goods_ok lid d" and "0 < q"
  obtains l l' where "listing_of lid d = Some l" and "listing_of lid (goods_put ord lid q d) = Some l'"
    and "l_available l' = min (l_quantity l) (l_available l + q)"
    and "l_quantity l' = l_quantity l" and "l_category l' = l_category l"
    and "map l_id (listings (goods_put ord lid q d)) = map l_id (listings d)"
proof -
  let ?o = "ord\<lparr>o_listingId := lid, o_quantity := q, o_status := CONFIRMED\<rparr>"
  from assms obtain l where l: "listing_of lid d = Some l" "physical (l_category l)"
    by (auto simp: goods_ok_def split: option.splits)
  show thesis
  proof (rule release_eq [of ?o None d l])
    fix s
    let ?f = "\<lambda>k. k\<lparr>l_available := min (l_quantity l) (l_available l + o_quantity ?o), l_status := s\<rparr>"
    assume "releaseListingQuantity ?o None d = Inr (d\<lparr>listings :=
        update_rows (\<lambda>l. l_id l = o_listingId ?o) ?f (listings d)\<rparr>, Some (?f l))"
    with l show thesis
      by (intro that [of l "?f l"])
         (auto simp: goods_put_def find_unique_update_rows dest: find_unique_Some intro!: map_update_rows)
  qed (use assms l in auto)
qed

interpretation goods: stock "goods_ok lid" "goods_avail lid" "goods_total lid"
    "goods_take now lid" "goods_put ord lid"
  for now lid ord
proof
  fix d d' :: db and q :: number
  assume ok: "goods_ok lid d"
  show "goods_ok lid d'" if t: "goods_take now lid q d = Some d'"
    using ok by (rule goods_takeE [OF _ t]) (use ok in \<open>auto simp: goods_ok_def map_update_rows\<close>)
  show "0 < q \<and> q \<le> goods_avail lid d" if t: "goods_take now lid q d = Some d'"
    using ok by (rule goods_takeE [OF _ t]) (auto simp: goods_avail_def stock_open_def)
  show "goods_avail lid d' = goods_avail lid d - q" if t: "goods_take now lid q d = Some d'"
    using ok by (rule goods_takeE [OF _ t]) (auto simp: goods_avail_def)
  show "goods_total lid d' = goods_total lid d" if t: "goods_take now lid q d = Some d'"
    using ok by (rule goods_takeE [OF _ t]) (auto simp: goods_total_def)
  assume q: "0 < q"
  show "goods_ok lid (goods_put ord lid q d)"
    by (rule goods_putE [OF ok q, of ord]) (use ok in \<open>auto simp: goods_ok_def\<close>)
  show "goods_avail lid (goods_put ord lid q d) = min (goods_total lid d) (goods_avail lid d + q)"
    by (rule goods_putE [OF ok q, of ord]) (auto simp: goods_avail_def goods_total_def)
  show "goods_total lid (goods_put ord lid q d) = goods_total lid d"
    by (rule goods_putE [OF ok q, of ord]) (auto simp: goods_total_def)
qed

section \<open>Properties\<close>

definition demo_listing :: listing where
  "demo_listing = \<lparr>l_id = 1, l_sellerId = 7, l_category = AGRICULTURAL, l_quantity = 10,
     l_available = 10, l_minPrice = None, l_status = L_ACTIVE, l_pickupEnd = None,
     l_inspectionRequired = False\<rparr>"

definition demo_order :: order where
  "demo_order = \<lparr>o_id = 5, o_listingId = 1, o_buyerId = 8, o_sellerId = 7, o_finalPrice = 100,
     o_originalFinalPrice = None, o_quantity = 4, o_status = CONFIRMED, o_agreedOfferId = None,
     o_agreedAt = None, o_buyerDecision = None, o_buyerDecisionDueAt = None,
     o_paymentDueAt = None, o_updatedAt = 0\<rparr>"

definition demo_stock :: db where
  "demo_stock = empty_db\<lparr>listings := [demo_listing]\<rparr>"





end
