(* ===== verification/Installments.thy ===== *)
theory Installments
  imports Payment_Machine
begin

text \<open>
  \<open>backend/src/services/installmentService.js\<close>: splitting the price of a large goods
  order into provider-sized parts, the child payments of a plan, replacing a failed
  part, settling the parent when every part is paid and marking it refunded when none is
  held any more. \<open>settle\<close> stands for \<open>settlePaymentCore\<close>, which the code also takes as a
  parameter. A commission rate of 0 is the only one a child carries and has no column in
  the model.
\<close>

section \<open>Splitting an amount\<close>

definition toCents :: "number \<Rightarrow> int" where
  "toCents v = js_round (v * 100)"

definition splitInto :: "number \<Rightarrow> nat \<Rightarrow> number list" where
  "splitInto amount n =
     (let totalCents = toCents amount;
          base = totalCents div int n;
          remainder = totalCents - base * int n
      in map (\<lambda>i. of_int (base + (if int i < remainder then 1 else 0)) / 100) [0..<n])"

definition splitAmount :: "number \<Rightarrow> number \<Rightarrow> number list res" where
  "splitAmount amount limit =
     (let totalCents = toCents amount; maxCents = toCents limit
      in if totalCents \<le> 0 then Inl (Payment_Err 400 BAD_AMOUNT)
         else if maxCents \<le> 0 then Inl (Payment_Err 400 BAD_LIMIT)
         else let count = max 1 (nat \<lceil>(of_int totalCents :: number) / of_int maxCents\<rceil>)
              in Inr (splitInto amount count))"

section \<open>Plans\<close>

definition isInstallmentParent :: "payment \<Rightarrow> bool" where
  "isInstallmentParent p = (p_installmentCount p \<noteq> None)"

definition isInstallmentChild :: "payment \<Rightarrow> bool" where
  "isInstallmentChild p = (p_type p = MARKETPLACE_INSTALLMENT)"

definition sequence_of :: "payment \<Rightarrow> nat" where
  "sequence_of p = (case p_installmentSequence p of None \<Rightarrow> 0 | Some s \<Rightarrow> s)"

definition plan_children :: "uid \<Rightarrow> db \<Rightarrow> payment list" where
  "plan_children parent d =
     sort_key sequence_of (filter (\<lambda>p. p_parentPaymentId p = Some parent \<and>
       p_installmentSequence p \<noteq> None) (payments d))"

definition installment_child :: "payment \<Rightarrow> uid \<Rightarrow> nat \<Rightarrow> number \<Rightarrow> payment" where
  "installment_child parent i sq amount =
     \<lparr>p_id = i, p_orderId = p_orderId parent, p_createdById = p_createdById parent,
      p_inspectionRequestId = None, p_transportJobId = None, p_obligationId = None,
      p_installmentCount = None, p_installmentSequence = Some sq,
      p_parentPaymentId = Some (p_id parent), p_type = MARKETPLACE_INSTALLMENT,
      p_amount = amount, p_currency = p_currency parent, p_method = p_method parent,
      p_status = P_PENDING, p_provider = None, p_chapaTxRef = None,
      p_commissionAmount = Some 0, p_netAmount = Some amount,
      p_transportQuoteId = None, p_digitalProductId = None, p_advertisementId = None,
      p_idempotencyKey = None, p_providerTransactionId = None\<rparr>"

definition ensureInstallmentChildren :: "payment \<Rightarrow> number \<Rightarrow> db \<Rightarrow> (db \<times> payment list) res" where
  "ensureInstallmentChildren parent limit d =
     (if list_ex (\<lambda>p. p_parentPaymentId p = Some (p_id parent)) (payments d)
      then Inr (d, plan_children (p_id parent) d)
      else bindr (case p_installmentCount parent of
                    Some n \<Rightarrow> Inr (splitInto (p_amount parent) n)
                  | None \<Rightarrow> splitAmount (p_amount parent) limit) (\<lambda>parts.
        let n = length parts;
            children = map (\<lambda>i. installment_child parent (next_id d + i) (Suc i) (parts ! i)) [0..<n];
            d' = d\<lparr>payments := payments d @ children, next_id := next_id d + n\<rparr>
        in Inr (d', plan_children (p_id parent) d')))"

definition replaceFailedInstallment :: "uid \<Rightarrow> uid \<Rightarrow> bool \<Rightarrow> db \<Rightarrow> (db \<times> payment) res" where
  "replaceFailedInstallment childId userId admin d =
     (case find_unique p_id childId (payments d) of
        None \<Rightarrow> Inl (Payment_Err 404 INSTALLMENT_NOT_FOUND)
      | Some failed \<Rightarrow>
          (case (if isInstallmentChild failed then p_parentPaymentId failed else None) of
             None \<Rightarrow> Inl (Payment_Err 404 INSTALLMENT_NOT_FOUND)
           | Some pid \<Rightarrow>
               (case find_unique p_id pid (payments d) of
                  None \<Rightarrow> Inl (Payment_Err 404 INSTALLMENT_NOT_FOUND)
                | Some parent \<Rightarrow>
                    bindr (guardr (\<not> (p_createdById failed \<noteq> Some userId \<and> \<not> admin))
                             (Payment_Err 403 NOT_AUTHORIZED)) (\<lambda>_.
                    bindr (guardr (p_status failed = P_FAILED) (Payment_Err 409 INSTALLMENT_NOT_FAILED)) (\<lambda>_.
                    bindr (guardr (p_installmentSequence failed \<noteq> None)
                             (Payment_Err 409 INSTALLMENT_ALREADY_REPLACED)) (\<lambda>_.
                    bindr (guardr (p_status parent = P_PENDING)
                             (Payment_Err 409 INSTALLMENT_PLAN_CLOSED)) (\<lambda>_.
                    bindr (guardr (case (case p_orderId failed of None \<Rightarrow> None
                                        | Some i \<Rightarrow> find_unique o_id i (orders d)) of
                                     None \<Rightarrow> True
                                   | Some o1 \<Rightarrow> o_status o1 \<notin> {CANCELLED, COMPLETED, DISPUTED})
                             (Payment_Err 409 ORDER_NOT_PAYABLE)) (\<lambda>_.
                    let fresh = failed\<lparr>p_id := next_id d, p_inspectionRequestId := None,
                          p_transportJobId := None, p_obligationId := None,
                          p_installmentCount := None, p_type := MARKETPLACE_INSTALLMENT,
                          p_status := P_PENDING, p_provider := None, p_chapaTxRef := None,
                          p_commissionAmount := Some 0, p_netAmount := Some (p_amount failed),
                          p_transportQuoteId := None, p_digitalProductId := None,
                          p_advertisementId := None, p_idempotencyKey := None,
                          p_providerTransactionId := None\<rparr>;
                        rows = update_rows (\<lambda>p. p_id p = childId) (\<lambda>p. p\<lparr>p_installmentSequence := None\<rparr>)
                          (payments d)
                    in Inr (d\<lparr>payments := insert_row fresh rows, next_id := Suc (next_id d)\<rparr>, fresh))))))))) "

definition finalizeInstallmentPlan ::
    "(payment \<Rightarrow> db \<Rightarrow> db \<times> payment res) \<Rightarrow> uid \<Rightarrow> db \<Rightarrow> db \<times> payment option res" where
  "finalizeInstallmentPlan settle parentId d =
     (case find_unique p_id parentId (payments d) of
        None \<Rightarrow> (d, Inr None)
      | Some parent \<Rightarrow>
          (case p_installmentCount parent of
             None \<Rightarrow> (d, Inr None)
           | Some n \<Rightarrow>
               if p_status parent \<in> {P_PAID, P_REFUNDED, P_REFUND_PENDING, P_FAILED} then (d, Inr (Some parent))
               else
                 let children = plan_children parentId d;
                     allPaid = (length children = n \<and> list_all (\<lambda>c. p_status c = P_PAID) children)
                 in if \<not> allPaid then (d, Inr (Some parent))
                    else case settle parent d of
                        (d', Inl e) \<Rightarrow> (d', Inl e)
                      | (d', Inr p) \<Rightarrow> (d', Inr (Some p))))"

definition markParentRefundedIfComplete :: "uid \<Rightarrow> db \<Rightarrow> db" where
  "markParentRefundedIfComplete parentId d =
     (case find_unique p_id parentId (payments d) of
        None \<Rightarrow> d
      | Some parent \<Rightarrow>
          if \<not> isInstallmentParent parent then d
          else if p_status parent \<noteq> P_REFUND_PENDING then d
          else if list_ex (\<lambda>c. p_parentPaymentId c = Some parentId \<and>
                  p_status c \<in> {P_PAID, P_REFUND_PENDING, P_PROCESSING}) (payments d) then d
          else
            let d1 = d\<lparr>payments := update_rows (\<lambda>p. p_id p = parentId)
                   (\<lambda>p. p\<lparr>p_status := P_REFUNDED\<rparr>) (payments d)\<rparr>
            in case p_obligationId parent of
                 None \<Rightarrow> d1
               | Some b \<Rightarrow> d1\<lparr>obligations := update_rows (\<lambda>x. ob_id x = b)
                     (\<lambda>x. x\<lparr>ob_status := Ob_CANCELLED\<rparr>) (obligations d1)\<rparr>)"

section \<open>Facts about the split\<close>

lemma splitInto_length [simp]: "length (splitInto amount n) = n"
  by (simp add: splitInto_def Let_def)

lemma sum_split:
  fixes b r :: int
  assumes "0 \<le> r" and "r \<le> int n"
  shows "(\<Sum>i\<leftarrow>[0..<n]. b + (if int i < r then 1 else 0)) = b * int n + r"
  using assms
proof (induction n arbitrary: r)
  case 0
  then show ?case by simp
next
  case (Suc n)
  show ?case
  proof (cases "r \<le> int n")
    case True
    with Suc show ?thesis by (simp add: algebra_simps)
  next
    case False
    with Suc.prems have r: "r = int n + 1" by simp
    have "(\<Sum>i\<leftarrow>[0..<n]. b + (if int i < r then 1 else 0)) =
        (\<Sum>i\<leftarrow>[0..<n]. b + (if int i < int n then 1 else 0))"
      by (rule arg_cong [where f = sum_list], rule map_cong) (auto simp: r)
    also have "\<dots> = b * int n + int n" using Suc.IH [of "int n"] by simp
    finally show ?thesis by (simp add: r algebra_simps)
  qed
qed

lemma splitInto_cents:
  assumes "0 < n"
  shows "(\<Sum>x\<leftarrow>splitInto amount n. x) = of_int (toCents amount) / 100"
proof -
  let ?t = "toCents amount"
  let ?b = "?t div int n"
  let ?c = "\<lambda>i. ?b + (if int i < ?t - ?b * int n then 1 else 0)"
  have r: "?t - ?b * int n = ?t mod int n" by (simp add: minus_div_mult_eq_mod)
  have *: "(\<Sum>x\<leftarrow>map (\<lambda>i. of_int (?c i) / 100) xs. x) = (of_int (\<Sum>i\<leftarrow>xs. ?c i) :: rat) / 100" for xs
    by (induction xs) (simp_all add: add_divide_distrib)
  have "(\<Sum>i\<leftarrow>[0..<n]. ?c i) = ?b * int n + (?t - ?b * int n)"
    using assms by (intro sum_split) (simp_all add: r order.strict_implies_order)
  then have "(\<Sum>i\<leftarrow>[0..<n]. ?c i) = ?t" by simp
  with * [of "[0..<n]"] show ?thesis
    unfolding splitInto_def Let_def by (simp only:)
qed

lemma splitInto_part:
  assumes "x \<in> set (splitInto amount n)"
  shows "x = of_int (toCents amount div int n) / 100 \<or>
    x = of_int (toCents amount div int n + 1) / 100 \<and> 0 < toCents amount mod int n"
  using assms by (auto simp: splitInto_def Let_def minus_div_mult_eq_mod split: if_splits)

text \<open>The number of parts: the least that keeps each within the limit.\<close>

lemma count_bounds:
  fixes t m :: int
  assumes "0 < t" and "0 < m"
  defines "c \<equiv> \<lceil>(of_int t :: rat) / of_int m\<rceil>"
  shows "0 < c" and "t \<le> c * m" and "(c - 1) * m < t" and "c \<le> t"
proof -
  have pos: "0 < (of_int t :: rat) / of_int m" using assms by simp
  then show c0: "0 < c" by (simp add: c_def)
  have "(of_int t :: rat) / of_int m \<le> of_int c" by (simp add: c_def)
  then have "(of_int t :: rat) \<le> of_int (c * m)" using assms(2) by (simp add: field_simps)
  then show "t \<le> c * m" by (simp only: of_int_le_iff)
  have "of_int (c - 1) < (of_int t :: rat) / of_int m" unfolding c_def by linarith
  then have "(of_int ((c - 1) * m) :: rat) < of_int t" using assms(2) by (simp add: field_simps)
  then show less: "(c - 1) * m < t" by (simp only: of_int_less_iff)
  have "c - 1 \<le> (c - 1) * m" using assms(2) c0 by (simp add: mult_le_cancel_left1)
  with less show "c \<le> t" by linarith
qed

lemma share_bounds:
  fixes c t m :: int
  assumes "0 < c" and "t \<le> c * m" and "c \<le> t"
  shows "0 < t div c" and "t div c + (if 0 < t mod c then 1 else 0) \<le> m"
proof -
  show "0 < t div c" using assms by (simp add: pos_imp_zdiv_pos_iff)
  have eq: "c * (t div c) + t mod c = t" by (rule mult_div_mod_eq)
  have "0 \<le> t mod c" using assms(1) by simp
  show "t div c + (if 0 < t mod c then 1 else 0) \<le> m"
  proof (cases "0 < t mod c")
    case True
    with eq assms(2) have "c * (t div c) < c * m" by linarith
    with True assms(1) show ?thesis by simp
  next
    case False
    with eq assms(2) \<open>0 \<le> t mod c\<close> have "c * (t div c) \<le> c * m" by linarith
    with False assms(1) show ?thesis by simp
  qed
qed

lemma splitAmount_Inr:
  assumes "splitAmount amount limit = Inr parts"
  obtains c where "parts = splitInto amount (nat c)" and "0 < c" and "toCents amount \<le> c * toCents limit"
    and "(c - 1) * toCents limit < toCents amount" and "c \<le> toCents amount"
    and "0 < toCents amount" and "0 < toCents limit"
proof -
  let ?c = "\<lceil>(of_int (toCents amount) :: rat) / of_int (toCents limit)\<rceil>"
  from assms have pos: "0 < toCents amount" "0 < toCents limit"
    and parts: "parts = splitInto amount (max 1 (nat ?c))"
    by (auto simp: splitAmount_def Let_def split: if_splits)
  note b = count_bounds [OF pos]
  from b(1) have "max 1 (nat ?c) = nat ?c" by linarith
  with parts b pos show thesis by (intro that) auto
qed

section \<open>Properties\<close>

text \<open>
  C3. Splitting a price into installments is exact and fits the provider: the parts add
  up to the price to the cent, each is positive and within the provider's limit, no two
  differ by more than a cent, and no smaller number of parts would fit the limit.
\<close>

theorem splitAmount_correct:
  assumes "splitAmount amount limit = Inr parts" and "is_money amount" and "is_money limit"
  shows "sum_list parts = amount \<and> (\<forall>x \<in> set parts. 0 < x \<and> x \<le> limit) \<and>
    (\<forall>x \<in> set parts. \<forall>y \<in> set parts. \<bar>x - y\<bar> \<le> 1 / 100) \<and>
    0 < length parts \<and> of_nat (length parts - 1) * limit < amount"
proof -
  obtain c where parts: "parts = splitInto amount (nat c)" and c: "0 < c"
      "toCents amount \<le> c * toCents limit" "(c - 1) * toCents limit < toCents amount"
      "c \<le> toCents amount" and pos: "0 < toCents amount" "0 < toCents limit"
    using assms(1) by (rule splitAmount_Inr)
  obtain t m where tm: "toCents amount = t" "toCents limit = m" by blast
  have money: "amount = of_int t / 100" "limit = of_int m / 100"
    using assms(2,3) round2_id tm unfolding round2_def toCents_def by metis+
  note c = c [unfolded tm] and pos = pos [unfolded tm]
  have nat: "int (nat c) = c" using c(1) by simp
  note base = share_bounds(1) [OF c(1,2,4)] and top = share_bounds(2) [OF c(1,2,4)]
  have part: "x = of_int (t div c) / 100 \<or> x = of_int (t div c + 1) / 100 \<and> 0 < t mod c"
    if "x \<in> set parts" for x
    using splitInto_part [of x amount "nat c"] that unfolding parts nat tm by blast
  have "sum_list parts = amount"
    using splitInto_cents [of "nat c" amount] c(1) unfolding tm by (simp add: parts money(1) [symmetric])
  moreover have "0 < x \<and> x \<le> limit" if "x \<in> set parts" for x
  proof -
    from part [OF that] obtain k where x: "x = of_int k / 100" and k: "0 < k" "k \<le> m"
    proof (rule disjE)
      assume "x = of_int (t div c) / 100"
      then show thesis using base top by (intro that [of "t div c"]) (auto split: if_splits)
    next
      assume "x = of_int (t div c + 1) / 100 \<and> 0 < t mod c"
      then show thesis using base top by (intro that [of "t div c + 1"]) auto
    qed
    then have "(of_int k :: rat) \<le> of_int m" by (simp only: of_int_le_iff)
    with x k(1) show ?thesis unfolding money(2) by (simp add: divide_right_mono)
  qed
  moreover have "\<bar>x - y\<bar> \<le> 1 / 100" if "x \<in> set parts" "y \<in> set parts" for x y
    using part [OF that(1)] part [OF that(2)] by (auto simp: field_simps)
  moreover have "length parts = nat c" by (simp add: parts)
  moreover have "of_nat (nat c - 1) * limit < amount"
  proof -
    have "(of_nat (nat c - 1) :: rat) = of_int (c - 1)" using c(1) by (simp add: of_nat_diff)
    moreover have "(of_int (c - 1) :: rat) * of_int m < of_int t"
      using c(3) by (metis of_int_less_iff of_int_mult)
    ultimately show ?thesis unfolding money by (simp add: field_simps)
  qed
  ultimately show ?thesis using c(1) by auto
qed

theorem splitAmount_correct_witness:
  "sum_list [33333.34, 33333.33, 33333.33 :: rat] = 100000 \<and>
   splitAmount 100000 40000 = Inr [33333.34, 33333.33, 33333.33]"
proof -
  have s: "splitAmount 100000 40000 = Inr [33333.34, 33333.33, 33333.33]" by code_simp
  have "is_money 100000" "is_money 40000" by code_simp+
  from splitAmount_correct [OF s this] s show ?thesis by blast
qed

end
