(* ===== verification/Refunds.thy ===== *)
theory Refunds
  imports Installments Release_Limits
begin

text \<open>
  \<open>backend/src/services/paymentRefundService.js\<close> with the two calls of
  \<open>backend/src/config/chapa.js\<close> it makes: requesting a refund, submitting it to the
  provider, verifying and finalizing it, failing and retrying it. The provider's HTTP
  interface (\<open>chapaRequest\<close>) is a parameter: \<open>post\<close> answers a refund request, \<open>get\<close> a
  status query. \<open>processRefund\<close> and \<open>verifyAndFinalizeRefund\<close> leave the database between
  their phases, so each phase is a definition of its own and other requests may run in
  between.
\<close>

section \<open>The provider\<close>

text \<open>The outcome of an HTTP call: an error with its status, if it has one, or the reply.\<close>

type_synonym 'a reply = "nat option + 'a"

text \<open>\<open>post txRef amount reference\<close> replies with the provider's reference, if it gave one.\<close>

type_synonym chapa_post = "string \<Rightarrow> number \<Rightarrow> uid \<Rightarrow> (string option) reply"
type_synonym chapa_get = "string \<Rightarrow> string reply"

datatype provider_status = PS_PENDING | PS_PROCESSING | PS_REFUNDED | PS_REVERSED

definition refundTransaction :: "chapa_post \<Rightarrow> string \<Rightarrow> number \<Rightarrow> uid \<Rightarrow> string reply" where
  "refundTransaction post txRef amount reference =
     (if txRef = [] then Inl (Some 400)
      else if amount \<le> 0 then Inl (Some 400)
      else bindr (post txRef amount reference) (\<lambda>refId.
        case refId of
          None \<Rightarrow> Inl (Some 502)
        | Some r \<Rightarrow> if r = [] then Inl (Some 502) else Inr r))"

definition lower_char :: "char \<Rightarrow> char" where
  "lower_char c = (let n = of_char c :: nat in if 65 \<le> n \<and> n \<le> 90 then char_of (n + 32) else c)"

definition verifyRefund :: "chapa_get \<Rightarrow> string \<Rightarrow> provider_status reply" where
  "verifyRefund get refId =
     (if refId = [] then Inl (Some 400)
      else bindr (get refId) (\<lambda>raw.
        let status = map lower_char raw
        in Inr (if status = ''refunded'' then PS_REFUNDED
                else if status \<in> {''reversed'', ''failed'', ''cancelled'', ''canceled''} then PS_REVERSED
                else if status \<in> {''initiated'', ''processing''} then PS_PROCESSING
                else PS_PENDING)))"

text \<open>\<open>OTHER_METHOD\<close> stands for the methods no adapter serves.\<close>

definition providerForPayment :: "payment \<Rightarrow> string option" where
  "providerForPayment p =
     (let provider = js_upper (or_empty (p_provider p))
      in if provider = ''CHAPA'' \<or> provider = ''CHAPA_TELEBIRR'' then Some provider
         else if p_method p = QR then Some ''CHAPA''
         else if p_method p = TELEBIRR then Some ''CHAPA_TELEBIRR''
         else None)"

section \<open>Requesting\<close>

definition refund_live :: "refund_status \<Rightarrow> bool" where
  "refund_live s = (s \<in> {Rf_REQUESTED, Rf_PROCESSING, Rf_COMPLETED})"

definition newest :: "refund list \<Rightarrow> refund option" where
  "newest rs = pick (\<lambda>a b. r_createdAt a > r_createdAt b) rs"

definition live_refund :: "uid \<Rightarrow> db \<Rightarrow> refund option" where
  "live_refund pid d = newest (filter (\<lambda>r. r_paymentId r = pid \<and> refund_live (r_status r)) (refunds d))"

definition set_payment_status :: "uid \<Rightarrow> payment_status \<Rightarrow> payment_status \<Rightarrow> payment list \<Rightarrow> payment list" where
  "set_payment_status pid from to =
     update_rows (\<lambda>p. p_id p = pid \<and> p_status p = from) (\<lambda>p. p\<lparr>p_status := to\<rparr>)"

definition new_refund :: "time \<Rightarrow> uid \<Rightarrow> uid \<Rightarrow> number \<Rightarrow> string \<Rightarrow> uid option \<Rightarrow> refund" where
  "new_refund now i pid amount currency requestedBy =
     \<lparr>r_id = i, r_paymentId = pid, r_requestedById = requestedBy, r_amount = amount,
      r_currency = currency, r_status = Rf_REQUESTED, r_provider = None, r_providerRefundId = None,
      r_uncertain = False, r_createdAt = now, r_completedAt = None\<rparr>"

text \<open>The reset to \<open>PAID\<close> of a payment whose last refund failed.\<close>

definition retry_reset :: "payment \<Rightarrow> db \<Rightarrow> db res" where
  "retry_reset p d =
     (if p_status p = P_REFUND_PENDING
      then case newest (filter (\<lambda>r. r_paymentId r = p_id p \<and> r_status r = Rf_FAILED) (refunds d)) of
             None \<Rightarrow> Inl (Refund_Err 409 REFUND_IN_PROGRESS)
           | Some _ \<Rightarrow>
               if count_where (\<lambda>q. p_id q = p_id p \<and> p_status q = P_REFUND_PENDING) (payments d) \<noteq> 1
               then Inl (Refund_Err 409 REFUND_IN_PROGRESS)
               else Inr (d\<lparr>payments := set_payment_status (p_id p) P_REFUND_PENDING P_PAID (payments d)\<rparr>)
      else Inr d)"

definition requestRefund ::
    "time \<Rightarrow> uid \<Rightarrow> number option \<Rightarrow> uid option \<Rightarrow> db \<Rightarrow> (db \<times> refund) res" where
  "requestRefund now paymentId amount requestedBy d =
     (case find_unique p_id paymentId (payments d) of
        None \<Rightarrow> Inl (Refund_Err 404 PAYMENT_NOT_FOUND)
      | Some payment \<Rightarrow>
          bindr (guardr (p_status payment \<in> {P_PAID, P_REFUND_PENDING})
                   (Refund_Err 409 PAYMENT_NOT_REFUNDABLE)) (\<lambda>_.
          let refundAmount = (case amount of None \<Rightarrow> p_amount payment | Some a \<Rightarrow> a) in
          bindr (guardr (\<not> (refundAmount \<le> 0 \<or> \<bar>refundAmount - p_amount payment\<bar> \<ge> 1 / 100))
                   (Refund_Err 400 FULL_REFUND_ONLY)) (\<lambda>_.
          case live_refund paymentId d of
            Some existing \<Rightarrow> Inr (d, existing)
          | None \<Rightarrow>
              bindr (retry_reset payment d) (\<lambda>d1.
              if count_where (\<lambda>q. p_id q = paymentId \<and> p_status q = P_PAID) (payments d1) \<noteq> 1
              then (case live_refund paymentId d1 of
                      Some r \<Rightarrow> Inr (d1, r)
                    | None \<Rightarrow> Inl (Refund_Err 409 PAYMENT_NOT_REFUNDABLE))
              else
                let refund = new_refund now (next_id d1) paymentId (round2 refundAmount)
                      (p_currency payment) requestedBy;
                    d2 = d1\<lparr>payments := set_payment_status paymentId P_PAID P_REFUND_PENDING (payments d1),
                            refunds := insert_row refund (refunds d1), next_id := Suc (next_id d1)\<rparr>;
                    d3 = (case p_orderId payment of
                            None \<Rightarrow> d2 | Some i \<Rightarrow> recordOrderEvent now i Ev_REFUND_REQUESTED d2)
                in Inr (recordAuditEvent now requestedBy (Money_Act PAYMENT_REFUND_REQUESTED) (r_id refund)
                          None d3, refund)))))"

section \<open>Submitting\<close>

text \<open>The order a refund's payment belongs to must be cancelled, or its inspection stalled.\<close>

definition refund_allowed :: "payment \<Rightarrow> db \<Rightarrow> bool" where
  "refund_allowed p d =
     (case p_orderId p of
        None \<Rightarrow> True
      | Some i \<Rightarrow>
          let stalled = (p_type p = INSPECTOR \<and>
                (case p_inspectionRequestId p of
                   None \<Rightarrow> False
                 | Some k \<Rightarrow> list_ex (\<lambda>q. i_id q = k \<and> i_status q = I_STALLED) (inspections d)))
          in (case find_unique o_id i (orders d) of
                None \<Rightarrow> True
              | Some o1 \<Rightarrow> o_status o1 = CANCELLED \<or> stalled))"

datatype claim_result =
  Already refund
| Claimed refund string string

definition processRefund_claim :: "uid \<Rightarrow> db \<Rightarrow> (db \<times> claim_result) res" where
  "processRefund_claim refundId d =
     (case find_unique r_id refundId (refunds d) of
        None \<Rightarrow> Inl (Refund_Err 404 REFUND_NOT_FOUND)
      | Some refund \<Rightarrow>
          if r_status refund = Rf_COMPLETED then Inr (d, Already refund)
          else if r_status refund = Rf_PROCESSING then Inr (d, Already refund)
          else if r_status refund \<noteq> Rf_REQUESTED then Inl (Refund_Err 409 REFUND_WRONG_STATE)
          else case find_unique p_id (r_paymentId refund) (payments d) of
            None \<Rightarrow> Inl (Refund_Err 404 PAYMENT_NOT_FOUND)
          | Some payment \<Rightarrow>
              (case providerForPayment payment of
                 None \<Rightarrow> Inl (Refund_Err 503 REFUND_PROVIDER_NOT_CONFIGURED)
               | Some provider \<Rightarrow>
                   let txRef = or_empty (p_chapaTxRef payment) in
                   if txRef = [] then Inl (Refund_Err 409 CHAPA_TX_REF_MISSING)
                   else if \<not> refund_allowed payment d then Inl (Refund_Err 409 REFUND_BLOCKED_ORDER_ACTIVE)
                   else
                     let mark = (\<lambda>r. r\<lparr>r_status := Rf_PROCESSING, r_provider := Some provider,
                                       r_uncertain := False\<rparr>);
                         (rows, count) = update_many (\<lambda>r. r_id r = refundId \<and> r_status r = Rf_REQUESTED)
                           mark (refunds d);
                         d' = d\<lparr>refunds := rows\<rparr>
                     in if count \<noteq> 1 then Inr (d', Already refund)
                        else Inr (d', Claimed (mark refund) provider txRef)))"

definition record_submission :: "time \<Rightarrow> uid option \<Rightarrow> refund \<Rightarrow> string \<Rightarrow> string \<Rightarrow> db \<Rightarrow> db \<times> bool" where
  "record_submission now actor claimed provider refId d =
     (let (rows, count) = update_many (\<lambda>r. r_id r = r_id claimed \<and> r_status r = Rf_PROCESSING)
            (\<lambda>r. r\<lparr>r_provider := Some provider, r_providerRefundId := Some refId, r_uncertain := False\<rparr>)
            (refunds d);
          d' = d\<lparr>refunds := rows\<rparr>
      in if count \<noteq> 1 then (d', False)
         else (recordAuditEvent now actor (Money_Act PAYMENT_REFUND_SUBMITTED) (r_id claimed) None d', True))"

section \<open>Finalizing and failing\<close>

definition finalizeRefund_tx :: "time \<Rightarrow> uid option \<Rightarrow> uid \<Rightarrow> db \<Rightarrow> (db \<times> refund option) res" where
  "finalizeRefund_tx now actor refundId d =
     (case find_unique r_id refundId (refunds d) of
        None \<Rightarrow> Inl (Refund_Err 404 REFUND_NOT_FOUND)
      | Some fresh \<Rightarrow>
          if r_status fresh = Rf_COMPLETED then Inr (d, Some fresh)
          else if r_status fresh \<notin> {Rf_REQUESTED, Rf_PROCESSING} then Inl (Refund_Err 409 REFUND_WRONG_STATE)
          else case find_unique p_id (r_paymentId fresh) (payments d) of
            None \<Rightarrow> Inl (Refund_Err 404 PAYMENT_NOT_FOUND)
          | Some payment \<Rightarrow>
              if \<not> refund_allowed payment d then Inl (Refund_Err 409 REFUND_BLOCKED_ORDER_ACTIVE)
              else bindr (assertTransition (p_status payment) P_REFUNDED) (\<lambda>_.
                let (rows, count) = update_many
                      (\<lambda>r. r_id r = refundId \<and> r_status r \<in> {Rf_REQUESTED, Rf_PROCESSING})
                      (\<lambda>r. r\<lparr>r_status := Rf_COMPLETED, r_completedAt := Some now, r_uncertain := False\<rparr>)
                      (refunds d);
                    d1 = d\<lparr>refunds := rows\<rparr>
                in if count \<noteq> 1 then Inr (d1, find_unique r_id refundId (refunds d1))
                   else
                     let d2 = d1\<lparr>payments := update_rows (\<lambda>p. p_id p = p_id payment)
                            (\<lambda>p. p\<lparr>p_status := P_REFUNDED\<rparr>) (payments d1)\<rparr>;
                         d3 = (case p_parentPaymentId payment of
                                 None \<Rightarrow> d2 | Some q \<Rightarrow> markParentRefundedIfComplete q d2);
                         d4 = (case p_orderId payment of
                                 None \<Rightarrow> d3 | Some i \<Rightarrow> recordOrderEvent now i Ev_REFUNDED d3);
                         d5 = recordAuditEvent now actor (Money_Act PAYMENT_REFUND_COMPLETED) refundId None d4
                     in Inr (d5, find_unique r_id refundId (refunds d5))))"

definition finalizeRefund ::
    "time \<Rightarrow> uid option \<Rightarrow> uid \<Rightarrow> provider_status \<Rightarrow> db \<Rightarrow> db \<times> refund option res" where
  "finalizeRefund now actor refundId providerStatus d =
     (case find_unique r_id refundId (refunds d) of
        None \<Rightarrow> (d, Inl (Refund_Err 404 REFUND_NOT_FOUND))
      | Some refund \<Rightarrow>
          if r_status refund = Rf_COMPLETED then (d, Inr (Some refund))
          else if providerStatus \<noteq> PS_REFUNDED then (d, Inl (Refund_Err 409 REFUND_WRONG_STATE))
          else transact (finalizeRefund_tx now actor refundId) d)"

text \<open>\<open>payment\<close> is the payment as it was read with the refund, before the writes.\<close>

definition failRefund ::
    "time \<Rightarrow> uid option \<Rightarrow> bool \<Rightarrow> uid \<Rightarrow> db \<Rightarrow> db \<times> refund option res" where
  "failRefund now actor allowProcessing refundId d =
     (case find_unique r_id refundId (refunds d) of
        None \<Rightarrow> (d, Inl (Refund_Err 404 REFUND_NOT_FOUND))
      | Some refund \<Rightarrow>
          if r_status refund = Rf_COMPLETED then (d, Inl (Refund_Err 409 REFUND_WRONG_STATE))
          else if r_status refund = Rf_PROCESSING \<and> \<not> allowProcessing
            then (d, Inl (Refund_Err 409 REFUND_PROCESSING_PROVIDER_CONTROLLED))
          else
            let (rows, count) = update_many (\<lambda>r. r_id r = refundId \<and> r_status r \<noteq> Rf_COMPLETED)
                  (\<lambda>r. r\<lparr>r_status := Rf_FAILED, r_uncertain := False\<rparr>) (refunds d);
                d1 = d\<lparr>refunds := rows\<rparr>
            in if count \<noteq> 1 then (d1, Inr (find_unique r_id refundId (refunds d1)))
               else
                 let payment = find_unique p_id (r_paymentId refund) (payments d);
                     d2 = (case payment of
                             None \<Rightarrow> d1
                           | Some p \<Rightarrow> if p_status p = P_REFUND_PENDING
                               then d1\<lparr>payments := set_payment_status (p_id p) P_REFUND_PENDING P_PAID (payments d1)\<rparr>
                               else d1);
                     d3 = (case Option.bind payment p_orderId of
                             None \<Rightarrow> d2 | Some i \<Rightarrow> recordOrderEvent now i Ev_REFUND_FAILED d2)
                 in (recordAuditEvent now actor (Money_Act PAYMENT_REFUND_FAILED) refundId None d3,
                     Inr (find_unique r_id refundId (refunds d3))))"

section \<open>Composition\<close>

definition verifyAndFinalizeRefund ::
    "chapa_get \<Rightarrow> time \<Rightarrow> uid option \<Rightarrow> uid \<Rightarrow> db \<Rightarrow> db \<times> refund option res" where
  "verifyAndFinalizeRefund get now actor refundId d =
     (case find_unique r_id refundId (refunds d) of
        None \<Rightarrow> (d, Inl (Refund_Err 404 REFUND_NOT_FOUND))
      | Some refund \<Rightarrow>
          if r_status refund = Rf_COMPLETED then (d, Inr (Some refund))
          else case r_providerRefundId refund of
            None \<Rightarrow> (d, Inl (Refund_Err 409 CHAPA_REFUND_REFERENCE_MISSING))
          | Some ref \<Rightarrow>
              if ref = [] then (d, Inl (Refund_Err 409 CHAPA_REFUND_REFERENCE_MISSING))
              else case verifyRefund get ref of
                Inl st \<Rightarrow> (d, Inl (Refund_Err (case st of None \<Rightarrow> 500 | Some s \<Rightarrow> s) PROVIDER_CALL_FAILED))
              | Inr PS_REFUNDED \<Rightarrow> finalizeRefund now actor refundId PS_REFUNDED d
              | Inr PS_REVERSED \<Rightarrow> failRefund now actor True refundId d
              | Inr _ \<Rightarrow>
                  let d1 = d\<lparr>refunds := update_rows
                        (\<lambda>r. r_id r = refundId \<and> r_status r \<in> {Rf_REQUESTED, Rf_PROCESSING})
                        (\<lambda>r. r\<lparr>r_status := Rf_PROCESSING, r_uncertain := False\<rparr>) (refunds d)\<rparr>
                  in (d1, Inr (find_unique r_id refundId (refunds d1))))"

text \<open>A failed call to the provider: only a 4xx answer fails the refund.\<close>

definition submission_failed ::
    "time \<Rightarrow> uid option \<Rightarrow> refund \<Rightarrow> nat option \<Rightarrow> db \<Rightarrow> db" where
  "submission_failed now actor claimed st d =
     (if (case st of None \<Rightarrow> False | Some s \<Rightarrow> 400 \<le> s \<and> s < 500)
      then fst (failRefund now actor True (r_id claimed) d)
      else d\<lparr>refunds := update_rows (\<lambda>r. r_id r = r_id claimed \<and> r_status r = Rf_PROCESSING)
                   (\<lambda>r. r\<lparr>r_uncertain := True\<rparr>) (refunds d)\<rparr>)"

definition processRefund ::
    "chapa_post \<Rightarrow> chapa_get \<Rightarrow> time \<Rightarrow> uid option \<Rightarrow> uid \<Rightarrow> db \<Rightarrow> db \<times> refund option res" where
  "processRefund post get now actor refundId d =
     (case transact (processRefund_claim refundId) d of
        (d1, Inl e) \<Rightarrow> (d1, Inl e)
      | (d1, Inr (Already refund)) \<Rightarrow> (d1, Inr (Some refund))
      | (d1, Inr (Claimed refund provider txRef)) \<Rightarrow>
          (case refundTransaction post txRef (r_amount refund) (r_id refund) of
             Inl st \<Rightarrow>
               (submission_failed now actor refund st d1,
                Inl (Refund_Err (case st of None \<Rightarrow> 500 | Some s \<Rightarrow> s) PROVIDER_CALL_FAILED))
           | Inr refId \<Rightarrow>
               (case record_submission now actor refund provider refId d1 of
                  (d2, False) \<Rightarrow> (d2, Inr (find_unique r_id refundId (refunds d2)))
                | (d2, True) \<Rightarrow>
                    (case verifyAndFinalizeRefund get now actor refundId d2 of
                       (d3, Inr r) \<Rightarrow> (d3, Inr r)
                     | (d3, Inl _) \<Rightarrow> (d3, Inr (find_unique r_id refundId (refunds d3)))))))"

definition retryRefund ::
    "chapa_post \<Rightarrow> chapa_get \<Rightarrow> time \<Rightarrow> uid option \<Rightarrow> uid \<Rightarrow> db \<Rightarrow> db \<times> refund option res" where
  "retryRefund post get now actor refundId d =
     (case find_unique r_id refundId (refunds d) of
        None \<Rightarrow> (d, Inl (Refund_Err 404 REFUND_NOT_FOUND))
      | Some previous \<Rightarrow>
          if r_status previous \<noteq> Rf_FAILED then (d, Inl (Refund_Err 409 REFUND_WRONG_STATE))
          else case transact (requestRefund now (r_paymentId previous) (Some (r_amount previous)) actor) d of
            (d1, Inl e) \<Rightarrow> (d1, Inl e)
          | (d1, Inr refund) \<Rightarrow> processRefund post get now actor (r_id refund) d1)"

fun requestRefundsForPayouts ::
    "time \<Rightarrow> uid option \<Rightarrow> payout list \<Rightarrow> db \<Rightarrow> (db \<times> refund list) res" where
  "requestRefundsForPayouts now requestedBy [] d = Inr (d, [])"
| "requestRefundsForPayouts now requestedBy (p # ps) d =
     (case find_unique p_id (po_paymentId p) (payments d) of
        None \<Rightarrow> requestRefundsForPayouts now requestedBy ps d
      | Some payment \<Rightarrow>
          if p_status payment \<noteq> P_PAID then requestRefundsForPayouts now requestedBy ps d
          else bindr (requestRefund now (p_id payment) None requestedBy d) (\<lambda>(d1, r).
               bindr (requestRefundsForPayouts now requestedBy ps d1) (\<lambda>(d2, rs).
               Inr (d2, r # rs))))"

end
