(* ===== verification/Refund_Safety.thy ===== *)
theory Refund_Safety
  imports Refunds
begin

text \<open>
  The invariant of the refunds: a payment has at most one refund that is requested, in
  progress or completed, and a completed refund's payment is \<open>REFUNDED\<close>. Every phase of
  the refund service keeps it, so it holds however the phases of different requests are
  interleaved.
\<close>

section \<open>The invariant\<close>

definition refund_keys :: "db \<Rightarrow> bool" where
  "refund_keys d = (distinct (map p_id (payments d)) \<and> distinct (map r_id (refunds d)) \<and>
     (\<forall>r \<in> set (refunds d). r_id r < next_id d))"

definition one_live_refund :: "refund list \<Rightarrow> bool" where
  "one_live_refund rs = (\<forall>a \<in> set rs. \<forall>b \<in> set rs. refund_live (r_status a) \<and>
     refund_live (r_status b) \<and> r_paymentId a = r_paymentId b \<longrightarrow> a = b)"

definition completed_refunded :: "refund list \<Rightarrow> payment list \<Rightarrow> bool" where
  "completed_refunded rs ps = (\<forall>r \<in> set rs. r_status r = Rf_COMPLETED \<longrightarrow>
     (\<exists>p \<in> set ps. p_id p = r_paymentId r \<and> p_status p = P_REFUNDED))"

definition refund_inv :: "db \<Rightarrow> bool" where
  "refund_inv d = (refund_keys d \<and> one_live_refund (refunds d) \<and>
     completed_refunded (refunds d) (payments d))"

lemma refund_inv_cong:
  "refunds d' = refunds d \<Longrightarrow> payments d' = payments d \<Longrightarrow> next_id d' = next_id d \<Longrightarrow>
     refund_inv d' = refund_inv d"
  by (simp add: refund_inv_def refund_keys_def)

lemma refund_inv_logs [simp]:
  "refund_inv (recordAuditEvent now a c r j d) = refund_inv d"
  "refund_inv (recordOrderEvent now i t d) = refund_inv d"
  by (rule refund_inv_cong; simp)+

text \<open>Changing rows: no refund comes to life, and a refunded payment stays refunded.\<close>

lemma refund_inv_map:
  assumes inv: "refund_inv d"
    and g: "\<And>r. r_id (g r) = r_id r" "\<And>r. r_paymentId (g r) = r_paymentId r"
      "\<And>r. r \<in> set (refunds d) \<Longrightarrow> refund_live (r_status (g r)) \<Longrightarrow> refund_live (r_status r)"
    and h: "\<And>p. p_id (h p) = p_id p" "\<And>p. p_status p = P_REFUNDED \<Longrightarrow> p_status (h p) = P_REFUNDED"
    and fin: "\<And>r. r \<in> set (refunds d) \<Longrightarrow> r_status (g r) = Rf_COMPLETED \<Longrightarrow> r_status r \<noteq> Rf_COMPLETED \<Longrightarrow>
       \<exists>p \<in> set (payments d). p_id p = r_paymentId r \<and> p_status (h p) = P_REFUNDED"
    and d': "refunds d' = map g (refunds d)" "payments d' = map h (payments d)" "next_id d' = next_id d"
  shows "refund_inv d'"
proof -
  have "refund_keys d'"
    using inv g(1) h(1) by (auto simp: refund_inv_def refund_keys_def d' comp_def)
  moreover have "one_live_refund (refunds d')"
    unfolding one_live_refund_def d' set_map
  proof (intro ballI impI)
    fix a b
    assume "a \<in> g ` set (refunds d)" "b \<in> g ` set (refunds d)"
    then obtain x y where xy: "a = g x" "b = g y" "x \<in> set (refunds d)" "y \<in> set (refunds d)" by blast
    assume "refund_live (r_status a) \<and> refund_live (r_status b) \<and> r_paymentId a = r_paymentId b"
    then have "x = y"
      using inv xy g(2,3) unfolding refund_inv_def one_live_refund_def xy(1,2) by metis
    then show "a = b" by (simp add: xy)
  qed
  moreover have "completed_refunded (refunds d') (payments d')"
    unfolding completed_refunded_def d'
  proof (intro ballI impI)
    fix x
    assume x: "x \<in> set (map g (refunds d))" "r_status x = Rf_COMPLETED"
    then obtain r where r: "r \<in> set (refunds d)" "x = g r" by auto
    have "\<exists>p \<in> set (payments d). p_id p = r_paymentId r \<and> p_status (h p) = P_REFUNDED"
    proof (cases "r_status r = Rf_COMPLETED")
      case True
      with inv r h(2) show ?thesis unfolding refund_inv_def completed_refunded_def by blast
    next
      case False
      with fin r x(2) show ?thesis by blast
    qed
    then show "\<exists>p \<in> set (map h (payments d)). p_id p = r_paymentId x \<and> p_status p = P_REFUNDED"
      using g(2) h(1) r(2) by auto
  qed
  ultimately show ?thesis by (simp add: refund_inv_def)
qed

lemma refund_inv_payments:
  assumes "refund_inv d" and "\<And>p. p_id (h p) = p_id p"
    and "\<And>p. p_status p = P_REFUNDED \<Longrightarrow> p_status (h p) = P_REFUNDED"
    and "payments d' = map h (payments d)" and "refunds d' = refunds d" and "next_id d' = next_id d"
  shows "refund_inv d'"
  by (rule refund_inv_map [OF assms(1), of "\<lambda>r. r" h]) (simp_all add: assms)

lemma refund_inv_refunds:
  assumes "refund_inv d" and "\<And>r. r_id (g r) = r_id r" and "\<And>r. r_paymentId (g r) = r_paymentId r"
    and "\<And>r. refund_live (r_status (g r)) \<Longrightarrow> refund_live (r_status r)"
    and "\<And>r. r_status (g r) = Rf_COMPLETED \<Longrightarrow> r_status r = Rf_COMPLETED"
    and "refunds d' = map g (refunds d)" and "payments d' = payments d" and "next_id d' = next_id d"
  shows "refund_inv d'"
  by (rule refund_inv_map [OF assms(1), of g "\<lambda>p. p"]) (use assms in auto)

section \<open>The operations keep it\<close>

lemma live_refund_None:
  "live_refund pid d = None \<longleftrightarrow>
     (\<forall>r \<in> set (refunds d). r_paymentId r = pid \<longrightarrow> \<not> refund_live (r_status r))"
  by (auto simp: live_refund_def newest_def pick_None filter_empty_conv)

lemma live_refund_Some:
  "live_refund pid d = Some r \<Longrightarrow> r \<in> set (refunds d) \<and> r_paymentId r = pid \<and> refund_live (r_status r)"
  by (auto simp: live_refund_def newest_def dest: pick_Some)

lemma set_payment_status_find:
  assumes "find_unique p_id i ps = Some p"
  shows "find_unique p_id i (set_payment_status k from to ps) =
    Some (if p_id p = k \<and> p_status p = from then p\<lparr>p_status := to\<rparr> else p)"
  using assms by (simp add: set_payment_status_def find_unique_update_rows)

lemma retry_reset_inv:
  assumes "refund_inv d" and "retry_reset p d = Inr d1"
  shows "refund_inv d1 \<and> refunds d1 = refunds d \<and> next_id d1 = next_id d \<and> orders d1 = orders d"
proof (cases "d1 = d")
  case True
  with assms(1) show ?thesis by simp
next
  case False
  with assms(2) have d1: "d1 = d\<lparr>payments := set_payment_status (p_id p) P_REFUND_PENDING P_PAID (payments d)\<rparr>"
    by (auto simp: retry_reset_def split: if_splits option.splits)
  have "refund_inv d1"
    by (rule refund_inv_payments [OF assms(1), of
          "\<lambda>q. if p_id q = p_id p \<and> p_status q = P_REFUND_PENDING then q\<lparr>p_status := P_PAID\<rparr> else q"])
       (auto simp: d1 set_payment_status_def update_rows_def)
  then show ?thesis by (simp add: d1)
qed

text \<open>A successful request either found a live refund or created the only one.\<close>

lemma requestRefund_cases:
  assumes "requestRefund now pid amount by d = Inr (d', r)"
  obtains (existing) "d' = d" and "live_refund pid d = Some r"
  | (created) p d1 am where "find_unique p_id pid (payments d) = Some p"
      and "p_status p \<in> {P_PAID, P_REFUND_PENDING}"
      and "live_refund pid d = None" and "retry_reset p d = Inr d1"
      and "count_where (\<lambda>q. p_id q = pid \<and> p_status q = P_PAID) (payments d1) = 1"
      and "am = (case amount of None \<Rightarrow> p_amount p | Some a \<Rightarrow> a)" and "0 < am"
      and "\<bar>am - p_amount p\<bar> < 1 / 100"
      and "r = new_refund now (next_id d1) pid (round2 am) (p_currency p) by"
      and "refunds d' = insert_row r (refunds d1)" and "next_id d' = Suc (next_id d1)"
      and "payments d' = set_payment_status pid P_PAID P_REFUND_PENDING (payments d1)"
      and "orders d' = orders d1"
proof -
  from assms obtain p where p: "find_unique p_id pid (payments d) = Some p"
    by (auto simp: requestRefund_def split: option.splits)
  let ?am = "case amount of None \<Rightarrow> p_amount p | Some a \<Rightarrow> a"
  from assms p have g: "p_status p \<in> {P_PAID, P_REFUND_PENDING}"
    "\<not> (?am \<le> 0 \<or> \<bar>?am - p_amount p\<bar> \<ge> 1 / 100)"
    by (auto simp: requestRefund_def bindr_eq_Inr Let_def)
  show thesis
  proof (cases "live_refund pid d")
    case (Some x)
    with assms p g have "d' = d" "x = r" by (auto simp: requestRefund_def)
    with Some show thesis by (intro existing) auto
  next
    case None
    with assms p g obtain d1 where d1: "retry_reset p d = Inr d1"
      by (auto simp: requestRefund_def bindr_eq_Inr Let_def)
    have refs: "refunds d1 = refunds d"
      using d1 by (auto simp: retry_reset_def split: if_splits option.splits)
    with None have n1: "live_refund pid d1 = None" by (simp add: live_refund_def)
    from assms p g None d1 n1
    have c: "count_where (\<lambda>q. p_id q = pid \<and> p_status q = P_PAID) (payments d1) = 1"
      by (auto simp: requestRefund_def bindr_eq_Inr Let_def split: if_splits)
    from assms p g None d1 c show thesis
      by (intro created [OF p g(1) None d1 c refl])
         (auto simp: requestRefund_def Let_def split: option.splits)
  qed
qed

lemma requestRefund_inv:
  assumes inv: "refund_inv d" and r: "requestRefund now pid amount by d = Inr (d', r)"
  shows "refund_inv d'"
  using r
proof (cases rule: requestRefund_cases)
  case existing
  with inv show ?thesis by simp
next
  case (created p d1 am)
  from retry_reset_inv [OF inv created(4)] have 1: "refund_inv d1" "refunds d1 = refunds d" by auto
  let ?h = "\<lambda>q. if p_id q = pid \<and> p_status q = P_PAID then q\<lparr>p_status := P_REFUND_PENDING\<rparr> else q"
  have 2: "refund_inv (d1\<lparr>payments := map ?h (payments d1)\<rparr>)"
    by (rule refund_inv_payments [OF 1(1), of ?h]) auto
  have pays: "payments d' = map ?h (payments d1)"
    by (simp add: created set_payment_status_def update_rows_def)
  have "refund_keys d'"
    using 2 created(9,10,11)
    by (auto simp: refund_inv_def refund_keys_def pays new_refund_def less_Suc_eq)
  moreover have "one_live_refund (refunds d')"
    using 1(1) created(3) unfolding created(10) refund_inv_def one_live_refund_def
    by (auto simp: live_refund_None 1(2) created(9) new_refund_def)
  moreover have "completed_refunded (refunds d') (payments d')"
    using 2 unfolding created(10) pays refund_inv_def completed_refunded_def
    by (auto simp: created(9) new_refund_def)
  ultimately show ?thesis by (simp add: refund_inv_def)
qed

lemma processRefund_claim_inv:
  assumes inv: "refund_inv d" and c: "processRefund_claim rid d = Inr (d', c)"
  shows "refund_inv d'"
proof (cases "d' = d")
  case True
  with inv show ?thesis by simp
next
  case False
  with c obtain prov where "d' = d\<lparr>refunds := update_rows (\<lambda>r. r_id r = rid \<and> r_status r = Rf_REQUESTED)
      (\<lambda>r. r\<lparr>r_status := Rf_PROCESSING, r_provider := Some prov, r_uncertain := False\<rparr>) (refunds d)\<rparr>"
    by (auto simp: processRefund_claim_def update_many_def Let_def split: option.splits if_splits)
  then show ?thesis
    by (intro refund_inv_refunds [OF inv, of "\<lambda>r. if r_id r = rid \<and> r_status r = Rf_REQUESTED
          then r\<lparr>r_status := Rf_PROCESSING, r_provider := Some prov, r_uncertain := False\<rparr> else r"])
       (auto simp: update_rows_def refund_live_def split: if_splits)
qed

lemma record_submission_inv:
  assumes inv: "refund_inv d"
  shows "refund_inv (fst (record_submission now actor c prov ref d))"
proof -
  let ?P = "\<lambda>r. r_id r = r_id c \<and> r_status r = Rf_PROCESSING"
  let ?f = "\<lambda>r. r\<lparr>r_provider := Some prov, r_providerRefundId := Some ref, r_uncertain := False\<rparr>"
  have "refund_inv (d\<lparr>refunds := update_rows ?P ?f (refunds d)\<rparr>)"
    by (rule refund_inv_refunds [OF inv, of "\<lambda>r. if ?P r then ?f r else r"])
       (auto simp: update_rows_def split: if_splits)
  then show ?thesis by (auto simp: record_submission_def update_many_def Let_def)
qed

lemma markParent_inv:
  assumes inv: "refund_inv d"
  shows "refund_inv (markParentRefundedIfComplete q d)"
    and "refunds (markParentRefundedIfComplete q d) = refunds d"
proof -
  let ?h = "\<lambda>p. if p_id p = q then p\<lparr>p_status := P_REFUNDED\<rparr> else p"
  have "refund_inv (d\<lparr>payments := map ?h (payments d)\<rparr>)"
    by (rule refund_inv_payments [OF inv, of ?h]) auto
  then have "refund_inv (d\<lparr>payments := map ?h (payments d), obligations := os\<rparr>)" for os
    by (rule refund_inv_cong [THEN iffD2, rotated -1]) simp_all
  with inv \<open>refund_inv (d\<lparr>payments := map ?h (payments d)\<rparr>)\<close>
  show "refund_inv (markParentRefundedIfComplete q d)"
    by (auto simp: markParentRefundedIfComplete_def Let_def update_rows_def split: option.splits)
  show "refunds (markParentRefundedIfComplete q d) = refunds d"
    by (simp add: markParentRefundedIfComplete_def Let_def split: option.splits)
qed

lemma finalizeRefund_tx_cases:
  assumes "finalizeRefund_tx now actor rid d = Inr (d', res)" and "refund_inv d"
  obtains (completed) "d' = d" and "\<exists>r. find_unique r_id rid (refunds d) = Some r \<and> r_status r = Rf_COMPLETED"
  | (finalized) r p d2 where "find_unique r_id rid (refunds d) = Some r"
      and "r_status r \<in> {Rf_REQUESTED, Rf_PROCESSING}"
      and "find_unique p_id (r_paymentId r) (payments d) = Some p" and "refund_allowed p d"
      and "p_status p \<in> {P_REFUND_PENDING, P_REFUNDED}"
      and "d2 = d\<lparr>refunds := update_rows (\<lambda>r. r_id r = rid \<and> r_status r \<in> {Rf_REQUESTED, Rf_PROCESSING})
             (\<lambda>r. r\<lparr>r_status := Rf_COMPLETED, r_completedAt := Some now, r_uncertain := False\<rparr>) (refunds d),
           payments := update_rows (\<lambda>x. p_id x = p_id p) (\<lambda>x. x\<lparr>p_status := P_REFUNDED\<rparr>) (payments d)\<rparr>"
      and "refunds d' = refunds d2" and "next_id d' = next_id d"
      and "payments d' = payments (case p_parentPaymentId p of
             None \<Rightarrow> d2 | Some q \<Rightarrow> markParentRefundedIfComplete q d2)"
      and "res = find_unique r_id rid (refunds d')"
proof -
  from assms(1) obtain r where r: "find_unique r_id rid (refunds d) = Some r"
    by (auto simp: finalizeRefund_tx_def split: option.splits)
  show thesis
  proof (cases "r_status r = Rf_COMPLETED")
    case True
    with assms(1) r have "d' = d" by (simp add: finalizeRefund_tx_def)
    with r True show thesis by (intro completed) blast+
  next
    case False
    with assms(1) r have st: "r_status r \<in> {Rf_REQUESTED, Rf_PROCESSING}"
      by (auto simp: finalizeRefund_tx_def split: if_splits)
    with assms(1) r False obtain p where p: "find_unique p_id (r_paymentId r) (payments d) = Some p"
      by (auto simp: finalizeRefund_tx_def split: option.splits)
    let ?P = "\<lambda>r. r_id r = rid \<and> r_status r \<in> {Rf_REQUESTED, Rf_PROCESSING}"
    from assms(2) have "distinct (map r_id (refunds d))" by (simp add: refund_inv_def refund_keys_def)
    then have c: "count_where ?P (refunds d) = 1"
      using count_where_key [of r_id "refunds d" rid "\<lambda>r. r_status r \<in> {Rf_REQUESTED, Rf_PROCESSING}"] r st
      by simp
    have np: "next_id (markParentRefundedIfComplete q x) = next_id x" for q x
      by (simp add: markParentRefundedIfComplete_def Let_def split: option.splits)
    have rp: "refunds (markParentRefundedIfComplete q x) = refunds x" for q x
      by (simp add: markParentRefundedIfComplete_def Let_def split: option.splits)
    have ns: "r_status r \<noteq> Rf_COMPLETED" "\<not> r_status r \<notin> {Rf_REQUESTED, Rf_PROCESSING}"
      using False st by simp_all
    note eq = assms(1) [unfolded finalizeRefund_tx_def r option.case p if_not_P [OF ns(1)] if_not_P [OF ns(2)]]
    have al: "refund_allowed p d" by (rule ccontr) (use eq in simp)
    have tr: "canTransition (p_status p) P_REFUNDED"
      using eq al by (auto simp: bindr_eq_Inr)
    then have as: "assertTransition (p_status p) P_REFUNDED = Inr ()" by simp
    let ?d2 = "d\<lparr>refunds := update_rows ?P
             (\<lambda>r. r\<lparr>r_status := Rf_COMPLETED, r_completedAt := Some now, r_uncertain := False\<rparr>) (refunds d),
           payments := update_rows (\<lambda>x. p_id x = p_id p) (\<lambda>x. x\<lparr>p_status := P_REFUNDED\<rparr>) (payments d)\<rparr>"
    let ?d3 = "case p_parentPaymentId p of None \<Rightarrow> ?d2 | Some q \<Rightarrow> markParentRefundedIfComplete q ?d2"
    let ?d4 = "case p_orderId p of None \<Rightarrow> ?d3 | Some i \<Rightarrow> recordOrderEvent now i Ev_REFUNDED ?d3"
    let ?d5 = "recordAuditEvent now actor (Money_Act PAYMENT_REFUND_COMPLETED) rid None ?d4"
    have "?d5 = d'"
      using eq al c by (simp add: as update_many_def Let_def del: insert_iff)
    then have d': "d' = ?d5" by (rule sym)
    have res: "res = find_unique r_id rid (refunds d')"
      using eq al c by (auto simp add: as update_many_def Let_def simp del: insert_iff)
    show thesis
      by (rule finalized [OF r st p al _ refl])
         (use tr res in \<open>simp_all add: d' np rp split: option.splits\<close>)
  qed
qed

lemma finalizeRefund_tx_inv:
  assumes inv: "refund_inv d" and f: "finalizeRefund_tx now actor rid d = Inr (d', res)"
  shows "refund_inv d'"
  using f inv
proof (cases rule: finalizeRefund_tx_cases)
  case completed
  with inv show ?thesis by simp
next
  case (finalized r p d2)
  let ?P = "\<lambda>r. r_id r = rid \<and> r_status r \<in> {Rf_REQUESTED, Rf_PROCESSING}"
  let ?g = "\<lambda>r. if ?P r then r\<lparr>r_status := Rf_COMPLETED, r_completedAt := Some now, r_uncertain := False\<rparr> else r"
  let ?h = "\<lambda>x. if p_id x = p_id p then x\<lparr>p_status := P_REFUNDED\<rparr> else x"
  from inv have dist: "distinct (map r_id (refunds d))" by (simp add: refund_inv_def refund_keys_def)
  from finalized(1) have rm: "r \<in> set (refunds d)" "r_id r = rid" by (auto dest: find_unique_Some)
  from finalized(3) have pm: "p \<in> set (payments d)" "p_id p = r_paymentId r" by (auto dest: find_unique_Some)
  have 2: "refund_inv d2"
  proof (rule refund_inv_map [OF inv, of ?g ?h])
    show "\<exists>q \<in> set (payments d). p_id q = r_paymentId x \<and> p_status (?h q) = P_REFUNDED"
      if x: "x \<in> set (refunds d)" "r_status (?g x) = Rf_COMPLETED" "r_status x \<noteq> Rf_COMPLETED" for x
    proof -
      from x have "r_id x = rid" by (auto split: if_splits)
      with key_inj [OF dist x(1) rm(1)] rm(2) have "x = r" by simp
      with pm show ?thesis by (intro bexI [of _ p]) auto
    qed
  qed (auto simp: finalized(6) update_rows_def refund_live_def split: if_splits)
  show ?thesis
  proof (cases "p_parentPaymentId p")
    case None
    with 2 finalized(7-9) show ?thesis
      by (intro refund_inv_cong [THEN iffD2, OF _ _ _ 2]) (simp_all add: finalized(6))
  next
    case (Some q)
    have np: "next_id (markParentRefundedIfComplete q d2) = next_id d2"
      by (simp add: markParentRefundedIfComplete_def Let_def split: option.splits)
    have n2: "next_id d2 = next_id d" by (simp add: finalized(6))
    show ?thesis
      by (rule refund_inv_cong [THEN iffD2, OF _ _ _ markParent_inv(1) [OF 2, of q]])
         (simp_all only: finalized(7-9) Some option.case np n2 markParent_inv(2) [OF 2])
  qed
qed

lemma finalizeRefund_inv:
  assumes "refund_inv d"
  shows "refund_inv (fst (finalizeRefund now actor rid ps d))"
  using assms finalizeRefund_tx_inv [OF assms]
  by (auto simp: finalizeRefund_def intro: transact_preserves split: option.splits)

lemma failRefund_inv:
  assumes inv: "refund_inv d"
  shows "refund_inv (fst (failRefund now actor allow rid d))"
proof -
  let ?P = "\<lambda>r. r_id r = rid \<and> r_status r \<noteq> Rf_COMPLETED"
  let ?g = "\<lambda>r. if ?P r then r\<lparr>r_status := Rf_FAILED, r_uncertain := False\<rparr> else r"
  let ?d1 = "d\<lparr>refunds := update_rows ?P (\<lambda>r. r\<lparr>r_status := Rf_FAILED, r_uncertain := False\<rparr>) (refunds d)\<rparr>"
  have 1: "refund_inv ?d1"
    by (rule refund_inv_refunds [OF inv, of ?g])
       (auto simp: update_rows_def refund_live_def split: if_splits)
  have "refund_inv (?d1\<lparr>payments := set_payment_status i P_REFUND_PENDING P_PAID (payments ?d1)\<rparr>)" for i
    by (rule refund_inv_payments [OF 1, of "\<lambda>q. if p_id q = i \<and> p_status q = P_REFUND_PENDING
          then q\<lparr>p_status := P_PAID\<rparr> else q"])
       (auto simp: set_payment_status_def update_rows_def)
  with 1 inv show ?thesis
    by (simp add: failRefund_def update_many_def Let_def split: option.splits)
qed

lemma verifyAndFinalizeRefund_inv:
  assumes inv: "refund_inv d"
  shows "refund_inv (fst (verifyAndFinalizeRefund get now actor rid d))"
proof -
  let ?P = "\<lambda>r. r_id r = rid \<and> r_status r \<in> {Rf_REQUESTED, Rf_PROCESSING}"
  have "refund_inv (d\<lparr>refunds := update_rows ?P (\<lambda>r. r\<lparr>r_status := Rf_PROCESSING, r_uncertain := False\<rparr>) (refunds d)\<rparr>)"
    by (rule refund_inv_refunds [OF inv, of "\<lambda>r. if ?P r
          then r\<lparr>r_status := Rf_PROCESSING, r_uncertain := False\<rparr> else r"])
       (auto simp: update_rows_def refund_live_def split: if_splits)
  with inv finalizeRefund_inv [OF inv] failRefund_inv [OF inv] show ?thesis
    by (simp add: verifyAndFinalizeRefund_def Let_def split: option.splits sum.splits provider_status.splits)
qed

lemma submission_failed_inv:
  assumes inv: "refund_inv d"
  shows "refund_inv (submission_failed now actor c st d)"
proof -
  let ?P = "\<lambda>r. r_id r = r_id c \<and> r_status r = Rf_PROCESSING"
  have "refund_inv (d\<lparr>refunds := update_rows ?P (\<lambda>r. r\<lparr>r_uncertain := True\<rparr>) (refunds d)\<rparr>)"
    by (rule refund_inv_refunds [OF inv, of "\<lambda>r. if ?P r then r\<lparr>r_uncertain := True\<rparr> else r"])
       (auto simp: update_rows_def split: if_splits)
  with failRefund_inv [OF inv] show ?thesis by (simp add: submission_failed_def)
qed

section \<open>The service as a system of phases\<close>

text \<open>
  One step is one phase of one request, for any arguments: a row the caller read earlier
  (\<open>c\<close>), any reply of the provider. \<open>elsewhere\<close> is any other code, which does not write
  refunds and leaves a refunded payment refunded.
\<close>

inductive refund_step :: "db \<Rightarrow> db \<Rightarrow> bool" where
  request: "refund_step d (fst (transact (requestRefund now pid amount by) d))"
| claim: "refund_step d (fst (transact (processRefund_claim rid) d))"
| submitted: "refund_step d (fst (record_submission now actor c prov ref d))"
| not_submitted: "refund_step d (submission_failed now actor c st d)"
| verify: "refund_step d (fst (verifyAndFinalizeRefund get now actor rid d))"
| finalize: "refund_step d (fst (finalizeRefund now actor rid ps d))"
| fail: "refund_step d (fst (failRefund now actor allow rid d))"
| elsewhere: "refunds d' = refunds d \<Longrightarrow> next_id d \<le> next_id d' \<Longrightarrow> distinct (map p_id (payments d')) \<Longrightarrow>
    \<forall>p \<in> set (payments d). p_status p = P_REFUNDED \<longrightarrow>
      (\<exists>q \<in> set (payments d'). p_id q = p_id p \<and> p_status q = P_REFUNDED) \<Longrightarrow> refund_step d d'"

interpretation refund_system: invariant_system refund_step refund_inv
proof
  show "refund_inv d'" if "refund_step d d'" and inv: "refund_inv d" for d d'
    using that(1)
  proof cases
    case (request now pid amount who)
    then show ?thesis using inv requestRefund_inv [OF inv] by (auto intro: transact_preserves)
  next
    case (claim rid)
    then show ?thesis using inv processRefund_claim_inv [OF inv] by (auto intro: transact_preserves)
  next
    case elsewhere
    have "completed_refunded (refunds d) (payments d)" using inv by (simp add: refund_inv_def)
    with elsewhere have "completed_refunded (refunds d') (payments d')"
      unfolding completed_refunded_def by metis
    with elsewhere inv show ?thesis
      by (auto simp: refund_inv_def refund_keys_def)
  qed (simp_all add: inv record_submission_inv submission_failed_inv verifyAndFinalizeRefund_inv
      finalizeRefund_inv failRefund_inv)
qed

section \<open>Properties\<close>

definition demo_payment :: payment where
  "demo_payment = \<lparr>p_id = 3, p_orderId = Some 5, p_createdById = Some 8, p_inspectionRequestId = None,
     p_transportJobId = None, p_obligationId = None, p_installmentCount = None,
     p_installmentSequence = None, p_parentPaymentId = None, p_type = MARKETPLACE, p_amount = 100,
     p_currency = ''ETB'', p_method = TELEBIRR, p_status = P_PAID, p_provider = Some ''chapa'',
     p_chapaTxRef = Some ''tx-1'', p_commissionAmount = Some 5, p_netAmount = Some 95,
     p_transportQuoteId = None, p_digitalProductId = None, p_advertisementId = None,
     p_idempotencyKey = None, p_providerTransactionId = None\<rparr>"

definition demo_paid_order :: order where
  "demo_paid_order = \<lparr>o_id = 5, o_listingId = 1, o_buyerId = 8, o_sellerId = 7, o_finalPrice = 100,
     o_originalFinalPrice = None, o_quantity = 4, o_status = CANCELLED, o_agreedOfferId = None,
     o_agreedAt = None, o_buyerDecision = None, o_buyerDecisionDueAt = None,
     o_paymentDueAt = None, o_updatedAt = 0\<rparr>"

definition demo_refunds :: db where
  "demo_refunds = empty_db\<lparr>payments := [demo_payment], orders := [demo_paid_order], next_id := 10\<rparr>"



text \<open>
  C5. Requesting a refund is idempotent: once a request has succeeded, repeating it (by
  anyone, at any later time) changes nothing and returns the same refund.
\<close>

theorem requestRefund_idempotent:
  assumes "refund_inv d" and "requestRefund now pid amount by d = Inr (d1, r)"
  shows "requestRefund now' pid amount by' d1 = Inr (d1, r)"
  using assms(2)
proof (cases rule: requestRefund_cases)
  case existing
  with assms(2) show ?thesis
    by (auto simp: requestRefund_def bindr_eq_Inr Let_def split: option.splits)
next
  case (created p d0 am)
  from requestRefund_inv [OF assms] have inv: "refund_inv d1" .
  have rin: "r \<in> set (refunds d1)" "r_paymentId r = pid" "refund_live (r_status r)"
    by (simp_all add: created(10) created(9) new_refund_def refund_live_def)
  have live: "live_refund pid d1 = Some r"
  proof (cases "live_refund pid d1")
    case None
    with rin show ?thesis by (auto simp: live_refund_None)
  next
    case (Some x)
    with live_refund_Some [OF Some] rin inv show ?thesis
      unfolding refund_inv_def one_live_refund_def by auto
  qed
  have "\<exists>p1. find_unique p_id pid (payments d1) = Some p1 \<and> p_amount p1 = p_amount p \<and>
      p_status p1 \<in> {P_PAID, P_REFUND_PENDING}"
  proof -
    from created(4) have "\<exists>p0. find_unique p_id pid (payments d0) = Some p0 \<and> p_amount p0 = p_amount p \<and>
        p_status p0 \<in> {P_PAID, P_REFUND_PENDING}"
      using created(1,2)
      by (auto simp: retry_reset_def set_payment_status_def find_unique_update_rows
          split: if_splits option.splits)
    then obtain p0 where p0: "find_unique p_id pid (payments d0) = Some p0" "p_amount p0 = p_amount p"
      "p_status p0 \<in> {P_PAID, P_REFUND_PENDING}" by blast
    show ?thesis
      using set_payment_status_find [OF p0(1), of pid P_PAID P_REFUND_PENDING] p0(2,3)
      unfolding created(12) by auto
  qed
  then obtain p1 where "find_unique p_id pid (payments d1) = Some p1" "p_amount p1 = p_amount p"
    "p_status p1 \<in> {P_PAID, P_REFUND_PENDING}" by blast
  with live created(6-8) show ?thesis
    by (cases amount) (auto simp: requestRefund_def bindr_eq_Inr)
qed

theorem requestRefund_idempotent_witness:
  "\<exists>d1 r. requestRefund 0 3 None (Some 8) demo_refunds = Inr (d1, r) \<and>
     requestRefund 9 3 None (Some 7) d1 = Inr (d1, r)"
proof -
  have inv: "refund_inv demo_refunds" by code_simp
  have "\<exists>x. requestRefund 0 3 None (Some 8) demo_refunds = Inr x"
  proof (rule exI)
    show "requestRefund 0 3 None (Some 8) demo_refunds =
        Inr (projr (requestRefund 0 3 None (Some 8) demo_refunds))" by code_simp
  qed
  then obtain d1 r where "requestRefund 0 3 None (Some 8) demo_refunds = Inr (d1, r)" by force
  with requestRefund_idempotent [OF inv this] show ?thesis by blast
qed

text \<open>
  C6. A refund completes only when its order has been unwound: a successful completion
  of a pending refund found the order cancelled (or the inspection it paid for stalled,
  or no order), and leaves the refund \<open>COMPLETED\<close> and the payment \<open>REFUNDED\<close>.
\<close>

theorem finalizeRefund_effect:
  assumes "refund_inv d" and "finalizeRefund_tx now actor rid d = Inr (d', res)"
    and "find_unique r_id rid (refunds d) = Some r" and "r_status r \<noteq> Rf_COMPLETED"
    and "find_unique p_id (r_paymentId r) (payments d) = Some p"
  shows "refund_allowed p d \<and> r_status r \<in> {Rf_REQUESTED, Rf_PROCESSING} \<and>
    (\<exists>r'. res = Some r' \<and> find_unique r_id rid (refunds d') = Some r' \<and> r_status r' = Rf_COMPLETED \<and>
       r_completedAt r' = Some now \<and> r_amount r' = r_amount r) \<and>
    (\<exists>q \<in> set (payments d'). p_id q = p_id p \<and> p_status q = P_REFUNDED)"
  using assms(2,1)
proof (cases rule: finalizeRefund_tx_cases)
  case completed
  with assms(3,4) show ?thesis by simp
next
  case (finalized r0 p0 d2)
  with assms(3,5) have eq: "r0 = r" "p0 = p" by auto
  from assms(3) have "r_id r = rid" by (auto dest: find_unique_Some)
  with finalized(2) have res: "find_unique r_id rid (refunds d') =
      Some (r\<lparr>r_status := Rf_COMPLETED, r_completedAt := Some now, r_uncertain := False\<rparr>)"
    by (simp add: finalized(7,6) find_unique_update_rows assms(3) eq)
  have inv': "refund_inv d'" by (rule finalizeRefund_tx_inv [OF assms(1,2)])
  from res have "\<exists>q \<in> set (payments d'). p_id q = r_paymentId r \<and> p_status q = P_REFUNDED"
    using inv' unfolding refund_inv_def completed_refunded_def
    by (auto dest!: find_unique_Some bspec)
  moreover from assms(5) have "p_id p = r_paymentId r" by (auto dest: find_unique_Some)
  ultimately show ?thesis using finalized eq res by auto
qed

theorem finalizeRefund_effect_witness:
  "\<exists>q \<in> set (payments (fst (projr (finalizeRefund_tx 1 None 10
      (fst (projr (requestRefund 0 3 None None demo_refunds))))))). p_id q = 3 \<and> p_status q = P_REFUNDED"
proof -
  let ?d1 = "fst (projr (requestRefund 0 3 None None demo_refunds))"
  let ?x = "finalizeRefund_tx 1 None 10 ?d1"
  have inv: "refund_inv ?d1" by code_simp
  have x: "?x = Inr (fst (projr ?x), snd (projr ?x))" by code_simp
  have r: "find_unique r_id 10 (refunds ?d1) = Some (new_refund 0 10 3 100 ''ETB'' None)"
    and p: "find_unique p_id (r_paymentId (new_refund 0 10 3 100 ''ETB'' None)) (payments ?d1) =
      Some (demo_payment\<lparr>p_status := P_REFUND_PENDING\<rparr>)"
    and st: "r_status (new_refund 0 10 3 100 ''ETB'' None) \<noteq> Rf_COMPLETED"
    and i: "p_id (demo_payment\<lparr>p_status := P_REFUND_PENDING\<rparr>) = 3"
    by code_simp+
  show ?thesis using finalizeRefund_effect [OF inv x r st p] i by simp
qed


end
