(* ===== verification/Payouts.thy ===== *)
theory Payouts
  imports Release_Limits
begin

text \<open>
  \<open>backend/src/services/payoutService.js\<close>: the hold created when a payment settles, its
  freezing and resumption around a dispute, its cancellation with the order, the release
  job and the confirmation of the transfer. The reading of the clock in a call is \<open>now\<close>;
  \<open>freeze\<close> is the text of the environment variable
  \<open>INSPECTOR_FEE_FREEZE_ON_REPORT_DISPUTE\<close>, if set.
\<close>

section \<open>The code\<close>

definition holdDays :: "env \<Rightarrow> number" where
  "holdDays e = (case e SELLER_PAYOUT_HOLD_DAYS of
     None \<Rightarrow> 3 | Some raw \<Rightarrow> if 0 \<le> raw then raw else 3)"

definition daysFromNow :: "time \<Rightarrow> number \<Rightarrow> time" where
  "daysFromNow now days = time_clip (of_int now + days * day_ms)"

definition reportReviewHours :: "env \<Rightarrow> number" where
  "reportReviewHours e = (case e INSPECTION_REPORT_REVIEW_HOURS of
     None \<Rightarrow> 48 | Some raw \<Rightarrow> if 0 \<le> raw then raw else 48)"

definition new_payout ::
    "env \<Rightarrow> time \<Rightarrow> uid \<Rightarrow> uid option \<Rightarrow> payee_role \<Rightarrow> uid \<Rightarrow> payment \<Rightarrow> payout" where
  "new_payout e now i ord rl payee p =
     \<lparr>po_id = i, po_orderId = ord, po_payeeRole = rl, po_payeeId = payee, po_paymentId = p_id p,
      po_amount = (case p_netAmount p of Some n \<Rightarrow> n | None \<Rightarrow> p_amount p),
      po_currency = p_currency p, po_status = Po_HELD, po_releaseAt = daysFromNow now (holdDays e),
      po_releasedAt = None, po_paidOutAt = None, po_paidOutById = None, po_reference = None\<rparr>"

definition createPayoutHold ::
    "env \<Rightarrow> time \<Rightarrow> uid option \<Rightarrow> payee_role option \<Rightarrow> uid option \<Rightarrow> payment \<Rightarrow> db \<Rightarrow>
     db \<times> payout option" where
  "createPayoutHold e now ord rl payee p d =
     (case (rl, payee) of
        (Some payeeRole, Some payeeId) \<Rightarrow>
          (case find_unique po_paymentId (p_id p) (payouts d) of
             Some existing \<Rightarrow> (d, Some existing)
           | None \<Rightarrow>
               let row = new_payout e now (next_id d) ord payeeRole payeeId p
               in (d\<lparr>payouts := insert_row row (payouts d), next_id := Suc (next_id d)\<rparr>, Some row))
      | _ \<Rightarrow> (d, None))"

definition payoutRolesForDispute :: "string option \<Rightarrow> payee_role list option" where
  "payoutRolesForDispute disputeType =
     (let type = js_upper (or_empty disputeType) in
      if js_includes type ''TRANSPORT'' \<or> js_includes type ''TRUCK'' \<or> js_includes type ''DELIVERY''
        then Some [Payee_TRANSPORTER]
      else if js_includes type ''INSPECT'' then Some [Payee_INSPECTOR]
      else if js_includes type ''SELLER'' \<or> js_includes type ''PRODUCT'' \<or>
              js_includes type ''GOODS'' \<or> js_includes type ''MARKETPLACE''
        then Some [Payee_SELLER]
      else None)"

definition payout_inspection :: "payout \<Rightarrow> db \<Rightarrow> inspection option" where
  "payout_inspection po d =
     Option.bind (find_unique p_id (po_paymentId po) (payments d)) (\<lambda>p.
     Option.bind (p_inspectionRequestId p) (\<lambda>i. find_unique i_id i (inspections d)))"

definition inspectorFeeIsEarned :: "payout \<Rightarrow> db \<Rightarrow> bool" where
  "inspectorFeeIsEarned po d = (po_payeeRole po = Payee_INSPECTOR \<and>
     (case payout_inspection po d of None \<Rightarrow> False | Some q \<Rightarrow> i_status q = I_COMPLETED))"

text \<open>\<open>String(value || 'true').toLowerCase() !== 'false'\<close>, compared in upper case.\<close>

definition freezeInspectorFeeOnReportDispute :: "string option \<Rightarrow> bool" where
  "freezeInspectorFeeOnReportDispute freeze = (js_upper (or_empty freeze) \<noteq> ''FALSE'')"

text \<open>Moving each payout of a list to a status, with one audit event per payout.\<close>

definition move_payout ::
    "time \<Rightarrow> uid option \<Rightarrow> money_action \<Rightarrow> (payout \<Rightarrow> payout) \<Rightarrow> payout \<Rightarrow> db \<Rightarrow> db" where
  "move_payout now actor act upd po d =
     recordAuditEvent now actor (Money_Act act) (po_id po) None
       (d\<lparr>payouts := update_rows (\<lambda>q. po_id q = po_id po) upd (payouts d)\<rparr>)"

definition move_payouts ::
    "time \<Rightarrow> uid option \<Rightarrow> money_action \<Rightarrow> (payout \<Rightarrow> payout) \<Rightarrow> payout list \<Rightarrow> db \<Rightarrow> db" where
  "move_payouts now actor act upd pos d = fold (move_payout now actor act upd) pos d"

definition dispute_scope :: "uid \<Rightarrow> string option \<Rightarrow> payout_status list \<Rightarrow> payout \<Rightarrow> bool" where
  "dispute_scope oid disputeType sts po =
     (po_orderId po = Some oid \<and> po_status po \<in> set sts \<and>
      (case payoutRolesForDispute disputeType of None \<Rightarrow> True | Some rs \<Rightarrow> po_payeeRole po \<in> set rs))"

definition dispute_exempts :: "string option \<Rightarrow> string option \<Rightarrow> bool" where
  "dispute_exempts freeze disputeType =
     (let aboutTheReport = js_includes (js_upper (or_empty disputeType)) ''INSPECT''
      in \<not> (aboutTheReport \<and> freezeInspectorFeeOnReportDispute freeze))"

definition holdForDispute ::
    "string option \<Rightarrow> time \<Rightarrow> uid \<Rightarrow> uid option \<Rightarrow> string option \<Rightarrow> db \<Rightarrow> db" where
  "holdForDispute freeze now oid actor disputeType d =
     (let pos = filter (\<lambda>po. dispute_scope oid disputeType [Po_HELD, Po_RELEASED] po \<and>
            \<not> (dispute_exempts freeze disputeType \<and> inspectorFeeIsEarned po d)) (payouts d)
      in move_payouts now actor PAYOUT_HELD_FOR_DISPUTE (\<lambda>q. q\<lparr>po_status := Po_ON_HOLD_DISPUTE\<rparr>) pos d)"

definition resumeAfterDispute ::
    "env \<Rightarrow> time \<Rightarrow> uid \<Rightarrow> uid option \<Rightarrow> string option \<Rightarrow> db \<Rightarrow> db" where
  "resumeAfterDispute e now oid actor disputeType d =
     (let pos = filter (dispute_scope oid disputeType [Po_ON_HOLD_DISPUTE]) (payouts d)
      in move_payouts now actor PAYOUT_RESUMED_AFTER_DISPUTE
           (\<lambda>q. q\<lparr>po_status := Po_HELD, po_releaseAt := daysFromNow now (holdDays e),
                  po_releasedAt := None, po_paidOutAt := None, po_reference := None\<rparr>) pos d)"

definition cancelAfterDispute :: "time \<Rightarrow> uid \<Rightarrow> uid option \<Rightarrow> db \<Rightarrow> db" where
  "cancelAfterDispute now oid actor d =
     (let pos = filter (\<lambda>po. po_orderId po = Some oid \<and> po_status po = Po_ON_HOLD_DISPUTE) (payouts d)
      in move_payouts now actor PAYOUT_CANCELLED_AFTER_DISPUTE (\<lambda>q. q\<lparr>po_status := Po_CANCELLED\<rparr>) pos d)"

definition retained :: "uid list \<Rightarrow> payout \<Rightarrow> db \<Rightarrow> bool" where
  "retained keep po d = (po_payeeRole po = Payee_INSPECTOR \<and>
     (case find_unique p_id (po_paymentId po) (payments d) of
        None \<Rightarrow> False
      | Some p \<Rightarrow> (case p_inspectionRequestId p of None \<Rightarrow> False | Some i \<Rightarrow> i \<in> set keep)))"

definition cancelPayoutsForOrder :: "time \<Rightarrow> uid \<Rightarrow> uid option \<Rightarrow> uid list \<Rightarrow> db \<Rightarrow> db" where
  "cancelPayoutsForOrder now oid actor keep d =
     (let pos = filter (\<lambda>po. po_orderId po = Some oid \<and>
            po_status po \<in> {Po_HELD, Po_RELEASED, Po_ON_HOLD_DISPUTE} \<and> \<not> retained keep po d) (payouts d)
      in move_payouts now actor PAYOUT_CANCELLED_ORDER_CANCELLED
           (\<lambda>q. q\<lparr>po_status := Po_CANCELLED\<rparr>) pos d)"

section \<open>The release job\<close>

definition receipt_event :: "uid \<Rightarrow> db \<Rightarrow> order_event option" where
  "receipt_event oid d = pick (\<lambda>a b. ev_createdAt a > ev_createdAt b)
     (filter (\<lambda>ev. ev_orderId ev = oid \<and> ev_type ev = RECEIPT_CONFIRMED) (orderEvents d))"

text \<open>
  When the work a payout pays for was completed, how long it is held after that, and
  whether the inspector's review rule applies; \<open>None\<close> while it is not completed.
\<close>

definition completion_of :: "env \<Rightarrow> payout \<Rightarrow> db \<Rightarrow> (time \<times> number \<times> bool) option" where
  "completion_of e po d =
     (if po_payeeRole po = Payee_INSPECTOR
      then (case payout_inspection po d of
              None \<Rightarrow> None
            | Some request \<Rightarrow>
                if i_status request \<noteq> I_COMPLETED then None
                else (case i_reportAcceptedAt request of
                        Some t \<Rightarrow> Some (t, 0, True)
                      | None \<Rightarrow> Some (case i_completedAt request of Some t \<Rightarrow> t | None \<Rightarrow> i_updatedAt request,
                                      reportReviewHours e * hour_ms, True)))
      else (case Option.bind (po_orderId po) (\<lambda>i. find_unique o_id i (orders d)) of
              None \<Rightarrow> None
            | Some o1 \<Rightarrow>
                (case receipt_event (o_id o1) d of
                   Some ev \<Rightarrow> Some (ev_createdAt ev, holdDays e * day_ms, False)
                 | None \<Rightarrow> if o_status o1 = COMPLETED
                            then Some (o_updatedAt o1, holdDays e * day_ms, False) else None)))"

definition effective_release :: "payout \<Rightarrow> time \<times> number \<times> bool \<Rightarrow> time" where
  "effective_release po c =
     (case c of (completionAt, holdMs, review) \<Rightarrow>
        let eligible = time_clip (of_int completionAt + holdMs)
        in if review then eligible else max (po_releaseAt po) eligible)"

definition release_one :: "env \<Rightarrow> time \<Rightarrow> payout \<Rightarrow> db \<times> nat \<times> nat \<Rightarrow> db \<times> nat \<times> nat" where
  "release_one e now po s =
     (case s of (d, released, deferred) \<Rightarrow>
        case completion_of e po d of
          None \<Rightarrow> (d, released, Suc deferred)
        | Some (completionAt, holdMs, review) \<Rightarrow>
            let eff = effective_release po (completionAt, holdMs, review) in
            if eff > now then
              (if eff \<noteq> po_releaseAt po
               then d\<lparr>payouts := update_rows (\<lambda>q. po_id q = po_id po \<and> po_status q = Po_HELD)
                        (\<lambda>q. q\<lparr>po_releaseAt := eff\<rparr>) (payouts d)\<rparr>
               else d, released, Suc deferred)
            else
              let (rows, count) = update_many
                    (\<lambda>q. po_id q = po_id po \<and> po_status q = Po_HELD \<and> (review \<or> po_releaseAt q \<le> now))
                    (\<lambda>q. q\<lparr>po_status := Po_RELEASED, po_releasedAt := Some now,
                           po_releaseAt := (if review then eff else po_releaseAt q)\<rparr>) (payouts d)
              in (d\<lparr>payouts := rows\<rparr>, released + count, deferred))"

definition releaseDuePayouts :: "env \<Rightarrow> time \<Rightarrow> db \<Rightarrow> db \<times> nat \<times> nat" where
  "releaseDuePayouts e now d =
     fold (release_one e now) (take 500 (filter (\<lambda>po. po_status po = Po_HELD) (payouts d))) (d, 0, 0)"

definition releaseInspectorPayoutsForRequest :: "time \<Rightarrow> uid \<Rightarrow> db \<Rightarrow> db \<times> nat" where
  "releaseInspectorPayoutsForRequest now req d =
     (let (rows, count) = update_many
            (\<lambda>q. po_status q = Po_HELD \<and> po_payeeRole q = Payee_INSPECTOR \<and>
               (case find_unique p_id (po_paymentId q) (payments d) of
                  None \<Rightarrow> False | Some p \<Rightarrow> p_inspectionRequestId p = Some req))
            (\<lambda>q. q\<lparr>po_status := Po_RELEASED, po_releasedAt := Some now, po_releaseAt := now\<rparr>) (payouts d)
      in (d\<lparr>payouts := rows\<rparr>, count))"

definition markPaidOut :: "time \<Rightarrow> uid \<Rightarrow> uid \<Rightarrow> string option \<Rightarrow> db \<Rightarrow> (db \<times> payout option) res" where
  "markPaidOut now payoutId actor reference d =
     (case find_unique po_id payoutId (payouts d) of
        None \<Rightarrow> Inl (Payment_Err 404 PAYOUT_NOT_FOUND)
      | Some po \<Rightarrow>
          if po_status po \<noteq> Po_RELEASED then Inl (Payment_Err 409 PAYOUT_NOT_RELEASED)
          else
            let d1 = move_payout now (Some actor) PAYOUT_PAID_OUT
                  (\<lambda>q. q\<lparr>po_status := Po_PAID_OUT, po_paidOutAt := Some now, po_paidOutById := Some actor,
                         po_reference := (if or_empty reference = [] then None else reference)\<rparr>) po d
            in Inr (d1, find_unique po_id payoutId (payouts d1)))"

section \<open>The loops, row by row\<close>

definition payout_keys :: "db \<Rightarrow> bool" where
  "payout_keys d = (distinct (map po_id (payouts d)) \<and> distinct (map po_paymentId (payouts d)) \<and>
     (\<forall>q \<in> set (payouts d). po_id q < next_id d))"

lemma payout_keysD:
  assumes "payout_keys d"
  shows "distinct (map po_id (payouts d))" and "distinct (map po_paymentId (payouts d))"
  using assms by (simp_all add: payout_keys_def)

lemma move_payout_sel [simp]:
  "payouts (move_payout now a act upd po d) = update_rows (\<lambda>q. po_id q = po_id po) upd (payouts d)"
  "payments (move_payout now a act upd po d) = payments d"
  "orders (move_payout now a act upd po d) = orders d"
  "offers (move_payout now a act upd po d) = offers d"
  "refunds (move_payout now a act upd po d) = refunds d"
  "listings (move_payout now a act upd po d) = listings d"
  "obligations (move_payout now a act upd po d) = obligations d"
  "inspections (move_payout now a act upd po d) = inspections d"
  "next_id (move_payout now a act upd po d) = next_id d"
  by (simp_all add: move_payout_def)

lemma move_payouts_frame [simp]:
  "payments (move_payouts now a act upd pos d) = payments d"
  "orders (move_payouts now a act upd pos d) = orders d"
  "offers (move_payouts now a act upd pos d) = offers d"
  "refunds (move_payouts now a act upd pos d) = refunds d"
  "listings (move_payouts now a act upd pos d) = listings d"
  "obligations (move_payouts now a act upd pos d) = obligations d"
  "inspections (move_payouts now a act upd pos d) = inspections d"
  "next_id (move_payouts now a act upd pos d) = next_id d"
  unfolding move_payouts_def by (induction pos arbitrary: d) simp_all

lemma move_payouts_fold:
  "payouts (move_payouts now a act upd pos d) =
     fold (\<lambda>p. update_rows (\<lambda>q. po_id q = po_id p) upd) pos (payouts d)"
  unfolding move_payouts_def by (induction pos arbitrary: d) simp_all

text \<open>Moving the payouts that satisfy a condition is one update of the table.\<close>

lemma move_filtered:
  assumes dist: "distinct (map po_id (payouts d))" and upd: "\<And>q. po_id (upd q) = po_id q"
  shows "payouts (move_payouts now a act upd (filter P (payouts d)) d) =
    update_rows P upd (payouts d)"
  using fold_claims [where Q = "\<lambda>_. True" and P = P, OF dist upd] by (simp add: move_payouts_fold)

text \<open>One turn of the release job, as a change of the payout's row.\<close>

definition release_row :: "env \<Rightarrow> time \<Rightarrow> db \<Rightarrow> payout \<Rightarrow> payout \<Rightarrow> payout" where
  "release_row e now d po q =
     (case completion_of e po d of
        None \<Rightarrow> q
      | Some c \<Rightarrow>
          let eff = effective_release po c; review = snd (snd c) in
          if eff > now
          then (if eff \<noteq> po_releaseAt po \<and> po_status q = Po_HELD then q\<lparr>po_releaseAt := eff\<rparr> else q)
          else if po_status q = Po_HELD \<and> (review \<or> po_releaseAt q \<le> now)
          then q\<lparr>po_status := Po_RELEASED, po_releasedAt := Some now,
                 po_releaseAt := (if review then eff else po_releaseAt q)\<rparr>
          else q)"

lemma release_row_keys [simp]:
  "po_id (release_row e now d po q) = po_id q"
  "po_paymentId (release_row e now d po q) = po_paymentId q"
  "po_payeeId (release_row e now d po q) = po_payeeId q"
  "po_amount (release_row e now d po q) = po_amount q"
  by (auto simp: release_row_def Let_def split: option.splits)

lemma completion_of_cong:
  "payments d' = payments d \<Longrightarrow> orders d' = orders d \<Longrightarrow> inspections d' = inspections d \<Longrightarrow>
     orderEvents d' = orderEvents d \<Longrightarrow> completion_of e po d' = completion_of e po d"
  by (auto simp: completion_of_def payout_inspection_def receipt_event_def split: option.splits)

lemma release_one_step:
  "payouts (fst (release_one e now po (d, a, b))) =
     update_rows (\<lambda>q. po_id q = po_id po) (release_row e now d po) (payouts d)"
  "(fst (release_one e now po (d, a, b)))\<lparr>payouts := payouts d\<rparr> = d"
proof -
  show "payouts (fst (release_one e now po (d, a, b))) =
     update_rows (\<lambda>q. po_id q = po_id po) (release_row e now d po) (payouts d)"
    unfolding update_rows_def
    by (cases "completion_of e po d")
       (auto simp: release_one_def release_row_def Let_def update_many_def update_rows_def
        intro!: map_idI [symmetric] split: prod.splits)
  show "(fst (release_one e now po (d, a, b)))\<lparr>payouts := payouts d\<rparr> = d"
    by (auto simp: release_one_def Let_def update_many_def split: option.splits prod.splits)
qed

definition same_but_payouts :: "db \<Rightarrow> db \<Rightarrow> bool" where
  "same_but_payouts d d0 = (d\<lparr>payouts := []\<rparr> = d0\<lparr>payouts := []\<rparr>)"

lemma same_but_payouts_refl [simp]: "same_but_payouts d d"
  by (simp add: same_but_payouts_def)

lemma completion_of_same:
  assumes "same_but_payouts d d0"
  shows "completion_of e po d = completion_of e po d0"
proof -
  have "completion_of e po d = completion_of e po (d\<lparr>payouts := []\<rparr>)"
    by (rule completion_of_cong) simp_all
  also have "\<dots> = completion_of e po (d0\<lparr>payouts := []\<rparr>)"
    using assms by (simp add: same_but_payouts_def)
  also have "\<dots> = completion_of e po d0" by (rule completion_of_cong) simp_all
  finally show ?thesis .
qed

lemma release_one_same: "same_but_payouts (fst (release_one e now po (d, a, b))) d"
  by (auto simp: same_but_payouts_def release_one_def Let_def update_many_def
    split: option.splits prod.splits)

lemma release_fold:
  assumes "same_but_payouts d d0"
  shows "payouts (fst (fold (release_one e now) pos (d, a, b))) =
      fold (\<lambda>p. update_rows (\<lambda>q. po_id q = po_id p) (release_row e now d0 p)) pos (payouts d) \<and>
    same_but_payouts (fst (fold (release_one e now) pos (d, a, b))) d0"
  using assms
proof (induction pos arbitrary: d a b)
  case Nil
  then show ?case by simp
next
  case (Cons p pos)
  obtain d1 a1 b1 where s: "release_one e now p (d, a, b) = (d1, a1, b1)"
    by (metis prod_cases3)
  have p1: "payouts d1 = update_rows (\<lambda>q. po_id q = po_id p) (release_row e now d p) (payouts d)"
    using release_one_step(1) [where e = e and now = now and po = p and d = d and a = a and b = b] s
    by simp
  have "same_but_payouts d1 d"
    using release_one_same [where e = e and now = now and po = p and d = d and a = a and b = b] s
    by simp
  with Cons.prems have d1: "same_but_payouts d1 d0" by (simp add: same_but_payouts_def)
  have "release_row e now d p = release_row e now d0 p"
    by (rule ext) (simp add: release_row_def completion_of_same [OF Cons.prems])
  with Cons.IH [OF d1, of a1 b1] show ?case by (simp add: s p1)
qed

text \<open>The job releases every payout by its own row alone.\<close>

lemma releaseDuePayouts_rows:
  assumes dist: "distinct (map po_id (payouts d))"
  shows "payouts (fst (releaseDuePayouts e now d)) =
    map (\<lambda>q. if q \<in> set (take 500 (filter (\<lambda>po. po_status po = Po_HELD) (payouts d)))
             then release_row e now d q q else q) (payouts d)"
    and "same_but_payouts (fst (releaseDuePayouts e now d)) d"
proof -
  let ?pos = "take 500 (filter (\<lambda>po. po_status po = Po_HELD) (payouts d))"
  have dp: "distinct (map po_id ?pos)"
    using dist by (simp add: distinct_map_filter take_map [symmetric])
  have sub: "set ?pos \<subseteq> set (payouts d)" by (auto dest: in_set_takeD)
  have row: "fold (\<lambda>p q. if po_id q = po_id p then release_row e now d p q else q) ?pos q =
      (if q \<in> set ?pos then release_row e now d q q else q)" if q: "q \<in> set (payouts d)" for q
  proof (cases "q \<in> set ?pos")
    case True
    from find_unique_in [OF dp this] True show ?thesis
      using fold_by_key [OF dp, of "release_row e now d" q] by simp
  next
    case False
    have "po_id r \<noteq> po_id q" if "r \<in> set ?pos" for r
      using key_inj [OF dist _ q, of r] that False sub by blast
    then have "find_unique po_id (po_id q) ?pos = None" by (simp add: find_unique_None)
    with False show ?thesis
      using fold_by_key [OF dp, of "release_row e now d" q] by simp
  qed
  have "payouts (fst (releaseDuePayouts e now d)) =
      map (\<lambda>q. fold (\<lambda>p q. if po_id q = po_id p then release_row e now d p q else q) ?pos q) (payouts d)"
    unfolding releaseDuePayouts_def release_fold [OF same_but_payouts_refl, THEN conjunct1]
    by (rule fold_update_rows) simp
  also have "\<dots> = map (\<lambda>q. if q \<in> set ?pos then release_row e now d q q else q) (payouts d)"
    by (rule map_cong) (simp_all only: row)
  finally show "payouts (fst (releaseDuePayouts e now d)) =
    map (\<lambda>q. if q \<in> set ?pos then release_row e now d q q else q) (payouts d)" .
  show "same_but_payouts (fst (releaseDuePayouts e now d)) d"
    unfolding releaseDuePayouts_def by (rule release_fold [THEN conjunct2]) simp
qed

end
