(* ===== verification/Payout_Safety.thy ===== *)
theory Payout_Safety
  imports Payouts Lifecycle
begin

text \<open>
  What the payout service promises: one payout per payment, a row that has been paid out
  or cancelled is never touched again, nothing is released before the work it pays for
  was completed and its holding time has passed, and a dispute or a cancellation stops
  every payout it is about.
\<close>

section \<open>Invariant\<close>

definition payout_final :: "payout_status \<Rightarrow> bool" where
  "payout_final s = (s = Po_PAID_OUT \<or> s = Po_CANCELLED)"

text \<open>The time stamps of a payout agree with its status.\<close>

definition payout_row_ok :: "payout \<Rightarrow> bool" where
  "payout_row_ok q = ((po_status q = Po_RELEASED \<or> po_status q = Po_PAID_OUT \<longrightarrow> po_releasedAt q \<noteq> None) \<and>
     (po_paidOutAt q \<noteq> None) = (po_status q = Po_PAID_OUT))"

definition payout_inv :: "db \<Rightarrow> bool" where
  "payout_inv d = (payout_keys d \<and> (\<forall>q \<in> set (payouts d). payout_row_ok q))"

text \<open>What one call may do to one row.\<close>

definition payout_move :: "payout_status \<Rightarrow> payout_status \<Rightarrow> bool" where
  "payout_move s t = (case s of
     Po_HELD \<Rightarrow> t \<in> {Po_HELD, Po_RELEASED, Po_ON_HOLD_DISPUTE, Po_CANCELLED}
   | Po_RELEASED \<Rightarrow> t \<in> {Po_PAID_OUT, Po_ON_HOLD_DISPUTE, Po_CANCELLED}
   | Po_ON_HOLD_DISPUTE \<Rightarrow> t \<in> {Po_HELD, Po_CANCELLED}
   | Po_PAID_OUT \<Rightarrow> False
   | Po_CANCELLED \<Rightarrow> False)"

definition row_step :: "payout \<Rightarrow> payout \<Rightarrow> bool" where
  "row_step q r = (q = r \<or>
     payout_move (po_status q) (po_status r) \<and> po_id r = po_id q \<and> po_paymentId r = po_paymentId q \<and>
     po_payeeId r = po_payeeId q \<and> po_amount r = po_amount q \<and> po_orderId r = po_orderId q \<and>
     (payout_row_ok q \<longrightarrow> payout_row_ok r))"

definition table_step :: "db \<Rightarrow> db \<Rightarrow> bool" where
  "table_step d d' = (list_all2 row_step (payouts d) (payouts d') \<and> next_id d \<le> next_id d')"

lemma row_step_refl [simp]: "row_step q q"
  by (simp add: row_step_def)

lemma row_step_keys:
  "row_step q r \<Longrightarrow> po_id r = po_id q \<and> po_paymentId r = po_paymentId q"
  by (auto simp: row_step_def)

lemma row_step_final: "row_step q r \<Longrightarrow> payout_final (po_status q) \<Longrightarrow> r = q"
  by (auto simp: row_step_def payout_final_def payout_move_def)

lemma list_all2_row_keys:
  "list_all2 row_step ps qs \<Longrightarrow> map po_id qs = map po_id ps \<and> map po_paymentId qs = map po_paymentId ps"
  by (induction rule: list_all2_induct) (auto dest: row_step_keys)

lemma list_all2_row_ok:
  "list_all2 row_step ps qs \<Longrightarrow> \<forall>q \<in> set ps. payout_row_ok q \<Longrightarrow> \<forall>q \<in> set qs. payout_row_ok q"
  by (induction rule: list_all2_induct) (auto simp: row_step_def)

lemma list_all2_final:
  "list_all2 row_step ps qs \<Longrightarrow> q \<in> set ps \<Longrightarrow> payout_final (po_status q) \<Longrightarrow> q \<in> set qs"
  by (induction rule: list_all2_induct) (auto dest: row_step_final)

lemma payout_inv_step:
  assumes "table_step d d'" and "payout_inv d"
  shows "payout_inv d'"
proof -
  from assms(1) have l: "list_all2 row_step (payouts d) (payouts d')" and n: "next_id d \<le> next_id d'"
    by (simp_all add: table_step_def)
  note k = list_all2_row_keys [OF l]
  have "po_id q < next_id d'" if "q \<in> set (payouts d')" for q
  proof -
    from that k have "po_id q \<in> set (map po_id (payouts d))" by (metis image_eqI set_map)
    with assms(2) n show ?thesis by (auto simp: payout_inv_def payout_keys_def)
  qed
  with k list_all2_row_ok [OF l] assms(2) show ?thesis
    by (simp add: payout_inv_def payout_keys_def)
qed

lemma table_stepI_map:
  assumes "payouts d' = map g (payouts d)" and "next_id d' = next_id d"
    and "\<And>q. q \<in> set (payouts d) \<Longrightarrow> row_step q (g q)"
  shows "table_step d d'"
  using assms by (auto simp: table_step_def list_all2_conv_all_nth)

lemma table_stepI_update:
  assumes "payouts d' = update_rows P g (payouts d)" and "next_id d' = next_id d"
    and "\<And>q. q \<in> set (payouts d) \<Longrightarrow> P q \<Longrightarrow> row_step q (g q)"
  shows "table_step d d'"
  by (rule table_stepI_map [where g = "\<lambda>q. if P q then g q else q"])
    (use assms in \<open>auto simp: update_rows_def\<close>)

lemma move_payouts_step:
  assumes inv: "payout_inv d" and k: "\<And>q. po_id (g q) = po_id q"
    and s: "\<And>q. P q \<Longrightarrow> row_step q (g q)"
  shows "table_step d (move_payouts now a act g (filter P (payouts d)) d)"
proof (rule table_stepI_update)
  from inv have "distinct (map po_id (payouts d))" by (simp add: payout_inv_def payout_keys_def)
  then show "payouts (move_payouts now a act g (filter P (payouts d)) d) = update_rows P g (payouts d)"
    by (rule move_filtered) (rule k)
qed (simp_all add: s)

section \<open>Every operation is a step of the table\<close>

lemma holdForDispute_step: "payout_inv d \<Longrightarrow> table_step d (holdForDispute freeze now oid a dt d)"
  unfolding holdForDispute_def Let_def
  by (rule move_payouts_step)
    (auto simp: dispute_scope_def row_step_def payout_move_def payout_row_ok_def)

lemma resumeAfterDispute_step: "payout_inv d \<Longrightarrow> table_step d (resumeAfterDispute e now oid a dt d)"
  unfolding resumeAfterDispute_def Let_def
  by (rule move_payouts_step)
    (auto simp: dispute_scope_def row_step_def payout_move_def payout_row_ok_def)

lemma cancelAfterDispute_step: "payout_inv d \<Longrightarrow> table_step d (cancelAfterDispute now oid a d)"
  unfolding cancelAfterDispute_def Let_def
  by (rule move_payouts_step) (auto simp: row_step_def payout_move_def payout_row_ok_def)

lemma cancelPayoutsForOrder_step:
  "payout_inv d \<Longrightarrow> table_step d (cancelPayoutsForOrder now oid a keep d)"
  unfolding cancelPayoutsForOrder_def Let_def
  by (rule move_payouts_step) (auto simp: row_step_def payout_move_def payout_row_ok_def)

lemma release_row_step: "row_step q (release_row e now d p q)"
  by (auto simp: release_row_def Let_def row_step_def payout_move_def payout_row_ok_def
    split: option.splits)

lemma releaseDuePayouts_step:
  assumes "payout_inv d"
  shows "table_step d (fst (releaseDuePayouts e now d))"
proof -
  from assms have k: "distinct (map po_id (payouts d))" by (simp add: payout_inv_def payout_keys_def)
  have "next_id (fst (releaseDuePayouts e now d)) = next_id d"
    using arg_cong [OF releaseDuePayouts_rows(2) [OF k, unfolded same_but_payouts_def], of next_id e now]
    by simp
  with releaseDuePayouts_rows(1) [OF k] show ?thesis
    by (rule table_stepI_map) (auto intro: release_row_step)
qed

lemma releaseInspectorPayoutsForRequest_step:
  "table_step d (fst (releaseInspectorPayoutsForRequest now req d))"
  by (rule table_stepI_update [where P = "\<lambda>q. po_status q = Po_HELD \<and> po_payeeRole q = Payee_INSPECTOR \<and>
        (case find_unique p_id (po_paymentId q) (payments d) of
           None \<Rightarrow> False | Some p \<Rightarrow> p_inspectionRequestId p = Some req)"])
    (auto simp: releaseInspectorPayoutsForRequest_def update_many_def
      row_step_def payout_move_def payout_row_ok_def)

lemma markPaidOut_step:
  assumes inv: "payout_inv d" and ok: "markPaidOut now i a ref d = Inr (d', po)"
  shows "table_step d d'"
proof -
  from inv have k: "distinct (map po_id (payouts d))" by (simp add: payout_inv_def payout_keys_def)
  from ok obtain p where p: "find_unique po_id i (payouts d) = Some p" "po_status p = Po_RELEASED"
    and d': "d' = move_payout now (Some a) PAYOUT_PAID_OUT
        (\<lambda>q. q\<lparr>po_status := Po_PAID_OUT, po_paidOutAt := Some now, po_paidOutById := Some a,
                po_reference := (if or_empty ref = [] then None else ref)\<rparr>) p d"
    by (auto simp: markPaidOut_def Let_def split: option.splits if_splits)
  show ?thesis unfolding d'
  proof (rule table_stepI_update)
    fix q assume "q \<in> set (payouts d)" "po_id q = po_id p"
    then have "q = p" using key_inj [OF k, of q p] find_unique_Some [OF p(1)] by simp
    with p(2) show "row_step q (q\<lparr>po_status := Po_PAID_OUT, po_paidOutAt := Some now, po_paidOutById := Some a,
                po_reference := (if or_empty ref = [] then None else ref)\<rparr>)"
      by (simp add: row_step_def payout_move_def payout_row_ok_def)
  qed simp_all
qed

text \<open>Only the creation of a hold adds a row, and only for a payment that has none.\<close>

lemma createPayoutHoldE:
  assumes "createPayoutHold e now ord rl payee p d = (d', r)"
  obtains "d' = d" and "r = None \<or> (\<exists>x. r = Some x \<and> find_unique po_paymentId (p_id p) (payouts d) = Some x)"
  | rl' payee' where "rl = Some rl'" "payee = Some payee'"
      "find_unique po_paymentId (p_id p) (payouts d) = None"
      "r = Some (new_payout e now (next_id d) ord rl' payee' p)"
      "d' = d\<lparr>payouts := insert_row (new_payout e now (next_id d) ord rl' payee' p) (payouts d),
              next_id := Suc (next_id d)\<rparr>"
  using assms by (auto simp: createPayoutHold_def Let_def split: option.splits)

lemma createPayoutHold_inv:
  assumes inv: "payout_inv d" and c: "createPayoutHold e now ord rl payee p d = (d', r)"
  shows "payout_inv d'"
  using c
proof (cases rule: createPayoutHoldE)
  case 1
  with inv show ?thesis by simp
next
  case (2 rl' payee')
  let ?row = "new_payout e now (next_id d) ord rl' payee' p"
  from 2(3) have "p_id p \<notin> po_paymentId ` set (payouts d)"
    by (auto simp: find_unique_None)
  with inv 2(5) show ?thesis
    by (auto simp: payout_inv_def payout_keys_def payout_row_ok_def new_payout_def less_Suc_eq)
qed

lemma createPayoutHold_keeps:
  "createPayoutHold e now ord rl payee p d = (d', r) \<Longrightarrow> q \<in> set (payouts d) \<Longrightarrow> q \<in> set (payouts d')"
  by (erule createPayoutHoldE) auto

section \<open>The service as a system\<close>

text \<open>
  One step is one call of the service by any caller, or any change the rest of the
  program makes, which never writes the payouts.
\<close>

inductive payout_step :: "db \<Rightarrow> db \<Rightarrow> bool" where
  hold: "createPayoutHold e now ord rl payee p d = (d', r) \<Longrightarrow> payout_step d d'"
| dispute: "payout_step d (holdForDispute freeze now oid a dt d)"
| resume: "payout_step d (resumeAfterDispute e now oid a dt d)"
| dispute_lost: "payout_step d (cancelAfterDispute now oid a d)"
| order_cancelled: "payout_step d (cancelPayoutsForOrder now oid a keep d)"
| release_job: "payout_step d (fst (releaseDuePayouts e now d))"
| report_accepted: "payout_step d (fst (releaseInspectorPayoutsForRequest now req d))"
| paid: "markPaidOut now i a ref d = Inr (d', po) \<Longrightarrow> payout_step d d'"
| elsewhere: "payouts d' = payouts d \<Longrightarrow> next_id d \<le> next_id d' \<Longrightarrow> payout_step d d'"

lemmas payout_table_steps = holdForDispute_step resumeAfterDispute_step cancelAfterDispute_step
  cancelPayoutsForOrder_step releaseDuePayouts_step releaseInspectorPayoutsForRequest_step markPaidOut_step

lemma payout_step_table:
  assumes "payout_step d d'" and "payout_inv d"
  shows "table_step d d' \<or> (\<exists>e now ord rl payee p r. createPayoutHold e now ord rl payee p d = (d', r))"
  using assms
proof (cases rule: payout_step.cases)
  case elsewhere
  then have "table_step d d'" by (simp add: table_step_def list.rel_refl)
  then show ?thesis ..
qed (use assms(2) in \<open>blast intro: payout_table_steps\<close>)+

lemma payout_step_inv:
  assumes "payout_step d d'" and "payout_inv d"
  shows "payout_inv d'"
  using payout_step_table [OF assms] assms(2) payout_inv_step createPayoutHold_inv by blast

lemma payout_step_final:
  assumes "payout_step d d'" and "payout_inv d" and "payout_final (po_status q)" and "q \<in> set (payouts d)"
  shows "q \<in> set (payouts d')"
  using payout_step_table [OF assms(1,2)] assms(3,4) createPayoutHold_keeps list_all2_final
  unfolding table_step_def by blast

interpretation payout_system: invariant_system payout_step payout_inv
  by unfold_locales (rule payout_step_inv)

interpretation payout_row_system: invariant_system payout_step
    "\<lambda>d. payout_inv d \<and> payout_final (po_status q) \<and> q \<in> set (payouts d)" for q
  by unfold_locales (blast intro: payout_step_inv payout_step_final)

section \<open>Properties\<close>

definition payout_due :: "env \<Rightarrow> time \<Rightarrow> payout \<Rightarrow> db \<Rightarrow> bool" where
  "payout_due e now q d =
     (case completion_of e q d of None \<Rightarrow> False | Some c \<Rightarrow> effective_release q c \<le> now)"

lemma payouts_lookup:
  assumes "payout_keys d" and "q \<in> set (payouts d)"
  shows "find_unique po_id (po_id q) (payouts d) = Some q"
  using assms by (simp add: payout_keys_def find_unique_in)

lemma table_step_keys: "table_step d d' \<Longrightarrow> payout_inv d \<Longrightarrow> payout_keys d'"
  by (drule payout_inv_step) (simp_all add: payout_inv_def)

text \<open>The row the job leaves for a held payout within reach of its scan.\<close>

lemma release_row_due:
  assumes "po_status q = Po_HELD"
  shows "po_status (release_row e now d q q) = (if payout_due e now q d then Po_RELEASED else Po_HELD)"
    and "payout_due e now q d \<Longrightarrow> po_releasedAt (release_row e now d q q) = Some now"
  using assms
  by (auto simp: release_row_def payout_due_def effective_release_def Let_def
    split: option.splits if_splits prod.splits)

lemma held_in_scan:
  assumes "length (filter (\<lambda>po. po_status po = Po_HELD) (payouts d)) \<le> 500"
  shows "q \<in> set (take 500 (filter (\<lambda>po. po_status po = Po_HELD) (payouts d))) \<longleftrightarrow>
    q \<in> set (payouts d) \<and> po_status q = Po_HELD"
  using assms by simp

text \<open>A small database: an order delivered and confirmed at 1000, its paid payment and the hold.\<close>

definition demo_paid :: payment where
  "demo_paid = \<lparr>p_id = 4, p_orderId = Some 2, p_createdById = Some 8, p_inspectionRequestId = None,
     p_transportJobId = None, p_obligationId = None, p_installmentCount = None,
     p_installmentSequence = None, p_parentPaymentId = None, p_type = MARKETPLACE, p_amount = 500,
     p_currency = ''ETB'', p_method = TELEBIRR, p_status = P_PAID, p_provider = None,
     p_chapaTxRef = None, p_commissionAmount = Some 25, p_netAmount = Some 475,
     p_transportQuoteId = None, p_digitalProductId = None, p_advertisementId = None,
     p_idempotencyKey = None, p_providerTransactionId = None\<rparr>"

definition demo_sale :: order where
  "demo_sale = \<lparr>o_id = 2, o_listingId = 1, o_buyerId = 8, o_sellerId = 9, o_finalPrice = 500,
     o_originalFinalPrice = None, o_quantity = 10, o_status = DELIVERED, o_agreedOfferId = None,
     o_agreedAt = None, o_buyerDecision = Some BUY, o_buyerDecisionDueAt = None,
     o_paymentDueAt = None, o_updatedAt = 900\<rparr>"

definition demo_books :: db where
  "demo_books = empty_db\<lparr>orders := [demo_sale], payments := [demo_paid],
     orderEvents := [\<lparr>ev_orderId = 2, ev_type = RECEIPT_CONFIRMED, ev_createdAt = 1000\<rparr>],
     next_id := 10\<rparr>"

definition demo_hold :: payout where
  "demo_hold = new_payout env_default 0 10 (Some 2) Payee_SELLER 9 demo_paid"

definition demo_held :: db where
  "demo_held = demo_books\<lparr>payouts := [demo_hold], next_id := 11\<rparr>"

lemma demo_held_created:
  "createPayoutHold env_default 0 (Some 2) (Some Payee_SELLER) (Some 9) demo_paid demo_books =
     (demo_held, Some demo_hold)"
  by (simp add: createPayoutHold_def Let_def demo_held_def demo_hold_def demo_books_def empty_db_def
    find_unique_def insert_row_def)

lemma demo_held_inv: "payout_inv demo_held" by code_simp

lemma demo_held_reachable: "reachable payout_step empty_db demo_held"
proof -
  have "payout_step empty_db demo_books" by (rule elsewhere) (simp_all add: demo_books_def empty_db_def)
  then have "reachable payout_step empty_db demo_books" by (rule reachable_step [OF reachable_refl])
  then show ?thesis by (rule reachable_step) (rule hold [OF demo_held_created])
qed

text \<open>C7. Starting from an empty database, whatever sequence of calls is made, a payment has
  at most one payout, and the time stamps of every payout agree with its status: it has a
  release time once it is released or paid out, and a payment time exactly when it is paid
  out.\<close>

theorem one_payout_per_payment:
  assumes "reachable payout_step empty_db d" and "q \<in> set (payouts d)" and "r \<in> set (payouts d)"
    and "po_paymentId q = po_paymentId r"
  shows "q = r \<and> (po_status q \<in> {Po_RELEASED, Po_PAID_OUT} \<longrightarrow> po_releasedAt q \<noteq> None) \<and>
    (po_paidOutAt q \<noteq> None \<longleftrightarrow> po_status q = Po_PAID_OUT)"
proof -
  have "payout_inv empty_db" by (simp add: payout_inv_def payout_keys_def empty_db_def)
  with payout_system.reachable_inv [OF assms(1)] have inv: "payout_inv d" by simp
  then have "distinct (map po_paymentId (payouts d))" by (simp add: payout_inv_def payout_keys_def)
  from key_inj [OF this assms(2,3,4)] inv assms(2) show ?thesis
    by (auto simp: payout_inv_def payout_row_ok_def)
qed

theorem one_payout_per_payment_witness:
  "payouts demo_held = [demo_hold] \<and> po_paidOutAt demo_hold = None \<and> po_status demo_hold = Po_HELD"
  using one_payout_per_payment [OF demo_held_reachable, of demo_hold demo_hold]
  by (simp add: demo_held_def demo_hold_def new_payout_def)

text \<open>C8. A payout that has been paid out or cancelled is never changed again, by any later
  call of the service in any order: no amount is transferred twice and no cancelled payout
  comes back.\<close>

theorem paid_out_is_final:
  assumes "payout_inv d" and "q \<in> set (payouts d)"
    and "po_status q = Po_PAID_OUT \<or> po_status q = Po_CANCELLED"
    and "reachable payout_step d d'"
  shows "q \<in> set (payouts d')"
proof -
  from assms(1-3) have "payout_inv d \<and> payout_final (po_status q) \<and> q \<in> set (payouts d)"
    by (simp add: payout_final_def)
  from payout_row_system.reachable_inv [OF assms(4) this] show ?thesis by simp
qed

definition demo_cancelled :: db where
  "demo_cancelled = demo_held\<lparr>payouts := [demo_hold\<lparr>po_status := Po_CANCELLED\<rparr>]\<rparr>"

theorem paid_out_is_final_witness:
  "demo_hold\<lparr>po_status := Po_CANCELLED\<rparr> \<in> set (payouts (fst (releaseDuePayouts env_default 90000000000 demo_cancelled)))"
proof (rule paid_out_is_final)
  show "payout_inv demo_cancelled" by code_simp
  show "reachable payout_step demo_cancelled (fst (releaseDuePayouts env_default 90000000000 demo_cancelled))"
    by (rule reachable_step [OF reachable_refl]) (rule release_job)
qed (simp_all add: demo_cancelled_def)



text \<open>C10. A dispute stops the money: a held or released payout of the order whose payee the
  dispute is about (and that is not an earned inspector's fee the dispute exempts) is put on
  hold, and from there neither the release job nor an administrator's confirmation can move
  it; the confirmation answers 409.\<close>

theorem dispute_stops_payout:
  assumes "payout_inv d" and "q \<in> set (payouts d)"
    and "dispute_scope oid disputeType [Po_HELD, Po_RELEASED] q"
    and "\<not> (dispute_exempts freeze disputeType \<and> inspectorFeeIsEarned q d)"
  shows "q\<lparr>po_status := Po_ON_HOLD_DISPUTE\<rparr> \<in>
      set (payouts (fst (releaseDuePayouts e later (holdForDispute freeze now oid actor disputeType d)))) \<and>
    markPaidOut later (po_id q) admin ref (holdForDispute freeze now oid actor disputeType d) =
      Inl (Payment_Err 409 PAYOUT_NOT_RELEASED)"
proof -
  let ?P = "\<lambda>po. dispute_scope oid disputeType [Po_HELD, Po_RELEASED] po \<and>
            \<not> (dispute_exempts freeze disputeType \<and> inspectorFeeIsEarned po d)"
  let ?d1 = "holdForDispute freeze now oid actor disputeType d"
  let ?q = "q\<lparr>po_status := Po_ON_HOLD_DISPUTE\<rparr>"
  from assms(1) have k: "distinct (map po_id (payouts d))" by (simp add: payout_inv_def payout_keys_def)
  have "payouts ?d1 = update_rows ?P (\<lambda>q. q\<lparr>po_status := Po_ON_HOLD_DISPUTE\<rparr>) (payouts d)"
    unfolding holdForDispute_def Let_def by (rule move_filtered [OF k]) simp
  with assms(2-4) have mem: "?q \<in> set (payouts ?d1)"
    by (auto simp: update_rows_def)
  have inv: "payout_inv ?d1" by (rule payout_inv_step [OF holdForDispute_step [OF assms(1)] assms(1)])
  then have k1: "distinct (map po_id (payouts ?d1))" by (simp add: payout_inv_def payout_keys_def)
  have "?q \<in> set (payouts (fst (releaseDuePayouts e later ?d1)))"
    unfolding releaseDuePayouts_rows(1) [OF k1] set_map
    by (rule image_eqI [OF _ mem]) (auto dest: in_set_takeD)
  moreover have "find_unique po_id (po_id q) (payouts ?d1) = Some ?q"
    using find_unique_in [OF k1 mem] by simp
  ultimately show ?thesis by (simp add: markPaidOut_def)
qed

theorem dispute_stops_payout_witness:
  "demo_hold\<lparr>po_status := Po_ON_HOLD_DISPUTE\<rparr> \<in>
      set (payouts (fst (releaseDuePayouts env_default 900000000 (holdForDispute None 2000 2 (Some 8) (Some ''product quality'') demo_held)))) \<and>
    markPaidOut 900000000 (po_id demo_hold) 1 None (holdForDispute None 2000 2 (Some 8) (Some ''product quality'') demo_held) =
      Inl (Payment_Err 409 PAYOUT_NOT_RELEASED)"
proof (rule dispute_stops_payout [OF demo_held_inv])
  show "dispute_scope 2 (Some ''product quality'') [Po_HELD, Po_RELEASED] demo_hold" by code_simp
  show "\<not> (dispute_exempts None (Some ''product quality'') \<and> inspectorFeeIsEarned demo_hold demo_held)"
    by code_simp
qed (simp add: demo_held_def)

text \<open>What the cancellation of an order makes of a payout.\<close>

lemma cancelPayouts_row:
  assumes inv: "payout_inv d" and q: "q \<in> set (payouts (cancelPayoutsForOrder now oid actor keep d))"
  shows "if po_orderId q = Some oid
    then po_status q \<in> {Po_PAID_OUT, Po_CANCELLED} \<or> (retained keep q d \<and> q \<in> set (payouts d))
    else q \<in> set (payouts d)"
proof -
  let ?P = "\<lambda>po. po_orderId po = Some oid \<and>
            po_status po \<in> {Po_HELD, Po_RELEASED, Po_ON_HOLD_DISPUTE} \<and> \<not> retained keep po d"
  from inv have k: "distinct (map po_id (payouts d))" by (simp add: payout_inv_def payout_keys_def)
  have "payouts (cancelPayoutsForOrder now oid actor keep d) =
      update_rows ?P (\<lambda>q. q\<lparr>po_status := Po_CANCELLED\<rparr>) (payouts d)"
    unfolding cancelPayoutsForOrder_def Let_def by (rule move_filtered [OF k]) simp
  with q obtain r where r: "r \<in> set (payouts d)"
    "q = (if ?P r then r\<lparr>po_status := Po_CANCELLED\<rparr> else r)"
    by (auto simp: update_rows_def)
  show ?thesis
  proof (cases "?P r")
    case True
    with r show ?thesis by simp
  next
    case False
    then have "q = r" using r(2) by (auto split: if_splits)
    with False r(1) show ?thesis by (cases "po_status r") auto
  qed
qed

text \<open>C11. Cancelling an order stops its payouts: afterwards each payout of the order was paid
  out already, is cancelled, or is the fee of an inspection the caller keeps; payouts of
  other orders are untouched.\<close>

theorem cancelPayoutsForOrder_stops:
  assumes "payout_inv d" and "q \<in> set (payouts (cancelPayoutsForOrder now oid actor keep d))"
  shows "if po_orderId q = Some oid
    then po_status q \<in> {Po_PAID_OUT, Po_CANCELLED} \<or> (retained keep q d \<and> q \<in> set (payouts d))
    else q \<in> set (payouts d)"
  using assms by (rule cancelPayouts_row)

theorem cancelPayoutsForOrder_stops_witness:
  "if po_orderId (demo_hold\<lparr>po_status := Po_CANCELLED\<rparr>) = Some 2
   then po_status (demo_hold\<lparr>po_status := Po_CANCELLED\<rparr>) \<in> {Po_PAID_OUT, Po_CANCELLED} \<or>
     (retained [] (demo_hold\<lparr>po_status := Po_CANCELLED\<rparr>) demo_held \<and>
      demo_hold\<lparr>po_status := Po_CANCELLED\<rparr> \<in> set (payouts demo_held))
   else demo_hold\<lparr>po_status := Po_CANCELLED\<rparr> \<in> set (payouts demo_held)"
proof (rule cancelPayoutsForOrder_stops [OF demo_held_inv])
  show "demo_hold\<lparr>po_status := Po_CANCELLED\<rparr> \<in> set (payouts (cancelPayoutsForOrder 3000 2 None [] demo_held))"
    by code_simp
qed

end
