(* ===== verification/Cancellation.thy ===== *)
theory Cancellation
  imports Exclusivity Inventory Refund_Safety Payout_Safety
begin

text \<open>
  \<open>backend/src/services/orderCancellationService.js\<close>: unwinding an order in one
  transaction (its status, its open obligations, its stock, the transport job and
  inspections on it, the payouts and refunds) and promoting the next waiting bid of its
  listing; with \<open>expireOffers\<close> of \<open>maintenanceService.js\<close>, the other caller of the
  promotion. The writes to a listing find it, as offers and orders reference it by a
  foreign key.
\<close>

section \<open>Promoting the next waiting bid\<close>

definition set_listing_status :: "uid \<Rightarrow> listing_status \<Rightarrow> db \<Rightarrow> db" where
  "set_listing_status lid s d =
     d\<lparr>listings := update_rows (\<lambda>l. l_id l = lid) (\<lambda>l. l\<lparr>l_status := s\<rparr>) (listings d)\<rparr>"

definition expire_waiting_one :: "time \<Rightarrow> uid option \<Rightarrow> offer \<Rightarrow> db \<Rightarrow> db" where
  "expire_waiting_one now actor f d =
     (let (rows, count) = update_many (\<lambda>g. of_id g = of_id f \<and> of_status g = Of_PENDING)
            (set_offer_status now Of_EXPIRED) (offers d);
          d1 = d\<lparr>offers := rows\<rparr>
      in if count = 1 then recordAuditEvent now actor (Offer_Act OFFER_EXPIRED) (of_id f) None d1 else d1)"

definition expire_waiting :: "time \<Rightarrow> uid \<Rightarrow> uid option \<Rightarrow> db \<Rightarrow> db" where
  "expire_waiting now lid actor d =
     fold (expire_waiting_one now actor)
       (filter (\<lambda>f. of_listingId f = lid \<and> of_status f = Of_PENDING \<and> isOfferExpired now f) (offers d)) d"

definition better_bid :: "offer \<Rightarrow> offer \<Rightarrow> bool" where
  "better_bid a b = (of_amount a > of_amount b \<or>
     (of_amount a = of_amount b \<and> of_createdAt a < of_createdAt b))"

definition next_waiting :: "time \<Rightarrow> uid \<Rightarrow> db \<Rightarrow> offer option" where
  "next_waiting now lid d =
     (let available = (case find_unique l_id lid (listings d) of None \<Rightarrow> 0 | Some l \<Rightarrow> l_available l)
      in pick better_bid (filter (\<lambda>f. of_listingId f = lid \<and> of_status f = Of_PENDING \<and>
           (case of_quantity f of None \<Rightarrow> False | Some q \<Rightarrow> 0 < q \<and> q \<le> available) \<and>
           \<not> isOfferExpired now f) (offers d)))"

definition promoteNextWaitingBuyer :: "time \<Rightarrow> uid \<Rightarrow> uid option \<Rightarrow> db \<Rightarrow> db \<times> offer option" where
  "promoteNextWaitingBuyer now lid actor d =
     (let d1 = expire_waiting now lid actor d
      in case next_waiting now lid d1 of
           None \<Rightarrow> (set_listing_status lid L_ACTIVE d1, None)
         | Some f \<Rightarrow>
             let (rows, count) = update_many
                   (\<lambda>g. of_id g = of_id f \<and> of_status g = Of_PENDING \<and> \<not> isOfferExpired now g)
                   (set_offer_status now Of_SELECTED) (offers d1);
                 d2 = d1\<lparr>offers := rows\<rparr>
             in if count \<noteq> 1 then (d2, None)
                else (recordAuditEvent now actor (Offer_Act WAITING_BUYER_PROMOTED) (of_id f) None
                        (set_listing_status lid L_UNDER_NEGOTIATION d2),
                      find_unique of_id (of_id f) rows))"

text \<open>
  One offer of the expiry job: \<open>f\<close> is the row as the job listed it, \<open>d\<close> the database its
  own transaction runs on; then the job over the rows it lists, at most 500.
\<close>

definition expire_offer_one :: "time \<Rightarrow> offer \<Rightarrow> db \<Rightarrow> db \<times> nat" where
  "expire_offer_one now f d =
     (let (rows, count) = update_many
            (\<lambda>g. of_id g = of_id f \<and> of_status g \<in> {Of_PENDING, Of_SELECTED, Of_COUNTERED} \<and>
                 isOfferExpired now g) (set_offer_status now Of_EXPIRED) (offers d)
      in if count \<noteq> 1 then (d\<lparr>offers := rows\<rparr>, 0)
         else
           let d1 = recordAuditEvent now None (Offer_Act OFFER_EXPIRED_AUTOMATICALLY) (of_id f) None
                 (d\<lparr>offers := rows\<rparr>)
           in (if of_status f = Of_SELECTED
               then fst (promoteNextWaitingBuyer now (of_listingId f) None d1) else d1, 1))"

definition expireOffers :: "time \<Rightarrow> db \<Rightarrow> db \<times> nat" where
  "expireOffers now d =
     fold (\<lambda>f (d1, n). case expire_offer_one now f d1 of (d2, k) \<Rightarrow> (d2, n + k))
       (take 500 (filter (\<lambda>f. of_status f \<in> {Of_PENDING, Of_SELECTED, Of_COUNTERED} \<and>
          isOfferExpired now f) (offers d))) (d, 0)"

section \<open>Cancelling an order\<close>

definition quote_live :: "quote_status \<Rightarrow> bool" where
  "quote_live s = (s \<in> {Q_PENDING, Q_SELECTED, Q_COUNTERED, Q_ACCEPTED})"

definition cancel_transport :: "transport_job \<Rightarrow> db \<Rightarrow> db" where
  "cancel_transport job d =
     (if t_status job \<in> {T_DELIVERED, T_CANCELLED} then d
      else
        let d1 = d\<lparr>transportJobs := update_rows (\<lambda>j. t_id j = t_id job)
               (\<lambda>j. j\<lparr>t_status := T_CANCELLED, t_workflowDueAt := None\<rparr>) (transportJobs d),
             transportQuotes := update_rows (\<lambda>q. tq_jobId q = t_id job \<and> quote_live (tq_status q))
               (\<lambda>q. q\<lparr>tq_status := Q_REJECTED\<rparr>) (transportQuotes d)\<rparr>
        in case t_truckId job of
             None \<Rightarrow> d1
           | Some i \<Rightarrow> d1\<lparr>trucks := update_rows (\<lambda>t. tk_id t = i \<and> tk_availability t = BUSY)
               (\<lambda>t. t\<lparr>tk_availability := AVAILABLE\<rparr>) (trucks d1)\<rparr>)"

definition earned_inspections :: "uid \<Rightarrow> db \<Rightarrow> uid list" where
  "earned_inspections oid d =
     map i_id (filter (\<lambda>i. i_orderId i = Some oid \<and> i_status i = I_COMPLETED) (inspections d))"

definition cancel_inspections :: "time \<Rightarrow> uid \<Rightarrow> uid list \<Rightarrow> db \<Rightarrow> db" where
  "cancel_inspections now oid earned d =
     d\<lparr>inspections := update_rows
         (\<lambda>i. i_orderId i = Some oid \<and> i_status i \<noteq> I_CANCELLED \<and> i_id i \<notin> set earned)
         (\<lambda>i. i\<lparr>i_status := I_CANCELLED, i_updatedAt := now\<rparr>) (inspections d),
       inspectionQuotes := update_rows
         (\<lambda>q. quote_live (iq_status q) \<and>
            list_ex (\<lambda>i. i_id i = iq_requestId q \<and> i_orderId i = Some oid) (inspections d))
         (\<lambda>q. q\<lparr>iq_status := Q_REJECTED\<rparr>) (inspectionQuotes d)\<rparr>"

definition earned_fee :: "uid list \<Rightarrow> payment \<Rightarrow> bool" where
  "earned_fee earned p = (p_type p = INSPECTOR \<and>
     (case p_inspectionRequestId p of None \<Rightarrow> False | Some i \<Rightarrow> i \<in> set earned))"

text \<open>Plan parents wait for their parts; unpaid parts and parents can no longer be paid.\<close>

definition close_plans :: "uid \<Rightarrow> payment list \<Rightarrow> db \<Rightarrow> db" where
  "close_plans oid parents d =
     (let d1 = fold (\<lambda>p d. d\<lparr>payments := update_rows (\<lambda>q. p_id q = p_id p \<and> p_status q = P_PAID)
                (\<lambda>q. q\<lparr>p_status := P_REFUND_PENDING\<rparr>) (payments d)\<rparr>) parents d
      in d1\<lparr>payments := update_rows (\<lambda>q. p_orderId q = Some oid \<and> p_status q = P_PENDING \<and>
                (isInstallmentParent q \<or> isInstallmentChild q))
                (\<lambda>q. q\<lparr>p_status := P_FAILED\<rparr>) (payments d1)\<rparr>)"

fun request_refunds :: "time \<Rightarrow> uid option \<Rightarrow> payment list \<Rightarrow> db \<Rightarrow> (db \<times> refund list) res" where
  "request_refunds now actor [] d = Inr (d, [])"
| "request_refunds now actor (p # ps) d =
     bindr (requestRefund now (p_id p) (Some (p_amount p)) actor d) (\<lambda>(d1, r).
     bindr (request_refunds now actor ps d1) (\<lambda>(d2, rs). Inr (d2, r # rs)))"

text \<open>The payouts and payments of a cancelled order.\<close>

definition cancel_money :: "time \<Rightarrow> uid \<Rightarrow> transport_job option \<Rightarrow> uid option \<Rightarrow> uid list \<Rightarrow> db \<Rightarrow> db res" where
  "cancel_money now oid job actor earned d =
     (let d1 = cancelPayoutsForOrder now oid actor earned d;
          allPaid = filter (\<lambda>p. p_orderId p = Some oid \<and> p_status p = P_PAID) (payments d1);
          planParents = filter isInstallmentParent allPaid;
          paidOrderPayments = filter (\<lambda>p. \<not> isInstallmentParent p \<and> \<not> earned_fee earned p) allPaid;
          d2 = close_plans oid planParents d1;
          paidTransport = (case job of
              None \<Rightarrow> []
            | Some j \<Rightarrow> filter (\<lambda>p. p_transportJobId p = Some (t_id j) \<and> p_status p = P_PAID) (payments d2))
      in bindr (request_refunds now actor (paidOrderPayments @ paidTransport) d2) (\<lambda>(d3, _). Inr d3))"

definition close_obligations :: "uid \<Rightarrow> db \<Rightarrow> db" where
  "close_obligations oid d =
     d\<lparr>obligations := update_rows (\<lambda>b. ob_orderId b = oid \<and> ob_status b = Ob_OPEN)
        (\<lambda>b. b\<lparr>ob_status := Ob_CANCELLED\<rparr>) (obligations d)\<rparr>"

text \<open>The order's own rows, once its status is \<open>CANCELLED\<close>.\<close>

definition cancel_records :: "time \<Rightarrow> uid \<Rightarrow> db \<Rightarrow> db" where
  "cancel_records now oid d =
     recordOrderEvent now oid Ev_ORDER_CANCELLED (close_obligations oid
       (d\<lparr>orders := update_rows (\<lambda>o1. o_id o1 = oid)
          (\<lambda>o1. o1\<lparr>o_buyerDecisionDueAt := None, o_updatedAt := now\<rparr>) (orders d)\<rparr>))"

definition cancel_stock :: "order \<Rightarrow> payment list \<Rightarrow> db \<Rightarrow> db res" where
  "cancel_stock ord pays d =
     bindr (releaseListingQuantity ord (Some pays) d) (\<lambda>(d1, restored).
       Inr (if restored = None \<and> o_status ord \<noteq> PENDING_PAYMENT
            then set_listing_status (o_listingId ord) L_ACTIVE d1 else d1))"

definition withdraw_agreed :: "time \<Rightarrow> order \<Rightarrow> db \<Rightarrow> db" where
  "withdraw_agreed now ord d =
     (case o_agreedOfferId ord of
        None \<Rightarrow> d
      | Some i \<Rightarrow>
          if o_status ord = PENDING_PAYMENT
          then d\<lparr>offers := update_rows (\<lambda>f. of_id f = i \<and> of_status f = Of_ACCEPTED)
                 (set_offer_status now Of_WITHDRAWN) (offers d)\<rparr>
          else d)"

text \<open>
  \<open>order\<close>, with the payments and the transport job its caller included, is what the
  caller read in this transaction; \<open>admin\<close> says whether it cancels as an administrator.
\<close>

definition cancelOrderInTransaction ::
    "time \<Rightarrow> order option \<Rightarrow> payment list \<Rightarrow> transport_job option \<Rightarrow> uid option \<Rightarrow> bool \<Rightarrow> db \<Rightarrow>
     (db \<times> order option) res" where
  "cancelOrderInTransaction now order pays job actor admin d =
     (case order of
        None \<Rightarrow> Inl (Order_Err 409 ORDER_NOT_CANCELLABLE)
      | Some ord \<Rightarrow>
          let oid = o_id ord; previous = o_status ord in
          bindr (guardr (previous \<notin> {COMPLETED, CANCELLED}) (Order_Err 409 ORDER_NOT_CANCELLABLE)) (\<lambda>_.
          bindr (guardr (\<not> (\<not> admin \<and> (case job of None \<Rightarrow> False
                       | Some j \<Rightarrow> t_status j \<in> {T_PICKUP, T_IN_TRANSIT, T_DELIVERED})))
                   (Order_Err 400 TRANSPORT_MOVEMENT_STARTED)) (\<lambda>_.
          bindr (transitionOrderStatus now oid previous CANCELLED (\<lambda>o1. o1) d) (\<lambda>(d1, _).
          bindr (cancel_stock ord pays (cancel_records now oid d1)) (\<lambda>d2.
          let d3 = (case job of None \<Rightarrow> d2 | Some j \<Rightarrow> cancel_transport j d2);
              earned = earned_inspections oid d3
          in bindr (cancel_money now oid job actor earned (cancel_inspections now oid earned d3)) (\<lambda>d4.
          let d5 = withdraw_agreed now ord d4;
              d6 = (if previous = PENDING_PAYMENT
                    then fst (promoteNextWaitingBuyer now (o_listingId ord) actor d5) else d5);
              d7 = recordAuditEvent now actor (Order_Act Au_ORDER_CANCELLED) oid None d6
          in Inr (d7, find_unique o_id oid (orders d7))))))))"

end
