(* ===== verification/Cancellation_Safety.thy ===== *)
theory Cancellation_Safety
  imports Cancellation
begin

text \<open>
  What cancelling an order leaves behind: no open obligation, no payout that can still be
  made, a refund under way for every payment, the stock back on the listing; and that the
  promotion it ends with picks the best waiting bid and keeps the negotiations exclusive.
\<close>

section \<open>What each part leaves alone\<close>

lemma set_listing_status_sel [simp]:
  "offers (set_listing_status lid s d) = offers d" "orders (set_listing_status lid s d) = orders d"
  "payments (set_listing_status lid s d) = payments d" "refunds (set_listing_status lid s d) = refunds d"
  "payouts (set_listing_status lid s d) = payouts d" "inspections (set_listing_status lid s d) = inspections d"
  "obligations (set_listing_status lid s d) = obligations d" "next_id (set_listing_status lid s d) = next_id d"
  "listings (set_listing_status lid s d) =
     update_rows (\<lambda>l. l_id l = lid) (\<lambda>l. l\<lparr>l_status := s\<rparr>) (listings d)"
  by (simp_all add: set_listing_status_def)

lemma expire_waiting_one_sel [simp]:
  "offers (expire_waiting_one now a f d) =
     update_rows (\<lambda>g. of_id g = of_id f \<and> of_status g = Of_PENDING) (set_offer_status now Of_EXPIRED) (offers d)"
  "orders (expire_waiting_one now a f d) = orders d" "listings (expire_waiting_one now a f d) = listings d"
  "payments (expire_waiting_one now a f d) = payments d" "refunds (expire_waiting_one now a f d) = refunds d"
  "payouts (expire_waiting_one now a f d) = payouts d"
  "inspections (expire_waiting_one now a f d) = inspections d"
  "obligations (expire_waiting_one now a f d) = obligations d"
  "next_id (expire_waiting_one now a f d) = next_id d"
  by (simp_all add: expire_waiting_one_def update_many_def Let_def)

lemma expire_fold_sel:
  "orders (fold (expire_waiting_one now a) fs d) = orders d \<and>
   listings (fold (expire_waiting_one now a) fs d) = listings d \<and>
   payments (fold (expire_waiting_one now a) fs d) = payments d \<and>
   refunds (fold (expire_waiting_one now a) fs d) = refunds d \<and>
   payouts (fold (expire_waiting_one now a) fs d) = payouts d \<and>
   inspections (fold (expire_waiting_one now a) fs d) = inspections d \<and>
   obligations (fold (expire_waiting_one now a) fs d) = obligations d \<and>
   next_id (fold (expire_waiting_one now a) fs d) = next_id d \<and>
   offers (fold (expire_waiting_one now a) fs d) =
     fold (\<lambda>f. update_rows (\<lambda>g. of_id g = of_id f \<and> of_status g = Of_PENDING)
       (set_offer_status now Of_EXPIRED)) fs (offers d)"
  by (induction fs arbitrary: d) simp_all

lemma expire_waiting_sel [simp]:
  "orders (expire_waiting now lid a d) = orders d" "listings (expire_waiting now lid a d) = listings d"
  "payments (expire_waiting now lid a d) = payments d" "refunds (expire_waiting now lid a d) = refunds d"
  "payouts (expire_waiting now lid a d) = payouts d"
  "inspections (expire_waiting now lid a d) = inspections d"
  "obligations (expire_waiting now lid a d) = obligations d"
  "next_id (expire_waiting now lid a d) = next_id d"
  by (simp_all add: expire_waiting_def expire_fold_sel)

text \<open>Expiring the stale bids is one update of the table.\<close>

lemma expire_waiting_offers:
  assumes "distinct (map of_id (offers d))"
  shows "offers (expire_waiting now lid a d) =
    update_rows (\<lambda>f. of_listingId f = lid \<and> of_status f = Of_PENDING \<and> isOfferExpired now f)
      (set_offer_status now Of_EXPIRED) (offers d)"
proof -
  have "offers (expire_waiting now lid a d) =
      update_rows (\<lambda>f. (of_listingId f = lid \<and> of_status f = Of_PENDING \<and> isOfferExpired now f) \<and>
        of_status f = Of_PENDING) (set_offer_status now Of_EXPIRED) (offers d)"
    unfolding expire_waiting_def expire_fold_sel [THEN conjunct2, THEN conjunct2, THEN conjunct2,
      THEN conjunct2, THEN conjunct2, THEN conjunct2, THEN conjunct2, THEN conjunct2]
    by (rule fold_claims [OF assms]) simp
  also have "\<dots> = update_rows (\<lambda>f. of_listingId f = lid \<and> of_status f = Of_PENDING \<and> isOfferExpired now f)
      (set_offer_status now Of_EXPIRED) (offers d)"
    unfolding update_rows_def by (rule map_cong) auto
  finally show ?thesis .
qed

lemma promote_frame [simp]:
  "orders (fst (promoteNextWaitingBuyer now lid a d)) = orders d"
  "payments (fst (promoteNextWaitingBuyer now lid a d)) = payments d"
  "refunds (fst (promoteNextWaitingBuyer now lid a d)) = refunds d"
  "payouts (fst (promoteNextWaitingBuyer now lid a d)) = payouts d"
  "inspections (fst (promoteNextWaitingBuyer now lid a d)) = inspections d"
  "obligations (fst (promoteNextWaitingBuyer now lid a d)) = obligations d"
  "next_id (fst (promoteNextWaitingBuyer now lid a d)) = next_id d"
  by (simp_all add: promoteNextWaitingBuyer_def Let_def update_many_def split: option.splits)

section \<open>The promotion\<close>

definition fits :: "number \<Rightarrow> offer \<Rightarrow> bool" where
  "fits available f = (case of_quantity f of None \<Rightarrow> False | Some q \<Rightarrow> 0 < q \<and> q \<le> available)"

definition available_on :: "uid \<Rightarrow> db \<Rightarrow> number" where
  "available_on lid d = (case find_unique l_id lid (listings d) of None \<Rightarrow> 0 | Some l \<Rightarrow> l_available l)"

text \<open>A bid that may be promoted: it waits, has not expired and asks for what is there.\<close>

definition candidate :: "time \<Rightarrow> uid \<Rightarrow> db \<Rightarrow> offer \<Rightarrow> bool" where
  "candidate now lid d f = (f \<in> set (offers d) \<and> of_listingId f = lid \<and> of_status f = Of_PENDING \<and>
     fits (available_on lid d) f \<and> \<not> isOfferExpired now f)"

lemma next_waiting_set:
  "{f \<in> set (offers d). of_listingId f = lid \<and> of_status f = Of_PENDING \<and>
      (case of_quantity f of None \<Rightarrow> False | Some q \<Rightarrow> 0 < q \<and>
        q \<le> (case find_unique l_id lid (listings d) of None \<Rightarrow> 0 | Some l \<Rightarrow> l_available l)) \<and>
      \<not> isOfferExpired now f} = {f. candidate now lid d f}"
  by (auto simp: candidate_def fits_def available_on_def)

lemma next_waiting_None: "next_waiting now lid d = None \<longleftrightarrow> (\<forall>f. \<not> candidate now lid d f)"
  using next_waiting_set [of d lid now]
  by (auto simp: next_waiting_def Let_def pick_None filter_empty_conv)

lemma next_waiting_Some:
  assumes "next_waiting now lid d = Some f"
  shows "candidate now lid d f" and "candidate now lid d g \<Longrightarrow> \<not> better_bid g f"
proof -
  let ?P = "\<lambda>f. of_listingId f = lid \<and> of_status f = Of_PENDING \<and>
      (case of_quantity f of None \<Rightarrow> False | Some q \<Rightarrow> 0 < q \<and>
        q \<le> (case find_unique l_id lid (listings d) of None \<Rightarrow> 0 | Some l \<Rightarrow> l_available l)) \<and>
      \<not> isOfferExpired now f"
  from assms have p: "pick better_bid (filter ?P (offers d)) = Some f"
    by (simp add: next_waiting_def Let_def)
  from pick_Some [OF p] next_waiting_set [of d lid now] show "candidate now lid d f" by auto
  assume "candidate now lid d g"
  with next_waiting_set [of d lid now] have mem: "g \<in> set (filter ?P (offers d))" by auto
  show "\<not> better_bid g f"
  proof (rule pick_first [OF _ _ _ p mem])
    show "better_bid x z" if "better_bid x y" "better_bid y z" for x y z
      using that by (auto simp: better_bid_def)
    show "\<not> better_bid x x" for x by (simp add: better_bid_def)
    show "\<not> better_bid x z" if "\<not> better_bid x y" "\<not> better_bid y z" for x y z
      using that by (auto simp: better_bid_def)
  qed
qed

lemma candidate_expire:
  assumes "distinct (map of_id (offers d))"
  shows "candidate now lid (expire_waiting now lid a d) f = candidate now lid d f"
proof -
  have "f \<in> set (offers (expire_waiting now lid a d)) \<longleftrightarrow> f \<in> set (offers d)"
    if "of_status f = Of_PENDING" "\<not> isOfferExpired now f"
    unfolding expire_waiting_offers [OF assms] set_update_rows using that by auto
  then show ?thesis by (auto simp: candidate_def available_on_def)
qed

lemma promoteE:
  assumes dist: "distinct (map of_id (offers d))" and p: "promoteNextWaitingBuyer now lid a d = (d', r)"
  obtains (nobody) "r = None" and "\<forall>f. \<not> candidate now lid d f"
      and "offers d' = update_rows (\<lambda>f. of_listingId f = lid \<and> of_status f = Of_PENDING \<and> isOfferExpired now f)
        (set_offer_status now Of_EXPIRED) (offers d)"
      and "listings d' = update_rows (\<lambda>l. l_id l = lid) (\<lambda>l. l\<lparr>l_status := L_ACTIVE\<rparr>) (listings d)"
  | (promoted) f where "candidate now lid d f" and "\<forall>g. candidate now lid d g \<longrightarrow> \<not> better_bid g f"
      and "r = Some (set_offer_status now Of_SELECTED f)"
      and "offers d' = update_rows (\<lambda>g. of_id g = of_id f) (set_offer_status now Of_SELECTED)
        (update_rows (\<lambda>f. of_listingId f = lid \<and> of_status f = Of_PENDING \<and> isOfferExpired now f)
          (set_offer_status now Of_EXPIRED) (offers d))"
      and "listings d' = update_rows (\<lambda>l. l_id l = lid) (\<lambda>l. l\<lparr>l_status := L_UNDER_NEGOTIATION\<rparr>) (listings d)"
proof -
  let ?d1 = "expire_waiting now lid a d"
  note ex = expire_waiting_offers [OF dist, of now lid a]
  have dist1: "distinct (map of_id (offers ?d1))" using dist by (simp add: ex map_update_rows)
  show thesis
  proof (cases "next_waiting now lid ?d1")
    case None
    with p have "d' = set_listing_status lid L_ACTIVE ?d1" "r = None"
      by (auto simp: promoteNextWaitingBuyer_def)
    with None show thesis
      by (intro nobody) (simp_all add: next_waiting_None candidate_expire [OF dist] ex)
  next
    case (Some f)
    let ?P = "\<lambda>g. of_id g = of_id f \<and> of_status g = Of_PENDING \<and> \<not> isOfferExpired now g"
    from next_waiting_Some [OF Some] have f: "candidate now lid ?d1 f" by simp
    then have m: "f \<in> set (offers ?d1)" "?P f" by (auto simp: candidate_def)
    have only: "of_id g = of_id f \<longleftrightarrow> g = f" if "g \<in> set (offers ?d1)" for g
      using key_inj [OF dist1 that m(1)] by auto
    have upd: "update_rows ?P (set_offer_status now Of_SELECTED) (offers ?d1) =
        update_rows (\<lambda>g. of_id g = of_id f) (set_offer_status now Of_SELECTED) (offers ?d1)"
      unfolding update_rows_def by (rule map_cong) (use only m in auto)
    have cnt: "count_where ?P (offers ?d1) = 1"
      using count_where_key [OF dist1, of "of_id f" "\<lambda>g. of_status g = Of_PENDING \<and> \<not> isOfferExpired now g"]
        find_unique_in [OF dist1 m(1)] m(2) by simp
    have look: "find_unique of_id (of_id f)
        (update_rows (\<lambda>g. of_id g = of_id f) (set_offer_status now Of_SELECTED) (offers ?d1)) =
        Some (set_offer_status now Of_SELECTED f)"
      using find_unique_in [OF dist1 m(1)] by (simp add: find_unique_update_rows)
    from p Some cnt look have "r = Some (set_offer_status now Of_SELECTED f)"
      "offers d' = update_rows (\<lambda>g. of_id g = of_id f) (set_offer_status now Of_SELECTED) (offers ?d1)"
      "listings d' = update_rows (\<lambda>l. l_id l = lid) (\<lambda>l. l\<lparr>l_status := L_UNDER_NEGOTIATION\<rparr>) (listings d)"
      by (auto simp: promoteNextWaitingBuyer_def Let_def update_many_def upd)
    with f next_waiting_Some(2) [OF Some] show thesis
      by (intro promoted [of f]) (simp_all add: candidate_expire [OF dist] ex)
  qed
qed

lemma leaf_parents: "leaf offs x \<longleftrightarrow> Some (of_id x) \<notin> of_parent ` set offs"
  by (auto simp: leaf_iff image_iff)

text \<open>The promotion keeps the negotiations exclusive when nothing is going on on the listing.\<close>

lemma promote_inv:
  assumes inv: "negotiation_inv d"
    and quiet: "\<And>x. x \<in> set (offers d) \<Longrightarrow> leaf (offers d) x \<Longrightarrow> negotiating (of_status x) \<Longrightarrow> of_listingId x \<noteq> lid"
    and free: "\<And>o1. o1 \<in> set (orders d) \<Longrightarrow> order_open (o_status o1) \<Longrightarrow> o_listingId o1 \<noteq> lid"
  shows "negotiation_inv (fst (promoteNextWaitingBuyer now lid a d))"
proof -
  obtain d' r where p: "promoteNextWaitingBuyer now lid a d = (d', r)" by fastforce
  note fr = promote_frame [of now lid a d, unfolded p fst_conv]
  let ?P = "\<lambda>f. of_listingId f = lid \<and> of_status f = Of_PENDING \<and> isOfferExpired now f"
  let ?m = "update_rows ?P (set_offer_status now Of_EXPIRED) (offers d)"
  have 1: "negotiation_inv (d\<lparr>offers := ?m\<rparr>)" by (rule inv_close [OF inv]) (simp add: live_def)
  have k: "distinct (map of_id ?m)" using inv_offer_keys [OF 1] by simp
  from inv_offer_keys [OF inv] p have "negotiation_inv d'"
  proof (cases rule: promoteE)
    case nobody
    with 1 fr show ?thesis by (auto intro: negotiation_inv_cong [THEN iffD2, rotated -1])
  next
    case (promoted f)
    then have f: "f \<in> set (offers d)" "of_status f = Of_PENDING" "\<not> isOfferExpired now f" "of_listingId f = lid"
      by (simp_all add: candidate_def)
    then have fm: "f \<in> set ?m" by (auto simp: set_update_rows)
    have lf: "leaf ?m x \<longleftrightarrow> leaf (offers d) x" for x
      unfolding leaf_parents set_map [symmetric] by (simp only: map_update_rows set_offer_status_sel)
    have pend: "leaf ?m f"
      using inv f unfolding lf negotiation_inv_def countered_closed_def by blast
    have quiet': "of_listingId x \<noteq> lid" if "x \<in> set ?m" "leaf ?m x" "negotiating (of_status x)" for x
    proof -
      from that(1) obtain x0 where x0: "x0 \<in> set (offers d)"
        "x = (if ?P x0 then set_offer_status now Of_EXPIRED x0 else x0)"
        unfolding update_rows_def set_map by blast
      with that(3) have "x = x0" by (auto simp: negotiating_def split: if_splits)
      with quiet [OF x0(1)] that(2,3) show ?thesis unfolding lf by blast
    qed
    have "negotiation_inv ((d\<lparr>offers := ?m\<rparr>)\<lparr>offers := map (\<lambda>g. if g = f
        then set_offer_status now Of_SELECTED g else g) (offers (d\<lparr>offers := ?m\<rparr>))\<rparr>)"
      by (rule inv_move [OF 1]) (use fm pend f quiet' free in \<open>auto simp: live_def\<close>)
    moreover have "update_rows (\<lambda>g. of_id g = of_id f) (set_offer_status now Of_SELECTED) ?m =
        map (\<lambda>g. if g = f then set_offer_status now Of_SELECTED g else g) ?m"
      using update_by_id [OF k fm, of "\<lambda>_. True"] by simp
    ultimately show ?thesis
      using promoted(4) fr by (auto intro: negotiation_inv_cong [THEN iffD2, rotated -1])
  qed
  then show ?thesis by (simp add: p)
qed

section \<open>Refund requests\<close>

lemma requestRefund_frame:
  assumes "requestRefund now pid am by d = Inr (d', r)"
  shows "offers d' = offers d \<and> orders d' = orders d \<and> listings d' = listings d \<and> payouts d' = payouts d \<and>
    obligations d' = obligations d \<and> inspections d' = inspections d \<and> next_id d \<le> next_id d'"
proof -
  have reset: "offers d1 = offers d \<and> orders d1 = orders d \<and> listings d1 = listings d \<and> payouts d1 = payouts d \<and>
    obligations d1 = obligations d \<and> inspections d1 = inspections d \<and> next_id d1 = next_id d"
    if "retry_reset p d = Inr d1" for p d1
    using that by (auto simp: retry_reset_def split: if_splits option.splits)
  show ?thesis
    using assms reset
    by (fastforce simp: requestRefund_def bindr_eq_Inr Let_def split: option.splits if_splits)
qed

lemma retry_reset_payments:
  assumes "retry_reset p d = Inr d1"
  shows "set_payment_status (p_id p) P_PAID P_REFUND_PENDING (payments d1) =
    set_payment_status (p_id p) P_PAID P_REFUND_PENDING (payments d)"
  using assms
  by (auto simp: retry_reset_def set_payment_status_def update_rows_def split: if_splits option.splits)

text \<open>A request leaves a live refund, and moves its own payment at most.\<close>

lemma requestRefund_effect:
  assumes r: "requestRefund now pid am by d = Inr (d', r)"
  shows "r \<in> set (refunds d')" and "r_paymentId r = pid" and "refund_live (r_status r)"
    and "set (refunds d') = insert r (set (refunds d))"
    and "payments d' = (if live_refund pid d = None
       then set_payment_status pid P_PAID P_REFUND_PENDING (payments d) else payments d)"
proof -
  have "r \<in> set (refunds d') \<and> r_paymentId r = pid \<and> refund_live (r_status r) \<and>
      set (refunds d') = insert r (set (refunds d)) \<and>
      payments d' = (if live_refund pid d = None
       then set_payment_status pid P_PAID P_REFUND_PENDING (payments d) else payments d)"
    using r
  proof (cases rule: requestRefund_cases)
    case existing
    then show ?thesis using live_refund_Some [OF existing(2)] by auto
  next
    case (created p d1 am')
    from created(4) have refs: "refunds d1 = refunds d"
      by (auto simp: retry_reset_def split: if_splits option.splits)
    from created(1) have "p_id p = pid" by (auto dest: find_unique_Some)
    with retry_reset_payments [OF created(4)] created refs show ?thesis
      by (simp add: new_refund_def refund_live_def)
  qed
  then show "r \<in> set (refunds d')" "r_paymentId r = pid" "refund_live (r_status r)"
    "set (refunds d') = insert r (set (refunds d))"
    "payments d' = (if live_refund pid d = None
       then set_payment_status pid P_PAID P_REFUND_PENDING (payments d) else payments d)" by auto
qed

lemma request_refunds_frame:
  "request_refunds now by ps d = Inr (d', rs) \<Longrightarrow>
     offers d' = offers d \<and> orders d' = orders d \<and> listings d' = listings d \<and> payouts d' = payouts d \<and>
     obligations d' = obligations d \<and> inspections d' = inspections d \<and> next_id d \<le> next_id d'"
proof (induction ps arbitrary: d rs)
  case Nil
  then show ?case by simp
next
  case (Cons p ps)
  from Cons.prems obtain d1 r rs' where "requestRefund now (p_id p) (Some (p_amount p)) by d = Inr (d1, r)"
    and "request_refunds now by ps d1 = Inr (d', rs')"
    by (auto simp: bindr_eq_Inr)
  from requestRefund_frame [OF this(1)] Cons.IH [OF this(2)] show ?case by simp
qed

lemma request_refunds_live:
  "request_refunds now by ps d = Inr (d', rs) \<Longrightarrow> set (refunds d) \<subseteq> set (refunds d') \<and>
     (\<forall>p \<in> set ps. \<exists>r \<in> set (refunds d'). r_paymentId r = p_id p \<and> refund_live (r_status r))"
proof (induction ps arbitrary: d rs)
  case Nil
  then show ?case by simp
next
  case (Cons p ps)
  from Cons.prems obtain d1 r rs' where 1: "requestRefund now (p_id p) (Some (p_amount p)) by d = Inr (d1, r)"
    and 2: "request_refunds now by ps d1 = Inr (d', rs')"
    by (auto simp: bindr_eq_Inr)
  from requestRefund_effect [OF 1] Cons.IH [OF 2] show ?case by auto
qed

lemma request_refunds_payments:
  "request_refunds now by ps d = Inr (d', rs) \<Longrightarrow>
     \<exists>S \<subseteq> p_id ` set ps. payments d' = update_rows (\<lambda>q. p_id q \<in> S \<and> p_status q = P_PAID)
       (\<lambda>q. q\<lparr>p_status := P_REFUND_PENDING\<rparr>) (payments d)"
proof (induction ps arbitrary: d rs)
  case Nil
  then show ?case by (simp add: update_rows_def)
next
  case (Cons p ps)
  let ?u = "\<lambda>S. update_rows (\<lambda>q. p_id q \<in> S \<and> p_status q = P_PAID) (\<lambda>q. q\<lparr>p_status := P_REFUND_PENDING\<rparr>)"
  from Cons.prems obtain d1 r rs' where 1: "requestRefund now (p_id p) (Some (p_amount p)) by d = Inr (d1, r)"
    and 2: "request_refunds now by ps d1 = Inr (d', rs')"
    by (auto simp: bindr_eq_Inr)
  from Cons.IH [OF 2] obtain S where S: "S \<subseteq> p_id ` set ps" "payments d' = ?u S (payments d1)" by blast
  have "payments d1 = ?u {} (payments d) \<or> payments d1 = ?u {p_id p} (payments d)"
    using requestRefund_effect(5) [OF 1] by (auto simp: set_payment_status_def update_rows_def)
  then obtain T where "T \<subseteq> {p_id p}" "payments d1 = ?u T (payments d)" by blast
  moreover from this have "?u S (payments d1) = ?u (S \<union> T) (payments d)"
    by (auto simp: update_rows_def)
  ultimately show ?case using S by (intro exI [of _ "S \<union> T"]) auto
qed

section \<open>The parts of a cancellation\<close>

lemma close_plans_frame [simp]:
  "offers (close_plans oid ps d) = offers d" "orders (close_plans oid ps d) = orders d"
  "listings (close_plans oid ps d) = listings d" "payouts (close_plans oid ps d) = payouts d"
  "obligations (close_plans oid ps d) = obligations d" "inspections (close_plans oid ps d) = inspections d"
  "refunds (close_plans oid ps d) = refunds d" "next_id (close_plans oid ps d) = next_id d"
proof -
  have "\<forall>d::db. offers (fold (\<lambda>p d. d\<lparr>payments := update_rows (\<lambda>q. p_id q = p_id p \<and> p_status q = P_PAID)
      (\<lambda>q. q\<lparr>p_status := P_REFUND_PENDING\<rparr>) (payments d)\<rparr>) ps d) = offers d \<and>
    (let d1 = fold (\<lambda>p d. d\<lparr>payments := update_rows (\<lambda>q. p_id q = p_id p \<and> p_status q = P_PAID)
      (\<lambda>q. q\<lparr>p_status := P_REFUND_PENDING\<rparr>) (payments d)\<rparr>) ps d
     in orders d1 = orders d \<and> listings d1 = listings d \<and> payouts d1 = payouts d \<and>
       obligations d1 = obligations d \<and> inspections d1 = inspections d \<and> refunds d1 = refunds d \<and>
       next_id d1 = next_id d)"
    by (induction ps) (simp_all add: Let_def)
  then show "offers (close_plans oid ps d) = offers d" "orders (close_plans oid ps d) = orders d"
    "listings (close_plans oid ps d) = listings d" "payouts (close_plans oid ps d) = payouts d"
    "obligations (close_plans oid ps d) = obligations d" "inspections (close_plans oid ps d) = inspections d"
    "refunds (close_plans oid ps d) = refunds d" "next_id (close_plans oid ps d) = next_id d"
    by (simp_all add: close_plans_def Let_def)
qed

definition plan_row :: "uid \<Rightarrow> payment \<Rightarrow> payment" where
  "plan_row oid q =
     (if p_orderId q = Some oid \<and> p_status q = P_PAID \<and> isInstallmentParent q
      then q\<lparr>p_status := P_REFUND_PENDING\<rparr>
      else if p_orderId q = Some oid \<and> p_status q = P_PENDING \<and> (isInstallmentParent q \<or> isInstallmentChild q)
      then q\<lparr>p_status := P_FAILED\<rparr> else q)"

lemma plan_row_sel [simp]:
  "p_id (plan_row oid q) = p_id q" "p_orderId (plan_row oid q) = p_orderId q"
  "p_type (plan_row oid q) = p_type q" "p_transportJobId (plan_row oid q) = p_transportJobId q"
  by (simp_all add: plan_row_def)

lemma close_plans_rows:
  assumes dist: "distinct (map p_id (payments d))"
  shows "payments (close_plans oid (filter isInstallmentParent
      (filter (\<lambda>p. p_orderId p = Some oid \<and> p_status p = P_PAID) (payments d))) d) =
    map (plan_row oid) (payments d)"
proof -
  let ?f = "\<lambda>q. q\<lparr>p_status := P_REFUND_PENDING\<rparr>"
  let ?P = "\<lambda>p. isInstallmentParent p \<and> p_orderId p = Some oid \<and> p_status p = P_PAID"
  have pays: "payments (fold (\<lambda>p d. d\<lparr>payments := update_rows (\<lambda>q. p_id q = p_id p \<and> p_status q = P_PAID) ?f
        (payments d)\<rparr>) ps d) =
      fold (\<lambda>p. update_rows (\<lambda>q. p_id q = p_id p \<and> p_status q = P_PAID) ?f) ps (payments d)" for ps
    by (induction ps arbitrary: d) simp_all
  have "payments (fold (\<lambda>p d. d\<lparr>payments := update_rows (\<lambda>q. p_id q = p_id p \<and> p_status q = P_PAID) ?f
        (payments d)\<rparr>) (filter ?P (payments d)) d) =
      update_rows (\<lambda>q. ?P q \<and> p_status q = P_PAID) ?f (payments d)"
    unfolding pays by (rule fold_claims [OF dist]) simp
  then show ?thesis
    by (simp add: close_plans_def Let_def conj_commute update_rows_def plan_row_def isInstallmentParent_def
      isInstallmentChild_def)
qed

lemma cancelPayouts_frame [simp]:
  "payments (cancelPayoutsForOrder now oid a keep d) = payments d"
  "orders (cancelPayoutsForOrder now oid a keep d) = orders d"
  "offers (cancelPayoutsForOrder now oid a keep d) = offers d"
  "refunds (cancelPayoutsForOrder now oid a keep d) = refunds d"
  "listings (cancelPayoutsForOrder now oid a keep d) = listings d"
  "obligations (cancelPayoutsForOrder now oid a keep d) = obligations d"
  "inspections (cancelPayoutsForOrder now oid a keep d) = inspections d"
  "next_id (cancelPayoutsForOrder now oid a keep d) = next_id d"
  by (simp_all add: cancelPayoutsForOrder_def)

lemma cancel_moneyE:
  assumes m: "cancel_money now oid job a earned d = Inr d'" and dist: "distinct (map p_id (payments d))"
  obtains S where "payouts d' = payouts (cancelPayoutsForOrder now oid a earned d)"
    and "payments d' = update_rows (\<lambda>q. p_id q \<in> S \<and> p_status q = P_PAID)
       (\<lambda>q. q\<lparr>p_status := P_REFUND_PENDING\<rparr>) (map (plan_row oid) (payments d))"
    and "S \<subseteq> {i. \<exists>p \<in> set (payments d). p_id p = i \<and>
       (p_orderId p = Some oid \<and> \<not> earned_fee earned p \<or>
        (\<exists>j. job = Some j \<and> p_transportJobId p = Some (t_id j)))}"
    and "\<forall>p \<in> set (payments d). p_orderId p = Some oid \<and> p_status p = P_PAID \<and>
       \<not> isInstallmentParent p \<and> \<not> earned_fee earned p \<longrightarrow>
       (\<exists>r \<in> set (refunds d'). r_paymentId r = p_id p \<and> refund_live (r_status r))"
    and "offers d' = offers d" and "orders d' = orders d" and "listings d' = listings d"
    and "obligations d' = obligations d" and "inspections d' = inspections d"
    and "next_id d \<le> next_id d'"
proof -
  let ?d1 = "cancelPayoutsForOrder now oid a earned d"
  let ?paid = "filter (\<lambda>p. p_orderId p = Some oid \<and> p_status p = P_PAID) (payments d)"
  let ?d2 = "close_plans oid (filter isInstallmentParent ?paid) ?d1"
  let ?mine = "filter (\<lambda>p. \<not> isInstallmentParent p \<and> \<not> earned_fee earned p) ?paid"
  let ?job = "case job of None \<Rightarrow> []
    | Some j \<Rightarrow> filter (\<lambda>p. p_transportJobId p = Some (t_id j) \<and> p_status p = P_PAID) (payments ?d2)"
  have rows: "payments ?d2 = map (plan_row oid) (payments d)"
    using close_plans_rows [of ?d1 oid] dist by simp
  from m obtain rs where r: "request_refunds now a (?mine @ ?job) ?d2 = Inr (d', rs)"
    unfolding cancel_money_def Let_def
    by (auto simp only: bindr_eq_Inr split_paired_Ex prod.case sum.inject cancelPayouts_frame)
  from request_refunds_payments [OF r] obtain S where S: "S \<subseteq> p_id ` set (?mine @ ?job)"
    "payments d' = update_rows (\<lambda>q. p_id q \<in> S \<and> p_status q = P_PAID)
       (\<lambda>q. q\<lparr>p_status := P_REFUND_PENDING\<rparr>) (payments ?d2)" by blast
  have J: "p_id ` set ?job \<subseteq> {i. \<exists>p \<in> set (payments d). p_id p = i \<and>
      (\<exists>j. job = Some j \<and> p_transportJobId p = Some (t_id j))}"
    unfolding rows by (cases job) auto
  have M: "p_id ` set ?mine \<subseteq> {i. \<exists>p \<in> set (payments d). p_id p = i \<and>
      p_orderId p = Some oid \<and> \<not> earned_fee earned p}" by auto
  have Ssub: "S \<subseteq> {i. \<exists>p \<in> set (payments d). p_id p = i \<and>
       (p_orderId p = Some oid \<and> \<not> earned_fee earned p \<or>
        (\<exists>j. job = Some j \<and> p_transportJobId p = Some (t_id j)))}"
  proof
    fix i
    assume "i \<in> S"
    with S(1) have "i \<in> p_id ` set ?mine \<or> i \<in> p_id ` set ?job"
      unfolding set_append image_Un by blast
    then show "i \<in> {i. \<exists>p \<in> set (payments d). p_id p = i \<and>
       (p_orderId p = Some oid \<and> \<not> earned_fee earned p \<or>
        (\<exists>j. job = Some j \<and> p_transportJobId p = Some (t_id j)))}"
      using subsetD [OF M, of i] subsetD [OF J, of i] unfolding mem_Collect_eq by blast
  qed
  have live: "\<forall>p \<in> set (payments d). p_orderId p = Some oid \<and> p_status p = P_PAID \<and>
       \<not> isInstallmentParent p \<and> \<not> earned_fee earned p \<longrightarrow>
       (\<exists>r \<in> set (refunds d'). r_paymentId r = p_id p \<and> refund_live (r_status r))"
    using request_refunds_live [OF r] by auto
  note fr = request_refunds_frame [OF r]
  show thesis
    by (rule that [OF _ S(2) [unfolded rows] Ssub live]) (use fr in simp_all)
qed

lemma cancel_money_frame:
  assumes "cancel_money now oid job a earned d = Inr d'"
  shows "offers d' = offers d" "orders d' = orders d" "listings d' = listings d"
    "obligations d' = obligations d" "inspections d' = inspections d"
proof -
  from assms obtain ps parents rs where "request_refunds now a ps
      (close_plans oid parents (cancelPayoutsForOrder now oid a earned d)) = Inr (d', rs)"
    by (force simp only: cancel_money_def Let_def bindr_eq_Inr split_paired_Ex prod.case sum.inject)
  from request_refunds_frame [OF this] show "offers d' = offers d" "orders d' = orders d"
    "listings d' = listings d" "obligations d' = obligations d" "inspections d' = inspections d" by simp_all
qed

lemma release_frame:
  assumes "releaseListingQuantity ord ps d = Inr (d', x)"
  shows "d'\<lparr>listings := listings d\<rparr> = d"
  using assms by (auto simp: releaseListingQuantity_def bindr_eq_Inr Let_def split: if_splits option.splits)

lemma release_frame_sel:
  assumes "releaseListingQuantity ord ps d = Inr (d', x)"
  shows "offers d' = offers d" "orders d' = orders d" "payments d' = payments d" "refunds d' = refunds d"
    "payouts d' = payouts d" "obligations d' = obligations d" "inspections d' = inspections d"
    "next_id d' = next_id d"
  by (subst release_frame [OF assms, symmetric], simp)+

text \<open>What is released depends on the listings and the offers only.\<close>

lemma release_cong:
  assumes "releaseListingQuantity ord ps d' = Inr (e', x)" and "listings d' = listings d" and "offers d' = offers d"
  shows "\<exists>e. releaseListingQuantity ord ps d = Inr (e, x) \<and> listings e' = listings e"
  using assms by (auto simp: releaseListingQuantity_def bindr_eq_Inr Let_def split: if_splits option.splits)

lemma cancel_transport_sel [simp]:
  "offers (cancel_transport j d) = offers d" "orders (cancel_transport j d) = orders d"
  "listings (cancel_transport j d) = listings d" "payments (cancel_transport j d) = payments d"
  "refunds (cancel_transport j d) = refunds d" "payouts (cancel_transport j d) = payouts d"
  "obligations (cancel_transport j d) = obligations d" "inspections (cancel_transport j d) = inspections d"
  "next_id (cancel_transport j d) = next_id d"
  by (simp_all add: cancel_transport_def Let_def split: option.splits)

lemma cancel_inspections_sel [simp]:
  "offers (cancel_inspections now i k d) = offers d" "orders (cancel_inspections now i k d) = orders d"
  "listings (cancel_inspections now i k d) = listings d" "payments (cancel_inspections now i k d) = payments d"
  "refunds (cancel_inspections now i k d) = refunds d" "payouts (cancel_inspections now i k d) = payouts d"
  "obligations (cancel_inspections now i k d) = obligations d"
  "next_id (cancel_inspections now i k d) = next_id d"
  "inspections (cancel_inspections now i k d) = update_rows
     (\<lambda>q. i_orderId q = Some i \<and> i_status q \<noteq> I_CANCELLED \<and> i_id q \<notin> set k)
     (\<lambda>q. q\<lparr>i_status := I_CANCELLED, i_updatedAt := now\<rparr>) (inspections d)"
  by (simp_all add: cancel_inspections_def)

lemma close_obligations_sel [simp]:
  "offers (close_obligations i d) = offers d" "orders (close_obligations i d) = orders d"
  "listings (close_obligations i d) = listings d" "payments (close_obligations i d) = payments d"
  "refunds (close_obligations i d) = refunds d" "payouts (close_obligations i d) = payouts d"
  "inspections (close_obligations i d) = inspections d" "next_id (close_obligations i d) = next_id d"
  "obligations (close_obligations i d) = update_rows (\<lambda>b. ob_orderId b = i \<and> ob_status b = Ob_OPEN)
     (\<lambda>b. b\<lparr>ob_status := Ob_CANCELLED\<rparr>) (obligations d)"
  by (simp_all add: close_obligations_def)

section \<open>The cancellation as a whole\<close>

definition cancelled_row :: "time \<Rightarrow> order \<Rightarrow> order" where
  "cancelled_row now o1 = o1\<lparr>o_status := CANCELLED, o_buyerDecisionDueAt := None, o_updatedAt := now\<rparr>"

lemma cancel_records_sel [simp]:
  "offers (cancel_records now i d) = offers d" "listings (cancel_records now i d) = listings d"
  "payments (cancel_records now i d) = payments d" "refunds (cancel_records now i d) = refunds d"
  "payouts (cancel_records now i d) = payouts d" "inspections (cancel_records now i d) = inspections d"
  "next_id (cancel_records now i d) = next_id d"
  "obligations (cancel_records now i d) = obligations (close_obligations i d)"
  "orders (cancel_records now i d) = update_rows (\<lambda>o1. o_id o1 = i)
     (\<lambda>o1. o1\<lparr>o_buyerDecisionDueAt := None, o_updatedAt := now\<rparr>) (orders d)"
  by (simp_all add: cancel_records_def)

lemma withdraw_agreed_sel [simp]:
  "listings (withdraw_agreed now ord d) = listings d" "orders (withdraw_agreed now ord d) = orders d"
  "payments (withdraw_agreed now ord d) = payments d" "refunds (withdraw_agreed now ord d) = refunds d"
  "payouts (withdraw_agreed now ord d) = payouts d" "inspections (withdraw_agreed now ord d) = inspections d"
  "obligations (withdraw_agreed now ord d) = obligations d" "next_id (withdraw_agreed now ord d) = next_id d"
  by (simp_all add: withdraw_agreed_def split: option.splits)

lemma withdraw_agreed_paid: "o_status ord \<noteq> PENDING_PAYMENT \<Longrightarrow> withdraw_agreed now ord d = d"
  by (simp add: withdraw_agreed_def split: option.splits)

lemma cancel_stockE:
  assumes "cancel_stock ord pays d = Inr d'"
  obtains d1 restored where "releaseListingQuantity ord (Some pays) d = Inr (d1, restored)"
    and "d' = (if restored = None \<and> o_status ord \<noteq> PENDING_PAYMENT
       then set_listing_status (o_listingId ord) L_ACTIVE d1 else d1)"
    and "offers d' = offers d" and "orders d' = orders d" and "payments d' = payments d"
    and "refunds d' = refunds d" and "payouts d' = payouts d" and "obligations d' = obligations d"
    and "inspections d' = inspections d" and "next_id d' = next_id d"
proof -
  from assms obtain d1 restored where r: "releaseListingQuantity ord (Some pays) d = Inr (d1, restored)"
    and d': "d' = (if restored = None \<and> o_status ord \<noteq> PENDING_PAYMENT
       then set_listing_status (o_listingId ord) L_ACTIVE d1 else d1)"
    by (auto simp: cancel_stock_def bindr_eq_Inr)
  show thesis by (rule that [OF r d']) (use release_frame_sel [OF r] in \<open>simp_all add: d'\<close>)
qed

text \<open>The state before the promotion, and what the promotion makes of it.\<close>

lemma cancelE:
  assumes c: "cancelOrderInTransaction now order pays job a admin d = Inr (d', r)"
    and dist: "distinct (map o_id (orders d))"
  obtains ord o1 d2 dm d4 where "order = Some ord"
    and "o_status ord \<notin> {COMPLETED, CANCELLED}"
    and "admin \<or> (\<forall>j. job = Some j \<longrightarrow> t_status j \<notin> {T_PICKUP, T_IN_TRANSIT, T_DELIVERED})"
    and "o1 \<in> set (orders d)" and "o_id o1 = o_id ord" and "o_status o1 = o_status ord"
    and "orders d' = update_rows (\<lambda>o1. o_id o1 = o_id ord) (cancelled_row now) (orders d)"
    and "obligations d' = obligations (close_obligations (o_id ord) d)"
    and "inspections d' = inspections (cancel_inspections now (o_id ord) (earned_inspections (o_id ord) d) d)"
    and "\<exists>d0. cancel_stock ord pays d0 = Inr d2 \<and> listings d0 = listings d \<and> offers d0 = offers d"
    and "cancel_money now (o_id ord) job a (earned_inspections (o_id ord) d) dm = Inr d4"
    and "payments dm = payments d" and "refunds dm = refunds d" and "payouts dm = payouts d"
    and "next_id dm = next_id d"
    and "payments d' = payments d4" and "refunds d' = refunds d4" and "payouts d' = payouts d4"
    and "next_id d' = next_id d4"
    and "offers d4 = offers d" and "orders d4 = orders d'" and "listings d4 = listings d2"
    and "offers d' = offers (if o_status ord = PENDING_PAYMENT
       then fst (promoteNextWaitingBuyer now (o_listingId ord) a (withdraw_agreed now ord d4)) else d)"
    and "listings d' = listings (if o_status ord = PENDING_PAYMENT
       then fst (promoteNextWaitingBuyer now (o_listingId ord) a (withdraw_agreed now ord d4)) else d4)"
proof -
  from c obtain ord where o: "order = Some ord" by (cases order) (simp_all add: cancelOrderInTransaction_def)
  let ?oid = "o_id ord"
  let ?d3 = "\<lambda>d2. case job of None \<Rightarrow> d2 | Some j \<Rightarrow> cancel_transport j d2"
  let ?d5 = "\<lambda>d4. withdraw_agreed now ord d4"
  let ?d6 = "\<lambda>d4. if o_status ord = PENDING_PAYMENT
      then fst (promoteNextWaitingBuyer now (o_listingId ord) a (?d5 d4)) else ?d5 d4"
  from c obtain d1 x d2 d4 where
      g: "o_status ord \<notin> {COMPLETED, CANCELLED}"
        "\<not> (\<not> admin \<and> (case job of None \<Rightarrow> False | Some j \<Rightarrow> t_status j \<in> {T_PICKUP, T_IN_TRANSIT, T_DELIVERED}))"
    and t: "transitionOrderStatus now ?oid (o_status ord) CANCELLED (\<lambda>o1. o1) d = Inr (d1, x)"
    and st: "cancel_stock ord pays (cancel_records now ?oid d1) = Inr d2"
    and m: "cancel_money now ?oid job a (earned_inspections ?oid (?d3 d2))
        (cancel_inspections now ?oid (earned_inspections ?oid (?d3 d2)) (?d3 d2)) = Inr d4"
    and d': "d' = recordAuditEvent now a (Order_Act Au_ORDER_CANCELLED) ?oid None (?d6 d4)"
    unfolding cancelOrderInTransaction_def o Let_def option.case
    by (force simp only: bindr_eq_Inr split_paired_Ex prod.case sum.inject prod.inject guardr_eq)
  from t have cnt: "count_where (\<lambda>o1. o_id o1 = ?oid \<and> o_status o1 = o_status ord) (orders d) = 1"
    and d1: "d1 = d\<lparr>orders := update_rows (\<lambda>o1. o_id o1 = ?oid \<and> o_status o1 = o_status ord)
      (set_order_status now CANCELLED (\<lambda>o1. o1)) (orders d)\<rparr>"
    by (simp_all only: transitionOrderStatus_Inr)
  let ?dr = "cancel_records now ?oid d1"
  obtain o1 where o1: "o1 \<in> set (orders d)" "o_id o1 = ?oid" "o_status o1 = o_status ord"
    and ords: "orders ?dr = update_rows (\<lambda>o1. o_id o1 = ?oid) (cancelled_row now) (orders d)"
  proof (rule claim_then_update [where f = "set_order_status now CANCELLED (\<lambda>o1. o1)", OF dist _ cnt])
    fix r
    assume r: "r \<in> set (orders d)" "o_id r = ?oid" "o_status r = o_status ord"
      and two: "\<And>g. update_rows (\<lambda>r. o_id r = ?oid) g (update_rows (\<lambda>r. o_id r = ?oid \<and>
          o_status r = o_status ord) (set_order_status now CANCELLED (\<lambda>o1. o1)) (orders d)) =
        update_rows (\<lambda>r. o_id r = ?oid) (\<lambda>r. g (set_order_status now CANCELLED (\<lambda>o1. o1) r)) (orders d)"
    show thesis
      by (rule that [OF r]) (simp add: d1 two cancelled_row_def [abs_def] set_order_status_def)
  qed simp
  from st obtain dd restored where "offers d2 = offers d" and "orders d2 = orders ?dr"
    and "payments d2 = payments d" "refunds d2 = refunds d" "payouts d2 = payouts d"
    "obligations d2 = obligations ?dr" "inspections d2 = inspections d" "next_id d2 = next_id d"
    by (rule cancel_stockE) (simp add: d1)
  then have s3: "offers (?d3 d2) = offers d" "orders (?d3 d2) = orders ?dr" "listings (?d3 d2) = listings d2"
    "payments (?d3 d2) = payments d" "refunds (?d3 d2) = refunds d" "payouts (?d3 d2) = payouts d"
    "obligations (?d3 d2) = obligations ?dr" "inspections (?d3 d2) = inspections d"
    "next_id (?d3 d2) = next_id d"
    by (simp_all split: option.splits)
  have earned: "earned_inspections ?oid (?d3 d2) = earned_inspections ?oid d"
    by (simp add: earned_inspections_def s3)
  note fr = cancel_money_frame [OF m, simplified earned]
  have od: "orders d' = orders ?dr"
    by (simp add: d' fr s3 del: cancel_records_sel)
  show thesis
  proof (rule that [OF o g(1) _ o1 od [unfolded ords] _ _ _ m [unfolded earned]])
    show "\<exists>d0. cancel_stock ord pays d0 = Inr d2 \<and> listings d0 = listings d \<and> offers d0 = offers d"
      using st by (intro exI [of _ ?dr]) (simp add: d1)
    show "admin \<or> (\<forall>j. job = Some j \<longrightarrow> t_status j \<notin> {T_PICKUP, T_IN_TRANSIT, T_DELIVERED})"
      using g(2) by (auto split: option.splits)
  qed (simp_all add: d' fr s3 d1 withdraw_agreed_paid)
qed

end
