(* ===== verification/Unwinding.thy ===== *)
theory Unwinding
  imports Cancellation_Safety
begin

text \<open>
  The properties of a cancellation: what it closes, what it refunds, what it does to the
  stock, and whom it promotes; with two concrete databases they are tried on.
\<close>

section \<open>What a cancellation does to payouts, payments and stock\<close>

lemma payout_inv_cong:
  "payouts d' = payouts d \<Longrightarrow> next_id d' = next_id d \<Longrightarrow> payout_inv d' = payout_inv d"
  by (simp add: payout_inv_def payout_keys_def)

lemma retained_cong: "payments d' = payments d \<Longrightarrow> retained keep q d' = retained keep q d"
  by (simp add: retained_def)

lemma closed_inspections:
  assumes dist: "distinct (map i_id (inspections d))"
    and i: "i \<in> set (inspections (cancel_inspections now oid (earned_inspections oid d) d))"
      "i_orderId i = Some oid"
  shows "i_status i = I_COMPLETED \<or> i_status i = I_CANCELLED"
proof -
  from i(1) obtain j where j: "j \<in> set (inspections d)"
    "i = (if i_orderId j = Some oid \<and> i_status j \<noteq> I_CANCELLED \<and> i_id j \<notin> set (earned_inspections oid d)
      then j\<lparr>i_status := I_CANCELLED, i_updatedAt := now\<rparr> else j)"
    by (auto simp: update_rows_def)
  have "i_status j = I_COMPLETED" if "i_id j \<in> set (earned_inspections oid d)"
    using that j(1) key_inj [OF dist j(1)] by (auto simp: earned_inspections_def)
  with j(2) i(2) show ?thesis by (auto split: if_splits)
qed

definition paid_goods :: "payment list \<Rightarrow> bool" where
  "paid_goods ps = list_ex (\<lambda>p. p_type p = MARKETPLACE \<and>
     p_status p \<in> {P_PAID, P_REFUND_PENDING, P_REFUNDED}) ps"

lemma available_on_status:
  "listings d' = update_rows (\<lambda>l. l_id l = lid) (\<lambda>l. l\<lparr>l_status := s\<rparr>) (listings d) \<Longrightarrow>
     available_on k d' = available_on k d"
  by (simp add: available_on_def find_unique_update_rows split: option.splits)

lemma available_on_cong: "listings d' = listings d \<Longrightarrow> available_on k d' = available_on k d"
  by (simp add: available_on_def)

lemma available_on_simps [simp]:
  "available_on k (set_listing_status lid s d) = available_on k d"
  "available_on k (recordAuditEvent now ac act i j d) = available_on k d"
  "available_on k (d\<lparr>offers := fs\<rparr>) = available_on k d"
  "available_on k (expire_waiting now lid a d) = available_on k d"
  by (rule available_on_status, simp) (rule available_on_cong, simp)+

lemma available_on_promote: "available_on k (fst (promoteNextWaitingBuyer now lid a d)) = available_on k d"
  by (cases "next_waiting now lid (expire_waiting now lid a d)")
     (simp_all add: promoteNextWaitingBuyer_def Let_def update_many_def)

lemma release_available:
  assumes r: "releaseListingQuantity ord (Some pays) d = Inr (d', x)"
  shows "if o_status ord = PENDING_PAYMENT \<and> \<not> paid_goods pays then available_on k d' = available_on k d
    else listing_of (o_listingId ord) d = Some l \<and> physical (l_category l) \<longrightarrow>
      available_on (o_listingId ord) d' = min (l_quantity l) (l_available l + o_quantity ord)"
proof (cases "o_status ord = PENDING_PAYMENT \<and> \<not> paid_goods pays")
  case True
  with r have "d' = d" by (simp add: releaseListingQuantity_def paid_goods_def)
  with True show ?thesis by simp
next
  case False
  have "available_on (o_listingId ord) d' = min (l_quantity l) (l_available l + o_quantity ord)"
    if l: "listing_of (o_listingId ord) d = Some l" "physical (l_category l)"
  proof -
    from r False l obtain s where "listings d' = update_rows (\<lambda>l. l_id l = o_listingId ord)
        (\<lambda>k. k\<lparr>l_available := min (l_quantity l) (l_available l + o_quantity ord), l_status := s\<rparr>) (listings d)"
      by (auto simp: releaseListingQuantity_def paid_goods_def bindr_eq_Inr Let_def availableQuantity_def
          normalizeQuantity_def split: if_splits)
    with l(1) find_unique_Some [OF l(1)] show ?thesis
      by (simp add: available_on_def find_unique_update_rows)
  qed
  with False show ?thesis by (simp only: if_False) blast
qed

lemma cancel_available:
  assumes c: "cancelOrderInTransaction now (Some ord) pays job a admin d = Inr (d', r)"
    and dist: "distinct (map o_id (orders d))"
  shows "if o_status ord = PENDING_PAYMENT \<and> \<not> paid_goods pays then available_on k d' = available_on k d
    else listing_of (o_listingId ord) d = Some l \<and> physical (l_category l) \<longrightarrow>
      available_on (o_listingId ord) d' = min (l_quantity l) (l_available l + o_quantity ord)"
  using c dist
proof (rule cancelE)
  fix ord' o1 d2 dm d4
  assume o: "Some ord = Some ord'"
    and st: "\<exists>d0. cancel_stock ord' pays d0 = Inr d2 \<and> listings d0 = listings d \<and> offers d0 = offers d"
    and l4: "listings d4 = listings d2"
    and ls: "listings d' = listings (if o_status ord' = PENDING_PAYMENT
       then fst (promoteNextWaitingBuyer now (o_listingId ord') a (withdraw_agreed now ord' d4)) else d4)"
  from st o obtain d0 where d0: "cancel_stock ord pays d0 = Inr d2" "listings d0 = listings d" by auto
  from d0(1) obtain d1 x where rel: "releaseListingQuantity ord (Some pays) d0 = Inr (d1, x)"
    and d2: "d2 = (if x = None \<and> o_status ord \<noteq> PENDING_PAYMENT
       then set_listing_status (o_listingId ord) L_ACTIVE d1 else d1)"
    by (rule cancel_stockE)
  have "available_on m d2 = available_on m d1" for m
    by (cases "x = None \<and> o_status ord \<noteq> PENDING_PAYMENT")
       (simp_all add: d2 available_on_status [where lid = "o_listingId ord" and s = L_ACTIVE])
  moreover have "available_on m d' = available_on m d2" for m
  proof -
    have "available_on m d' = available_on m (if o_status ord' = PENDING_PAYMENT
       then fst (promoteNextWaitingBuyer now (o_listingId ord') a (withdraw_agreed now ord' d4)) else d4)"
      by (rule available_on_cong [OF ls])
    also have "\<dots> = available_on m d4"
      by (auto simp: available_on_promote intro: available_on_cong)
    also have "\<dots> = available_on m d2" by (rule available_on_cong [OF l4])
    finally show ?thesis .
  qed
  moreover have "available_on m d0 = available_on m d" for m by (rule available_on_cong [OF d0(2)])
  ultimately show ?thesis using release_available [OF rel, of k l] d0(2) by simp
qed

section \<open>Two small databases\<close>

text \<open>A paid order, its inspection finished, being cancelled by an administrator.\<close>

definition demo_confirmed :: order where
  "demo_confirmed = demo_sale\<lparr>o_status := CONFIRMED\<rparr>"

definition demo_deal :: db where
  "demo_deal = demo_held\<lparr>orders := [demo_confirmed],
     listings := [demo_listing\<lparr>l_available := 0, l_status := L_SOLD\<rparr>],
     obligations := [\<lparr>ob_id = 6, ob_orderId = 2, ob_type = TRANSPORT, ob_inspectionRequestId = None,
       ob_transportJobId = None, ob_payerId = 8, ob_beneficiaryId = None, ob_amount = 30, ob_status = Ob_OPEN,
       ob_key = K_ORDER 2 TRANSPORT\<rparr>]\<rparr>"

definition demo_unwound :: "(db \<times> order option) res" where
  "demo_unwound = cancelOrderInTransaction 2000 (Some demo_confirmed) [demo_paid] None (Some 8) True demo_deal"

lemma demo_unwound_ok:
  "cancelOrderInTransaction 2000 (Some demo_confirmed) [demo_paid] None (Some 8) True demo_deal =
     Inr (fst (projr demo_unwound), snd (projr demo_unwound))"
  by code_simp

lemma demo_deal_ok: "payout_inv demo_deal" "distinct (map o_id (orders demo_deal))"
  "distinct (map p_id (payments demo_deal))" "distinct (map i_id (inspections demo_deal))"
  by code_simp+

text \<open>An unpaid order of six, in dispute, on a listing whose other six are sold to somebody else.\<close>

definition demo_contested :: order where
  "demo_contested = demo_sale\<lparr>o_status := DISPUTED, o_quantity := 6\<rparr>"

definition demo_contest :: db where
  "demo_contest = empty_db\<lparr>orders := [demo_contested], next_id := 10,
     listings := [demo_listing\<lparr>l_available := 4\<rparr>]\<rparr>"

section \<open>Properties\<close>

text \<open>C22. Cancelling an order closes everything on it: the order is \<open>CANCELLED\<close>, no payment
  obligation of it stays open, each inspection is finished or cancelled, and each of its
  payouts is paid out already, cancelled, or the fee of a finished inspection.\<close>

theorem cancel_closes_order:
  assumes "payout_inv d" and "distinct (map o_id (orders d))" and "distinct (map p_id (payments d))"
    and "distinct (map i_id (inspections d))"
    and "cancelOrderInTransaction now (Some ord) pays job a admin d = Inr (d', r)"
  shows "(\<forall>x \<in> set (orders d'). o_id x = o_id ord \<longrightarrow> o_status x = CANCELLED) \<and>
    (\<forall>b \<in> set (obligations d'). ob_orderId b = o_id ord \<longrightarrow> ob_status b \<noteq> Ob_OPEN) \<and>
    (\<forall>i \<in> set (inspections d'). i_orderId i = Some (o_id ord) \<longrightarrow> i_status i \<in> {I_COMPLETED, I_CANCELLED}) \<and>
    (\<forall>q \<in> set (payouts d'). po_orderId q = Some (o_id ord) \<longrightarrow> po_status q \<in> {Po_PAID_OUT, Po_CANCELLED} \<or>
       retained (earned_inspections (o_id ord) d) q d)"
  using assms(5,2)
proof (rule cancelE)
  fix ord' o1 d2 dm d4
  assume "Some ord = Some ord'"
    and ords: "orders d' = update_rows (\<lambda>o1. o_id o1 = o_id ord') (cancelled_row now) (orders d)"
    and obs: "obligations d' = obligations (close_obligations (o_id ord') d)"
    and ins: "inspections d' = inspections (cancel_inspections now (o_id ord') (earned_inspections (o_id ord') d) d)"
    and m: "cancel_money now (o_id ord') job a (earned_inspections (o_id ord') d) dm = Inr d4"
    and dm: "payments dm = payments d" "payouts dm = payouts d" "next_id dm = next_id d"
    and po: "payouts d' = payouts d4"
  then have o: "ord' = ord" by simp
  have "payouts d' = payouts (cancelPayoutsForOrder now (o_id ord) a (earned_inspections (o_id ord) d) dm)"
    using m po assms(3) dm(1) unfolding o by (metis cancel_moneyE)
  moreover have "payout_inv dm" using assms(1) dm by (simp add: payout_inv_cong [of dm d])
  ultimately have "\<forall>q \<in> set (payouts d'). po_orderId q = Some (o_id ord) \<longrightarrow>
      po_status q \<in> {Po_PAID_OUT, Po_CANCELLED} \<or> retained (earned_inspections (o_id ord) d) q d"
    using cancelPayouts_row [of dm] retained_cong [OF dm(1)] by (metis (no_types, lifting))
  moreover have "\<forall>x \<in> set (orders d'). o_id x = o_id ord \<longrightarrow> o_status x = CANCELLED"
    by (auto simp: ords o update_rows_def cancelled_row_def)
  moreover have "\<forall>b \<in> set (obligations d'). ob_orderId b = o_id ord \<longrightarrow> ob_status b \<noteq> Ob_OPEN"
    by (auto simp: obs o update_rows_def)
  moreover have "\<forall>i \<in> set (inspections d'). i_orderId i = Some (o_id ord) \<longrightarrow> i_status i \<in> {I_COMPLETED, I_CANCELLED}"
    using closed_inspections [OF assms(4)] unfolding ins o by blast
  ultimately show ?thesis by blast
qed

theorem cancel_closes_order_witness:
  "list_all (\<lambda>x. o_status x = CANCELLED) (orders (fst (projr demo_unwound))) \<and>
   list_all (\<lambda>b. ob_status b \<noteq> Ob_OPEN) (obligations (fst (projr demo_unwound)))"
proof -
  have "list_all (\<lambda>x. o_id x = o_id demo_confirmed) (orders (fst (projr demo_unwound)))"
    "list_all (\<lambda>b. ob_orderId b = o_id demo_confirmed) (obligations (fst (projr demo_unwound)))"
    by code_simp+
  with cancel_closes_order [OF demo_deal_ok demo_unwound_ok] show ?thesis by (simp add: list_all_iff)
qed

text \<open>C23. The buyer gets the money back: after a cancellation every payment of the order that
  was paid, is not an instalment plan's parent and is not the fee of a finished inspection has a
  refund that is requested, in progress or complete; the fee of a finished inspection stays
  paid, and nothing of an instalment plan can still be paid.\<close>

theorem cancel_refunds_paid:
  assumes "distinct (map o_id (orders d))" and "distinct (map p_id (payments d))"
    and "cancelOrderInTransaction now (Some ord) pays job a admin d = Inr (d', r)"
    and "p \<in> set (payments d)" and "p_orderId p = Some (o_id ord)" and "p_status p = P_PAID"
    and "\<not> isInstallmentParent p"
  shows "(if earned_fee (earned_inspections (o_id ord) d) p
     then (\<forall>j. job = Some j \<longrightarrow> p_transportJobId p \<noteq> Some (t_id j)) \<longrightarrow> p \<in> set (payments d')
     else \<exists>r \<in> set (refunds d'). r_paymentId r = p_id p \<and> refund_live (r_status r)) \<and>
    (\<forall>q \<in> set (payments d'). p_orderId q = Some (o_id ord) \<and> (isInstallmentParent q \<or> isInstallmentChild q) \<longrightarrow>
       p_status q \<noteq> P_PENDING)"
  using assms(3,1)
proof (rule cancelE)
  let ?earned = "earned_inspections (o_id ord) d"
  fix ord' o1 d2 dm d4
  assume "Some ord = Some ord'"
    and m': "cancel_money now (o_id ord') job a (earned_inspections (o_id ord') d) dm = Inr d4"
    and dm: "payments dm = payments d"
    and pay: "payments d' = payments d4" and ref: "refunds d' = refunds d4"
  then have m: "cancel_money now (o_id ord) job a ?earned dm = Inr d4" by simp
  have dist: "distinct (map p_id (payments dm))" using assms(2) dm by simp
  from m dist show ?thesis
  proof (rule cancel_moneyE)
    fix S
    assume rows: "payments d4 = update_rows (\<lambda>q. p_id q \<in> S \<and> p_status q = P_PAID)
         (\<lambda>q. q\<lparr>p_status := P_REFUND_PENDING\<rparr>) (map (plan_row (o_id ord)) (payments dm))"
      and S: "S \<subseteq> {i. \<exists>p \<in> set (payments dm). p_id p = i \<and> (p_orderId p = Some (o_id ord) \<and> \<not> earned_fee ?earned p \<or>
          (\<exists>j. job = Some j \<and> p_transportJobId p = Some (t_id j)))}"
      and live: "\<forall>p \<in> set (payments dm). p_orderId p = Some (o_id ord) \<and> p_status p = P_PAID \<and>
          \<not> isInstallmentParent p \<and> \<not> earned_fee ?earned p \<longrightarrow>
          (\<exists>r \<in> set (refunds d4). r_paymentId r = p_id p \<and> refund_live (r_status r))"
    have kept: "p \<in> set (payments d')"
      if e: "earned_fee ?earned p" and j: "\<forall>j. job = Some j \<longrightarrow> p_transportJobId p \<noteq> Some (t_id j)"
    proof -
      have "p_id p \<notin> S"
      proof
        assume "p_id p \<in> S"
        with S obtain x where x: "x \<in> set (payments d)" "p_id x = p_id p"
          "p_orderId x = Some (o_id ord) \<and> \<not> earned_fee ?earned x \<or>
           (\<exists>j. job = Some j \<and> p_transportJobId x = Some (t_id j))"
          unfolding dm by blast
        from key_inj [OF assms(2) x(1) assms(4) x(2)] x(3) e j show False by blast
      qed
      moreover have "plan_row (o_id ord) p = p" using assms(6,7) by (simp add: plan_row_def)
      ultimately show ?thesis
        unfolding pay rows dm update_rows_def using assms(4) by force
    qed
    have closed: "p_status q \<noteq> P_PENDING"
      if q: "q \<in> set (payments d')" "p_orderId q = Some (o_id ord)" "isInstallmentParent q \<or> isInstallmentChild q" for q
    proof -
      from q(1) obtain x where "q = (let y = plan_row (o_id ord) x in
          if p_id y \<in> S \<and> p_status y = P_PAID then y\<lparr>p_status := P_REFUND_PENDING\<rparr> else y)"
        unfolding pay rows update_rows_def set_map Let_def by blast
      with q(2,3) show ?thesis
        by (auto simp: plan_row_def Let_def isInstallmentParent_def isInstallmentChild_def split: if_splits)
    qed
    from live assms(4-7) have refunded: "\<not> earned_fee ?earned p \<Longrightarrow>
        \<exists>r \<in> set (refunds d'). r_paymentId r = p_id p \<and> refund_live (r_status r)"
      unfolding dm ref by blast
    from kept closed refunded show ?thesis by auto
  qed
qed

theorem cancel_refunds_paid_witness:
  "\<exists>r \<in> set (refunds (fst (projr demo_unwound))). r_paymentId r = p_id demo_paid \<and> refund_live (r_status r)"
proof -
  have "demo_paid \<in> set (payments demo_deal)" "p_orderId demo_paid = Some (o_id demo_confirmed)"
    "p_status demo_paid = P_PAID" "\<not> isInstallmentParent demo_paid"
    "\<not> earned_fee (earned_inspections (o_id demo_confirmed) demo_deal) demo_paid" by code_simp+
  with cancel_refunds_paid [OF demo_deal_ok(2,3) demo_unwound_ok] show ?thesis by simp
qed



text \<open>C25. An order can be disputed before it is paid, and a dispute can end in its cancellation;
  then the cancellation puts back a quantity that was never taken, because it only looks for
  the status \<open>PENDING_PAYMENT\<close>. The listing offers more than it has.\<close>

theorem disputed_unpaid_order_adds_stock:
  assumes "cancelOrderInTransaction now (Some ord) pays job a True d = Inr (d', r)"
    and "distinct (map o_id (orders d))"
    and "listing_of (o_listingId ord) d = Some l" and "physical (l_category l)"
    and "o_status ord = DISPUTED" and "\<not> paid_goods pays"
    and "l_available l + o_quantity ord \<le> l_quantity l" and "0 < o_quantity ord"
  shows "DISPUTED \<in> set (ORDER_TRANSITIONS PENDING_PAYMENT) \<and>
    available_on (o_listingId ord) d < available_on (o_listingId ord) d' \<and>
    available_on (o_listingId ord) d' = available_on (o_listingId ord) d + o_quantity ord"
  using cancel_available [OF assms(1,2), of "o_listingId ord" l] assms(3-8)
  by (simp add: available_on_def)

theorem disputed_unpaid_order_adds_stock_witness:
  "available_on 1 (fst (projr (cancelOrderInTransaction 2000 (Some demo_contested) [] None None True demo_contest))) = 10"
proof -
  let ?c = "cancelOrderInTransaction 2000 (Some demo_contested) [] None None True demo_contest"
  have "?c = Inr (fst (projr ?c), snd (projr ?c))" "distinct (map o_id (orders demo_contest))"
    "listing_of (o_listingId demo_contested) demo_contest = Some (demo_listing\<lparr>l_available := 4\<rparr>)"
    "physical (l_category (demo_listing\<lparr>l_available := 4\<rparr>))" "o_status demo_contested = DISPUTED"
    "\<not> paid_goods []"
    "l_available (demo_listing\<lparr>l_available := 4\<rparr>) + o_quantity demo_contested \<le> l_quantity (demo_listing\<lparr>l_available := 4\<rparr>)"
    "0 < o_quantity demo_contested" by code_simp+
  note * = disputed_unpaid_order_adds_stock [OF this]
  have "o_listingId demo_contested = 1" "available_on 1 demo_contest + o_quantity demo_contested = 10" by code_simp+
  with * show ?thesis by simp
qed


text \<open>Two waiting bids on a listing of ten; the dearer one asks for more than there is.\<close>

definition demo_bid :: "uid \<Rightarrow> number \<Rightarrow> number \<Rightarrow> offer" where
  "demo_bid i amount q = \<lparr>of_id = i, of_listingId = 1, of_buyerId = i + 10, of_sellerId = 7, of_amount = amount,
     of_quantity = Some q, of_parent = None, of_expiresAt = None, of_status = Of_PENDING,
     of_counterAmount = None, of_counteredBy = None, of_createdAt = 0, of_updatedAt = 0\<rparr>"

definition demo_queue :: db where
  "demo_queue = demo_stock\<lparr>offers := [demo_bid 2 40 4, demo_bid 3 50 20, demo_bid 4 45 5], next_id := 20\<rparr>"


end
