(* ===== verification/Negotiation.thy ===== *)
theory Negotiation
  imports Cancellation_Safety
begin

text \<open>
  The negotiations of a listing as a system: one step is one call of any operation that
  writes offers or orders, by any caller, on any snapshot the caller read before. The
  invariant of \<open>Exclusivity\<close> holds of everything the program can get to.
\<close>

section \<open>The remaining operations keep the invariant\<close>

lemma negotiation_inv_next:
  "negotiation_inv d \<Longrightarrow> next_id d \<le> n \<Longrightarrow> negotiation_inv (d\<lparr>next_id := n\<rparr>)"
  unfolding negotiation_inv_def offer_keys_def order_keys_def by fastforce

lemma negotiation_inv_elsewhere:
  assumes "negotiation_inv d" and "offers d' = offers d" and "orders d' = orders d"
    and "next_id d \<le> next_id d'"
  shows "negotiation_inv d'"
  using negotiation_inv_next [OF assms(1,4)]
  by (rule negotiation_inv_cong [THEN iffD2, rotated -1]) (simp_all add: assms)

lemma commit_inv:
  assumes inv: "negotiation_inv d" and c: "commitListingQuantity now lid req d = Inr (d', q, rest)"
  shows "negotiation_inv d'"
proof -
  from c have "orders d' = orders d" "next_id d' = next_id d"
    and "offers d' = offers d \<or> (\<exists>P. offers d' =
      update_rows P (set_offer_status now Of_REJECTED) (offers d))"
    by (auto simp: commitListingQuantity_def bindr_eq_Inr update_many_def Let_def set_offer_status_def [abs_def]
        split: if_splits option.splits)
  moreover have "negotiation_inv (d\<lparr>offers := update_rows P (set_offer_status now Of_REJECTED) (offers d)\<rparr>)" for P
    by (rule inv_close [OF inv]) (simp add: live_def)
  note negotiation_inv_elsewhere [OF this, of d']
  ultimately show ?thesis using negotiation_inv_elsewhere [OF inv, of d'] by auto
qed

lemma transition_inv:
  assumes inv: "negotiation_inv d" and t: "transitionOrderStatus now oid from to extra d = Inr (d', r)"
    and ex: "extra_ok extra" "\<And>o1. o_listingId (extra o1) = o_listingId o1"
  shows "negotiation_inv d'"
proof -
  let ?h = "\<lambda>o1. if o_id o1 = oid \<and> o_status o1 = from then set_order_status now to extra o1 else o1"
  from t have m: "canTransitionOrder from to"
    and d': "d' = d\<lparr>orders := map ?h (orders d)\<rparr>"
    by (simp_all add: transitionOrderStatus_Inr update_rows_def)
  have "order_open to \<Longrightarrow> order_open from"
    using m by (cases "from") (auto simp: canTransitionOrder_def order_open_def)
  moreover have "o_listingId (set_order_status now to extra o1) = o_listingId o1" for o1
    by (simp add: set_order_status_def ex(2))
  ultimately show ?thesis
    unfolding d' by (intro inv_orders [OF inv]) (use ex(1) in \<open>auto split: if_splits\<close>)
qed

lemma cancelled_orders_inv:
  assumes inv: "negotiation_inv d"
  shows "negotiation_inv (d\<lparr>orders := update_rows (\<lambda>o1. o_id o1 = oid) (cancelled_row now) (orders d)\<rparr>)"
  unfolding update_rows_def
  by (rule inv_orders [OF inv]) (auto simp: cancelled_row_def order_open_def split: if_splits)

lemma withdraw_agreed_inv: "negotiation_inv d \<Longrightarrow> negotiation_inv (withdraw_agreed now ord d)"
  by (auto simp: withdraw_agreed_def inv_close live_def split: option.splits)

text \<open>After an unpaid order is cancelled nothing is going on on its listing.\<close>

lemma cancel_quiet:
  assumes inv: "negotiation_inv d" and ord: "ord \<in> set (orders d)" "o_status ord = PENDING_PAYMENT"
  shows "x \<in> set (offers d) \<Longrightarrow> leaf (offers d) x \<Longrightarrow> negotiating (of_status x) \<Longrightarrow>
      of_listingId x \<noteq> o_listingId ord"
    and "o1 \<in> set (update_rows (\<lambda>o1. o_id o1 = o_id ord) (cancelled_row now) (orders d)) \<Longrightarrow>
      order_open (o_status o1) \<Longrightarrow> o_listingId o1 \<noteq> o_listingId ord"
proof -
  have op: "order_open (o_status ord)" by (simp add: ord(2) order_open_def)
  show "of_listingId x \<noteq> o_listingId ord"
    if "x \<in> set (offers d)" "leaf (offers d) x" "negotiating (of_status x)"
    using inv ord(1) op that unfolding negotiation_inv_def no_talks_on_order_def by metis
  assume "o1 \<in> set (update_rows (\<lambda>o1. o_id o1 = o_id ord) (cancelled_row now) (orders d))"
    and o1: "order_open (o_status o1)"
  then obtain x where x: "x \<in> set (orders d)"
    "o1 = (if o_id x = o_id ord then cancelled_row now x else x)"
    unfolding update_rows_def set_map by blast
  with o1 have "o_id x \<noteq> o_id ord" "o1 = x" by (auto simp: cancelled_row_def order_open_def split: if_splits)
  with x(1) o1 ord(1) op inv show "o_listingId o1 \<noteq> o_listingId ord"
    unfolding negotiation_inv_def one_open_order_def by metis
qed

lemma withdraw_agreed_offers:
  "x \<in> set (offers (withdraw_agreed now ord d)) \<Longrightarrow> leaf (offers (withdraw_agreed now ord d)) x \<Longrightarrow>
     negotiating (of_status x) \<Longrightarrow> x \<in> set (offers d) \<and> leaf (offers d) x"
proof -
  assume x: "x \<in> set (offers (withdraw_agreed now ord d))" "leaf (offers (withdraw_agreed now ord d)) x"
    "negotiating (of_status x)"
  have par: "map of_parent (offers (withdraw_agreed now ord d)) = map of_parent (offers d)"
    by (auto simp: withdraw_agreed_def map_update_rows split: option.splits)
  have "leaf (offers d) x"
    using x(2) par unfolding leaf_parents by (metis set_map)
  moreover have "x \<in> set (offers d)"
    using x(1,3) by (auto simp: withdraw_agreed_def update_rows_def negotiating_def split: option.splits if_splits)
  ultimately show ?thesis by blast
qed

lemma cancel_inv:
  assumes inv: "negotiation_inv d"
    and c: "cancelOrderInTransaction now (find_unique o_id oid (orders d)) pays job a admin d = Inr (d', r)"
  shows "negotiation_inv d'"
  using c inv_order_keys [OF inv]
proof (rule cancelE)
  fix ord o1 d2 dm d4
  assume o: "find_unique o_id oid (orders d) = Some ord"
    and ords: "orders d' = update_rows (\<lambda>o1. o_id o1 = o_id ord) (cancelled_row now) (orders d)"
    and m: "cancel_money now (o_id ord) job a (earned_inspections (o_id ord) d) dm = Inr d4"
    and n: "next_id dm = next_id d" "next_id d' = next_id d4"
    and d4: "offers d4 = offers d" "orders d4 = orders d'"
    and offs: "offers d' = offers (if o_status ord = PENDING_PAYMENT
       then fst (promoteNextWaitingBuyer now (o_listingId ord) a (withdraw_agreed now ord d4)) else d)"
  from o have ord: "ord \<in> set (orders d)" by (auto dest: find_unique_Some)
  from m have "next_id dm \<le> next_id d4"
    by (force simp only: cancel_money_def Let_def bindr_eq_Inr split_paired_Ex prod.case sum.inject
        close_plans_frame cancelPayouts_frame dest!: request_refunds_frame)
  with n have le: "next_id d \<le> next_id d4" by simp
  let ?dc = "d\<lparr>orders := update_rows (\<lambda>o1. o_id o1 = o_id ord) (cancelled_row now) (orders d)\<rparr>"
  have 4: "negotiation_inv d4"
    by (rule negotiation_inv_elsewhere [OF cancelled_orders_inv [OF inv, of "o_id ord" now]])
       (use d4 ords le in simp_all)
  show ?thesis
  proof (cases "o_status ord = PENDING_PAYMENT")
    case True
    let ?dw = "withdraw_agreed now ord d4"
    have "negotiation_inv (fst (promoteNextWaitingBuyer now (o_listingId ord) a ?dw))"
    proof (rule promote_inv [OF withdraw_agreed_inv [OF 4]])
      show "of_listingId x \<noteq> o_listingId ord"
        if "x \<in> set (offers ?dw)" "leaf (offers ?dw) x" "negotiating (of_status x)" for x
        using withdraw_agreed_offers [OF that] cancel_quiet(1) [OF inv ord True, of x] that(3)
        by (simp add: d4)
      show "o_listingId o1 \<noteq> o_listingId ord" if "o1 \<in> set (orders ?dw)" "order_open (o_status o1)" for o1
        using cancel_quiet(2) [OF inv ord True, of o1 now] that by (simp add: d4 ords)
    qed
    then show ?thesis
      by (rule negotiation_inv_cong [THEN iffD2, rotated -1]) (use True offs d4 n in simp_all)
  next
    case False
    with 4 show ?thesis
      by (intro negotiation_inv_cong [THEN iffD2, rotated -1, OF 4]) (use offs d4 n in simp_all)
  qed
qed

text \<open>The expiry job on an offer it has just read.\<close>

lemma expire_offer_one_inv:
  assumes inv: "negotiation_inv d" and f: "f \<in> set (offers d)"
  shows "negotiation_inv (fst (expire_offer_one now f d))"
proof -
  let ?P = "\<lambda>g. of_id g = of_id f \<and> of_status g \<in> {Of_PENDING, Of_SELECTED, Of_COUNTERED} \<and> isOfferExpired now g"
  let ?m = "update_rows ?P (set_offer_status now Of_EXPIRED) (offers d)"
  let ?d1 = "recordAuditEvent now None (Offer_Act OFFER_EXPIRED_AUTOMATICALLY) (of_id f) None (d\<lparr>offers := ?m\<rparr>)"
  have 0: "negotiation_inv (d\<lparr>offers := ?m\<rparr>)" by (rule inv_close [OF inv]) (simp add: live_def)
  have "negotiation_inv (fst (promoteNextWaitingBuyer now (of_listingId f) None ?d1))"
    if c: "count_where ?P (offers d) = 1" and st: "of_status f = Of_SELECTED"
  proof (rule promote_inv)
    show "negotiation_inv ?d1" using 0 by simp
    from inv f st have lf: "leaf (offers d) f"
      unfolding negotiation_inv_def countered_closed_def by blast
    have neg: "negotiating (of_status f)" by (simp add: st negotiating_def)
    from c obtain g where g: "g \<in> set (offers d)" "?P g" 
    proof -
      have "0 < count_where ?P (offers d)" unfolding c by (rule zero_less_one)
      then show thesis unfolding count_where_pos using that by blast
    qed
    with key_inj [OF inv_offer_keys [OF inv] g(1) f] have Pf: "?P f" by blast
    show "of_listingId x \<noteq> of_listingId f"
      if x: "x \<in> set (offers ?d1)" "leaf (offers ?d1) x" "negotiating (of_status x)" for x
    proof -
      have "offers ?d1 = ?m" by simp
      with x(1) have "x \<in> set ?m" by (simp only:)
      then obtain x0 where x0: "x0 \<in> set (offers d)"
        "x = (if ?P x0 then set_offer_status now Of_EXPIRED x0 else x0)"
        unfolding update_rows_def set_map by blast
      with x(3) have "x = x0" "\<not> ?P x0" by (auto simp: negotiating_def split: if_splits)
      moreover have "leaf (offers d) x"
        using x(2) unfolding leaf_parents set_map [symmetric]
        by (simp add: map_update_rows)
      moreover have "x \<noteq> f" using \<open>x = x0\<close> \<open>\<not> ?P x0\<close> Pf by blast
      ultimately show ?thesis
        using inv x0(1) x(3) f lf neg unfolding negotiation_inv_def exclusive_def by metis
    qed
    show "o_listingId o1 \<noteq> of_listingId f" if "o1 \<in> set (orders ?d1)" "order_open (o_status o1)" for o1
    proof -
      have "orders ?d1 = orders d" by simp
      with that inv f lf neg show ?thesis
        unfolding negotiation_inv_def no_talks_on_order_def by auto
    qed
  qed
  with 0 show ?thesis
    by (simp add: expire_offer_one_def update_many_def Let_def)
qed

section \<open>The system\<close>

text \<open>
  \<open>idx\<close>: whether the partial unique index is installed. \<open>elsewhere\<close> is any change the rest of
  the program makes, which writes neither offers nor orders.
\<close>

inductive market_step :: "bool \<Rightarrow> db \<Rightarrow> db \<Rightarrow> bool" for idx where
  bid: "market_step idx d (fst (createOffer idx now u lid amount quantity d))"
| respond: "market_step idx d (fst (respond_to idx e now u act f sellerId d))"
| reopen: "market_step idx d (fst (reopenBidding now u lid d))"
| close_bids: "market_step idx d (fst (releaseWaitingBidders now lid actor d))"
| recover: "recover_offers now ord d = Inr d' \<Longrightarrow> market_step idx d d'"
| pay: "commitListingQuantity now lid req d = Inr (d', q, rest) \<Longrightarrow> market_step idx d d'"
| progress: "transitionOrderStatus now oid s t extra d = Inr (d', r) \<Longrightarrow> extra_ok extra \<Longrightarrow>
    (\<And>o1. o_listingId (extra o1) = o_listingId o1) \<Longrightarrow> market_step idx d d'"
| cancel: "cancelOrderInTransaction now (find_unique o_id oid (orders d)) pays job actor admin d = Inr (d', r') \<Longrightarrow>
    market_step idx d d'"
| expire: "f \<in> set (offers d) \<Longrightarrow> market_step idx d (fst (expire_offer_one now f d))"
| elsewhere: "offers d' = offers d \<Longrightarrow> orders d' = orders d \<Longrightarrow> next_id d \<le> next_id d' \<Longrightarrow> market_step idx d d'"

lemma market_step_inv:
  assumes "market_step idx d d'" and "negotiation_inv d"
  shows "negotiation_inv d'"
  using assms
  by (induction rule: market_step.induct)
     (auto intro: createOffer_inv respondToOffer_inv reopenBidding_inv releaseWaitingBidders_inv
      recover_offers_inv commit_inv transition_inv cancel_inv expire_offer_one_inv negotiation_inv_elsewhere)

interpretation market: invariant_system "market_step idx" negotiation_inv for idx
  by unfold_locales (rule market_step_inv)

section \<open>Counting what is going on on a listing\<close>

definition talks_on :: "uid \<Rightarrow> db \<Rightarrow> nat" where
  "talks_on lid d = count_where (\<lambda>f. of_listingId f = lid \<and> negotiating (of_status f) \<and> leaf (offers d) f) (offers d)"

definition open_orders_on :: "uid \<Rightarrow> db \<Rightarrow> nat" where
  "open_orders_on lid d = count_where (\<lambda>o1. o_listingId o1 = lid \<and> order_open (o_status o1)) (orders d)"

definition live_bids_of :: "uid \<Rightarrow> uid \<Rightarrow> db \<Rightarrow> nat" where
  "live_bids_of buyer lid d = count_where (\<lambda>f. of_listingId f = lid \<and> of_buyerId f = buyer \<and>
     live (of_status f) \<and> leaf (offers d) f) (offers d)"

lemma length_le_1: "distinct xs \<Longrightarrow> (\<And>a b. a \<in> set xs \<Longrightarrow> b \<in> set xs \<Longrightarrow> a = b) \<Longrightarrow> length xs \<le> 1"
proof (cases xs)
  case (Cons a ys)
  assume d: "distinct xs" and eq: "\<And>a b. a \<in> set xs \<Longrightarrow> b \<in> set xs \<Longrightarrow> a = b"
  have "ys = []"
  proof (cases ys)
    case (Cons b zs)
    with \<open>xs = a # ys\<close> d eq [of a b] show ?thesis by simp
  qed simp
  with Cons show ?thesis by simp
qed simp

lemma count_where_le_1:
  assumes "distinct (map key t)" and "\<And>a b. a \<in> set t \<Longrightarrow> b \<in> set t \<Longrightarrow> P a \<Longrightarrow> P b \<Longrightarrow> a = b"
  shows "count_where P t \<le> 1"
  unfolding count_where_def by (rule length_le_1) (use assms in \<open>auto simp: distinct_map\<close>)

end
