(* ===== verification/Bargaining.thy ===== *)
theory Bargaining
  imports Negotiation
begin

text \<open>
  The properties of the negotiations: what is exclusive, what an accepted offer turns into,
  whose turn it is, how often a seller may walk away, and the two places where the
  guarantees end: the partial unique index and an expiry job with a stale row.
\<close>

section \<open>A negotiation to try things on\<close>

definition demo_seller :: user where
  "demo_seller = \<lparr>u_id = 7, u_roles = [SELLER]\<rparr>"

definition demo_buyer :: user where
  "demo_buyer = \<lparr>u_id = 8, u_roles = [BUYER]\<rparr>"

definition demo_market :: db where
  "demo_market = demo_stock\<lparr>next_id := 20\<rparr>"

definition demo_with_bid :: db where
  "demo_with_bid = fst (createOffer False 0 demo_buyer 1 (Some (Some 50)) (Some (Some 4)) demo_market)"

definition demo_first_bid :: offer where
  "demo_first_bid = new_offer 0 20 demo_listing 8 50 4"

definition demo_talks :: db where
  "demo_talks = fst (respond_to False env_default 5 demo_seller SELECT demo_first_bid 7 demo_with_bid)"

lemma demo_talks_reachable: "reachable (market_step idx) empty_db demo_market"
  "reachable (market_step False) empty_db demo_talks"
proof -
  show 0: "reachable (market_step idx) empty_db demo_market" for idx
    by (rule reachable_step [OF reachable_refl], rule elsewhere)
       (simp_all add: demo_market_def demo_stock_def empty_db_def)
  have 1: "reachable (market_step False) empty_db demo_with_bid"
    unfolding demo_with_bid_def by (rule reachable_step [OF 0 bid])
  show "reachable (market_step False) empty_db demo_talks"
    unfolding demo_talks_def by (rule reachable_step [OF 1 respond])
qed

section \<open>Exclusivity\<close>

lemma inv_counts:
  assumes inv: "negotiation_inv d"
  shows "talks_on lid d + open_orders_on lid d \<le> 1" and "live_bids_of buyer lid d \<le> 1"
proof -
  from inv have t: "talks_on lid d \<le> 1"
    unfolding talks_on_def by (intro count_where_le_1 [OF inv_offer_keys [OF inv]])
      (auto simp: negotiation_inv_def exclusive_def)
  from inv have o: "open_orders_on lid d \<le> 1"
    unfolding open_orders_on_def by (intro count_where_le_1 [OF inv_order_keys [OF inv]])
      (auto simp: negotiation_inv_def one_open_order_def)
  have "talks_on lid d = 0 \<or> open_orders_on lid d = 0"
    using inv unfolding negotiation_inv_def no_talks_on_order_def talks_on_def open_orders_on_def
      count_where_0 by metis
  with t o show "talks_on lid d + open_orders_on lid d \<le> 1" by auto
  from inv show "live_bids_of buyer lid d \<le> 1"
    unfolding live_bids_of_def by (intro count_where_le_1 [OF inv_offer_keys [OF inv]])
      (auto simp: negotiation_inv_def one_live_bid_def)
qed





section \<open>Where exclusivity ends\<close>

text \<open>
  The seller extends the pickup window while a bid is being negotiated, so later bids expire
  later. The expiry job reads the bid as \<open>SELECTED\<close>; before its own transaction runs the
  seller counters the bid.
\<close>

definition closing :: "time \<Rightarrow> db \<Rightarrow> db" where
  "closing t d = d\<lparr>listings := [demo_listing\<lparr>l_pickupEnd := Some t\<rparr>]\<rparr>"

definition demo_race1 :: db where
  "demo_race1 = fst (createOffer False 0 demo_buyer 1 (Some (Some 50)) (Some (Some 4)) (closing 10 demo_market))"

definition demo_race_row :: "offer_status \<Rightarrow> offer" where
  "demo_race_row s = (new_offer 0 20 (demo_listing\<lparr>l_pickupEnd := Some 10\<rparr>) 8 50 4)\<lparr>of_status := s\<rparr>"

definition demo_race2 :: db where
  "demo_race2 = closing 40 (fst (respond_to False env_default 0 demo_seller SELECT (demo_race_row Of_PENDING) 7 demo_race1))"

definition demo_race3 :: db where
  "demo_race3 = fst (createOffer False 2 (demo_buyer\<lparr>u_id := 9\<rparr>) 1 (Some (Some 45)) (Some (Some 4)) demo_race2)"

definition demo_race4 :: db where
  "demo_race4 = fst (respond_to False env_default 9 demo_seller (COUNTER (Some (Some 60))) (demo_race_row Of_SELECTED) 7 demo_race3)"

lemma demo_race_reachable:
  "reachable (market_step False) empty_db demo_race3" "market_step False demo_race3 demo_race4"
proof -
  have 0: "reachable (market_step False) empty_db (closing 10 demo_market)"
    by (rule reachable_step [OF demo_talks_reachable(1)], rule elsewhere) (simp_all add: closing_def)
  have 1: "reachable (market_step False) empty_db demo_race1"
    unfolding demo_race1_def by (rule reachable_step [OF 0 bid])
  have 2: "reachable (market_step False) empty_db (fst (respond_to False env_default 0 demo_seller SELECT
      (demo_race_row Of_PENDING) 7 demo_race1))"
    by (rule reachable_step [OF 1 respond])
  have 2: "reachable (market_step False) empty_db demo_race2"
    unfolding demo_race2_def
    by (rule reachable_step [OF 2], rule elsewhere) (simp_all add: closing_def)
  show "reachable (market_step False) empty_db demo_race3"
    unfolding demo_race3_def by (rule reachable_step [OF 2 bid])
  show "market_step False demo_race3 demo_race4"
    unfolding demo_race4_def by (rule respond)
qed

text \<open>C15. The expiry job can break the exclusivity. In this reachable run it lists a \<open>SELECTED\<close> bid,
  the seller counters that bid, and the job's transaction, deciding by the row it listed,
  promotes the waiting bid although the counter-offer is still being negotiated.\<close>

theorem stale_expiry_breaks_exclusivity:
  "reachable (market_step False) empty_db demo_race3 \<and> demo_race_row Of_SELECTED \<in> set (offers demo_race3) \<and>
   market_step False demo_race3 demo_race4 \<and> talks_on 1 demo_race4 = 1 \<and>
   talks_on 1 (fst (expire_offer_one 10 (demo_race_row Of_SELECTED) demo_race4)) = 2"
proof (intro conjI demo_race_reachable)
  show "demo_race_row Of_SELECTED \<in> set (offers demo_race3)" by code_simp
  show "talks_on 1 demo_race4 = 1" by code_simp
  show "talks_on 1 (fst (expire_offer_one 10 (demo_race_row Of_SELECTED) demo_race4)) = 2" by code_simp
qed

lemma two_active:
  assumes "x \<in> set offs" and "of_status x \<in> {Of_PENDING, Of_SELECTED, Of_COUNTERED, Of_ACCEPTED}"
    and "of_status c \<in> {Of_PENDING, Of_SELECTED, Of_COUNTERED, Of_ACCEPTED}"
    and "of_listingId c = of_listingId x" and "of_buyerId c = of_buyerId x"
  shows "\<not> active_unique (insert_row c offs)"
  using assms by (force simp: active_unique_def insert_row_def)

lemma counter_body_index: "isl (counter_body True now u i a party other d)"
proof (rule ccontr)
  assume "\<not> isl (counter_body True now u i a party other d)"
  then obtain d' g where "counter_body True now u i a party other d = Inr (d', g)"
    by (cases "counter_body True now u i a party other d") auto
  then show False
  proof (rule counter_bodyE)
    fix fresh l e
    assume r: "read_leaf i e d = Inr (fresh, l)" and g: "g = counter_child now (next_id d) fresh l a party"
      and offs: "offers d' = insert_row g (update_offer now (of_id fresh) Of_COUNTERED (offers d))"
      and idx: "True \<longrightarrow> active_unique (offers d')"
    from r have "fresh \<in> set (offers d)" by (auto elim: read_leafE)
    then have "set_offer_status now Of_COUNTERED fresh \<in> set (update_offer now (of_id fresh) Of_COUNTERED (offers d))"
      by (auto simp: set_update_rows)
    from two_active [OF this, of g] idx show False by (simp add: offs g counter_child_def)
  qed
qed


section \<open>The order an agreement becomes\<close>

lemma transact_commits: "transact body d = (d', Inr x) \<longleftrightarrow> body d = Inr (d', x)"
  by (auto simp: transact_def split: sum.splits)

lemma confirmE:
  assumes c: "confirmProvisional idx e now u f sellerId d = (d', Inr (g, ord))"
    and dist: "distinct (map of_id (offers d))"
  obtains fresh l q where "fresh \<in> set (offers d)" and "leaf (offers d) fresh" and "of_id fresh = of_id f"
    and "of_status fresh = Of_PROVISIONAL" and "\<not> isOfferExpired now fresh"
    and "g = set_offer_status now Of_ACCEPTED fresh"
    and "find_unique l_id (of_listingId fresh) (listings d) = Some l" and "of_quantity fresh = Some q"
    and "0 < q" and "q \<le> l_available l" and "0 < confirm_price fresh"
    and "\<forall>m. l_minPrice l = Some m \<longrightarrow> m \<le> confirm_price fresh"
    and "\<forall>o1 \<in> set (orders d). o_listingId o1 = of_listingId fresh \<longrightarrow> \<not> order_open (o_status o1)"
    and "o_id ord = next_id d" and "o_listingId ord = of_listingId fresh" and "o_buyerId ord = of_buyerId fresh"
    and "o_sellerId ord = l_sellerId l" and "o_finalPrice ord = round2 (confirm_price fresh * q)"
    and "o_quantity ord = q" and "o_status ord = PENDING_PAYMENT" and "o_agreedOfferId ord = Some (of_id fresh)"
    and "orders d' = insert_row ord (orders d)" and "listings d' = listings d"
    and "offers d' = update_offer now (of_id fresh) Of_ACCEPTED (offers d)"
proof -
  from c have "confirmProvisional_tx idx e now u f d = Inr (d', g, ord)"
    by (simp add: confirmProvisional_def transact_commits split: if_splits)
  then show thesis
  proof (rule confirmProvisional_txE)
    fix fresh l0 e'
    assume r: "read_leaf (of_id f) e' d = Inr (fresh, l0)" and st: "of_status fresh = Of_PROVISIONAL"
      and ex: "\<not> isOfferExpired now fresh"
      and a: "acceptOfferAndCreateOrder idx e now fresh l0 (Some (confirm_price fresh)) (l_sellerId l0)
           (u_id u) d = Inr (d', g, ord)"
    from r have fr: "fresh \<in> set (offers d)" "leaf (offers d) fresh" "of_id fresh = of_id f"
      by (auto elim: read_leafE)
    from a show thesis
    proof (rule acceptOfferAndCreateOrder_Inr)
      fix q p d1
      assume chk: "check_acceptance now fresh l0 (Some (confirm_price fresh)) (l_sellerId l0) d = Inr (q, p)"
        and cl: "claim_offer idx now (of_id fresh) [Of_PENDING, Of_SELECTED, Of_COUNTERED, Of_PROVISIONAL]
             Of_ACCEPTED (Offer_Err 409 SUPERSEDED) d = Inr d1"
        and g: "find_unique of_id (of_id fresh) (offers d1) = Some g"
        and none: "\<forall>o1\<in>set (orders d). o_listingId o1 = of_listingId fresh \<longrightarrow> \<not> order_open (o_status o1)"
        and ord: "ord = new_order e now (next_id d) fresh l0 (l_sellerId l0) q p"
        and d': "offers d' = offers d1" "orders d' = insert_row ord (orders d)" "listings d' = listings d"
      have offs: "offers d1 = update_offer now (of_id fresh) Of_ACCEPTED (offers d)"
      proof -
        have "offers d1 = update_rows (\<lambda>f. of_id f = of_id fresh \<and> of_status f \<in>
            set [Of_PENDING, Of_SELECTED, Of_COUNTERED, Of_PROVISIONAL]) (set_offer_status now Of_ACCEPTED) (offers d)"
          using cl by (simp add: claim_offer_Inr)
        also have "\<dots> = update_offer now (of_id fresh) Of_ACCEPTED (offers d)"
          unfolding update_rows_def by (rule map_cong) (use key_inj [OF dist _ fr(1)] st in auto)
        finally show ?thesis .
      qed
      have gg: "g = set_offer_status now Of_ACCEPTED fresh"
        using g find_unique_in [OF dist fr(1)] by (simp add: offs find_unique_update_rows)
      have q: "of_quantity fresh = Some q" "0 < q" "p = confirm_price fresh" "0 < confirm_price fresh"
        using chk by (simp_all add: check_acceptance_Inr)
      have "\<exists>l. find_unique l_id (of_listingId fresh) (listings d) = Some l \<and>
          physical_category (l_category l) \<and> l_sellerId l = l_sellerId l0 \<and>
          q \<le> l_available l \<and> (\<forall>m. l_minPrice l = Some m \<longrightarrow> m \<le> p)"
        using chk unfolding check_acceptance_Inr by blast
      then obtain l where l: "find_unique l_id (of_listingId fresh) (listings d) = Some l"
        "l_sellerId l = l_sellerId l0" "q \<le> l_available l" "\<forall>m. l_minPrice l = Some m \<longrightarrow> m \<le> confirm_price fresh"
        unfolding q(3) by blast
      show thesis
        by (rule that [OF fr st ex gg l(1) q(1,2) l(3) q(4) l(4) none]) (simp_all add: ord q(3) l(2) d' offs)
    qed
  qed
qed


text \<open>A bid of 50 per unit for 4 units, agreed and confirmed.\<close>

definition demo_agreed :: db where
  "demo_agreed = fst (respond_to False env_default 6 demo_buyer ACCEPT_SELECTED
     (demo_first_bid\<lparr>of_status := Of_SELECTED, of_updatedAt := 5\<rparr>) 7 demo_talks)"

definition demo_provisional :: offer where
  "demo_provisional = demo_first_bid\<lparr>of_status := Of_PROVISIONAL, of_updatedAt := 6\<rparr>"

definition demo_confirmation :: "db \<times> (offer \<times> order) res" where
  "demo_confirmation = confirmProvisional False env_default 8 demo_buyer demo_provisional 7 demo_agreed"

lemma demo_confirmation_ok:
  "confirmProvisional False env_default 8 demo_buyer demo_provisional 7 demo_agreed =
     (fst demo_confirmation, Inr (fst (projr (snd demo_confirmation)), snd (projr (snd demo_confirmation))))"
  "distinct (map of_id (offers demo_agreed))"
  by code_simp+


text \<open>C18. An agreement becomes one order. After a confirmation has succeeded, every further
  confirmation of the same offer fails, whoever asks and whatever snapshot they hold.\<close>

theorem confirmed_only_once:
  assumes "confirmProvisional idx e now u f sellerId d = (d', Inr (g, ord))"
    and "distinct (map of_id (offers d))" and "of_id f2 = of_id f"
  shows "isl (snd (confirmProvisional idx2 e2 now2 u2 f2 sellerId2 d'))"
  using assms(1,2)
proof (rule confirmE)
  fix fresh l q
  assume i: "of_id fresh = of_id f"
    and offs: "offers d' = update_offer now (of_id fresh) Of_ACCEPTED (offers d)"
  have "isl (confirmProvisional_tx idx2 e2 now2 u2 f2 d')"
  proof (rule ccontr)
    assume "\<not> isl (confirmProvisional_tx idx2 e2 now2 u2 f2 d')"
    then obtain x g2 ord2 where "confirmProvisional_tx idx2 e2 now2 u2 f2 d' = Inr (x, g2, ord2)"
      by (cases "confirmProvisional_tx idx2 e2 now2 u2 f2 d'") auto
    then show False
    proof (rule confirmProvisional_txE)
      fix y k e'
      assume r: "read_leaf (of_id f2) e' d' = Inr (y, k)" and st: "of_status y = Of_PROVISIONAL"
      from r have "y \<in> set (offers d')" "of_id y = of_id fresh" by (auto elim: read_leafE simp: assms(3) i)
      with st show False by (auto simp: offs update_rows_def)
    qed
  qed
  then show ?thesis
    by (auto simp: confirmProvisional_def transact_def split: sum.splits)
qed

theorem confirmed_only_once_witness:
  "isl (snd (confirmProvisional False env_default 9 demo_seller demo_provisional 7 (fst demo_confirmation)))"
  by (rule confirmed_only_once [OF demo_confirmation_ok]) (rule refl)

section \<open>Turns, releases and permissions\<close>

lemma isl_transact: "isl (body d) \<Longrightarrow> isl (snd (transact body d))"
  by (auto simp: transact_def split: sum.splits)


definition demo_counter :: "db \<times> offer res" where
  "demo_counter = counterOffer False 7 demo_seller (demo_first_bid\<lparr>of_status := Of_SELECTED, of_updatedAt := 5\<rparr>)
     7 (Some (Some 60)) demo_talks"


text \<open>The seller's releases of agreements on a listing, and how many are allowed.\<close>

definition seller_releases :: "uid \<Rightarrow> db \<Rightarrow> nat" where
  "seller_releases lid d = countAcceptedReleases (Offer_Act OFFER_PROVISIONAL_RELEASED) lid d"

definition allowed_releases :: "env \<Rightarrow> uid \<Rightarrow> db \<Rightarrow> number" where
  "allowed_releases e lid d = snd (releaseAllowance e (Offer_Act OFFER_PROVISIONAL_RELEASED) lid d)"

lemma close_leaf_audits: "countAcceptedReleases act job (close_leaf now f s d) = countAcceptedReleases act job d"
  by (simp add: countAcceptedReleases_def)

text \<open>C20. A seller walks away from agreements on a listing only so often: each release by the seller
  is counted, succeeds only while fewer than the allowed number were made, and a refused one
  changes no offer and no count.\<close>

theorem seller_release_cap:
  assumes "releaseProvisional e now u f sellerId b d = (d', res)"
    and "is_seller u sellerId" and "\<not> isAdmin u" and "\<not> is_buyer u f"
    and "\<forall>x \<in> set (offers d). of_id x = of_id f \<longrightarrow> of_listingId x = of_listingId f"
  shows "case res of
      Inr g \<Rightarrow> of_nat (seller_releases (of_listingId f) d) < allowed_releases e (of_listingId f) d \<and>
        seller_releases (of_listingId f) d' = Suc (seller_releases (of_listingId f) d)
    | Inl _ \<Rightarrow> offers d' = offers d \<and> seller_releases (of_listingId f) d' = seller_releases (of_listingId f) d"
proof (cases res)
  case (Inr g)
  with assms(1) have "releaseProvisional_body e now u f sellerId d = Inr (d', Some g)"
    by (auto simp: releaseProvisional_def transact_def split: sum.splits option.splits if_splits prod.splits)
  then show ?thesis
  proof (rule releaseProvisional_bodyE)
    fix fresh
    assume l: "findLeafOffer (of_id f) d = Some fresh"
      and cap: "is_seller u sellerId \<Longrightarrow> \<not> isAdmin u \<Longrightarrow>
         of_nat (countAcceptedReleases (Offer_Act OFFER_PROVISIONAL_RELEASED) (of_listingId f) d) <
         snd (releaseAllowance e (Offer_Act OFFER_PROVISIONAL_RELEASED) (of_listingId f) d)"
      and d': "d' = recordAuditEvent now (Some (u_id u))
         (Offer_Act (if is_buyer u f then OFFER_PROVISIONAL_RELEASED_BY_BUYER else OFFER_PROVISIONAL_RELEASED))
         (of_id fresh) (Some (of_listingId fresh)) (close_leaf now fresh Of_WITHDRAWN d)"
    from l assms(5) have "of_listingId fresh = of_listingId f" by (auto dest: findLeafOffer_Some)
    with cap [OF assms(2,3)] assms(4) show ?thesis
      by (simp add: Inr seller_releases_def allowed_releases_def d' close_leaf_audits)
  qed simp
next
  case (Inl err)
  have "offers d' = offers d \<and> seller_releases (of_listingId f) d' = seller_releases (of_listingId f) d"
  proof (cases "\<exists>d1. releaseProvisional_body e now u f sellerId d = Inr (d1, None) \<and> d' = d1")
    case True
    then obtain "releaseProvisional_body e now u f sellerId d = Inr (d', None)" by blast
    then show ?thesis
      by (rule releaseProvisional_bodyE) (simp_all add: seller_releases_def)
  next
    case False
    with assms(1) Inl have "d' = d"
      by (auto simp: releaseProvisional_def transact_def split: sum.splits option.splits if_splits prod.splits)
    then show ?thesis by simp
  qed
  with Inl show ?thesis by simp
qed

theorem seller_release_cap_witness:
  "seller_releases 1 (fst (releaseProvisional env_default 90000000 demo_seller demo_provisional 7
     \<lparr>rb_reason = Some ''OTHER'', rb_note = Some ''sold elsewhere''\<rparr> demo_agreed)) = 1"
proof -
  let ?r = "releaseProvisional env_default 90000000 demo_seller demo_provisional 7
     \<lparr>rb_reason = Some ''OTHER'', rb_note = Some ''sold elsewhere''\<rparr> demo_agreed"
  have "?r = (fst ?r, Inr (projr (snd ?r)))" "is_seller demo_seller 7" "\<not> isAdmin demo_seller"
    "\<not> is_buyer demo_seller demo_provisional"
    "\<forall>x \<in> set (offers demo_agreed). of_id x = of_id demo_provisional \<longrightarrow> of_listingId x = of_listingId demo_provisional"
    by code_simp+
  from seller_release_cap [OF this]
  have "seller_releases (of_listingId demo_provisional) (fst ?r) =
      Suc (seller_releases (of_listingId demo_provisional) demo_agreed)" by simp
  moreover have "of_listingId demo_provisional = 1" "seller_releases 1 demo_agreed = 0" by code_simp+
  ultimately show ?thesis by simp
qed

text \<open>Who may do what on an offer.\<close>

definition may_act :: "user \<Rightarrow> respond_action \<Rightarrow> offer \<Rightarrow> uid \<Rightarrow> bool" where
  "may_act u act f sellerId = (isAdmin u \<or> (case act of
     SELECT \<Rightarrow> is_seller u sellerId | ACCEPT \<Rightarrow> is_seller u sellerId
   | COUNTER _ \<Rightarrow> is_seller u sellerId | RELEASE \<Rightarrow> is_seller u sellerId
   | ACCEPT_SELECTED \<Rightarrow> is_buyer u f | ACCEPT_COUNTER \<Rightarrow> is_buyer u f
   | RE_COUNTER _ \<Rightarrow> is_buyer u f | REJECT \<Rightarrow> is_buyer u f | WITHDRAW \<Rightarrow> is_buyer u f
   | CONFIRM_PROVISIONAL \<Rightarrow> is_buyer u f \<or> is_seller u sellerId
   | RELEASE_PROVISIONAL _ \<Rightarrow> is_buyer u f \<or> is_seller u sellerId))"

text \<open>C21. Only the side an action belongs to, or an administrator, can carry it out: selecting,
  countering, accepting and releasing are the seller's, accepting a selection or a counter,
  re-countering, rejecting and withdrawing the buyer's, and an agreement is either side's.\<close>

theorem only_the_entitled_act:
  assumes "respond_to idx e now u act f sellerId d = (d', Inr g)"
  shows "may_act u act f sellerId"
  using assms
  by (cases act)
     (auto simp: respond_to_def run_action_def may_act_def selectOffer_def acceptSelected_def acceptCounter_def
      acceptOffer_def counterOffer_def reCounter_def releaseBuyer_def confirmProvisional_def
      releaseProvisional_def rejectOrWithdraw_def Let_def
      split: if_splits prod.splits sum.splits option.splits)

theorem only_the_entitled_act_witness:
  "may_act demo_seller SELECT demo_first_bid 7 \<and> \<not> may_act demo_buyer SELECT demo_first_bid 7"
proof
  let ?r = "respond_to False env_default 5 demo_seller SELECT demo_first_bid 7 demo_with_bid"
  have "?r = (fst ?r, Inr (projr (snd ?r)))" by code_simp
  then show "may_act demo_seller SELECT demo_first_bid 7" by (rule only_the_entitled_act)
  show "\<not> may_act demo_buyer SELECT demo_first_bid 7" by code_simp
qed

end
