(* ===== verification/Standing.thy ===== *)
theory Standing
  imports Release_Limits
begin

text \<open>
  \<open>backend/src/services/providerStandingService.js\<close>: the penalties of truck owners and
  inspectors who cancel accepted agreements (a rating hit, a warning, suspensions of growing
  length), the timers that end a suspension or a probation, and the ways back (rejoining,
  an appeal, reinstatement by an administrator). A row that an update addresses by its
  identifier is one the code has just read; \<open>update_standing\<close> has the error Prisma throws
  when it is gone. The texts kept for display (\<open>lastReason\<close>, notes) are omitted.
\<close>

section \<open>The code\<close>

definition SUSPENSION_DAYS :: "nat list" where
  "SUSPENSION_DAYS = [3, 14, 30]"

definition PROBATION_DAYS :: nat where
  "PROBATION_DAYS = 30"

definition CANCEL_PENALTY :: number where
  "CANCEL_PENALTY = 1 / 10"

definition SUSPENSION_PENALTY :: number where
  "SUSPENSION_PENALTY = 1 / 2"

definition DAY :: time where
  "DAY = 24 * 60 * 60 * 1000"

text \<open>The number of the suspension counts from 1; \<open>None\<close> is an indefinite suspension.\<close>

definition suspensionDaysFor :: "nat \<Rightarrow> nat option" where
  "suspensionDaysFor n =
     (if n \<le> length SUSPENSION_DAYS then Some (SUSPENSION_DAYS ! (n - 1)) else None)"

definition new_standing :: "uid \<Rightarrow> uid \<Rightarrow> standing" where
  "new_standing i u =
     \<lparr>st_id = i, st_userId = u, st_status = S_GOOD, st_suspensionCount = 0, st_suspendedAt = None,
      st_suspendedUntil = None, st_probationUntil = None, st_ratingPenalty = 0,
      st_appealMessage = None, st_appealedAt = None\<rparr>"

definition getOrCreateStanding :: "uid \<Rightarrow> db \<Rightarrow> db \<times> standing" where
  "getOrCreateStanding u d =
     (case find_unique st_userId u (standings d) of
        Some s \<Rightarrow> (d, s)
      | None \<Rightarrow>
          let s = new_standing (next_id d) u
          in (d\<lparr>standings := insert_row s (standings d), next_id := Suc (next_id d)\<rparr>, s))"

definition update_standing :: "uid \<Rightarrow> (standing \<Rightarrow> standing) \<Rightarrow> db \<Rightarrow> (db \<times> standing) res" where
  "update_standing i f d =
     (case find_unique st_id i (standings d) of
        None \<Rightarrow> Inl (Provider_Err 500 STANDING_NOT_FOUND)
      | Some s \<Rightarrow> Inr (d\<lparr>standings := update_rows (\<lambda>s. st_id s = i) f (standings d)\<rparr>, f s))"

text \<open>The mean score a user received; there is none without ratings.\<close>

definition average_score :: "uid \<Rightarrow> db \<Rightarrow> number option" where
  "average_score u d =
     (let scores = map rt_score (filter (\<lambda>r. rt_toUserId r = u) (ratings d))
      in if scores = [] then None else Some (sum_list scores / of_nat (length scores)))"

definition rating_value :: "number \<Rightarrow> number \<Rightarrow> number" where
  "rating_value avg penalty = (if 0 < avg then max 0 (round2 (avg - penalty)) else 0)"

definition recomputeUserRating :: "uid \<Rightarrow> db \<Rightarrow> db" where
  "recomputeUserRating u d =
     (let avg = (case average_score u d of None \<Rightarrow> 0 | Some a \<Rightarrow> a);
          penalty = (case find_unique st_userId u (standings d) of None \<Rightarrow> 0 | Some s \<Rightarrow> st_ratingPenalty s)
      in d\<lparr>userRatings := update_rows (\<lambda>(i, _). i = u) (\<lambda>(i, _). (i, rating_value avg penalty))
            (userRatings d)\<rparr>)"

definition strikes_since :: "time \<Rightarrow> standing \<Rightarrow> time" where
  "strikes_since now s =
     (let windowStart = now - 30 * DAY
      in case st_suspendedAt s of
           None \<Rightarrow> windowStart
         | Some t \<Rightarrow> if t > windowStart then t else windowStart)"

definition strikesSinceLastSuspension :: "time \<Rightarrow> standing \<Rightarrow> db \<Rightarrow> nat" where
  "strikesSinceLastSuspension now s d =
     count_where (\<lambda>a. au_actorId a = Some (st_userId s) \<and> au_action a \<in> set PROVIDER_RELEASE_ACTIONS \<and>
       au_createdAt a > strikes_since now s) (auditEvents d)"

definition notifyProvider :: "time \<Rightarrow> uid option \<Rightarrow> db \<Rightarrow> db" where
  "notifyProvider now orderId d =
     (case orderId of None \<Rightarrow> d | Some i \<Rightarrow> recordOrderEvent now i PROVIDER_STANDING_CHANGED d)"

text \<open>\<open>days\<close> is \<open>None\<close> when the caller leaves it \<open>undefined\<close>, and \<open>Some None\<close> when it is \<open>null\<close>.\<close>

definition suspended_row :: "time \<Rightarrow> nat option option \<Rightarrow> standing \<Rightarrow> standing \<Rightarrow> standing" where
  "suspended_row now days s r =
     (let suspensionNumber = st_suspensionCount s + 1;
          len = (case days of None \<Rightarrow> suspensionDaysFor suspensionNumber | Some l \<Rightarrow> l)
      in r\<lparr>st_status := S_SUSPENDED, st_suspensionCount := suspensionNumber, st_suspendedAt := Some now,
           st_suspendedUntil := map_option (\<lambda>l. now + int l * DAY) len, st_probationUntil := None,
           st_ratingPenalty := st_ratingPenalty s + SUSPENSION_PENALTY, st_appealMessage := None,
           st_appealedAt := None\<rparr>)"

definition suspend ::
    "time \<Rightarrow> standing \<Rightarrow> uid option \<Rightarrow> uid option \<Rightarrow> nat option option \<Rightarrow> db \<Rightarrow> (db \<times> standing) res" where
  "suspend now s orderId byAdmin days d =
     bindr (update_standing (st_id s) (suspended_row now days s) d) (\<lambda>(d1, updated).
       Inr (notifyProvider now orderId
              (recordAuditEvent now byAdmin (Provider_Act PROVIDER_SUSPENDED) (st_id s) None
                 (recomputeUserRating (st_userId s) d1)), updated))"

definition settleTimers :: "time \<Rightarrow> standing \<Rightarrow> db \<Rightarrow> (db \<times> standing) res" where
  "settleTimers now s d =
     (if st_status s = S_SUSPENDED \<and> (case st_suspendedUntil s of None \<Rightarrow> False | Some t \<Rightarrow> t \<le> now)
      then update_standing (st_id s) (\<lambda>r. r\<lparr>st_status := S_REJOIN_PENDING\<rparr>) d
      else if st_status s = S_PROBATION \<and> (case st_probationUntil s of None \<Rightarrow> False | Some t \<Rightarrow> t \<le> now)
      then bindr (update_standing (st_id s)
                    (\<lambda>r. r\<lparr>st_status := S_GOOD, st_probationUntil := None,
                           st_ratingPenalty := round2 (st_ratingPenalty s / 2)\<rparr>) d) (\<lambda>(d1, updated).
             Inr (recordAuditEvent now None (Provider_Act PROVIDER_PROBATION_COMPLETED) (st_id s) None
                    (recomputeUserRating (st_userId s) d1), updated))
      else Inr (d, s))"

datatype penalty_action = RATING_HIT | WARNED | GOT_SUSPENDED

record outcome =
  oc_status :: standing_status
  oc_strikes :: nat
  oc_threshold :: number
  oc_action :: penalty_action
  oc_until :: "time option"

definition applyProviderCancellation ::
    "env \<Rightarrow> time \<Rightarrow> uid \<Rightarrow> uid option \<Rightarrow> db \<Rightarrow> (db \<times> outcome) res" where
  "applyProviderCancellation e now userId orderId d =
     (let (d0, s0) = getOrCreateStanding userId d in
      bindr (settleTimers now s0 d0) (\<lambda>(d1, s1).
      bindr (update_standing (st_id s1) (\<lambda>r. r\<lparr>st_ratingPenalty := st_ratingPenalty s1 + CANCEL_PENALTY\<rparr>) d1)
        (\<lambda>(d2, s2).
      let strikes = strikesSinceLastSuspension now s2 d2;
          threshold = providerFlagThreshold e;
          oc = \<lparr>oc_status = st_status s2, oc_strikes = strikes, oc_threshold = threshold,
                oc_action = RATING_HIT, oc_until = None\<rparr>
      in if st_status s2 = S_PROBATION \<or> of_nat strikes \<ge> threshold
         then bindr (suspend now s2 orderId None None d2) (\<lambda>(d3, s3).
                Inr (d3, oc\<lparr>oc_status := S_SUSPENDED, oc_action := GOT_SUSPENDED,
                           oc_until := st_suspendedUntil s3\<rparr>))
         else
           let d3 = recomputeUserRating userId d2
           in if of_nat strikes = threshold - 1
              then Inr (notifyProvider now orderId d3, oc\<lparr>oc_action := WARNED\<rparr>)
              else Inr (d3, oc))))"

text \<open>The gate for placing bids; the timers are settled in a transaction of their own.\<close>

definition assertProviderCanBid :: "time \<Rightarrow> uid \<Rightarrow> db \<Rightarrow> db \<times> unit res" where
  "assertProviderCanBid now userId d =
     (case find_unique st_userId userId (standings d) of
        None \<Rightarrow> (d, Inr ())
      | Some existing \<Rightarrow>
          (case transact (settleTimers now existing) d of
             (d1, Inl e) \<Rightarrow> (d1, Inl e)
           | (d1, Inr s) \<Rightarrow>
               (d1, if st_status s = S_SUSPENDED then Inl (Provider_Err 403 PROVIDER_IS_SUSPENDED)
                    else if st_status s = S_REJOIN_PENDING then Inl (Provider_Err 403 PROVIDER_REJOIN_REQUIRED)
                    else Inr ())))"

record standing_summary =
  su_status :: standing_status
  su_suspensionCount :: nat
  su_suspendedUntil :: "time option"
  su_probationUntil :: "time option"
  su_ratingPenalty :: number
  su_strikes :: nat
  su_threshold :: number
  su_canAppeal :: bool
  su_nextSuspensionDays :: "nat option"

definition standing_view :: "env \<Rightarrow> time \<Rightarrow> standing \<Rightarrow> nat \<Rightarrow> standing_summary" where
  "standing_view e now base strikes =
     \<lparr>su_status = st_status base, su_suspensionCount = st_suspensionCount base,
      su_suspendedUntil = st_suspendedUntil base, su_probationUntil = st_probationUntil base,
      su_ratingPenalty = st_ratingPenalty base, su_strikes = strikes,
      su_threshold = providerFlagThreshold e,
      su_canAppeal = (st_status base = S_SUSPENDED \<and> st_appealedAt base = None),
      su_nextSuspensionDays = suspensionDaysFor (st_suspensionCount base + 1)\<rparr>"

definition getStandingSummary :: "env \<Rightarrow> time \<Rightarrow> uid \<Rightarrow> db \<Rightarrow> db \<times> standing_summary res" where
  "getStandingSummary e now userId d =
     (case find_unique st_userId userId (standings d) of
        None \<Rightarrow> (d, Inr (standing_view e now (new_standing 0 userId) 0))
      | Some existing \<Rightarrow>
          (case transact (settleTimers now existing) d of
             (d1, Inl x) \<Rightarrow> (d1, Inl x)
           | (d1, Inr s) \<Rightarrow> (d1, Inr (standing_view e now s (strikesSinceLastSuspension now s d1)))))"

definition rejoin_tx :: "time \<Rightarrow> uid \<Rightarrow> db \<Rightarrow> (db \<times> standing) res" where
  "rejoin_tx now userId d =
     (case find_unique st_userId userId (standings d) of
        None \<Rightarrow> Inl (Provider_Err 409 NOT_SUSPENDED)
      | Some existing \<Rightarrow>
          bindr (settleTimers now existing d) (\<lambda>(d1, s).
          bindr (guardr (st_status s = S_REJOIN_PENDING) (Provider_Err 409 NOT_REJOIN_PENDING)) (\<lambda>_.
          bindr (update_standing (st_id s)
                   (\<lambda>r. r\<lparr>st_status := S_PROBATION, st_probationUntil := Some (now + int PROBATION_DAYS * DAY)\<rparr>) d1)
            (\<lambda>(d2, updated).
          Inr (recordAuditEvent now (Some userId) (Provider_Act PROVIDER_REJOINED_ON_PROBATION) (st_id s) None d2,
               updated)))))"

definition rejoin :: "time \<Rightarrow> uid \<Rightarrow> db \<Rightarrow> db \<times> standing res" where
  "rejoin now userId d = transact (rejoin_tx now userId) d"

definition appeal :: "time \<Rightarrow> uid \<Rightarrow> string option \<Rightarrow> db \<Rightarrow> db \<times> standing res" where
  "appeal now userId message d =
     (let txt = js_slice 1000 (js_trim (or_empty message)) in
      if length txt < 10 then (d, Inl (Provider_Err 400 APPEAL_TOO_SHORT))
      else transact (\<lambda>d.
        case find_unique st_userId userId (standings d) of
          None \<Rightarrow> Inl (Provider_Err 409 NOT_SUSPENDED)
        | Some s \<Rightarrow>
            bindr (guardr (st_status s = S_SUSPENDED) (Provider_Err 409 NOT_SUSPENDED)) (\<lambda>_.
            bindr (guardr (st_appealedAt s = None) (Provider_Err 409 ALREADY_APPEALED)) (\<lambda>_.
            bindr (update_standing (st_id s)
                     (\<lambda>r. r\<lparr>st_appealMessage := Some txt, st_appealedAt := Some now\<rparr>) d) (\<lambda>(d1, updated).
            Inr (recordAuditEvent now (Some userId) (Provider_Act PROVIDER_SUSPENSION_APPEALED) (st_id s) None d1,
                 updated))))) d)"

text \<open>\<open>to\<close> is the text of the request.\<close>

definition adminReinstate :: "time \<Rightarrow> uid \<Rightarrow> uid \<Rightarrow> string \<Rightarrow> bool \<Rightarrow> db \<Rightarrow> db \<times> standing res" where
  "adminReinstate now userId adminId to clearPenalty d =
     (if to \<notin> {''PROBATION'', ''GOOD''} then (d, Inl (Provider_Err 400 BAD_TARGET))
      else transact (\<lambda>d.
        case find_unique st_userId userId (standings d) of
          None \<Rightarrow> Inl (Provider_Err 409 NOT_SUSPENDED)
        | Some s \<Rightarrow>
            bindr (guardr (st_status s \<in> {S_SUSPENDED, S_REJOIN_PENDING}) (Provider_Err 409 NOT_SUSPENDED)) (\<lambda>_.
            bindr (update_standing (st_id s)
                     (\<lambda>r. r\<lparr>st_status := (if to = ''PROBATION'' then S_PROBATION else S_GOOD),
                            st_suspendedUntil := None,
                            st_probationUntil := (if to = ''PROBATION'' then Some (now + int PROBATION_DAYS * DAY)
                                                  else None),
                            st_ratingPenalty := (if clearPenalty then 0 else st_ratingPenalty s),
                            st_appealMessage := None, st_appealedAt := None\<rparr>) d) (\<lambda>(d1, updated).
            Inr (recordAuditEvent now (Some adminId) (Provider_Act PROVIDER_REINSTATED_BY_ADMIN) (st_id s) None
                   (recomputeUserRating userId d1), updated)))) d)"

text \<open>The sweep settles each row as it listed it; a transaction that fails ends the sweep.\<close>

definition timer_due :: "time \<Rightarrow> standing \<Rightarrow> bool" where
  "timer_due now s =
     ((st_status s = S_SUSPENDED \<and> (case st_suspendedUntil s of None \<Rightarrow> False | Some t \<Rightarrow> t \<le> now)) \<or>
      (st_status s = S_PROBATION \<and> (case st_probationUntil s of None \<Rightarrow> False | Some t \<Rightarrow> t \<le> now)))"

fun sweep_rows :: "time \<Rightarrow> standing list \<Rightarrow> db \<Rightarrow> db \<times> nat res" where
  "sweep_rows now [] d = (d, Inr 0)"
| "sweep_rows now (s # ss) d =
     (case transact (settleTimers now s) d of
        (d1, Inl e) \<Rightarrow> (d1, Inl e)
      | (d1, Inr _) \<Rightarrow>
          (case sweep_rows now ss d1 of
             (d2, Inl e) \<Rightarrow> (d2, Inl e)
           | (d2, Inr moved) \<Rightarrow> (d2, Inr (Suc moved))))"

definition sweepProviderStandings :: "time \<Rightarrow> db \<Rightarrow> db \<times> nat res" where
  "sweepProviderStandings now d = sweep_rows now (take 200 (filter (timer_due now) (standings d))) d"

end
