(* ===== verification/Standing_Safety.thy ===== *)
theory Standing_Safety
  imports Standing
begin

text \<open>
  What the standing service promises. The contract is a small automaton of phases, given
  here on its own, and the service is shown to implement it: every call moves a provider's
  row along the automaton. On it rest the properties of the penalties and of the way back.
\<close>

section \<open>The contract: phases of a provider\<close>

text \<open>A phase with the number of suspensions so far.\<close>

datatype phase = Good | On_Probation time | Suspended "time option" | May_Rejoin

inductive phase_step :: "bool \<Rightarrow> phase \<times> nat \<Rightarrow> phase \<times> nat \<Rightarrow> bool" for admin where
  time_served: "t \<le> now \<Longrightarrow> phase_step admin (Suspended (Some t), n) (May_Rejoin, n)"
| probation_served: "t \<le> now \<Longrightarrow> phase_step admin (On_Probation t, n) (Good, n)"
| struck: "phase_step admin (p, n)
    (Suspended (map_option (\<lambda>k. now + int k * DAY) (suspensionDaysFor (Suc n))), Suc n)"
| rejoined: "phase_step admin (May_Rejoin, n) (On_Probation (now + int PROBATION_DAYS * DAY), n)"
| reinstated_on_probation: "admin \<Longrightarrow> p \<noteq> Good \<Longrightarrow>
    phase_step admin (p, n) (On_Probation (now + int PROBATION_DAYS * DAY), n)"
| reinstated: "admin \<Longrightarrow> phase_step admin (p, n) (Good, n)"

abbreviation phase_path :: "bool \<Rightarrow> phase \<times> nat \<Rightarrow> phase \<times> nat \<Rightarrow> bool" where
  "phase_path admin \<equiv> (phase_step admin)\<^sup>*\<^sup>*"

text \<open>The fourth suspension and every later one is indefinite, and only an administrator ends it.\<close>

lemma suspensionDaysFor_None: "suspensionDaysFor n = None \<longleftrightarrow> 3 < n"
  by (auto simp: suspensionDaysFor_def SUSPENSION_DAYS_def)

lemma indefinite_path:
  assumes "phase_path False a b" and "fst a = Suspended None" and "3 < snd a"
  shows "fst b = Suspended None \<and> 3 < snd b"
  using assms
proof (induction rule: rtranclp_induct)
  case base
  then show ?case by simp
next
  case (step y z)
  from step.IH step.prems have y: "fst y = Suspended None" "3 < snd y" by auto
  from \<open>phase_step False y z\<close> show ?case
    using y by cases (auto simp: suspensionDaysFor_def SUSPENSION_DAYS_def)
qed

section \<open>Rows\<close>

definition phase_of :: "standing \<Rightarrow> phase" where
  "phase_of s = (case st_status s of
     S_GOOD \<Rightarrow> Good
   | S_PROBATION \<Rightarrow> On_Probation (case st_probationUntil s of None \<Rightarrow> 0 | Some t \<Rightarrow> t)
   | S_SUSPENDED \<Rightarrow> Suspended (st_suspendedUntil s)
   | S_REJOIN_PENDING \<Rightarrow> May_Rejoin)"

definition abstract_of :: "standing \<Rightarrow> phase \<times> nat" where
  "abstract_of s = (phase_of s, st_suspensionCount s)"

definition standing_ok :: "standing \<Rightarrow> bool" where
  "standing_ok s = (0 \<le> st_ratingPenalty s \<and>
     (st_status s = S_PROBATION \<longleftrightarrow> st_probationUntil s \<noteq> None) \<and>
     (st_status s = S_SUSPENDED \<longrightarrow>
        0 < st_suspensionCount s \<and>
        (case st_suspendedAt s of None \<Rightarrow> False
         | Some a \<Rightarrow> st_suspendedUntil s =
             map_option (\<lambda>k. a + int k * DAY) (suspensionDaysFor (st_suspensionCount s)))))"

definition standing_move :: "bool \<Rightarrow> standing \<Rightarrow> standing \<Rightarrow> bool" where
  "standing_move admin s s' =
     (st_id s' = st_id s \<and> st_userId s' = st_userId s \<and>
      (standing_ok s \<longrightarrow> standing_ok s' \<and> phase_path admin (abstract_of s) (abstract_of s')))"

lemma standing_move_refl [simp]: "standing_move admin s s"
  by (simp add: standing_move_def)

lemma standing_move_trans [trans]:
  "standing_move admin s t \<Longrightarrow> standing_move admin t u \<Longrightarrow> standing_move admin s u"
  by (auto simp: standing_move_def)

lemma standing_move_step:
  assumes "st_id s' = st_id s" and "st_userId s' = st_userId s"
    and "standing_ok s \<Longrightarrow> standing_ok s'"
    and "standing_ok s \<Longrightarrow> abstract_of s' = abstract_of s \<or> phase_step admin (abstract_of s) (abstract_of s')"
  shows "standing_move admin s s'"
  using assms by (auto simp: standing_move_def)

text \<open>The settled row, as a function of the row.\<close>

definition settled :: "time \<Rightarrow> standing \<Rightarrow> standing" where
  "settled now s =
     (if \<not> timer_due now s then s
      else if st_status s = S_SUSPENDED then s\<lparr>st_status := S_REJOIN_PENDING\<rparr>
      else s\<lparr>st_status := S_GOOD, st_probationUntil := None,
             st_ratingPenalty := round2 (st_ratingPenalty s / 2)\<rparr>)"

lemma settled_keys [simp]: "st_id (settled now s) = st_id s" "st_userId (settled now s) = st_userId s"
  "st_suspensionCount (settled now s) = st_suspensionCount s"
  by (simp_all add: settled_def)

lemma settled_move: "standing_move admin s (settled now s)"
  by (rule standing_move_step)
     (auto simp: settled_def standing_ok_def timer_due_def abstract_of_def phase_of_def round2_nonneg
       intro: phase_step.intros split: option.splits)

lemma suspended_row_move: "standing_move admin s (suspended_row now None s s)"
proof (rule standing_move_step)
  show "abstract_of (suspended_row now None s s) = abstract_of s \<or>
      phase_step admin (abstract_of s) (abstract_of (suspended_row now None s s))"
    using struck [of admin "phase_of s" "st_suspensionCount s" now]
    by (simp add: abstract_of_def phase_of_def suspended_row_def Let_def)
qed (auto simp: suspended_row_def standing_ok_def SUSPENSION_PENALTY_def Let_def)

section \<open>Tables\<close>

definition standings_ok :: "db \<Rightarrow> bool" where
  "standings_ok d = (distinct (map st_id (standings d)) \<and> distinct (map st_userId (standings d)) \<and>
     (\<forall>s \<in> set (standings d). st_id s < next_id d \<and> standing_ok s))"

definition standing_of :: "uid \<Rightarrow> db \<Rightarrow> standing option" where
  "standing_of u d = find_unique st_userId u (standings d)"

definition standings_step :: "bool \<Rightarrow> db \<Rightarrow> db \<Rightarrow> bool" where
  "standings_step admin d d' =
     (list_all2 (standing_move admin) (standings d) (standings d') \<and> next_id d \<le> next_id d')"

lemma standings_step_same: "standings d' = standings d \<Longrightarrow> next_id d \<le> next_id d' \<Longrightarrow> standings_step admin d d'"
  by (simp add: standings_step_def list_all2_refl)

lemma standings_step_trans:
  assumes "standings_step admin d1 d2" and "standings_step admin d2 d3"
  shows "standings_step admin d1 d3"
proof -
  from assms have "list_all2 (standing_move admin) (standings d1) (standings d2)"
    "list_all2 (standing_move admin) (standings d2) (standings d3)"
    by (simp_all add: standings_step_def)
  then have "list_all2 (standing_move admin) (standings d1) (standings d3)"
    by (rule list_all2_trans [rotated 1]) (rule standing_move_trans)
  with assms show ?thesis by (simp add: standings_step_def)
qed

lemma list_all2_map_eq:
  "list_all2 R xs ys \<Longrightarrow> (\<And>x y. R x y \<Longrightarrow> f y = f x) \<Longrightarrow> map f ys = map f xs"
  by (induction rule: list_all2_induct) auto

lemma standings_step_keys:
  assumes "standings_step admin d d'"
  shows "map st_id (standings d') = map st_id (standings d)"
    and "map st_userId (standings d') = map st_userId (standings d)"
  using assms unfolding standings_step_def
  by (auto intro!: list_all2_map_eq [of "standing_move admin"] simp: standing_move_def)

lemma standings_step_ok:
  assumes "standings_step admin d d'" and "standings_ok d"
  shows "standings_ok d'"
proof -
  have "st_id y < next_id d' \<and> standing_ok y" if y: "y \<in> set (standings d')" for y
  proof -
    from y obtain i where i: "i < length (standings d')" "y = standings d' ! i"
      by (auto simp: in_set_conv_nth)
    let ?x = "standings d ! i"
    from assms(1) i have "?x \<in> set (standings d)" "standing_move admin ?x y"
      by (auto simp: standings_step_def list_all2_conv_all_nth)
    with assms show ?thesis by (fastforce simp: standings_ok_def standings_step_def standing_move_def)
  qed
  with assms standings_step_keys [OF assms(1)] show ?thesis by (auto simp: standings_ok_def)
qed

lemma standing_of_Some: "standing_of u d = Some s \<Longrightarrow> s \<in> set (standings d) \<and> st_userId s = u"
  by (auto simp: standing_of_def dest: find_unique_Some)

lemma standing_of_in:
  "standings_ok d \<Longrightarrow> s \<in> set (standings d) \<Longrightarrow> standing_of (st_userId s) d = Some s"
  by (simp add: standing_of_def standings_ok_def find_unique_in)

lemma standings_step_row:
  assumes step: "standings_step admin d d'" and s: "standing_of u d = Some s"
  obtains s' where "standing_of u d' = Some s'" and "standing_move admin s s'"
proof -
  have "list_all2 (standing_move admin) xs ys \<Longrightarrow> find_unique st_userId u xs = Some s \<Longrightarrow>
      \<exists>s'. find_unique st_userId u ys = Some s' \<and> standing_move admin s s'" for xs ys
    by (induction rule: list_all2_induct)
       (auto simp: find_unique_def standing_move_def split: if_splits)
  with step s that show thesis by (auto simp: standings_step_def standing_of_def)
qed

section \<open>The operations\<close>

text \<open>An update of a row just read.\<close>

lemma update_standing_fresh:
  assumes "standings_ok d" and "s \<in> set (standings d)"
  shows "update_standing (st_id s) f d =
    Inr (d\<lparr>standings := update_rows (\<lambda>r. st_id r = st_id s) f (standings d)\<rparr>, f s)"
  using assms by (simp add: update_standing_def standings_ok_def find_unique_in)

lemma update_standing_step:
  assumes ok: "standings_ok d" and s: "s \<in> set (standings d)" and m: "standing_move admin s (f s)"
  shows "standings_step admin d (d\<lparr>standings := update_rows (\<lambda>r. st_id r = st_id s) f (standings d)\<rparr>)"
proof -
  have "standing_move admin r (if st_id r = st_id s then f r else r)" if "r \<in> set (standings d)" for r
    using ok key_inj [of st_id "standings d" r s] that s m by (auto simp: standings_ok_def)
  then show ?thesis
    by (simp add: standings_step_def update_rows_def list_all2_conv_all_nth)
qed

lemma recompute_frame [simp]:
  "standings (recomputeUserRating u d) = standings d"
  "next_id (recomputeUserRating u d) = next_id d"
  "auditEvents (recomputeUserRating u d) = auditEvents d"
  by (simp_all add: recomputeUserRating_def Let_def)

lemma notify_frame [simp]:
  "standings (notifyProvider now i d) = standings d"
  "next_id (notifyProvider now i d) = next_id d"
  "auditEvents (notifyProvider now i d) = auditEvents d"
  "userRatings (notifyProvider now i d) = userRatings d"
  by (simp_all add: notifyProvider_def split: option.splits)

text \<open>Each call on a row just read, as one row of the table replaced.\<close>

lemma settleTimers_fresh:
  assumes ok: "standings_ok d" and s: "s \<in> set (standings d)"
  obtains d' where "settleTimers now s d = Inr (d', settled now s)"
    and "standings_step admin d d'" and "settled now s \<in> set (standings d')"
    and "standings_ok d'" and "\<not> timer_due now s \<Longrightarrow> d' = d"
    and "\<And>t. t \<in> set (standings d) \<Longrightarrow> st_id t \<noteq> st_id s \<Longrightarrow> t \<in> set (standings d')"
proof -
  have others: "t \<in> set (update_rows (\<lambda>r. st_id r = st_id s) f (standings d))"
    if "t \<in> set (standings d)" "st_id t \<noteq> st_id s" for t f
    using that by (auto simp: update_rows_def)
  have up: "update_standing (st_id s) f d =
      Inr (d\<lparr>standings := update_rows (\<lambda>r. st_id r = st_id s) f (standings d)\<rparr>, f s)" for f
    by (rule update_standing_fresh [OF ok s])
  have member: "f s \<in> set (update_rows (\<lambda>r. st_id r = st_id s) f (standings d))" for f
    using s by (auto simp: update_rows_def)
  note step = update_standing_step [OF ok s]
  consider (idle) "\<not> timer_due now s"
    | (served) "timer_due now s" "st_status s = S_SUSPENDED"
    | (clean) "timer_due now s" "st_status s = S_PROBATION"
    by (auto simp: timer_due_def)
  then show thesis
  proof cases
    case idle
    then have "settleTimers now s d = Inr (d, s)" by (auto simp: settleTimers_def timer_due_def)
    with idle show thesis
      using s ok by (intro that [of d]) (simp_all add: settled_def standings_step_same)
  next
    case served
    let ?f = "\<lambda>r. r\<lparr>st_status := S_REJOIN_PENDING\<rparr>"
    from served have f: "?f s = settled now s" by (simp add: settled_def)
    let ?d = "d\<lparr>standings := update_rows (\<lambda>r. st_id r = st_id s) ?f (standings d)\<rparr>"
    have st: "standings_step adm d ?d" for adm
      by (rule step) (simp only: f settled_move)
    show thesis
    proof (rule that [of ?d])
      show "settleTimers now s d = Inr (?d, settled now s)"
        using served by (simp add: settleTimers_def timer_due_def up flip: f)
      show "settled now s \<in> set (standings ?d)" using member [of ?f] by (simp add: f)
    qed (use st served standings_step_ok [OF st ok] others in simp_all)
  next
    case clean
    let ?f = "\<lambda>r. r\<lparr>st_status := S_GOOD, st_probationUntil := None,
       st_ratingPenalty := round2 (st_ratingPenalty s / 2)\<rparr>"
    from clean have f: "?f s = settled now s" by (simp add: settled_def)
    let ?d0 = "d\<lparr>standings := update_rows (\<lambda>r. st_id r = st_id s) ?f (standings d)\<rparr>"
    let ?d = "recordAuditEvent now None (Provider_Act PROVIDER_PROBATION_COMPLETED) (st_id s) None
       (recomputeUserRating (st_userId s) ?d0)"
    have st: "standings_step adm d ?d" for adm
      by (rule standings_step_trans [OF step [of adm ?f]]) (simp_all add: f settled_move standings_step_same)
    show thesis
    proof (rule that [of ?d])
      show "settleTimers now s d = Inr (?d, settled now s)"
        using clean by (simp add: settleTimers_def timer_due_def up flip: f)
      show "settled now s \<in> set (standings ?d)" using member [of ?f] by (simp add: f)
    qed (use st clean standings_step_ok [OF st ok] others in simp_all)
  qed
qed

lemma getOrCreate_ok:
  assumes ok: "standings_ok d"
  obtains d0 s where "getOrCreateStanding u d = (d0, s)" and "standings_ok d0"
    and "s \<in> set (standings d0)" and "st_userId s = u"
    and "s = (case standing_of u d of None \<Rightarrow> new_standing (next_id d) u | Some s \<Rightarrow> s)"
    and "auditEvents d0 = auditEvents d"
    and "\<And>v t. standing_of v d = Some t \<Longrightarrow> standing_of v d0 = Some t"
proof (cases "standing_of u d")
  case None
  let ?s = "new_standing (next_id d) u"
  let ?d = "d\<lparr>standings := insert_row ?s (standings d), next_id := Suc (next_id d)\<rparr>"
  from ok have "next_id d \<notin> st_id ` set (standings d)" by (auto simp: standings_ok_def)
  moreover from None have "u \<notin> st_userId ` set (standings d)"
    by (auto simp: standing_of_def find_unique_None)
  ultimately have "standings_ok ?d"
    using ok by (auto simp: standings_ok_def new_standing_def standing_ok_def less_Suc_eq)
  then show thesis
    using None
    by (intro that [of ?d ?s])
       (auto simp: getOrCreateStanding_def standing_of_def find_unique_insert_row new_standing_def Let_def)
next
  case (Some s)
  with ok show thesis
    by (intro that [of d s]) (auto simp: getOrCreateStanding_def standing_of_def dest: find_unique_Some)
qed

lemma suspend_fresh:
  assumes ok: "standings_ok d" and s: "s \<in> set (standings d)"
  obtains d' where "suspend now s i adm' None d = Inr (d', suspended_row now None s s)"
    and "standings_step admin d d'" and "suspended_row now None s s \<in> set (standings d')"
proof -
  let ?f = "suspended_row now None s"
  let ?d1 = "d\<lparr>standings := update_rows (\<lambda>r. st_id r = st_id s) ?f (standings d)\<rparr>"
  let ?d = "notifyProvider now i (recordAuditEvent now adm' (Provider_Act PROVIDER_SUSPENDED) (st_id s) None
     (recomputeUserRating (st_userId s) ?d1))"
  have "standings_step admin d ?d1"
    using suspended_row_move by (rule update_standing_step [OF ok s])
  then have "standings_step admin d ?d"
    by (rule standings_step_trans) (simp add: standings_step_same)
  moreover have "?f s \<in> set (standings ?d)"
    using s by (auto simp: update_rows_def)
  moreover have "suspend now s i adm' None d = Inr (?d, ?f s)"
    by (simp add: suspend_def update_standing_fresh [OF ok s])
  ultimately show thesis by (intro that)
qed

definition penalised :: "standing \<Rightarrow> standing" where
  "penalised s = s\<lparr>st_ratingPenalty := st_ratingPenalty s + CANCEL_PENALTY\<rparr>"

lemma penalised_sel [simp]:
  "st_id (penalised s) = st_id s" "st_userId (penalised s) = st_userId s"
  "st_status (penalised s) = st_status s" "st_suspendedAt (penalised s) = st_suspendedAt s"
  "st_suspensionCount (penalised s) = st_suspensionCount s"
  "st_suspendedUntil (penalised s) = st_suspendedUntil s" "st_probationUntil (penalised s) = st_probationUntil s"
  "st_ratingPenalty (penalised s) = st_ratingPenalty s + 1 / 10"
  by (simp_all add: penalised_def CANCEL_PENALTY_def)

lemma penalised_move: "standing_move admin s (penalised s)"
  by (rule standing_move_step)
     (auto simp: standing_ok_def abstract_of_def phase_of_def split: option.splits standing_status.splits)

text \<open>The settling adds no release to the log, and keeps the time of the last suspension.\<close>

lemma settled_suspendedAt [simp]: "st_suspendedAt (settled now s) = st_suspendedAt s"
  by (simp add: settled_def)

lemma settleTimers_strikes:
  assumes "settleTimers now s d = Inr (d1, s1)"
    and "st_userId t = st_userId s'" and "st_suspendedAt t = st_suspendedAt s'"
  shows "strikesSinceLastSuspension now' t d1 = strikesSinceLastSuspension now' s' d"
  using assms
  by (auto simp: settleTimers_def update_standing_def bindr_eq_Inr strikesSinceLastSuspension_def
      strikes_since_def PROVIDER_RELEASE_ACTIONS_def count_where_def split: if_splits option.splits)

definition escalates :: "env \<Rightarrow> time \<Rightarrow> standing \<Rightarrow> db \<Rightarrow> bool" where
  "escalates e now s d = (st_status (settled now s) = S_PROBATION \<or>
     of_nat (strikesSinceLastSuspension now s d) \<ge> providerFlagThreshold e)"

definition cancelled_row_of :: "env \<Rightarrow> time \<Rightarrow> standing \<Rightarrow> db \<Rightarrow> standing" where
  "cancelled_row_of e now s d =
     (let t = penalised (settled now s) in if escalates e now s d then suspended_row now None t t else t)"

lemma applyE:
  assumes ok: "standings_ok d"
  obtains d0 s d' oc where
    "s = (case standing_of u d of None \<Rightarrow> new_standing (next_id d) u | Some s \<Rightarrow> s)"
    and "applyProviderCancellation e now u i d = Inr (d', oc)"
    and "\<And>v t. standing_of v d = Some t \<Longrightarrow> standing_of v d0 = Some t"
    and "standings_ok d0" and "standings_step admin d0 d'"
    and "standing_of u d' = Some (cancelled_row_of e now s d)"
    and "oc_strikes oc = strikesSinceLastSuspension now s d"
    and "oc_action oc = (if escalates e now s d then GOT_SUSPENDED
      else if of_nat (strikesSinceLastSuspension now s d) = providerFlagThreshold e - 1 then WARNED
      else RATING_HIT)"
proof -
  obtain d0 s where 0: "getOrCreateStanding u d = (d0, s)" "standings_ok d0" "s \<in> set (standings d0)"
    "st_userId s = u" and s: "s = (case standing_of u d of None \<Rightarrow> new_standing (next_id d) u | Some s \<Rightarrow> s)"
    and au: "auditEvents d0 = auditEvents d"
    and keep: "\<And>v t. standing_of v d = Some t \<Longrightarrow> standing_of v d0 = Some t"
    by (rule getOrCreate_ok [OF ok, of u]) (rule that)
  obtain d1 where 1: "settleTimers now s d0 = Inr (d1, settled now s)" "standings_step admin d0 d1"
    "settled now s \<in> set (standings d1)" "standings_ok d1"
    using settleTimers_fresh [OF 0(2,3), of now admin] by metis
  let ?s1 = "settled now s" and ?s2 = "penalised (settled now s)"
  let ?f = "\<lambda>r. r\<lparr>st_ratingPenalty := st_ratingPenalty ?s1 + CANCEL_PENALTY\<rparr>"
  let ?d2 = "d1\<lparr>standings := update_rows (\<lambda>r. st_id r = st_id s) ?f (standings d1)\<rparr>"
  have f: "?f ?s1 = ?s2" by (simp add: penalised_def)
  have up2: "update_standing (st_id s) ?f d1 = Inr (?d2, ?s2)"
    using update_standing_fresh [OF 1(4,3), of ?f] by (simp add: f)
  have 2: "standings_step admin d1 ?d2"
    using update_standing_step [OF 1(4,3), of admin ?f] by (simp only: f penalised_move settled_keys)
  have ok2: "standings_ok ?d2" by (rule standings_step_ok [OF 2 1(4)])
  have m2: "?s2 \<in> set (standings ?d2)"
    using 1(3) f by (auto simp: update_rows_def intro!: image_eqI [of _ _ ?s1])
  have k: "strikesSinceLastSuspension now ?s2 ?d2 = strikesSinceLastSuspension now s d"
    using settleTimers_strikes [OF 1(1), of ?s2 s now] au
    by (simp add: strikesSinceLastSuspension_def strikes_since_def)
  show thesis
  proof (cases "escalates e now s d")
    case True
    obtain d3 where 3: "suspend now ?s2 i None None ?d2 = Inr (d3, suspended_row now None ?s2 ?s2)"
      "standings_step admin ?d2 d3" "suspended_row now None ?s2 ?s2 \<in> set (standings d3)"
      by (rule suspend_fresh [OF ok2 m2])
    have st: "standings_step admin d0 d3" using 1(2) 2 3(2) standings_step_trans by blast
    then have "standing_of u d3 = Some (suspended_row now None ?s2 ?s2)"
      using standing_of_in [OF standings_step_ok [OF st 0(2)] 3(3)] 0(4)
      by (simp add: suspended_row_def Let_def)
    then have look: "standing_of u d3 = Some (cancelled_row_of e now s d)"
      using True by (simp add: cancelled_row_of_def Let_def)
    show thesis
      by (rule that [OF s _ keep 0(2) st look])
         (use True in \<open>simp_all add: applyProviderCancellation_def 0(1) 1(1) up2 3(1) k escalates_def Let_def, simp_all\<close>)
  next
    case False
    have st: "standings_step admin d0 ?d2" using 1(2) 2 standings_step_trans by blast
    have look: "standing_of u ?d2 = Some ?s2"
      using standing_of_in [OF ok2 m2] 0(4) by simp
    let ?d3 = "recomputeUserRating u ?d2"
    let ?w = "of_nat (strikesSinceLastSuspension now s d) = providerFlagThreshold e - 1"
    let ?d4 = "if ?w then notifyProvider now i ?d3 else ?d3"
    have st4: "standings_step admin d0 ?d4"
      by (rule standings_step_trans [OF st]) (simp add: standings_step_same)
    have look4: "standing_of u ?d4 = Some (cancelled_row_of e now s d)"
      using look False by (simp add: cancelled_row_of_def standing_of_def Let_def)
    let ?oc = "\<lparr>oc_status = st_status ?s2, oc_strikes = strikesSinceLastSuspension now s d,
       oc_threshold = providerFlagThreshold e, oc_action = (if ?w then WARNED else RATING_HIT), oc_until = None\<rparr>"
    have a: "applyProviderCancellation e now u i d = Inr (?d4, ?oc)"
      using False by (simp add: applyProviderCancellation_def 0(1) 1(1) up2 k escalates_def Let_def)
    show thesis
      by (rule that [OF s a keep 0(2) st4 look4]) (use False in simp_all)
  qed
qed

definition rejoined_row :: "time \<Rightarrow> standing \<Rightarrow> standing" where
  "rejoined_row now s = s\<lparr>st_status := S_PROBATION, st_probationUntil := Some (now + int PROBATION_DAYS * DAY)\<rparr>"

lemma rejoinE:
  assumes ok: "standings_ok d" and s: "standing_of u d = Some s"
  obtains (rejoined) d' where "rejoin now u d = (d', Inr (rejoined_row now (settled now s)))"
      and "st_status (settled now s) = S_REJOIN_PENDING" and "standings_step admin d d'"
      and "standing_of u d' = Some (rejoined_row now (settled now s))"
  | (refused) e where "rejoin now u d = (d, Inl e)" and "st_status (settled now s) \<noteq> S_REJOIN_PENDING"
proof -
  from s have su: "s \<in> set (standings d)" "st_userId s = u" by (auto dest: standing_of_Some)
  obtain d1 where 1: "settleTimers now s d = Inr (d1, settled now s)" "standings_step admin d d1"
    "settled now s \<in> set (standings d1)" "standings_ok d1"
    using settleTimers_fresh [OF ok su(1), of now admin] by metis
  let ?t = "settled now s"
  show thesis
  proof (cases "st_status ?t = S_REJOIN_PENDING")
    case True
    let ?f = "rejoined_row now"
    have m: "standing_move admin ?t (?f ?t)"
      using True phase_step.rejoined [of admin "st_suspensionCount s" now]
      by (intro standing_move_step)
         (auto simp: rejoined_row_def standing_ok_def abstract_of_def phase_of_def)
    let ?d2 = "d1\<lparr>standings := update_rows (\<lambda>r. st_id r = st_id ?t) ?f (standings d1)\<rparr>"
    let ?d3 = "recordAuditEvent now (Some u) (Provider_Act PROVIDER_REJOINED_ON_PROBATION) (st_id ?t) None ?d2"
    have st: "standings_step admin d1 ?d2" by (rule update_standing_step [OF 1(4,3), of admin ?f, OF m])
    have "?f ?t \<in> set (standings ?d2)" using 1(3) by (auto simp: update_rows_def)
    from standing_of_in [OF standings_step_ok [OF st 1(4)] this]
    have "standing_of u ?d3 = Some (?f ?t)" by (simp add: su rejoined_row_def standing_of_def)
    moreover have "standings_step admin d ?d3"
      by (rule standings_step_trans [OF standings_step_trans [OF 1(2) st]]) (simp add: standings_step_same)
    moreover have "rejoin now u d = (?d3, Inr (?f ?t))"
      using True s 1(1) update_standing_fresh [OF 1(4,3), of ?f]
      by (simp add: rejoin_def rejoin_tx_def standing_of_def transact_def rejoined_row_def [abs_def])
    ultimately show thesis using True by (intro rejoined)
  next
    case False
    with s 1(1) show thesis
      by (intro refused [of "Provider_Err 409 NOT_REJOIN_PENDING"])
         (simp_all add: rejoin_def rejoin_tx_def standing_of_def transact_def guardr_def)
  qed
qed

lemma rejoin_step: "standings_ok d \<Longrightarrow> standings_step admin d (fst (rejoin now u d))"
proof (cases "standing_of u d")
  case None
  then show ?thesis
    by (simp add: rejoin_def rejoin_tx_def standing_of_def transact_def standings_step_same)
next
  case (Some s)
  assume "standings_ok d"
  from this Some show ?thesis
    by (rule rejoinE [where now = now and admin = admin]) (simp_all add: standings_step_same)
qed

lemma appeal_step:
  assumes ok: "standings_ok d"
  shows "standings_step admin d (fst (appeal now u m d))"
proof -
  have "standings_step admin d d'"
    if s: "find_unique st_userId u (standings d) = Some s"
      and up: "update_standing (st_id s) (\<lambda>r. r\<lparr>st_appealMessage := x, st_appealedAt := Some now\<rparr>) d = Inr (d', s')"
    for s x d' s'
  proof -
    let ?f = "\<lambda>r. r\<lparr>st_appealMessage := x, st_appealedAt := Some now\<rparr>"
    from s have m: "s \<in> set (standings d)" by (auto dest: find_unique_Some)
    have "standing_move admin s (?f s)"
      by (rule standing_move_step)
         (auto simp: standing_ok_def abstract_of_def phase_of_def split: option.splits standing_status.splits)
    from update_standing_step [OF ok m, of admin ?f, OF this] up show ?thesis
      by (auto simp: update_standing_fresh [OF ok m])
  qed
  moreover have "standings_step admin d (recordAuditEvent now a c r j d') = standings_step admin d d'" for a c r j d'
    by (simp add: standings_step_def)
  ultimately show ?thesis
    by (auto simp: appeal_def transact_def bindr_eq_Inr Let_def standings_step_same
        split: sum.splits option.splits)
qed

lemma adminReinstate_step:
  assumes ok: "standings_ok d"
  shows "standings_step True d (fst (adminReinstate now u a to c d))"
proof -
  let ?f = "\<lambda>s r. r\<lparr>st_status := (if to = ''PROBATION'' then S_PROBATION else S_GOOD),
     st_suspendedUntil := None,
     st_probationUntil := (if to = ''PROBATION'' then Some (now + int PROBATION_DAYS * DAY) else None),
     st_ratingPenalty := (if c then 0 else st_ratingPenalty s), st_appealMessage := None, st_appealedAt := None\<rparr>"
  have "standings_step True d d'"
    if s: "find_unique st_userId u (standings d) = Some s" and st: "st_status s \<in> {S_SUSPENDED, S_REJOIN_PENDING}"
      and up: "update_standing (st_id s) (?f s) d = Inr (d', s')" for s d' s'
  proof -
    from s have m: "s \<in> set (standings d)" by (auto dest: find_unique_Some)
    have "standing_move True s (?f s s)"
      using st reinstated_on_probation [of True "phase_of s" "st_suspensionCount s" now]
        reinstated [of True "phase_of s" "st_suspensionCount s"]
      by (intro standing_move_step) (auto simp: standing_ok_def abstract_of_def phase_of_def)
    from update_standing_step [OF ok m, of True "?f s", OF this] up show ?thesis
      by (auto simp: update_standing_fresh [OF ok m])
  qed
  then have row: "standings_step True d d'"
    if "find_unique st_userId u (standings d) = Some s" "st_status s \<in> {S_SUSPENDED, S_REJOIN_PENDING}"
      "update_standing (st_id s) (?f s) d = Inr (d', s')" for s d' s'
    using that by blast
  have log: "standings_step True d (recordAuditEvent now a' c' r j (recomputeUserRating u d')) =
      standings_step True d d'" for a' c' r j d'
    by (simp add: standings_step_def)
  show ?thesis
  proof (cases "to \<in> {''PROBATION'', ''GOOD''}")
    case False
    then show ?thesis by (simp add: adminReinstate_def standings_step_same)
  next
    case True
    show ?thesis
    proof (cases "find_unique st_userId u (standings d)")
      case None
      with True show ?thesis by (simp add: adminReinstate_def transact_def standings_step_same)
    next
      case (Some s)
      then have m: "s \<in> set (standings d)" by (auto dest: find_unique_Some)
      note up = update_standing_fresh [OF ok m, of "?f s"]
      show ?thesis
      proof (cases "st_status s \<in> {S_SUSPENDED, S_REJOIN_PENDING}")
        case False
        with True Some show ?thesis by (simp add: adminReinstate_def transact_def guardr_def standings_step_same)
      next
        case st: True
        from row [OF Some st up] True Some st up show ?thesis
          by (simp add: adminReinstate_def transact_def log)
      qed
    qed
  qed
qed

text \<open>The reads that settle the timers in a transaction of their own.\<close>

lemma settle_transact:
  assumes "standings_ok d" and "s \<in> set (standings d)"
  obtains d' where "transact (settleTimers now s) d = (d', Inr (settled now s))"
    and "standings_step admin d d'" and "settled now s \<in> set (standings d')" and "standings_ok d'"
    and "\<And>t. t \<in> set (standings d) \<Longrightarrow> st_id t \<noteq> st_id s \<Longrightarrow> t \<in> set (standings d')"
proof -
  obtain d' where "settleTimers now s d = Inr (d', settled now s)" "standings_step admin d d'"
    "settled now s \<in> set (standings d')" "standings_ok d'"
    "\<And>t. t \<in> set (standings d) \<Longrightarrow> st_id t \<noteq> st_id s \<Longrightarrow> t \<in> set (standings d')"
    by (rule settleTimers_fresh [OF assms, of now admin]) (rule that)
  then show thesis by (intro that [of d']) (simp_all add: transact_def)
qed

definition bid_verdict :: "standing \<Rightarrow> unit res" where
  "bid_verdict s = (case st_status s of
     S_SUSPENDED \<Rightarrow> Inl (Provider_Err 403 PROVIDER_IS_SUSPENDED)
   | S_REJOIN_PENDING \<Rightarrow> Inl (Provider_Err 403 PROVIDER_REJOIN_REQUIRED)
   | _ \<Rightarrow> Inr ())"

lemma assertProviderCanBidE:
  assumes ok: "standings_ok d" and s: "standing_of u d = Some s"
  obtains d' where "assertProviderCanBid now u d = (d', bid_verdict (settled now s))"
    and "standings_step admin d d'" and "standing_of u d' = Some (settled now s)" and "standings_ok d'"
proof -
  from s have su: "s \<in> set (standings d)" "st_userId s = u" by (auto dest: standing_of_Some)
  obtain d1 where 1: "transact (settleTimers now s) d = (d1, Inr (settled now s))"
    "standings_step admin d d1" "settled now s \<in> set (standings d1)" "standings_ok d1"
    by (rule settle_transact [OF ok su(1), of now admin]) (rule that)
  show thesis
  proof (rule that [of d1])
    show "assertProviderCanBid now u d = (d1, bid_verdict (settled now s))"
      using s 1(1) by (auto simp: assertProviderCanBid_def standing_of_def bid_verdict_def split: standing_status.splits)
    show "standing_of u d1 = Some (settled now s)" using standing_of_in [OF 1(4,3)] su by simp
  qed (use 1 in simp_all)
qed

lemma assertProviderCanBid_step: "standings_ok d \<Longrightarrow> standings_step admin d (fst (assertProviderCanBid now u d))"
proof (cases "standing_of u d")
  case None
  then show ?thesis by (simp add: assertProviderCanBid_def standing_of_def standings_step_same)
next
  case (Some s)
  assume "standings_ok d"
  from this Some show ?thesis
    by (rule assertProviderCanBidE [where now = now and admin = admin]) simp
qed

lemma getStandingSummary_step: "standings_ok d \<Longrightarrow> standings_step admin d (fst (getStandingSummary e now u d))"
proof (cases "find_unique st_userId u (standings d)")
  case None
  then show ?thesis by (simp add: getStandingSummary_def standings_step_same)
next
  case (Some s)
  then have s: "s \<in> set (standings d)" by (auto dest: find_unique_Some)
  assume "standings_ok d"
  from this s show ?thesis
    by (rule settle_transact [where now = now and admin = admin]) (simp add: getStandingSummary_def Some)
qed

lemma sweep_rowsE:
  assumes "standings_ok d" and "set ss \<subseteq> set (standings d)" and "distinct (map st_id ss)"
  obtains d' where "sweep_rows now ss d = (d', Inr (length ss))" and "standings_step admin d d'"
    and "standings_ok d'" and "\<And>t. t \<in> set ss \<Longrightarrow> settled now t \<in> set (standings d')"
    and "\<And>t. t \<in> set (standings d) \<Longrightarrow> st_id t \<notin> st_id ` set ss \<Longrightarrow> t \<in> set (standings d')"
  using assms
proof (induction ss arbitrary: d thesis)
  case Nil
  then show ?case by (simp add: standings_step_same)
next
  case (Cons s ss)
  have "s \<in> set (standings d)" using Cons.prems(3) by simp
  then obtain d1 where 1: "transact (settleTimers now s) d = (d1, Inr (settled now s))"
    "standings_step admin d d1" "settled now s \<in> set (standings d1)" "standings_ok d1"
    and o: "\<And>t. t \<in> set (standings d) \<Longrightarrow> st_id t \<noteq> st_id s \<Longrightarrow> t \<in> set (standings d1)"
    by (rule settle_transact [OF Cons.prems(2), of s now admin]) (rule that)
  have "t \<in> set (standings d1)" if "t \<in> set ss" for t
  proof (rule o)
    from that have "st_id t \<in> st_id ` set ss" by simp
    with Cons.prems(4) show "st_id t \<noteq> st_id s" by auto
  qed (use that Cons.prems(3) in auto)
  then have sub: "set ss \<subseteq> set (standings d1)" by blast
  have dist: "distinct (map st_id ss)" using Cons.prems(4) by simp
  show ?case
  proof (rule Cons.IH [OF _ 1(4) sub dist])
    fix d2
    assume 2: "sweep_rows now ss d1 = (d2, Inr (length ss))" "standings_step admin d1 d2" "standings_ok d2"
      and done': "\<And>t. t \<in> set ss \<Longrightarrow> settled now t \<in> set (standings d2)"
      and keep: "\<And>t. t \<in> set (standings d1) \<Longrightarrow> st_id t \<notin> st_id ` set ss \<Longrightarrow> t \<in> set (standings d2)"
    show ?case
    proof (rule Cons.prems(1))
      show "sweep_rows now (s # ss) d = (d2, Inr (length (s # ss)))" by (simp add: 1(1) 2(1))
      show "standings_step admin d d2" by (rule standings_step_trans [OF 1(2) 2(2)])
      show "standings_ok d2" by fact
      have "settled now s \<in> set (standings d2)" using keep [OF 1(3)] Cons.prems(4) by simp
      with done' show "settled now t \<in> set (standings d2)" if "t \<in> set (s # ss)" for t
        using that by auto
      show "t \<in> set (standings d2)" if "t \<in> set (standings d)" "st_id t \<notin> st_id ` set (s # ss)" for t
        using that o [of t] keep [of t] by auto
    qed
  qed
qed

lemma sweep_rows_due:
  assumes "standings_ok d"
  shows "set (take n (filter P (standings d))) \<subseteq> set (standings d)"
    and "distinct (map st_id (take n (filter P (standings d))))"
proof -
  show "set (take n (filter P (standings d))) \<subseteq> set (standings d)" by (auto dest: in_set_takeD)
  have "distinct (map st_id (filter P (standings d)))"
    using assms by (simp add: standings_ok_def distinct_map_filter)
  then show "distinct (map st_id (take n (filter P (standings d))))" by (metis distinct_take take_map)
qed

lemma sweepE:
  assumes ok: "standings_ok d"
  obtains d' where "sweepProviderStandings now d = (d', Inr (length (take 200 (filter (timer_due now) (standings d)))))"
    and "standings_step admin d d'" and "standings_ok d'"
    and "\<And>t. t \<in> set (take 200 (filter (timer_due now) (standings d))) \<Longrightarrow> settled now t \<in> set (standings d')"
    and "\<And>t. t \<in> set (standings d) \<Longrightarrow>
      st_id t \<notin> st_id ` set (take 200 (filter (timer_due now) (standings d))) \<Longrightarrow> t \<in> set (standings d')"
proof -
  let ?due = "take 200 (filter (timer_due now) (standings d))"
  obtain d' where "sweep_rows now ?due d = (d', Inr (length ?due))" "standings_step admin d d'" "standings_ok d'"
    "\<And>t. t \<in> set ?due \<Longrightarrow> settled now t \<in> set (standings d')"
    "\<And>t. t \<in> set (standings d) \<Longrightarrow> st_id t \<notin> st_id ` set ?due \<Longrightarrow> t \<in> set (standings d')"
    by (rule sweep_rowsE [OF ok sweep_rows_due [OF ok, of 200 "timer_due now"],
        where now = now and admin = admin]) (rule that)
  then show thesis by (intro that [of d']) (simp_all only: sweepProviderStandings_def)
qed

end
