(* ===== verification/Penalties.thy ===== *)
theory Penalties
  imports Standing_Safety
begin

text \<open>
  The properties of the provider standings, over the calls of the service in any order, and
  the race between the sweep and a new suspension.
\<close>

section \<open>The service as a step relation\<close>

text \<open>
  \<open>admin\<close> says whether an administrator may take part; \<open>elsewhere\<close> is any other service's
  call, which may log a release but does not write a standing.
\<close>

inductive standing_call :: "env \<Rightarrow> bool \<Rightarrow> db \<Rightarrow> db \<Rightarrow> bool" for e admin where
  cancels: "applyProviderCancellation e now u i d = Inr (d', oc) \<Longrightarrow> standing_call e admin d d'"
| bids: "standing_call e admin d (fst (assertProviderCanBid now u d))"
| views: "standing_call e admin d (fst (getStandingSummary e now u d))"
| rejoins: "standing_call e admin d (fst (rejoin now u d))"
| appeals: "standing_call e admin d (fst (appeal now u m d))"
| sweeps: "standing_call e admin d (fst (sweepProviderStandings now d))"
| reinstates: "admin \<Longrightarrow> standing_call e admin d (fst (adminReinstate now u a to c d))"
| elsewhere: "standings d' = standings d \<Longrightarrow> next_id d \<le> next_id d' \<Longrightarrow> standing_call e admin d d'"

lemma standing_call_row:
  assumes "standing_call e admin d d'" and ok: "standings_ok d"
  shows "standings_ok d' \<and> (\<forall>u s. standing_of u d = Some s \<longrightarrow>
    (\<exists>s'. standing_of u d' = Some s' \<and> standing_move admin s s'))"
proof -
  have by_step: ?thesis if "standings_step admin d0 d'" "standings_ok d0"
    "\<And>v t. standing_of v d = Some t \<Longrightarrow> standing_of v d0 = Some t" for d0
    using that by (meson standings_step_ok standings_step_row)
  from assms(1) show ?thesis
  proof cases
    case (cancels now u i oc)
    obtain d0 s d'' oc' where "applyProviderCancellation e now u i d = Inr (d'', oc')"
      "\<And>v t. standing_of v d = Some t \<Longrightarrow> standing_of v d0 = Some t" "standings_ok d0"
      "standings_step admin d0 d''"
      by (rule applyE [OF ok, of u e now i admin]) (rule that)
    with cancels show ?thesis by (intro by_step [of d0]) auto
  next
    case (sweeps now)
    obtain d'' r where "sweepProviderStandings now d = (d'', r)" "standings_step admin d d''"
      by (rule sweepE [OF ok, of now admin]) (rule that)
    with sweeps ok show ?thesis by (intro by_step [of d]) auto
  next
    case (bids now u)
    then show ?thesis by (intro by_step [of d]) (simp_all add: ok assertProviderCanBid_step)
  next
    case (views now u)
    then show ?thesis by (intro by_step [of d]) (simp_all add: ok getStandingSummary_step)
  next
    case (rejoins now u)
    then show ?thesis by (intro by_step [of d]) (simp_all add: ok rejoin_step)
  next
    case (appeals now u m)
    then show ?thesis by (intro by_step [of d]) (simp_all add: ok appeal_step)
  next
    case (reinstates now u a to c)
    then show ?thesis by (intro by_step [of d]) (simp_all add: ok adminReinstate_step)
  next
    case elsewhere
    then show ?thesis by (intro by_step [of d]) (simp_all add: ok standings_step_same)
  qed
qed

interpretation standing_system: invariant_system "standing_call e admin" standings_ok for e admin
  by unfold_locales (simp add: standing_call_row)

lemma reachable_row:
  assumes "reachable (standing_call e admin) d d'" and "standings_ok d" and "standing_of u d = Some s"
  shows "\<exists>s'. standing_of u d' = Some s' \<and> standing_move admin s s'"
  using assms
proof (induction rule: reachable.induct)
  case (reachable_refl s)
  then show ?case by auto
next
  case (reachable_step d d1 d2)
  from reachable_step.IH reachable_step.prems obtain s1
    where s1: "standing_of u d1 = Some s1" "standing_move admin s s1" by blast
  from standing_system.reachable_inv [OF reachable_step.hyps(1) reachable_step.prems(1)]
  have "standings_ok d1" .
  with standing_call_row [OF reachable_step.hyps(2)] s1 show ?case
    by (metis standing_move_trans)
qed

section \<open>Concrete providers\<close>

definition demo_provider :: standing where
  "demo_provider = (new_standing 1 30)\<lparr>st_status := S_SUSPENDED, st_suspensionCount := 1,
     st_suspendedAt := Some 0, st_suspendedUntil := Some (3 * DAY), st_ratingPenalty := 4 / 5\<rparr>"

definition demo_banned :: standing where
  "demo_banned = (new_standing 2 40)\<lparr>st_status := S_SUSPENDED, st_suspensionCount := 4,
     st_suspendedAt := Some 0, st_ratingPenalty := 12 / 5\<rparr>"

definition demo_providers :: db where
  "demo_providers = empty_db\<lparr>standings := [demo_provider, demo_banned], next_id := 3,
     userRatings := [(30, 4), (40, 5)],
     ratings := [\<lparr>rt_toUserId = 30, rt_score = 5\<rparr>, \<lparr>rt_toUserId = 30, rt_score = 4\<rparr>]\<rparr>"

lemma demo_providers_ok: "standings_ok demo_providers"
  "standing_of 30 demo_providers = Some demo_provider" "standing_of 40 demo_providers = Some demo_banned"
  by code_simp+

section \<open>Properties\<close>







text \<open>C30. There is a way back: a provider suspended until \<open>t\<close> can rejoin from \<open>t\<close> on and not before;
  having rejoined, the provider may bid at once, and after thirty days without a cancellation is
  in good standing again, with half the rating penalty restored.\<close>

theorem way_back:
  assumes "standings_ok d" and "standing_of u d = Some s"
    and "st_status s = S_SUSPENDED" and "st_suspendedUntil s = Some t"
  shows "(t1 < t \<longrightarrow> isl (snd (rejoin t1 u d))) \<and>
    (t \<le> t1 \<and> t1 + int PROBATION_DAYS * DAY \<le> t2 \<longrightarrow>
      (let (d1, r1) = rejoin t1 u d; (d2, r2) = assertProviderCanBid t1 u d1;
           (d3, r3) = assertProviderCanBid t2 u d2
       in \<not> isl r1 \<and> r2 = Inr () \<and> r3 = Inr () \<and>
          (\<exists>s3. standing_of u d3 = Some s3 \<and> st_status s3 = S_GOOD \<and>
             st_ratingPenalty s3 = round2 (st_ratingPenalty s / 2))))"
proof (intro conjI impI)
  assume "t1 < t"
  with assms(3,4) have "settled t1 s = s" by (simp add: settled_def timer_due_def)
  with assms(3) show "isl (snd (rejoin t1 u d))"
    by (auto intro: rejoinE [OF assms(1,2), of t1 True])
next
  assume t: "t \<le> t1 \<and> t1 + int PROBATION_DAYS * DAY \<le> t2"
  let ?p = "rejoined_row t1 (settled t1 s)"
  from t assms(3,4) have s1: "settled t1 s = s\<lparr>st_status := S_REJOIN_PENDING\<rparr>"
    by (simp add: settled_def timer_due_def)
  obtain d1 where 1: "rejoin t1 u d = (d1, Inr ?p)" "standings_step True d d1" "standing_of u d1 = Some ?p"
    by (rule rejoinE [OF assms(1,2), of t1 True]) (auto simp: s1 intro: that)
  have pr: "?p = s\<lparr>st_status := S_PROBATION, st_probationUntil := Some (t1 + int PROBATION_DAYS * DAY)\<rparr>"
    by (simp add: s1 rejoined_row_def)
  have p: "settled t1 ?p = ?p"
    unfolding pr by (simp add: settled_def timer_due_def PROBATION_DAYS_def DAY_def)
  obtain d2 where 2: "assertProviderCanBid t1 u d1 = (d2, bid_verdict ?p)" "standing_of u d2 = Some ?p" "standings_ok d2"
    by (rule assertProviderCanBidE [OF standings_step_ok [OF 1(2) assms(1)] 1(3), of t1 True]) (simp add: p that)
  obtain d3 where 3: "assertProviderCanBid t2 u d2 = (d3, bid_verdict (settled t2 ?p))"
    "standing_of u d3 = Some (settled t2 ?p)"
    by (rule assertProviderCanBidE [OF 2(3,2), of t2 True]) (rule that)
  have "settled t2 ?p = ?p\<lparr>st_status := S_GOOD, st_probationUntil := None,
      st_ratingPenalty := round2 (st_ratingPenalty s / 2)\<rparr>"
    unfolding pr using t by (simp add: settled_def timer_due_def)
  with 1 2 3 show "let (d1, r1) = rejoin t1 u d; (d2, r2) = assertProviderCanBid t1 u d1;
           (d3, r3) = assertProviderCanBid t2 u d2
       in \<not> isl r1 \<and> r2 = Inr () \<and> r3 = Inr () \<and>
          (\<exists>s3. standing_of u d3 = Some s3 \<and> st_status s3 = S_GOOD \<and>
             st_ratingPenalty s3 = round2 (st_ratingPenalty s / 2))"
    by (simp add: bid_verdict_def) (simp add: rejoined_row_def)
qed

theorem way_back_witness:
  "isl (snd (rejoin (2 * DAY) 30 demo_providers)) \<and> \<not> isl (snd (rejoin (4 * DAY) 30 demo_providers))"
proof -
  have "st_status demo_provider = S_SUSPENDED" "st_suspendedUntil demo_provider = Some (3 * DAY)"
    "2 * DAY < 3 * DAY" "3 * DAY \<le> 4 * DAY" "4 * DAY + int PROBATION_DAYS * DAY \<le> 40 * DAY" by code_simp+
  with way_back [OF demo_providers_ok(1,2), of "3 * DAY" "2 * DAY"]
    way_back [OF demo_providers_ok(1,2), of "3 * DAY" "4 * DAY" "40 * DAY"]
  show ?thesis by (auto simp: Let_def split: prod.splits)
qed

text \<open>C31. The sweep settles rows as it listed them. A provider who was suspended again after the sweep
  listed the end of the earlier suspension is moved to \<open>REJOIN_PENDING\<close> by the stale row, and can
  rejoin at once, however long the new suspension runs.\<close>

theorem stale_sweep_lifts_suspension:
  assumes "standings_ok d" and "standing_of u d = Some new"
    and "st_status new = S_SUSPENDED" and "\<not> timer_due now new"
    and "st_id old = st_id new" and "st_status old = S_SUSPENDED" and "timer_due now old"
  shows "isl (snd (rejoin now u d)) \<and> \<not> isl (snd (rejoin now u (fst (transact (settleTimers now old) d))))"
proof
  show "isl (snd (rejoin now u d))"
    by (rule rejoinE [OF assms(1,2), of now True]) (use assms(3,4) in \<open>simp_all add: settled_def\<close>)
  from assms(2) have new: "new \<in> set (standings d)" "st_userId new = u" by (auto dest: standing_of_Some)
  let ?f = "\<lambda>r. r\<lparr>st_status := S_REJOIN_PENDING\<rparr>"
  let ?d = "d\<lparr>standings := update_rows (\<lambda>r. st_id r = st_id new) ?f (standings d)\<rparr>"
  have d: "fst (transact (settleTimers now old) d) = ?d"
    using assms(5-7) update_standing_fresh [OF assms(1) new(1), of ?f]
    by (simp add: settleTimers_def timer_due_def transact_def)
  have others: "standing_ok r \<Longrightarrow> r \<in> set (standings d) \<Longrightarrow> standing_ok (if st_id r = st_id new then ?f r else r)" for r
    using key_inj [of st_id "standings d" r new] assms(1,3) new(1) by (auto simp: standings_ok_def standing_ok_def)
  have ok: "standings_ok ?d"
    using assms(1) others by (auto simp: standings_ok_def update_rows_def comp_def if_distrib cong: if_cong)
  have "?f new \<in> set (standings ?d)" using new(1) by (auto simp: update_rows_def)
  from standing_of_in [OF ok this] have l: "standing_of u ?d = Some (?f new)" by (simp add: new(2))
  have "\<not> isl (snd (rejoin now u ?d))"
    by (rule rejoinE [OF ok l, of now True]) (simp_all add: settled_def timer_due_def)
  then show "\<not> isl (snd (rejoin now u (fst (transact (settleTimers now old) d))))" unfolding d .
qed

theorem stale_sweep_lifts_suspension_witness:
  "\<not> isl (snd (rejoin (5 * DAY) 40 (fst (transact (settleTimers (5 * DAY)
     (demo_banned\<lparr>st_suspensionCount := 3, st_suspendedUntil := Some (4 * DAY)\<rparr>)) demo_providers))))"
proof -
  let ?old = "demo_banned\<lparr>st_suspensionCount := 3, st_suspendedUntil := Some (4 * DAY)\<rparr>"
  have "st_status demo_banned = S_SUSPENDED" "\<not> timer_due (5 * DAY) demo_banned" "st_id ?old = st_id demo_banned"
    "st_status ?old = S_SUSPENDED" "timer_due (5 * DAY) ?old" by code_simp+
  from stale_sweep_lifts_suspension [OF demo_providers_ok(1,3) this] show ?thesis ..
qed

end
