(* ===== verification/Obligations.thy ===== *)
theory Obligations
  imports Lifecycle
begin

text \<open>
  \<open>backend/src/services/paymentObligationService.js\<close>: what the parties of an order owe,
  derived from the state of the order and kept in one row per key. The keys, texts like
  \<open>ORDER:<order>:INSPECTOR:<request>:BUYER\<close> in the code, are constructors here. Rows included
  by a query come in the order of the table.
\<close>

section \<open>What is owed\<close>

record desired =
  de_key :: obligation_key
  de_type :: payment_type
  de_payerId :: uid
  de_beneficiaryId :: "uid option"
  de_amount :: number
  de_inspectionRequestId :: "uid option"
  de_transportJobId :: "uid option"

text \<open>The goods are payable once the loading report, or the own truck's pickup, is confirmed.\<close>

definition goodsPaymentUnlocked :: "transport_job option \<Rightarrow> bool" where
  "goodsPaymentUnlocked job = (case job of
     None \<Rightarrow> False
   | Some j \<Rightarrow> if t_method j = HIRE_TRANSPORTER then t_buyerLoadingConfirmedAt j \<noteq> None
                else t_sellerPickupConfirmedAt j \<noteq> None)"

definition transportStillAgreed :: "transport_job option \<Rightarrow> bool" where
  "transportStillAgreed job = (case job of
     None \<Rightarrow> False
   | Some j \<Rightarrow> t_method j = HIRE_TRANSPORTER \<and>
       (case t_agreedAmount j of None \<Rightarrow> False | Some a \<Rightarrow> 0 < a) \<and> t_truckOwnerId j \<noteq> None)"

text \<open>Who pays an inspection, and the shares of buyer and seller, locked terms first.\<close>

definition payerMode :: "inspection \<Rightarrow> fee_payer" where
  "payerMode r = (case i_lockedFeePayer r of
     Some m \<Rightarrow> if i_feeTermsLockedAt r \<noteq> None then m else i_feePayer r
   | None \<Rightarrow> i_feePayer r)"

definition locked_or :: "inspection \<Rightarrow> number option \<Rightarrow> number \<Rightarrow> number" where
  "locked_or r v other = (case v of
     Some x \<Rightarrow> if i_feeTermsLockedAt r \<noteq> None then x else other
   | None \<Rightarrow> other)"

definition fee_shares :: "inspection \<Rightarrow> number \<Rightarrow> number \<times> number" where
  "fee_shares r fee =
     (let totalFee = locked_or r (i_lockedFee r) fee;
          buyerShare = locked_or r (i_lockedBuyerFee r)
            (case payerMode r of Fee_SELLER \<Rightarrow> 0 | Fee_SPLIT \<Rightarrow> of_int (js_round (totalFee * 50)) / 100
             | Fee_BUYER \<Rightarrow> totalFee);
          sellerShare = locked_or r (i_lockedSellerFee r)
            (case payerMode r of Fee_BUYER \<Rightarrow> 0 | Fee_SPLIT \<Rightarrow> round2 (totalFee - buyerShare)
             | Fee_SELLER \<Rightarrow> totalFee)
      in (buyerShare, sellerShare))"

definition add_inspection :: "uid \<Rightarrow> inspection \<Rightarrow> fee_party \<Rightarrow> uid \<Rightarrow> number \<Rightarrow> desired" where
  "add_inspection oid r party payer amount =
     \<lparr>de_key = (if payerMode r = Fee_SPLIT then K_INSPECTOR_SHARE oid (i_id r) party
                else K_INSPECTOR oid (Some (i_id r))),
      de_type = INSPECTOR, de_payerId = payer, de_beneficiaryId = i_inspectorId r, de_amount = amount,
      de_inspectionRequestId = Some (i_id r), de_transportJobId = None\<rparr>"

definition desired_inspection :: "order \<Rightarrow> inspection \<Rightarrow> desired list" where
  "desired_inspection ord r =
     (case i_fee r of
        None \<Rightarrow> []
      | Some fee \<Rightarrow>
          if i_sellerConfirmedAt r = None \<or> fee \<le> 0 \<or> i_inspectorId r = None then []
          else let (buyerShare, sellerShare) = fee_shares r fee
               in (if buyerShare > 0
                   then [add_inspection (o_id ord) r Share_BUYER (o_buyerId ord) buyerShare] else []) @
                  (if sellerShare > 0
                   then [add_inspection (o_id ord) r Share_SELLER (o_sellerId ord) sellerShare] else []))"

definition desired_goods :: "order \<Rightarrow> transport_job option \<Rightarrow> desired list" where
  "desired_goods ord job =
     (if goodsPaymentUnlocked job
      then [\<lparr>de_key = K_ORDER (o_id ord) MARKETPLACE, de_type = MARKETPLACE, de_payerId = o_buyerId ord,
             de_beneficiaryId = Some (o_sellerId ord), de_amount = o_finalPrice ord,
             de_inspectionRequestId = None, de_transportJobId = None\<rparr>]
      else [])"

definition desired_transport :: "order \<Rightarrow> transport_job option \<Rightarrow> desired list" where
  "desired_transport ord job =
     (case job of
        None \<Rightarrow> []
      | Some j \<Rightarrow>
          if transportStillAgreed job
          then [\<lparr>de_key = K_ORDER (o_id ord) TRANSPORT, de_type = TRANSPORT, de_payerId = o_buyerId ord,
                 de_beneficiaryId = t_truckOwnerId j,
                 de_amount = (case t_agreedAmount j of None \<Rightarrow> 0 | Some a \<Rightarrow> a),
                 de_inspectionRequestId = None, de_transportJobId = Some (t_id j)\<rparr>]
          else [])"

definition desired_obligations :: "order \<Rightarrow> inspection list \<Rightarrow> transport_job option \<Rightarrow> desired list" where
  "desired_obligations ord requests job =
     desired_goods ord job @ concat (map (desired_inspection ord) requests) @ desired_transport ord job"

section \<open>Keeping the rows\<close>

text \<open>\<open>pays\<close> are the payments as the order was read.\<close>

definition matching_payment :: "uid \<Rightarrow> payment list \<Rightarrow> desired \<Rightarrow> payment option" where
  "matching_payment oid pays item =
     (if de_type item = INSPECTOR
      then find_first (\<lambda>p. p_inspectionRequestId p = de_inspectionRequestId item \<and> p_type p = INSPECTOR \<and>
             p_createdById p = Some (de_payerId item) \<and> p_status p \<in> {P_PENDING, P_PAID}) pays
      else find_first (\<lambda>p. p_orderId p = Some oid \<and> p_type p = de_type item \<and>
             p_status p \<in> {P_PENDING, P_PAID} \<and>
             (de_type item \<noteq> TRANSPORT \<or> p_transportJobId p = de_transportJobId item)) pays)"

definition linked_payment :: "uid \<Rightarrow> db \<Rightarrow> payment option" where
  "linked_payment i d = find_first (\<lambda>p. p_obligationId p = Some i) (payments d)"

definition is_paid :: "payment option \<Rightarrow> bool" where
  "is_paid p = (case p of None \<Rightarrow> False | Some q \<Rightarrow> p_status q = P_PAID)"

definition set_desired :: "desired \<Rightarrow> obligation_status \<Rightarrow> obligation \<Rightarrow> obligation" where
  "set_desired item s b =
     b\<lparr>ob_type := de_type item, ob_payerId := de_payerId item, ob_beneficiaryId := de_beneficiaryId item,
       ob_amount := de_amount item, ob_inspectionRequestId := de_inspectionRequestId item,
       ob_transportJobId := de_transportJobId item, ob_status := s\<rparr>"

definition new_obligation :: "uid \<Rightarrow> uid \<Rightarrow> desired \<Rightarrow> obligation_status \<Rightarrow> obligation" where
  "new_obligation i oid item s =
     \<lparr>ob_id = i, ob_orderId = oid, ob_type = de_type item,
      ob_inspectionRequestId = de_inspectionRequestId item, ob_transportJobId = de_transportJobId item,
      ob_payerId = de_payerId item, ob_beneficiaryId = de_beneficiaryId item, ob_amount = de_amount item,
      ob_status = s, ob_key = de_key item\<rparr>"

definition sync_one :: "uid \<Rightarrow> payment list \<Rightarrow> desired \<Rightarrow> db \<Rightarrow> db \<times> obligation" where
  "sync_one oid pays item d =
     (let existing = find_unique ob_key (de_key item) (obligations d);
          matching = matching_payment oid pays item;
          linked = (case existing of None \<Rightarrow> None | Some b \<Rightarrow> linked_payment (ob_id b) d);
          status = (if is_paid matching \<or> is_paid linked then Ob_PAID else Ob_OPEN);
          (d1, ob) = (case existing of
              Some b \<Rightarrow> (d\<lparr>obligations := update_rows (\<lambda>c. ob_id c = ob_id b) (set_desired item status)
                           (obligations d)\<rparr>, set_desired item status b)
            | None \<Rightarrow> let b = new_obligation (next_id d) oid item status
                in (d\<lparr>obligations := insert_row b (obligations d), next_id := Suc (next_id d)\<rparr>, b));
          d2 = (case matching of
              Some p \<Rightarrow> if linked = None
                then d1\<lparr>payments := update_rows (\<lambda>q. p_id q = p_id p)
                       (\<lambda>q. q\<lparr>p_obligationId := Some (ob_id ob)\<rparr>) (payments d1)\<rparr>
                else d1
            | None \<Rightarrow> d1)
      in (d2, ob))"

fun sync_all :: "uid \<Rightarrow> payment list \<Rightarrow> desired list \<Rightarrow> db \<Rightarrow> db \<times> obligation list" where
  "sync_all oid pays [] d = (d, [])"
| "sync_all oid pays (item # items) d =
     (let (d1, ob) = sync_one oid pays item d;
          (d2, obs) = sync_all oid pays items d1
      in (d2, ob # obs))"

definition retire :: "(obligation \<Rightarrow> bool) \<Rightarrow> db \<Rightarrow> db" where
  "retire P d = d\<lparr>obligations := update_rows (\<lambda>b. P b \<and> ob_status b = Ob_OPEN)
     (\<lambda>b. b\<lparr>ob_status := Ob_CANCELLED\<rparr>) (obligations d)\<rparr>"

definition syncOrderPaymentObligations :: "uid \<Rightarrow> db \<Rightarrow> db \<times> obligation list" where
  "syncOrderPaymentObligations oid d =
     (case find_unique o_id oid (orders d) of
        None \<Rightarrow> (d, [])
      | Some ord \<Rightarrow>
          let requests = filter (\<lambda>r. i_orderId r = Some oid \<and> i_status r \<noteq> I_CANCELLED) (inspections d);
              job = find_unique t_orderId oid (transportJobs d);
              unconfirmed = map i_id (filter (\<lambda>r. i_sellerConfirmedAt r = None) requests);
              d1 = retire (\<lambda>b. ob_orderId b = oid \<and> ob_type b = INSPECTOR \<and>
                     (case ob_inspectionRequestId b of None \<Rightarrow> False | Some i \<Rightarrow> i \<in> set unconfirmed)) d;
              wanted = desired_obligations ord requests job;
              (d2, result) = sync_all oid (payments d) wanted d1;
              d3 = (if goodsPaymentUnlocked job then d2
                    else retire (\<lambda>b. ob_orderId b = oid \<and> ob_type b = MARKETPLACE \<and>
                           ob_key b = K_ORDER oid MARKETPLACE) d2);
              d4 = (if transportStillAgreed job then d3
                    else retire (\<lambda>b. ob_orderId b = oid \<and> ob_type b = TRANSPORT) d3);
              d5 = retire (\<lambda>b. ob_orderId b = oid \<and> ob_type b = INSPECTOR \<and>
                     ob_key b \<notin> set (map de_key wanted)) d4
          in (d5, result))"

definition findPaymentObligation ::
    "uid option \<Rightarrow> payment_type \<Rightarrow> uid option \<Rightarrow> uid option \<Rightarrow> db \<Rightarrow> obligation option" where
  "findPaymentObligation orderId type inspectionRequestId payerId d =
     (case orderId of
        None \<Rightarrow> None
      | Some oid \<Rightarrow>
          let key = (if type = INSPECTOR then K_INSPECTOR oid inspectionRequestId else K_ORDER oid type);
              byPayer = (case payerId of
                  Some p \<Rightarrow> if type = INSPECTOR
                    then find_first (\<lambda>b. ob_orderId b = oid \<and> ob_type b = INSPECTOR \<and>
                           ob_inspectionRequestId b = inspectionRequestId \<and> ob_payerId b = p) (obligations d)
                    else None
                | None \<Rightarrow> None)
          in case byPayer of
               Some b \<Rightarrow> Some b
             | None \<Rightarrow> find_unique ob_key key (obligations d))"

end
