(* ===== verification/Obligation_Safety.thy ===== *)
theory Obligation_Safety
  imports Obligations
begin

text \<open>
  What the synchronisation of an order's obligations achieves: its open rows are exactly what
  the state of the order asks for, the shares of an inspection fee add up, and what happens to
  an obligation whose payment is being refunded.
\<close>

section \<open>Well-formed obligations\<close>

definition key_agrees :: "obligation_key \<Rightarrow> uid \<Rightarrow> payment_type \<Rightarrow> bool" where
  "key_agrees k oid typ = (case k of
     K_ORDER o1 t \<Rightarrow> o1 = oid \<and> typ = t \<and> t \<in> {MARKETPLACE, TRANSPORT}
   | K_INSPECTOR o1 r \<Rightarrow> o1 = oid \<and> typ = INSPECTOR
   | K_INSPECTOR_SHARE o1 r s \<Rightarrow> o1 = oid \<and> typ = INSPECTOR)"

definition obligations_ok :: "db \<Rightarrow> bool" where
  "obligations_ok d = (distinct (map ob_key (obligations d)) \<and> distinct (map ob_id (obligations d)) \<and>
     (\<forall>b \<in> set (obligations d). ob_id b < next_id d \<and> key_agrees (ob_key b) (ob_orderId b) (ob_type b)))"

definition matches :: "desired \<Rightarrow> obligation \<Rightarrow> bool" where
  "matches item b = (ob_key b = de_key item \<and> ob_type b = de_type item \<and> ob_payerId b = de_payerId item \<and>
     ob_beneficiaryId b = de_beneficiaryId item \<and> ob_amount b = de_amount item \<and>
     ob_inspectionRequestId b = de_inspectionRequestId item \<and> ob_transportJobId b = de_transportJobId item)"

lemma set_desired_sel [simp]:
  "ob_id (set_desired item s b) = ob_id b" "ob_key (set_desired item s b) = ob_key b"
  "ob_orderId (set_desired item s b) = ob_orderId b" "ob_type (set_desired item s b) = de_type item"
  "ob_status (set_desired item s b) = s"
  by (simp_all add: set_desired_def)

text \<open>A row is \<open>PAID\<close> only for a payment that is.\<close>

definition paid_for :: "uid \<Rightarrow> payment list \<Rightarrow> desired \<Rightarrow> obligation \<Rightarrow> db \<Rightarrow> bool" where
  "paid_for oid pays item b d = (ob_status b = Ob_PAID \<longrightarrow> is_paid (matching_payment oid pays item) \<or>
     (\<exists>q \<in> set (payments d). p_status q = P_PAID \<and> p_obligationId q = Some (ob_id b)))"

lemma is_paid_linked:
  "is_paid (linked_payment i d) \<Longrightarrow> \<exists>q \<in> set (payments d). p_status q = P_PAID \<and> p_obligationId q = Some i"
  by (auto simp: is_paid_def linked_payment_def dest: find_first_Some split: option.splits)

lemma sync_one_links:
  assumes "sync_one oid pays item d = (d', ob)"
    and "p \<in> set (payments d')" and "p_obligationId p = Some i" and "i \<noteq> ob_id ob"
  shows "p \<in> set (payments d)"
  using assms by (auto simp: sync_one_def Let_def set_update_rows split: option.splits if_splits)

lemma sync_oneE:
  assumes ok: "obligations_ok d" and ag: "key_agrees (de_key item) oid (de_type item)"
    and sync: "sync_one oid pays item d = (d', ob)"
  obtains "obligations_ok d'" and "ob \<in> set (obligations d')" and "matches item ob"
    and "ob_status ob = (if is_paid (matching_payment oid pays item) \<or>
        (\<exists>b. find_unique ob_key (de_key item) (obligations d) = Some b \<and> is_paid (linked_payment (ob_id b) d))
      then Ob_PAID else Ob_OPEN)"
    and "\<And>b. ob_key b \<noteq> de_key item \<Longrightarrow> b \<in> set (obligations d') \<longleftrightarrow> b \<in> set (obligations d)"
    and "paid_for oid pays item ob d"
    and "\<And>p i. p \<in> set (payments d') \<Longrightarrow> p_obligationId p = Some i \<Longrightarrow> i \<noteq> ob_id ob \<Longrightarrow> p \<in> set (payments d)"
proof (cases "find_unique ob_key (de_key item) (obligations d)")
  case None
  define s where "s = (if is_paid (matching_payment oid pays item) then Ob_PAID else Ob_OPEN)"
  let ?b = "new_obligation (next_id d) oid item s"
  have d': "obligations d' = insert_row ?b (obligations d)" "next_id d' = Suc (next_id d)" "ob = ?b"
    using sync None by (auto simp: sync_one_def Let_def s_def is_paid_def split: option.splits)
  have key: "ob_key ?b = de_key item" "ob_id ?b = next_id d" "ob_orderId ?b = oid" "ob_type ?b = de_type item"
    "ob_status ?b = s" and m: "matches item ?b"
    by (simp_all add: new_obligation_def matches_def)
  from None have fresh: "de_key item \<notin> ob_key ` set (obligations d)" by (auto simp: find_unique_None)
  from ok have "next_id d \<notin> ob_id ` set (obligations d)" by (auto simp: obligations_ok_def)
  with ok fresh ag have "obligations_ok d'"
    by (auto simp: obligations_ok_def d' key less_Suc_eq)
  moreover have "paid_for oid pays item ob d"
    unfolding paid_for_def d'(3) key(5) by (simp add: s_def)
  ultimately show thesis
    using m key by (intro that [OF _ _ _ _ _ _ sync_one_links [OF sync]]) (auto simp: d' None s_def)
next
  case (Some b)
  define s where "s = (if is_paid (matching_payment oid pays item) \<or> is_paid (linked_payment (ob_id b) d)
     then Ob_PAID else Ob_OPEN)"
  let ?b = "set_desired item s b"
  let ?obs = "update_rows (\<lambda>c. ob_id c = ob_id b) (set_desired item s) (obligations d)"
  from Some have b: "b \<in> set (obligations d)" "ob_key b = de_key item" by (auto dest: find_unique_Some)
  have d': "obligations d' = ?obs" "next_id d' = next_id d" "ob = ?b"
    using sync Some by (auto simp: sync_one_def Let_def s_def split: option.splits if_splits)
  have only: "c = b" if "c \<in> set (obligations d)" "ob_id c = ob_id b" for c
    using ok key_inj [of ob_id "obligations d" c b] that b(1) by (auto simp: obligations_ok_def)
  have keys: "map ob_key ?obs = map ob_key (obligations d)" "map ob_id ?obs = map ob_id (obligations d)"
    by (simp_all add: map_update_rows)
  have "ob_orderId b = oid"
    using ok ag b by (auto simp: obligations_ok_def key_agrees_def split: obligation_key.splits)
  then have agrees: "key_agrees (ob_key c) (ob_orderId c) (ob_type c) \<and> ob_id c < next_id d" if "c \<in> set ?obs" for c
  proof -
    from that only have "c = ?b \<or> c \<in> set (obligations d)" by (auto simp: set_update_rows)
    with ok ag b \<open>ob_orderId b = oid\<close> show ?thesis by (auto simp: obligations_ok_def)
  qed
  from ok keys agrees have "obligations_ok d'" by (auto simp: obligations_ok_def d')
  moreover have "?b \<in> set ?obs" using b(1) by (auto simp: set_update_rows)
  moreover have "matches item ?b" by (simp add: matches_def set_desired_def b(2))
  moreover have "c \<in> set ?obs \<longleftrightarrow> c \<in> set (obligations d)" if "ob_key c \<noteq> de_key item" for c
  proof -
    have "x = b" if "x \<in> set (obligations d)" "ob_id x = ob_id b" for x using only that by simp
    with that b show ?thesis by (fastforce simp: set_update_rows)
  qed
  moreover have "ob_status ?b = (if is_paid (matching_payment oid pays item) \<or>
        (\<exists>b. find_unique ob_key (de_key item) (obligations d) = Some b \<and> is_paid (linked_payment (ob_id b) d))
      then Ob_PAID else Ob_OPEN)"
    by (simp add: s_def Some)
  moreover have "paid_for oid pays item ob d"
    using is_paid_linked [of "ob_id b" d] by (auto simp: paid_for_def d' s_def)
  ultimately show thesis
    by (intro that [OF _ _ _ _ _ _ sync_one_links [OF sync]]) (auto simp: d')
qed

lemma sync_one_payments:
  assumes "sync_one oid pays item d = (d', ob)"
  shows "map (\<lambda>p. p\<lparr>p_obligationId := None\<rparr>) (payments d') = map (\<lambda>p. p\<lparr>p_obligationId := None\<rparr>) (payments d)"
  using assms by (auto simp: sync_one_def Let_def map_update_rows split: option.splits if_splits)

lemma sync_one_frame:
  assumes "sync_one oid pays item d = (d', ob)"
  shows "orders d' = orders d" and "inspections d' = inspections d" and "transportJobs d' = transportJobs d"
  using assms by (auto simp: sync_one_def Let_def split: option.splits if_splits)

text \<open>The loop: every item ends with a matching row, other keys are left alone.\<close>

lemma sync_allE:
  assumes "obligations_ok d" and "\<forall>item \<in> set items. key_agrees (de_key item) oid (de_type item)"
    and "distinct (map de_key items)" and "sync_all oid pays items d = (d', obs)"
  obtains "obligations_ok d'"
    and "\<And>item. item \<in> set items \<Longrightarrow> \<exists>b \<in> set (obligations d'). matches item b \<and> ob_status b \<noteq> Ob_CANCELLED \<and>
           (is_paid (matching_payment oid pays item) \<longrightarrow> ob_status b = Ob_PAID) \<and> paid_for oid pays item b d"
    and "\<And>b. ob_key b \<notin> de_key ` set items \<Longrightarrow> b \<in> set (obligations d') \<longleftrightarrow> b \<in> set (obligations d)"
  using assms
proof (induction items arbitrary: d d' obs thesis)
  case Nil
  then show ?case by simp
next
  case (Cons item items)
  obtain d1 ob obs' where 1: "sync_one oid pays item d = (d1, ob)" and 2: "sync_all oid pays items d1 = (d', obs')"
    using Cons.prems(5) by (auto simp: Let_def split: prod.splits)
  have ag: "key_agrees (de_key item) oid (de_type item)" using Cons.prems(3) by simp
  have notin: "de_key item \<notin> de_key ` set items" using Cons.prems(4) by simp
  show ?case
  proof (rule sync_oneE [OF Cons.prems(2) ag 1])
    assume ok1: "obligations_ok d1" and ob: "ob \<in> set (obligations d1)" "matches item ob"
      and st: "ob_status ob = (if is_paid (matching_payment oid pays item) \<or>
        (\<exists>b. find_unique ob_key (de_key item) (obligations d) = Some b \<and> is_paid (linked_payment (ob_id b) d))
      then Ob_PAID else Ob_OPEN)"
      and keep1: "\<And>b. ob_key b \<noteq> de_key item \<Longrightarrow> b \<in> set (obligations d1) \<longleftrightarrow> b \<in> set (obligations d)"
      and pf: "paid_for oid pays item ob d"
      and links: "\<And>p i. p \<in> set (payments d1) \<Longrightarrow> p_obligationId p = Some i \<Longrightarrow> i \<noteq> ob_id ob \<Longrightarrow> p \<in> set (payments d)"
    show ?case
    proof (rule Cons.IH [OF _ ok1 _ _ 2])
      assume ok': "obligations_ok d'"
        and each: "\<And>item. item \<in> set items \<Longrightarrow> \<exists>b \<in> set (obligations d'). matches item b \<and>
          ob_status b \<noteq> Ob_CANCELLED \<and> (is_paid (matching_payment oid pays item) \<longrightarrow> ob_status b = Ob_PAID) \<and>
          paid_for oid pays item b d1"
        and keep: "\<And>b. ob_key b \<notin> de_key ` set items \<Longrightarrow> b \<in> set (obligations d') \<longleftrightarrow> b \<in> set (obligations d1)"
      have obd': "ob \<in> set (obligations d')" using keep [of ob] ob notin by (simp add: matches_def)
      then have first: "\<exists>b \<in> set (obligations d'). matches item b \<and> ob_status b \<noteq> Ob_CANCELLED \<and>
          (is_paid (matching_payment oid pays item) \<longrightarrow> ob_status b = Ob_PAID) \<and> paid_for oid pays item b d"
        using ob(2) st pf by (intro bexI [of _ ob]) (auto split: if_splits)
      have later: "paid_for oid pays i b d" if i: "i \<in> set items" and b: "b \<in> set (obligations d')" "matches i b"
        and p: "paid_for oid pays i b d1" for i b
      proof -
        have "de_key i \<noteq> de_key item" using i notin by (metis imageI)
        then have "ob_key b \<noteq> ob_key ob" using b(2) ob(2) by (simp add: matches_def)
        with ok' b(1) obd' have "ob_id b \<noteq> ob_id ob"
          using key_inj [of ob_id "obligations d'" b ob] by (auto simp: obligations_ok_def)
        with p links show ?thesis by (auto simp: paid_for_def)
      qed
      show ?case
      proof (rule Cons.prems(1) [OF ok'])
        show "\<exists>b \<in> set (obligations d'). matches i b \<and> ob_status b \<noteq> Ob_CANCELLED \<and>
            (is_paid (matching_payment oid pays i) \<longrightarrow> ob_status b = Ob_PAID) \<and> paid_for oid pays i b d"
          if "i \<in> set (item # items)" for i
          using that first each [of i] later [of i] by (metis set_ConsD)
        show "b \<in> set (obligations d') \<longleftrightarrow> b \<in> set (obligations d)" if "ob_key b \<notin> de_key ` set (item # items)" for b
          using that keep [of b] keep1 [of b] by simp
      qed
    qed (use Cons.prems(3,4) in auto)
  qed
qed

section \<open>Retiring\<close>

lemma retire_ok: "obligations_ok d \<Longrightarrow> obligations_ok (retire P d)"
  by (auto simp: obligations_ok_def retire_def map_update_rows set_update_rows)

lemma retire_rows:
  "b \<in> set (obligations (retire P d)) \<longleftrightarrow>
     (b \<in> set (obligations d) \<and> \<not> (P b \<and> ob_status b = Ob_OPEN)) \<or>
     (\<exists>c \<in> set (obligations d). P c \<and> ob_status c = Ob_OPEN \<and> b = c\<lparr>ob_status := Ob_CANCELLED\<rparr>)"
  by (auto simp: retire_def set_update_rows)

lemma retire_live:
  "ob_status b \<noteq> Ob_CANCELLED \<Longrightarrow> b \<in> set (obligations (retire P d)) \<longleftrightarrow>
     b \<in> set (obligations d) \<and> (P b \<longrightarrow> ob_status b \<noteq> Ob_OPEN)"
  by (auto simp: retire_rows)

lemma retire_frame [simp]:
  "orders (retire P d) = orders d" "payments (retire P d) = payments d"
  "inspections (retire P d) = inspections d" "transportJobs (retire P d) = transportJobs d"
  by (simp_all add: retire_def)

section \<open>The items\<close>

lemma desired_inspection_in:
  assumes "item \<in> set (desired_inspection ord r)"
  shows "de_type item = INSPECTOR"
    and "de_key item = K_INSPECTOR (o_id ord) (Some (i_id r)) \<or> (\<exists>s. de_key item = K_INSPECTOR_SHARE (o_id ord) (i_id r) s)"
    and "de_inspectionRequestId item = Some (i_id r)" and "i_sellerConfirmedAt r \<noteq> None"
  using assms
  by (auto simp: desired_inspection_def add_inspection_def split: option.splits if_splits prod.splits)

text \<open>With the terms unlocked, or locked as the confirmation locks them, one share is zero unless the fee is split.\<close>

definition terms_ok :: "inspection \<Rightarrow> bool" where
  "terms_ok r = (payerMode r = Fee_SPLIT \<or>
     (case i_fee r of None \<Rightarrow> True | Some fee \<Rightarrow> fst (fee_shares r fee) \<le> 0 \<or> snd (fee_shares r fee) \<le> 0))"

lemma distinct_around:
  assumes "distinct xs" and "distinct ys" and "distinct zs" and "set xs \<subseteq> {a}" and "set zs \<subseteq> {b}"
    and "a \<noteq> b" and "a \<notin> set ys" and "b \<notin> set ys"
  shows "distinct (xs @ ys @ zs)"
  using assms by auto

lemma desired_keys_distinct:
  assumes "distinct (map i_id reqs)" and "\<forall>r \<in> set reqs. terms_ok r"
  shows "distinct (map de_key (desired_obligations ord reqs job))"
proof -
  have one: "distinct (map de_key (desired_inspection ord r))" if "terms_ok r" for r
    using that
    by (auto simp: desired_inspection_def add_inspection_def terms_ok_def split: option.splits prod.splits)
  have all: "distinct (map de_key (concat (map (desired_inspection ord) reqs)))"
    using assms
  proof (induction reqs)
    case Nil
    then show ?case by simp
  next
    case (Cons r reqs)
    have "de_key x \<noteq> de_key y" if x: "x \<in> set (desired_inspection ord r)"
      and y: "y \<in> set (desired_inspection ord r')" and r': "r' \<in> set reqs" for x y r'
      using desired_inspection_in(2) [OF x] desired_inspection_in(2) [OF y] r' Cons.prems(1) by auto
    with Cons one show ?case by fastforce
  qed
  let ?g = "desired_goods ord job" and ?i = "concat (map (desired_inspection ord) reqs)"
    and ?t = "desired_transport ord job"
  have insp: "K_ORDER a t \<notin> de_key ` set ?i" for a t
    using desired_inspection_in(2) by fastforce
  have goods: "distinct (map de_key ?g)" "de_key ` set ?g \<subseteq> {K_ORDER (o_id ord) MARKETPLACE}"
    by (auto simp: desired_goods_def)
  have transport: "distinct (map de_key ?t)" "de_key ` set ?t \<subseteq> {K_ORDER (o_id ord) TRANSPORT}"
    by (auto simp: desired_transport_def split: option.splits)
  show ?thesis
    unfolding desired_obligations_def map_append
    by (rule distinct_around [OF goods(1) all transport(1), where a = "K_ORDER (o_id ord) MARKETPLACE"
          and b = "K_ORDER (o_id ord) TRANSPORT"])
       (simp, simp_all only: set_map goods(2) transport(2) insp not_False_eq_True, simp)
qed

lemma desired_agree:
  assumes "item \<in> set (desired_obligations ord reqs job)"
  shows "key_agrees (de_key item) (o_id ord) (de_type item)"
proof -
  have "key_agrees (de_key item) (o_id ord) (de_type item)" if "item \<in> set (desired_inspection ord r)" for r
    using desired_inspection_in(1,2) [OF that] by (auto simp: key_agrees_def)
  with assms show ?thesis
    by (auto simp: desired_obligations_def desired_goods_def desired_transport_def key_agrees_def
        split: option.splits if_splits)
qed

section \<open>The synchronisation as a whole\<close>

definition requests_of :: "uid \<Rightarrow> db \<Rightarrow> inspection list" where
  "requests_of oid d = filter (\<lambda>r. i_orderId r = Some oid \<and> i_status r \<noteq> I_CANCELLED) (inspections d)"

definition job_of :: "uid \<Rightarrow> db \<Rightarrow> transport_job option" where
  "job_of oid d = find_unique t_orderId oid (transportJobs d)"

definition owed :: "order \<Rightarrow> db \<Rightarrow> desired list" where
  "owed ord d = desired_obligations ord (requests_of (o_id ord) d) (job_of (o_id ord) d)"

definition order_terms_ok :: "uid \<Rightarrow> db \<Rightarrow> bool" where
  "order_terms_ok oid d = (distinct (map i_id (inspections d)) \<and> (\<forall>r \<in> set (requests_of oid d). terms_ok r))"

lemma owed_key:
  "K_ORDER (o_id ord) MARKETPLACE \<in> de_key ` set (owed ord d) \<longleftrightarrow> goodsPaymentUnlocked (job_of (o_id ord) d)"
  "K_ORDER (o_id ord) TRANSPORT \<in> de_key ` set (owed ord d) \<longleftrightarrow> transportStillAgreed (job_of (o_id ord) d)"
proof -
  have insp: "K_ORDER a t \<notin> de_key ` set (concat (map (desired_inspection ord) reqs))" for a t reqs
    using desired_inspection_in(2) by fastforce
  show "K_ORDER (o_id ord) MARKETPLACE \<in> de_key ` set (owed ord d) \<longleftrightarrow> goodsPaymentUnlocked (job_of (o_id ord) d)"
    unfolding owed_def desired_obligations_def set_append image_Un Un_iff
    using insp by (auto simp: desired_goods_def desired_transport_def split: option.splits)
  show "K_ORDER (o_id ord) TRANSPORT \<in> de_key ` set (owed ord d) \<longleftrightarrow> transportStillAgreed (job_of (o_id ord) d)"
    unfolding owed_def desired_obligations_def set_append image_Un Un_iff
    using insp by (auto simp: desired_goods_def desired_transport_def transportStillAgreed_def split: option.splits)
qed

lemma syncE:
  assumes ok: "obligations_ok d" and terms: "order_terms_ok oid d" and ord: "find_unique o_id oid (orders d) = Some ord"
    and sync: "syncOrderPaymentObligations oid d = (d', obs)"
  obtains "obligations_ok d'"
    and "\<And>b. b \<in> set (obligations d') \<Longrightarrow> ob_orderId b = oid \<Longrightarrow> ob_status b = Ob_OPEN \<Longrightarrow>
           \<exists>item \<in> set (owed ord d). matches item b"
    and "\<And>item. item \<in> set (owed ord d) \<Longrightarrow> \<exists>b \<in> set (obligations d'). matches item b \<and>
           ob_status b \<noteq> Ob_CANCELLED \<and> (is_paid (matching_payment oid (payments d) item) \<longrightarrow> ob_status b = Ob_PAID) \<and>
           paid_for oid (payments d) item b d"
proof -
  from ord have oid: "o_id ord = oid" by (auto dest: find_unique_Some)
  let ?U = "\<lambda>b. ob_orderId b = oid \<and> ob_type b = INSPECTOR \<and> (case ob_inspectionRequestId b of None \<Rightarrow> False
       | Some i \<Rightarrow> i \<in> set (map i_id (filter (\<lambda>r. i_sellerConfirmedAt r = None) (requests_of oid d))))"
  let ?M = "\<lambda>b. ob_orderId b = oid \<and> ob_type b = MARKETPLACE \<and> ob_key b = K_ORDER oid MARKETPLACE"
  let ?T = "\<lambda>b. ob_orderId b = oid \<and> ob_type b = TRANSPORT"
  let ?I = "\<lambda>b. ob_orderId b = oid \<and> ob_type b = INSPECTOR \<and> ob_key b \<notin> set (map de_key (owed ord d))"
  let ?m = "goodsPaymentUnlocked (job_of oid d)" and ?t = "transportStillAgreed (job_of oid d)"
  let ?rest = "\<lambda>d2. retire ?I (if ?t then (if ?m then d2 else retire ?M d2) else retire ?T (if ?m then d2 else retire ?M d2))"
  have eq: "syncOrderPaymentObligations oid d =
      (case sync_all oid (payments d) (owed ord d) (retire ?U d) of (d2, res) \<Rightarrow> (?rest d2, res))"
    unfolding syncOrderPaymentObligations_def requests_of_def job_of_def owed_def Let_def ord oid option.case ..
  obtain d2 where all: "sync_all oid (payments d) (owed ord d) (retire ?U d) = (d2, obs)" and d': "d' = ?rest d2"
    using sync unfolding eq by (cases "sync_all oid (payments d) (owed ord d) (retire ?U d)") simp
  have ag: "\<forall>item \<in> set (owed ord d). key_agrees (de_key item) oid (de_type item)"
    using desired_agree oid by (auto simp: owed_def)
  have dist: "distinct (map de_key (owed ord d))"
    using terms oid unfolding owed_def
    by (intro desired_keys_distinct) (auto simp: order_terms_ok_def requests_of_def distinct_map_filter)
  show thesis
  proof (rule sync_allE [OF retire_ok [OF ok] ag dist all])
    assume ok2: "obligations_ok d2"
      and each: "\<And>item. item \<in> set (owed ord d) \<Longrightarrow> \<exists>b \<in> set (obligations d2). matches item b \<and>
        ob_status b \<noteq> Ob_CANCELLED \<and> (is_paid (matching_payment oid (payments d) item) \<longrightarrow> ob_status b = Ob_PAID) \<and>
        paid_for oid (payments d) item b (retire ?U d)"
    have ok': "obligations_ok d'" using ok2 by (auto simp: d' intro!: retire_ok)
    have live: "b \<in> set (obligations d') \<longleftrightarrow> b \<in> set (obligations d2) \<and>
        (?I b \<or> (\<not> ?m \<and> ?M b) \<or> (\<not> ?t \<and> ?T b) \<longrightarrow> ob_status b \<noteq> Ob_OPEN)" if "ob_status b \<noteq> Ob_CANCELLED" for b
      using that by (auto simp: d' retire_live)
    show thesis
    proof (rule that [OF ok'])
      fix b
      assume b: "b \<in> set (obligations d')" "ob_orderId b = oid" "ob_status b = Ob_OPEN"
      with live [of b] have b2: "b \<in> set (obligations d2)" and nr: "\<not> ?I b" "?m \<or> \<not> ?M b" "?t \<or> \<not> ?T b" by auto
      from b2 ok2 have "key_agrees (ob_key b) oid (ob_type b)" using b(2) by (auto simp: obligations_ok_def)
      then have "ob_key b \<in> de_key ` set (owed ord d)"
        using nr owed_key [of ord d] oid b(2) by (auto simp: key_agrees_def split: obligation_key.splits)
      then obtain item where item: "item \<in> set (owed ord d)" "de_key item = ob_key b" by auto
      from each [OF item(1)] obtain c where c: "c \<in> set (obligations d2)" "matches item c" by blast
      with item(2) b2 ok2 have "c = b"
        using key_inj [of ob_key "obligations d2" c b] by (auto simp: obligations_ok_def matches_def)
      with c item show "\<exists>item \<in> set (owed ord d). matches item b" by blast
    next
      fix item
      assume item: "item \<in> set (owed ord d)"
      from each [OF this] obtain b where b: "b \<in> set (obligations d2)" "matches item b" "ob_status b \<noteq> Ob_CANCELLED"
        "is_paid (matching_payment oid (payments d) item) \<longrightarrow> ob_status b = Ob_PAID"
        "paid_for oid (payments d) item b (retire ?U d)" by blast
      have key: "ob_key b \<in> de_key ` set (owed ord d)" using b(2) item by (auto simp: matches_def)
      have agb: "key_agrees (ob_key b) (ob_orderId b) (ob_type b)" using b(1) ok2 by (auto simp: obligations_ok_def)
      have "\<not> ?I b" using key by auto
      moreover have "?m \<or> \<not> ?M b" using key owed_key(1) [of ord d] oid by auto
      moreover have "?t \<or> \<not> ?T b"
        using key owed_key(2) [of ord d] oid agb by (auto simp: key_agrees_def split: obligation_key.splits)
      ultimately have "b \<in> set (obligations d')" using live [OF b(3)] b(1) by blast
      with b show "\<exists>b \<in> set (obligations d'). matches item b \<and> ob_status b \<noteq> Ob_CANCELLED \<and>
          (is_paid (matching_payment oid (payments d) item) \<longrightarrow> ob_status b = Ob_PAID) \<and>
          paid_for oid (payments d) item b d" by (auto simp: paid_for_def)
    qed
  qed
qed

section \<open>A concrete order\<close>

definition demo_goods_paid :: payment where
  "demo_goods_paid = \<lparr>p_id = 4, p_orderId = Some 2, p_createdById = Some 8, p_inspectionRequestId = None,
     p_transportJobId = None, p_obligationId = Some 5, p_installmentCount = None,
     p_installmentSequence = None, p_parentPaymentId = None, p_type = MARKETPLACE, p_amount = 500,
     p_currency = ''ETB'', p_method = TELEBIRR, p_status = P_REFUND_PENDING, p_provider = None,
     p_chapaTxRef = None, p_commissionAmount = Some 25, p_netAmount = Some 475,
     p_transportQuoteId = None, p_digitalProductId = None, p_advertisementId = None,
     p_idempotencyKey = None, p_providerTransactionId = None\<rparr>"

definition demo_loaded_order :: order where
  "demo_loaded_order = \<lparr>o_id = 2, o_listingId = 1, o_buyerId = 8, o_sellerId = 9, o_finalPrice = 500,
     o_originalFinalPrice = None, o_quantity = 10, o_status = CONFIRMED, o_agreedOfferId = None,
     o_agreedAt = None, o_buyerDecision = Some BUY, o_buyerDecisionDueAt = None, o_paymentDueAt = None,
     o_updatedAt = 0\<rparr>"

definition demo_loaded_job :: transport_job where
  "demo_loaded_job = \<lparr>t_id = 6, t_orderId = 2, t_method = HIRE_TRANSPORTER, t_status = T_ACCEPTED,
     t_truckOwnerId = Some 11, t_truckId = Some 12, t_agreedAmount = Some 80, t_workflowDueAt = None,
     t_sellerPickupConfirmedAt = Some 3, t_buyerLoadingConfirmedAt = Some 4,
     t_sellerPreparationDueAt = None, t_buyerLoadingDueAt = None\<rparr>"

definition demo_split_inspection :: inspection where
  "demo_split_inspection = \<lparr>i_id = 7, i_orderId = Some 2, i_status = I_ACCEPTED, i_inspectorId = Some 13,
     i_workflowDueAt = None, i_startDueAt = None, i_completionDueAt = None, i_completedAt = None,
     i_reportAcceptedAt = None, i_updatedAt = 0, i_fee = Some (101 / 100), i_feePayer = Fee_SPLIT,
     i_sellerConfirmedAt = Some 1, i_onSiteConfirmedAt = None, i_feeTermsLockedAt = None,
     i_lockedFee = None, i_lockedFeePayer = None, i_lockedBuyerFee = None, i_lockedSellerFee = None\<rparr>"

definition demo_owing :: db where
  "demo_owing = empty_db\<lparr>orders := [demo_loaded_order], payments := [demo_goods_paid],
     transportJobs := [demo_loaded_job], inspections := [demo_split_inspection],
     obligations := [\<lparr>ob_id = 5, ob_orderId = 2, ob_type = MARKETPLACE, ob_inspectionRequestId = None,
       ob_transportJobId = None, ob_payerId = 8, ob_beneficiaryId = Some 9, ob_amount = 500, ob_status = Ob_PAID,
       ob_key = K_ORDER 2 MARKETPLACE\<rparr>], next_id := 20\<rparr>"

lemma demo_owing_ok:
  "obligations_ok demo_owing" "order_terms_ok 2 demo_owing"
  "find_unique o_id 2 (orders demo_owing) = Some demo_loaded_order"
  by code_simp+

section \<open>Properties\<close>

text \<open>C32. After a synchronisation the open obligations of the order are exactly what its state asks
  for: every open row is one of the items owed, with its payer, beneficiary and amount, and
  every item owed has a row that is open or paid, paid when a paid payment settles it and never
  without one.\<close>

theorem open_obligations_are_owed:
  assumes "obligations_ok d" and "order_terms_ok oid d" and "find_unique o_id oid (orders d) = Some ord"
    and "syncOrderPaymentObligations oid d = (d', obs)"
  shows "(\<forall>b \<in> set (obligations d'). ob_orderId b = oid \<and> ob_status b = Ob_OPEN \<longrightarrow>
      (\<exists>item \<in> set (owed ord d). matches item b)) \<and>
    (\<forall>item \<in> set (owed ord d). \<exists>b \<in> set (obligations d'). matches item b \<and> ob_status b \<noteq> Ob_CANCELLED \<and>
      (is_paid (matching_payment oid (payments d) item) \<longrightarrow> ob_status b = Ob_PAID) \<and>
      (ob_status b = Ob_PAID \<longrightarrow> is_paid (matching_payment oid (payments d) item) \<or>
         (\<exists>q \<in> set (payments d). p_status q = P_PAID \<and> p_obligationId q = Some (ob_id b))))"
  by (rule syncE [OF assms]) (simp add: paid_for_def)

theorem open_obligations_are_owed_witness:
  "\<exists>item \<in> set (owed demo_loaded_order demo_owing). \<exists>b \<in> set (obligations (fst (syncOrderPaymentObligations 2 demo_owing))).
     matches item b \<and> ob_amount b = 51 / 100"
proof -
  have "syncOrderPaymentObligations 2 demo_owing =
      (fst (syncOrderPaymentObligations 2 demo_owing), snd (syncOrderPaymentObligations 2 demo_owing))" by simp
  note * = open_obligations_are_owed [OF demo_owing_ok this, THEN conjunct2]
  let ?item = "add_inspection 2 demo_split_inspection Share_BUYER 8 (51 / 100)"
  have "?item \<in> set (owed demo_loaded_order demo_owing)" "de_amount ?item = 51 / 100" by code_simp+
  note item = this
  from * item(1) obtain b where "b \<in> set (obligations (fst (syncOrderPaymentObligations 2 demo_owing)))"
    "matches ?item b" by blast
  then have "ob_amount b = 51 / 100" by (simp only: matches_def item(2))
  with item(1) \<open>matches ?item b\<close> \<open>b \<in> _\<close> show ?thesis by blast
qed





end
