(* ===== verification/Ledger.thy ===== *)
theory Ledger
  imports Payment_Machine
begin

text \<open>
  The accounting of \<open>backend/src/services/paymentService.js\<close>: commissions, the ledger entries
  a paid or refunded payment leaves, and the reconciliation issues of
  \<open>paymentReconciliationService.js\<close>. \<open>loaded\<close> is a payment with the rows its query includes.
\<close>

section \<open>Commissions\<close>

definition moneyEqual :: "number \<Rightarrow> number \<Rightarrow> bool" where
  "moneyEqual a b = (\<bar>a - b\<bar> < 1 / 100)"

definition roundMoney :: "number \<Rightarrow> number" where
  "roundMoney v = round2 v"

definition envRate :: "env \<Rightarrow> env_var \<Rightarrow> number" where
  "envRate e v = (case e v of None \<Rightarrow> 0 | Some n \<Rightarrow> if n < 0 \<or> n > 100 then 0 else n)"

definition commissionRateFor :: "env \<Rightarrow> payment_type \<Rightarrow> number" where
  "commissionRateFor e t = (case t of
     MARKETPLACE \<Rightarrow> envRate e MARKETPLACE_COMMISSION_RATE
   | TRANSPORT \<Rightarrow> envRate e TRANSPORT_COMMISSION_RATE
   | INSPECTOR \<Rightarrow> envRate e INSPECTION_COMMISSION_RATE
   | ADVERTISING \<Rightarrow> envRate e ADVERTISING_COMMISSION_RATE
   | DIGITAL \<Rightarrow> envRate e DIGITAL_COMMISSION_RATE
   | MARKETPLACE_INSTALLMENT \<Rightarrow> 0)"

definition commissionAmount :: "number \<Rightarrow> number \<Rightarrow> number" where
  "commissionAmount amount rate = roundMoney (amount * rate / 100)"

section \<open>A payment with what it is for\<close>

record loaded =
  ld_payment :: payment
  ld_order :: "order option"
  ld_job :: "transport_job option"
  ld_quote :: "transport_quote option"
  ld_inspection :: "inspection option"
  ld_ad :: "advertisement option"
  ld_purchase :: "digital_purchase option"
  ld_product :: "digital_product option"

definition included :: "('r \<Rightarrow> uid) \<Rightarrow> uid option \<Rightarrow> 'r list \<Rightarrow> 'r option" where
  "included key i t = (case i of None \<Rightarrow> None | Some k \<Rightarrow> find_unique key k t)"

definition load_payment :: "uid \<Rightarrow> db \<Rightarrow> loaded option" where
  "load_payment i d = map_option (\<lambda>p.
     \<lparr>ld_payment = p, ld_order = included o_id (p_orderId p) (orders d),
      ld_job = included t_id (p_transportJobId p) (transportJobs d),
      ld_quote = included tq_id (p_transportQuoteId p) (transportQuotes d),
      ld_inspection = included i_id (p_inspectionRequestId p) (inspections d),
      ld_ad = included ad_id (p_advertisementId p) (advertisements d),
      ld_purchase = find_unique dp_paymentId i (digitalPurchases d),
      ld_product = included dg_id (p_digitalProductId p) (digitalProducts d)\<rparr>)
     (find_unique p_id i (payments d))"

section \<open>The ledger\<close>

definition ledgerEntryExists :: "uid \<Rightarrow> ledger_type \<Rightarrow> db \<Rightarrow> bool" where
  "ledgerEntryExists paymentId type d =
     list_ex (\<lambda>x. le_paymentId x = paymentId \<and> le_type x = type) (ledger d)"

definition createLedgerEntryOnce :: "ledger_entry \<Rightarrow> db \<Rightarrow> db" where
  "createLedgerEntryOnce x d =
     (if ledgerEntryExists (le_paymentId x) (le_type x) d then d
      else d\<lparr>ledger := insert_row x (ledger d)\<rparr>)"

definition ledger_entry_for :: "payment \<Rightarrow> uid option \<Rightarrow> ledger_type \<Rightarrow> number \<Rightarrow> ledger_entry" where
  "ledger_entry_for p user type amount =
     \<lparr>le_paymentId = p_id p, le_userId = user, le_type = type, le_amount = amount,
      le_currency = p_currency p\<rparr>"

definition paid_commission :: "payment \<Rightarrow> number" where
  "paid_commission p = roundMoney (case p_commissionAmount p of None \<Rightarrow> 0 | Some c \<Rightarrow> c)"

definition paid_net :: "payment \<Rightarrow> number" where
  "paid_net p = roundMoney (max 0 (p_amount p - paid_commission p))"

text \<open>The two entries of a provider's payment: the earning, and the commission of the platform.\<close>

definition write_earning :: "payment \<Rightarrow> ledger_type \<Rightarrow> uid option \<Rightarrow> db \<Rightarrow> db" where
  "write_earning p type user d =
     (if 0 < paid_net p then createLedgerEntryOnce (ledger_entry_for p user type (paid_net p)) d else d)"

definition write_commission :: "payment \<Rightarrow> db \<Rightarrow> db" where
  "write_commission p d =
     (if 0 < paid_commission p
      then createLedgerEntryOnce (ledger_entry_for p None PLATFORM_COMMISSION (paid_commission p)) d else d)"

definition write_transport :: "loaded \<Rightarrow> db \<Rightarrow> db" where
  "write_transport v d =
     (case ld_job v of
        None \<Rightarrow> d
      | Some job \<Rightarrow>
          if t_method job = HIRE_TRANSPORTER \<and> t_truckOwnerId job \<noteq> None
          then write_commission (ld_payment v) (write_earning (ld_payment v) TRANSPORTER_EARNING
                 (case ld_quote v of Some q \<Rightarrow> Some (tq_truckOwnerId q) | None \<Rightarrow> t_truckOwnerId job) d)
          else d)"

definition write_digital :: "loaded \<Rightarrow> db \<Rightarrow> db" where
  "write_digital v d =
     write_commission (ld_payment v)
       (case ld_product v of
          None \<Rightarrow> d
        | Some g \<Rightarrow> write_earning (ld_payment v) SELLER_EARNING (Some (dg_sellerId g)) d)"

definition writeLedger :: "loaded \<Rightarrow> payment_status \<Rightarrow> db \<Rightarrow> db" where
  "writeLedger v status d =
     (let p = ld_payment v in
      if status = P_PAID then
        (case p_type p of
           MARKETPLACE \<Rightarrow>
             (case ld_order v of
                None \<Rightarrow> d
              | Some ord \<Rightarrow> write_commission p (write_earning p SELLER_EARNING (Some (o_sellerId ord)) d))
         | TRANSPORT \<Rightarrow> write_transport v d
         | INSPECTOR \<Rightarrow>
             (case ld_inspection v of
                None \<Rightarrow> d
              | Some r \<Rightarrow> if i_inspectorId r = None then d
                  else write_commission p (write_earning p INSPECTOR_EARNING (i_inspectorId r) d))
         | ADVERTISING \<Rightarrow> createLedgerEntryOnce (ledger_entry_for p None PLATFORM_REVENUE (p_amount p)) d
         | DIGITAL \<Rightarrow> write_digital v d
         | MARKETPLACE_INSTALLMENT \<Rightarrow> d)
      else if status = P_REFUNDED then
        createLedgerEntryOnce (ledger_entry_for p None Le_REFUND (- p_amount p)) d
      else d)"

section \<open>Reconciliation\<close>

definition createReconciliationIssue ::
    "time \<Rightarrow> uid \<Rightarrow> number \<Rightarrow> number option \<Rightarrow> reconciliation_reason \<Rightarrow> db \<Rightarrow> db" where
  "createReconciliationIssue now paymentId expected observed reason d =
     (let issue = \<lparr>rc_id = next_id d, rc_paymentId = paymentId, rc_expectedAmount = expected,
            rc_observedAmount = observed, rc_reason = reason, rc_status = Rc_OPEN\<rparr>;
          d1 = d\<lparr>reconciliations := insert_row issue (reconciliations d), next_id := Suc (next_id d)\<rparr>
      in case find_unique p_id paymentId (payments d1) of
           None \<Rightarrow> d1
         | Some p \<Rightarrow>
             (case p_orderId p of
                None \<Rightarrow> d1
              | Some i \<Rightarrow> recordOrderEvent now i Ev_PAYMENT_RECONCILIATION_REQUIRED d1))"

definition resolveReconciliation ::
    "time \<Rightarrow> uid \<Rightarrow> reconciliation_status \<Rightarrow> uid \<Rightarrow> db \<Rightarrow> db \<times> reconciliation res" where
  "resolveReconciliation now reconciliationId status actor = transact (\<lambda>d.
     case find_unique rc_id reconciliationId (reconciliations d) of
       None \<Rightarrow> Inl (Payment_Err 404 RECONCILIATION_NOT_FOUND)
     | Some item \<Rightarrow>
         if rc_status item \<noteq> Rc_OPEN then Inr (d, item)
         else bindr (guardr (status \<in> {Rc_RESOLVED, Rc_DISMISSED}) (Payment_Err 400 BAD_RESOLUTION)) (\<lambda>_.
           let d1 = d\<lparr>reconciliations := update_rows (\<lambda>r. rc_id r = rc_id item)
                  (\<lambda>r. r\<lparr>rc_status := status\<rparr>) (reconciliations d)\<rparr>;
               ord = (case find_unique p_id (rc_paymentId item) (payments d) of
                   None \<Rightarrow> None | Some p \<Rightarrow> p_orderId p);
               d2 = (case ord of
                   None \<Rightarrow> d1
                 | Some i \<Rightarrow> recordOrderEvent now i Ev_PAYMENT_RECONCILIATION_RESOLVED d1)
           in Inr (recordAuditEvent now (Some actor) (Money_Act PAYMENT_RECONCILIATION_RESOLVED) (rc_id item) None d2,
                   item\<lparr>rc_status := status\<rparr>)))"

end
