(* ===== verification/Settlement.thy ===== *)
theory Settlement
  imports Ledger Inventory Installments Payouts Offer_Actions
begin

text \<open>
  \<open>settlePayment\<close> of \<open>backend/src/services/paymentService.js\<close>: what an event of the payment
  provider does to the payment, its obligation, the order, the stock, the carrier, the
  inspection, the payouts and the ledger. The steps of the transaction are one definition
  each, in the order of the code. Text that is only kept (\<open>reference\<close>, the payload) is
  omitted; \<open>payments_unique\<close> are the unique indexes of the payment table, and a write that
  would break one fails as in Prisma.
\<close>

section \<open>The event and the unique indexes\<close>

record settle_args =
  sa_paymentId :: uid
  sa_status :: payment_status
  sa_provider :: "string option"
  sa_providerTransactionId :: "string option"
  sa_eventId :: "string option"
  sa_amount :: field
  sa_currency :: "string option"

text \<open>\<open>a || b\<close> on text.\<close>

definition or_text :: "string option \<Rightarrow> string option \<Rightarrow> string option" where
  "or_text a b = (if or_empty a = [] then b else a)"

definition unique_on :: "('r \<Rightarrow> 'k option) \<Rightarrow> 'r list \<Rightarrow> bool" where
  "unique_on f t = distinct (filter (\<lambda>k. k \<noteq> None) (map f t))"

definition provider_transaction :: "payment \<Rightarrow> (string \<times> string) option" where
  "provider_transaction p = (case (p_provider p, p_providerTransactionId p) of
     (Some a, Some b) \<Rightarrow> Some (a, b) | _ \<Rightarrow> None)"

definition active_transport :: "payment \<Rightarrow> uid option" where
  "active_transport p =
     (if p_type p = TRANSPORT \<and> p_status p \<in> {P_PENDING, P_PROCESSING, P_PAID, P_RECONCILIATION_REQUIRED}
      then p_transportJobId p else None)"

definition payments_unique :: "payment list \<Rightarrow> bool" where
  "payments_unique t = (unique_on p_idempotencyKey t \<and> unique_on provider_transaction t \<and>
     unique_on p_obligationId t \<and> unique_on active_transport t)"

definition put_payment :: "uid \<Rightarrow> (payment \<Rightarrow> payment) \<Rightarrow> db \<Rightarrow> db res" where
  "put_payment i f d =
     (let rows = update_rows (\<lambda>p. p_id p = i) f (payments d)
      in if payments_unique rows then Inr (d\<lparr>payments := rows\<rparr>)
         else Inl (Payment_Err 500 PAYMENT_UNIQUE_CONFLICT))"

section \<open>Amounts and currencies that do not match\<close>

definition provider_fields :: "settle_args \<Rightarrow> payment_status \<Rightarrow> payment \<Rightarrow> payment \<Rightarrow> payment" where
  "provider_fields a s p r =
     r\<lparr>p_status := s, p_provider := or_text (sa_provider a) (p_provider p),
       p_providerTransactionId := or_text (sa_providerTransactionId a) (p_providerTransactionId p)\<rparr>"

definition observed_amount :: "settle_args \<Rightarrow> number option" where
  "observed_amount a = (case sa_amount a of None \<Rightarrow> None | Some v \<Rightarrow> v)"

text \<open>
  Record the issue; move the payment to \<open>RECONCILIATION_REQUIRED\<close> if it can, and log it when
  \<open>audit\<close> says so.
\<close>

definition flag_for_reconciliation ::
    "time \<Rightarrow> settle_args \<Rightarrow> reconciliation_reason \<Rightarrow> bool \<Rightarrow> payment \<Rightarrow> db \<Rightarrow> (db \<times> payment) res" where
  "flag_for_reconciliation now a reason audit p d =
     (let d1 = createReconciliationIssue now (p_id p) (p_amount p) (observed_amount a) reason d in
      if \<not> canTransition (p_status p) P_RECONCILIATION_REQUIRED then Inr (d1, p)
      else
        let f = provider_fields a P_RECONCILIATION_REQUIRED p in
        bindr (put_payment (p_id p) f d1) (\<lambda>d2.
          Inr (if audit then recordAuditEvent now None (Money_Act PAYMENT_RECONCILIATION_REQUIRED) (p_id p) None d2
               else d2, f p)))"

definition amount_matches :: "settle_args \<Rightarrow> payment \<Rightarrow> bool" where
  "amount_matches a p = (case sa_amount a of Some (Some v) \<Rightarrow> moneyEqual (p_amount p) v | _ \<Rightarrow> False)"

definition currency_differs :: "settle_args \<Rightarrow> payment \<Rightarrow> bool" where
  "currency_differs a p = (or_empty (sa_currency a) \<noteq> [] \<and>
     js_upper (or_empty (sa_currency a)) \<noteq> js_upper (p_currency p))"

definition mismatch :: "settle_args \<Rightarrow> payment \<Rightarrow> (reconciliation_reason \<times> bool) option" where
  "mismatch a p =
     (if sa_status a = P_PAID \<and> sa_amount a = None then Some (PROVIDER_AMOUNT_MISSING, False)
      else if sa_status a = P_PAID \<and> \<not> amount_matches a p then Some (PROVIDER_AMOUNT_MISMATCH, True)
      else if currency_differs a p then Some (PROVIDER_CURRENCY_MISMATCH, True)
      else None)"

section \<open>Events seen before\<close>

text \<open>
  \<open>Inr (d, False)\<close> when the event was recorded already for this payment. A concurrent insert of
  the same event is not seen here: the transaction that loses it re-reads the event and takes
  the same two exits.
\<close>

definition record_payment_event :: "settle_args \<Rightarrow> payment \<Rightarrow> db \<Rightarrow> (db \<times> bool) res" where
  "record_payment_event a p d =
     (case sa_eventId a of
        None \<Rightarrow> Inr (d, True)
      | Some eid \<Rightarrow>
          if eid = [] then Inr (d, True)
          else case find_first (\<lambda>x. pe_eventId x = eid) (paymentEvents d) of
            Some x \<Rightarrow> if pe_paymentId x = p_id p then Inr (d, False)
                else Inl (Payment_Err 409 PAYMENT_EVENT_CONFLICT)
          | None \<Rightarrow>
              Inr (d\<lparr>paymentEvents := insert_row
                     \<lparr>pe_paymentId = p_id p,
                      pe_provider = or_empty (or_text (or_text (sa_provider a) (p_provider p)) (Some ''UNKNOWN'')),
                      pe_eventId = eid, pe_status = sa_status a\<rparr> (paymentEvents d)\<rparr>, True))"

text \<open>Statuses an event no longer changes.\<close>

definition ignored :: "payment_status \<Rightarrow> payment_status \<Rightarrow> bool" where
  "ignored current s =
     ((current = P_REFUNDED \<and> s \<noteq> P_REFUNDED) \<or>
      (current = P_PAID \<and> s \<in> {P_FAILED, P_RECONCILIATION_REQUIRED}) \<or>
      (current = P_RECONCILIATION_REQUIRED \<and>
         s \<notin> {P_PAID, P_FAILED, P_REFUNDED, P_RECONCILIATION_REQUIRED}))"

section \<open>The payment and its obligation\<close>

definition settle_obligation :: "payment_status \<Rightarrow> payment \<Rightarrow> db \<Rightarrow> (db \<times> payment) res" where
  "settle_obligation s updated d =
     (case p_obligationId updated of
        None \<Rightarrow> Inr (d, updated)
      | Some b \<Rightarrow>
          let to = (\<lambda>st. d\<lparr>obligations := update_rows (\<lambda>x. ob_id x = b) (\<lambda>x. x\<lparr>ob_status := st\<rparr>)
                     (obligations d)\<rparr>)
          in if s = P_FAILED
             then bindr (put_payment (p_id updated) (\<lambda>q. q\<lparr>p_obligationId := None\<rparr>) (to Ob_OPEN)) (\<lambda>d1.
                    Inr (d1, updated\<lparr>p_obligationId := None\<rparr>))
             else if s = P_PAID then Inr (to Ob_PAID, updated)
             else if s = P_REFUNDED then Inr (to Ob_CANCELLED, updated)
             else Inr (d, updated))"

definition apply_payment_status :: "time \<Rightarrow> settle_args \<Rightarrow> payment \<Rightarrow> db \<Rightarrow> (db \<times> payment) res" where
  "apply_payment_status now a p d =
     (let f = provider_fields a (sa_status a) p in
      bindr (put_payment (p_id p) f d) (\<lambda>d1.
      bindr (settle_obligation (sa_status a) (f p) d1) (\<lambda>(d2, updated).
      let d3 = (case p_orderId updated of
            None \<Rightarrow> d2 | Some i \<Rightarrow> recordOrderEvent now i Ev_PAYMENT_STATUS_CHANGED d2)
      in Inr (recordAuditEvent now None (Money_Act PAYMENT_STATUS_CHANGED) (p_id p) None d3, updated))))"

section \<open>What a paid payment sets off\<close>

definition commit_order_stock :: "time \<Rightarrow> order \<Rightarrow> db \<Rightarrow> db res" where
  "commit_order_stock now ord d =
     (case find_unique l_id (o_listingId ord) (listings d) of
        None \<Rightarrow> Inr d
      | Some l \<Rightarrow>
          if physical_category (l_category l)
          then bindr (commitListingQuantity now (o_listingId ord) (Some (o_quantity ord)) d) (\<lambda>(d1, _). Inr d1)
          else Inr d)"

definition pay_goods :: "env \<Rightarrow> time \<Rightarrow> settle_args \<Rightarrow> loaded \<Rightarrow> db \<Rightarrow> db res" where
  "pay_goods e now a v d =
     (let p = ld_payment v in
      case (p_type p = MARKETPLACE, ld_order v) of
        (True, Some ord) \<Rightarrow>
          if o_status ord = PENDING_PAYMENT then
            bindr (commit_order_stock now ord d) (\<lambda>d1.
            bindr (transitionOrderStatus now (o_id ord) PENDING_PAYMENT CONFIRMED (\<lambda>o1. o1) d1) (\<lambda>(d2, _).
            Inr (fst (createPayoutHold e now (Some (o_id ord)) (Some Payee_SELLER) (Some (o_sellerId ord)) p d2))))
          else if o_status ord = CANCELLED then
            Inr (recordAuditEvent now None (Money_Act PAYMENT_RECONCILIATION_REQUIRED) (p_id p) None
                   (createReconciliationIssue now (p_id p) (p_amount p)
                      (case observed_amount a of None \<Rightarrow> Some (p_amount p) | Some x \<Rightarrow> Some x)
                      PAYMENT_RECEIVED_FOR_CANCELLED_ORDER d))
          else Inr d
      | _ \<Rightarrow> Inr d)"

definition engage_truck :: "transport_job \<Rightarrow> uid \<Rightarrow> db \<Rightarrow> db res" where
  "engage_truck job tid d =
     (let busy = (\<lambda>P. update_many P (\<lambda>t. t\<lparr>tk_availability := BUSY\<rparr>) (trucks d)) in
      if t_status job \<noteq> T_ACCEPTED then
        (case busy (\<lambda>t. tk_id t = tid \<and> tk_availability t = AVAILABLE) of
           (rows, count) \<Rightarrow> if count \<noteq> 1 then Inl (Payment_Err 409 TRUCK_UNAVAILABLE)
                            else Inr (d\<lparr>trucks := rows\<rparr>))
      else case find_unique tk_id tid (trucks d) of
        None \<Rightarrow> Inl (Payment_Err 409 TRUCK_UNAVAILABLE)
      | Some t \<Rightarrow>
          (case tk_availability t of
             AVAILABLE \<Rightarrow> Inr (d\<lparr>trucks := fst (busy (\<lambda>t. tk_id t = tid))\<rparr>)
           | BUSY \<Rightarrow>
               if list_ex (\<lambda>j. t_id j \<noteq> t_id job \<and> t_truckId j = Some tid \<and>
                    t_status j \<in> {T_ACCEPTED, T_PICKUP, T_IN_TRANSIT}) (transportJobs d)
               then Inl (Payment_Err 409 TRUCK_UNAVAILABLE) else Inr d
           | OFFLINE \<Rightarrow> Inl (Payment_Err 409 TRUCK_UNAVAILABLE)))"

definition quote_aligned :: "payment \<Rightarrow> transport_quote \<Rightarrow> transport_job \<Rightarrow> bool" where
  "quote_aligned p q job = (tq_jobId q = t_id job \<and> tq_status q = Q_ACCEPTED \<and>
     t_truckId job = Some (tq_truckId q) \<and> t_truckOwnerId job = Some (tq_truckOwnerId q) \<and>
     moneyEqual (tq_amount q) (case t_agreedAmount job of None \<Rightarrow> 0 | Some x \<Rightarrow> x) \<and>
     moneyEqual (p_amount p) (tq_amount q))"

text \<open>The job is agreed, and the carrier has a day to be at the site.\<close>

definition accept_job :: "time \<Rightarrow> uid \<Rightarrow> uid \<Rightarrow> db \<Rightarrow> db" where
  "accept_job now jid qid d =
     d\<lparr>transportJobs := update_rows (\<lambda>j. t_id j = jid) (\<lambda>j. j\<lparr>t_status := T_ACCEPTED\<rparr>) (transportJobs d),
       transportQuotes := update_rows (\<lambda>q. tq_id q = qid)
         (\<lambda>q. q\<lparr>tq_expiresAt := Some (now + 24 * 60 * 60 * 1000)\<rparr>) (transportQuotes d)\<rparr>"

definition pay_transport :: "time \<Rightarrow> loaded \<Rightarrow> db \<Rightarrow> db res" where
  "pay_transport now v d =
     (case (ld_job v, ld_quote v) of
        (Some job, Some q) \<Rightarrow>
          (case (t_truckId job, t_truckOwnerId job) of
             (Some tid, Some _) \<Rightarrow>
               if p_type (ld_payment v) \<noteq> TRANSPORT \<or> t_method job \<noteq> HIRE_TRANSPORTER then Inr d
               else
                 bindr (guardr (t_status job \<in> {T_REQUESTED, T_QUOTED, T_ACCEPTED})
                          (Payment_Err 409 TRANSPORT_JOB_UNAVAILABLE)) (\<lambda>_.
                 bindr (guardr (quote_aligned (ld_payment v) q job) (Payment_Err 409 TRANSPORT_MISALIGNED)) (\<lambda>_.
                 bindr (engage_truck job tid d) (\<lambda>d1.
                 let d2 = accept_job now (t_id job) (tq_id q) d1 in
                 Inr (d2\<lparr>orders := update_rows (\<lambda>o1. o_id o1 = t_orderId job \<and> o_status o1 = CONFIRMED)
                        (\<lambda>o1. o1\<lparr>o_status := TRANSPORT_ARRANGED, o_updatedAt := now\<rparr>) (orders d2)\<rparr>))))
           | _ \<Rightarrow> Inr d)
      | _ \<Rightarrow> Inr d)"

definition pay_inspection :: "time \<Rightarrow> loaded \<Rightarrow> db \<Rightarrow> db res" where
  "pay_inspection now v d =
     (case ld_inspection v of
        None \<Rightarrow> Inr d
      | Some r \<Rightarrow>
          if p_type (ld_payment v) \<noteq> INSPECTOR \<or> i_inspectorId r = None then Inr d
          else bindr (guardr (i_status r \<in> {I_REQUESTED, I_ACCEPTED}) (Payment_Err 409 INSPECTION_UNAVAILABLE)) (\<lambda>_.
            Inr (d\<lparr>inspections := update_rows (\<lambda>i. i_id i = i_id r)
                   (\<lambda>i. i\<lparr>i_status := I_ACCEPTED, i_updatedAt := now\<rparr>) (inspections d)\<rparr>)))"

definition hold_service_payouts :: "env \<Rightarrow> time \<Rightarrow> loaded \<Rightarrow> db \<Rightarrow> db" where
  "hold_service_payouts e now v d =
     (let p = ld_payment v;
          d1 = (case ld_job v of
              Some job \<Rightarrow>
                if p_type p = TRANSPORT \<and> t_method job = HIRE_TRANSPORTER \<and> t_truckOwnerId job \<noteq> None
                then fst (createPayoutHold e now (Some (t_orderId job)) (Some Payee_TRANSPORTER)
                       (case ld_quote v of Some q \<Rightarrow> Some (tq_truckOwnerId q) | None \<Rightarrow> t_truckOwnerId job) p d)
                else d
            | None \<Rightarrow> d)
      in case ld_inspection v of
           Some r \<Rightarrow>
             if p_type p = INSPECTOR \<and> i_inspectorId r \<noteq> None
             then fst (createPayoutHold e now (i_orderId r) (Some Payee_INSPECTOR) (i_inspectorId r) p d1)
             else d1
         | None \<Rightarrow> d1)"

definition set_purchase :: "digital_purchase_status \<Rightarrow> digital_purchase option \<Rightarrow> db \<Rightarrow> db" where
  "set_purchase s purchase d = (case purchase of
     None \<Rightarrow> d
   | Some x \<Rightarrow> d\<lparr>digitalPurchases := update_rows (\<lambda>y. dp_id y = dp_id x) (\<lambda>y. y\<lparr>dp_status := s\<rparr>)
       (digitalPurchases d)\<rparr>)"

definition next_ad_status :: "time \<Rightarrow> advertisement \<Rightarrow> ad_status" where
  "next_ad_status now ad =
     (if ad_type ad \<in> {BANNER, TELEGRAM_PROMOTION} then Ad_PAID_PENDING_REVIEW
      else if ad_startDate ad > now then Ad_SCHEDULED else Ad_PUBLISHED)"

definition pay_advertisement :: "time \<Rightarrow> loaded \<Rightarrow> db \<Rightarrow> db" where
  "pay_advertisement now v d =
     (case ld_ad v of
        None \<Rightarrow> d
      | Some ad \<Rightarrow>
          if p_type (ld_payment v) \<noteq> ADVERTISING then d
          else let s = next_ad_status now ad
               in d\<lparr>advertisements := update_rows (\<lambda>x. ad_id x = ad_id ad)
                     (\<lambda>x. x\<lparr>ad_amountPaid := Some (p_amount (ld_payment v)), ad_status := s,
                       ad_publishedAt := (if s = Ad_PUBLISHED then Some now else ad_publishedAt x)\<rparr>)
                     (advertisements d)\<rparr>)"

text \<open>
  The effects of a paid payment. A payment that arrives while its order is disputed is booked,
  and its effects wait for the resolution (\<open>replayDisputedPaidPayment\<close>).
\<close>

definition paid_effects :: "env \<Rightarrow> time \<Rightarrow> settle_args \<Rightarrow> loaded \<Rightarrow> db \<Rightarrow> db res" where
  "paid_effects e now a v d =
     (let p = ld_payment v in
      if (case ld_order v of None \<Rightarrow> False | Some ord \<Rightarrow> o_status ord = DISPUTED) then
        Inr (createReconciliationIssue now (p_id p) (p_amount p) (observed_amount a)
               PAYMENT_RECEIVED_WHILE_ORDER_DISPUTED (writeLedger v P_PAID d))
      else
        bindr (pay_goods e now a v d) (\<lambda>d1.
        bindr (pay_transport now v d1) (\<lambda>d2.
        bindr (pay_inspection now v d2) (\<lambda>d3.
        let d4 = hold_service_payouts e now v d3;
            d5 = (if p_type p = DIGITAL then set_purchase Dp_COMPLETED (ld_purchase v) d4 else d4)
        in Inr (writeLedger v P_PAID (pay_advertisement now v d5))))))"

section \<open>The transaction and its callers\<close>

definition settle_body :: "env \<Rightarrow> time \<Rightarrow> settle_args \<Rightarrow> db \<Rightarrow> (db \<times> payment) res" where
  "settle_body e now a d =
     (case load_payment (sa_paymentId a) d of
        None \<Rightarrow> Inl (Payment_Err 404 SETTLED_PAYMENT_NOT_FOUND)
      | Some v \<Rightarrow>
          let p = ld_payment v in
          (case mismatch a p of
             Some (reason, audit) \<Rightarrow> flag_for_reconciliation now a reason audit p d
           | None \<Rightarrow>
               bindr (record_payment_event a p d) (\<lambda>(d1, new).
               if \<not> new \<or> ignored (p_status p) (sa_status a) then Inr (d1, p)
               else
                 bindr (apply_payment_status now a p d1) (\<lambda>(d2, updated).
                 if sa_status a = P_PAID then
                   bindr (paid_effects e now a v d2) (\<lambda>d3. Inr (d3, updated))
                 else if sa_status a = P_REFUNDED then
                   Inr (writeLedger v P_REFUNDED (set_purchase Dp_REFUNDED (ld_purchase v) d2), updated)
                 else Inr (d2, updated)))))"

definition settlePaymentCore :: "env \<Rightarrow> time \<Rightarrow> settle_args \<Rightarrow> db \<Rightarrow> db \<times> payment res" where
  "settlePaymentCore e now a d = transact (settle_body e now a) d"

text \<open>The money arrived but the goods are gone: the payment waits for an administrator.\<close>

definition stock_shortage :: "time \<Rightarrow> settle_args \<Rightarrow> db \<Rightarrow> (db \<times> payment) res" where
  "stock_shortage now a d =
     (case find_unique p_id (sa_paymentId a) (payments d) of
        None \<Rightarrow> Inl (Stock_Err 409 INSUFFICIENT_INVENTORY)
      | Some p \<Rightarrow>
          bindr (if p_status p \<noteq> P_RECONCILIATION_REQUIRED
                 then bindr (assertTransition (p_status p) P_RECONCILIATION_REQUIRED) (\<lambda>_.
                      put_payment (p_id p) (provider_fields a P_RECONCILIATION_REQUIRED p) d)
                 else Inr d) (\<lambda>d1.
          let d2 = recordAuditEvent now None (Money_Act PAYMENT_RECONCILIATION_REQUIRED) (p_id p) None
                (createReconciliationIssue now (p_id p) (p_amount p) (observed_amount a)
                   INSUFFICIENT_INVENTORY_AFTER_PROVIDER_PAYMENT d1)
          in case find_unique p_id (p_id p) (payments d2) of
               None \<Rightarrow> Inl (Stock_Err 409 INSUFFICIENT_INVENTORY)
             | Some q \<Rightarrow> Inr (d2, q)))"

definition settle_or_flag :: "env \<Rightarrow> time \<Rightarrow> settle_args \<Rightarrow> db \<Rightarrow> db \<times> payment res" where
  "settle_or_flag e now a d =
     (case settlePaymentCore e now a d of
        (d1, Inr p) \<Rightarrow> (d1, Inr p)
      | (d1, Inl err) \<Rightarrow>
          if err = Stock_Err 409 INSUFFICIENT_INVENTORY \<and> sa_status a = P_PAID then
            (case transact (stock_shortage now a) d1 of
               (d2, Inr p) \<Rightarrow> (d2, Inr p)
             | (d2, Inl _) \<Rightarrow> (d2, Inl err))
          else (d1, Inl err))"

text \<open>How \<open>finalizeInstallmentPlan\<close> settles the parent: by \<open>settlePaymentCore\<close> itself.\<close>

definition plan_args :: "payment \<Rightarrow> settle_args" where
  "plan_args parent =
     \<lparr>sa_paymentId = p_id parent, sa_status = P_PAID, sa_provider = Some ''INSTALLMENTS'',
      sa_providerTransactionId = Some (''installments:'' @ replicate (p_id parent) (CHR ''1'')),
      sa_eventId = Some (''installments-complete:'' @ replicate (p_id parent) (CHR ''1'')),
      sa_amount = Some (Some (p_amount parent)), sa_currency = Some (p_currency parent)\<rparr>"

definition settle_plan :: "env \<Rightarrow> time \<Rightarrow> uid \<Rightarrow> db \<Rightarrow> db \<times> payment option res" where
  "settle_plan e now parentId d =
     finalizeInstallmentPlan (\<lambda>parent. settlePaymentCore e now (plan_args parent)) parentId d"

text \<open>
  After the settlement: the last instalment settles the goods payment, and a paid goods
  payment ends the bidding. Failures here are only logged.
\<close>

definition settled_for_release :: "env \<Rightarrow> time \<Rightarrow> payment \<Rightarrow> db \<Rightarrow> db \<times> payment" where
  "settled_for_release e now p d =
     (case p_parentPaymentId p of
        Some parentId \<Rightarrow>
          if p_type p = MARKETPLACE_INSTALLMENT \<and> p_status p = P_PAID then
            (case settle_plan e now parentId d of
               (d1, Inr (Some q)) \<Rightarrow> (d1, if p_type q = MARKETPLACE \<and> p_status q = P_PAID then q else p)
             | (d1, _) \<Rightarrow> (d1, p))
          else (d, p)
      | None \<Rightarrow> (d, p))"

definition release_after_payment :: "time \<Rightarrow> payment \<Rightarrow> db \<Rightarrow> db" where
  "release_after_payment now p d =
     (case p_orderId p of
        Some oid \<Rightarrow>
          if p_type p = MARKETPLACE \<and> p_status p = P_PAID then
            (case find_unique o_id oid (orders d) of
               None \<Rightarrow> d
             | Some ord \<Rightarrow> if o_status ord \<in> {DISPUTED, CANCELLED} then d
                 else fst (releaseWaitingBidders now (o_listingId ord) None d))
          else d
      | None \<Rightarrow> d)"

definition settlePayment :: "env \<Rightarrow> time \<Rightarrow> settle_args \<Rightarrow> db \<Rightarrow> db \<times> payment res" where
  "settlePayment e now a d =
     (case settle_or_flag e now a d of
        (d1, Inl err) \<Rightarrow> (d1, Inl err)
      | (d1, Inr p) \<Rightarrow>
          (case settled_for_release e now p d1 of
             (d2, q) \<Rightarrow> (release_after_payment now q d2, Inr p)))"

section \<open>After a dispute\<close>

definition replay_transport :: "env \<Rightarrow> time \<Rightarrow> loaded \<Rightarrow> transport_job \<Rightarrow> db \<Rightarrow> db res" where
  "replay_transport e now v job d =
     bindr (if t_status job \<in> {T_REQUESTED, T_QUOTED, T_ACCEPTED} then
              (case ld_quote v of
                 None \<Rightarrow> Inr d
               | Some q \<Rightarrow>
                   if tq_status q = Q_ACCEPTED \<and> t_truckId job = Some (tq_truckId q) \<and>
                      t_truckOwnerId job = Some (tq_truckOwnerId q) then
                     (let d1 = accept_job now (t_id job) (tq_id q)
                            (d\<lparr>trucks := update_rows (\<lambda>t. t_truckId job = Some (tk_id t) \<and> tk_availability t = AVAILABLE)
                               (\<lambda>t. t\<lparr>tk_availability := BUSY\<rparr>) (trucks d)\<rparr>)
                      in case find_unique o_id (t_orderId job) (orders d1) of
                           None \<Rightarrow> Inr d1
                         | Some ord \<Rightarrow>
                             if o_status ord = CONFIRMED
                             then bindr (transitionOrderStatus now (o_id ord) CONFIRMED TRANSPORT_ARRANGED (\<lambda>o1. o1) d1)
                                    (\<lambda>(d2, _). Inr d2)
                             else Inr d1)
                   else Inr d)
            else Inr d) (\<lambda>d1.
     Inr (fst (createPayoutHold e now (Some (t_orderId job)) (Some Payee_TRANSPORTER)
            (case ld_quote v of Some q \<Rightarrow> Some (tq_truckOwnerId q) | None \<Rightarrow> t_truckOwnerId job) (ld_payment v) d1)))"

definition replay_goods :: "env \<Rightarrow> time \<Rightarrow> loaded \<Rightarrow> order \<Rightarrow> db \<Rightarrow> db res" where
  "replay_goods e now v ord d =
     bindr (if o_status ord = PENDING_PAYMENT then
              bindr (commit_order_stock now ord d) (\<lambda>d1.
              bindr (transitionOrderStatus now (o_id ord) PENDING_PAYMENT CONFIRMED (\<lambda>o1. o1) d1) (\<lambda>(d2, _). Inr d2))
            else Inr d) (\<lambda>d1.
     Inr (fst (createPayoutHold e now (Some (o_id ord)) (Some Payee_SELLER) (Some (o_sellerId ord)) (ld_payment v) d1)))"

definition replay_inspection :: "env \<Rightarrow> time \<Rightarrow> loaded \<Rightarrow> inspection \<Rightarrow> db \<Rightarrow> db" where
  "replay_inspection e now v r d =
     (let d1 = (if i_status r \<in> {I_REQUESTED, I_ACCEPTED}
            then d\<lparr>inspections := update_rows (\<lambda>i. i_id i = i_id r)
                   (\<lambda>i. i\<lparr>i_status := I_ACCEPTED, i_updatedAt := now\<rparr>) (inspections d)\<rparr>
            else d)
      in fst (createPayoutHold e now (i_orderId r) (Some Payee_INSPECTOR) (i_inspectorId r) (ld_payment v) d1))"

definition replayDisputedPaidPayment :: "env \<Rightarrow> time \<Rightarrow> uid \<Rightarrow> db \<Rightarrow> (db \<times> payment option) res" where
  "replayDisputedPaidPayment e now paymentId d =
     (case load_payment paymentId d of
        None \<Rightarrow> Inr (d, None)
      | Some v \<Rightarrow>
          let p = ld_payment v in
          if p_status p \<noteq> P_PAID then Inr (d, Some p)
          else case ld_order v of
            None \<Rightarrow> Inr (d, Some p)
          | Some ord \<Rightarrow>
              bindr (if p_type p = MARKETPLACE then replay_goods e now v ord d else Inr d) (\<lambda>d1.
              bindr (case ld_job v of
                  Some job \<Rightarrow> if p_type p = TRANSPORT \<and> t_method job = HIRE_TRANSPORTER \<and> t_truckOwnerId job \<noteq> None
                      then replay_transport e now v job d1 else Inr d1
                | None \<Rightarrow> Inr d1) (\<lambda>d2.
              Inr ((case ld_inspection v of
                  Some r \<Rightarrow> if p_type p = INSPECTOR \<and> i_inspectorId r \<noteq> None
                      then replay_inspection e now v r d2 else d2
                | None \<Rightarrow> d2), Some p))))"

end
