(* ===== verification/Settlement_Safety.thy ===== *)
theory Settlement_Safety
  imports Settlement
begin

text \<open>
  What the settlement of provider events guarantees: money is taken for paid only when the
  amount and the currency match, an event counts once, the ledger books a payment once and
  in full, and a payment that cannot be served waits for an administrator.
\<close>

section \<open>The books\<close>

text \<open>The tables the business effects of a payment leave alone.\<close>

definition books :: "db \<Rightarrow> payment list \<times> ledger_entry list \<times> payment_event list \<times> refund list" where
  "books d = (payments d, ledger d, paymentEvents d, refunds d)"

lemma books_eq:
  assumes "books d' = books d"
  shows "payments d' = payments d" and "ledger d' = ledger d" and "paymentEvents d' = paymentEvents d"
    and "refunds d' = refunds d"
  using assms by (simp_all add: books_def)

lemma books_logs [simp]:
  "books (recordAuditEvent now a c r j d) = books d"
  "books (recordOrderEvent now i t d) = books d"
  by (simp_all add: books_def)

lemma books_issue [simp]: "books (createReconciliationIssue now i x y r d) = books d"
  by (simp add: createReconciliationIssue_def Let_def books_def split: option.split)

lemma books_hold [simp]: "books (fst (createPayoutHold e now ord rl payee p d)) = books d"
  by (simp add: createPayoutHold_def Let_def books_def split: option.split)

lemma books_purchase [simp]: "books (set_purchase s x d) = books d"
  by (simp add: set_purchase_def books_def split: option.split)

lemma books_ad [simp]: "books (pay_advertisement now v d) = books d"
  by (simp add: pay_advertisement_def Let_def books_def split: option.split)

lemma books_service [simp]: "books (hold_service_payouts e now v d) = books d"
  by (simp add: hold_service_payouts_def Let_def split: option.split)

lemma books_commit: "commitListingQuantity now lid q d = Inr (d', r) \<Longrightarrow> books d' = books d"
  by (auto simp: commitListingQuantity_def bindr_eq_Inr update_many_def Let_def books_def
      split: if_splits option.splits)

lemma books_stock: "commit_order_stock now ord d = Inr d' \<Longrightarrow> books d' = books d"
  by (auto simp: commit_order_stock_def bindr_eq_Inr dest: books_commit split: option.splits if_splits)

lemma books_transition: "transitionOrderStatus now i s t f d = Inr (d', r) \<Longrightarrow> books d' = books d"
  by (simp add: transitionOrderStatus_Inr books_def)

lemma books_goods: "pay_goods e now a v d = Inr d' \<Longrightarrow> books d' = books d"
  by (auto simp: pay_goods_def Let_def bindr_eq_Inr dest!: books_stock books_transition
      split: option.splits if_splits bool.splits)

lemma books_truck: "engage_truck job tid d = Inr d' \<Longrightarrow> books d' = books d"
  by (auto simp: engage_truck_def update_many_def Let_def books_def
      split: if_splits option.splits truck_availability.splits)

lemma books_transport: "pay_transport now v d = Inr d' \<Longrightarrow> books d' = books d"
  unfolding pay_transport_def
  by (auto simp: bindr_eq_Inr Let_def accept_job_def books_def dest!: books_truck
      split: option.splits if_splits)

lemma books_inspection: "pay_inspection now v d = Inr d' \<Longrightarrow> books d' = books d"
  by (auto simp: pay_inspection_def bindr_eq_Inr books_def split: option.splits if_splits)

lemma books_released: "books (fst (releaseWaitingBidders now lid actor d)) = books d"
  by (simp add: releaseWaitingBidders_def Let_def books_def)

lemma books_release [simp]: "books (release_after_payment now p d) = books d"
  by (simp add: release_after_payment_def books_released split: option.split)

section \<open>The ledger\<close>

text \<open>A payment has at most one entry of each type.\<close>

definition ledger_once :: "db \<Rightarrow> bool" where
  "ledger_once d = distinct (map (\<lambda>x. (le_paymentId x, le_type x)) (ledger d))"

lemma entry_once [simp]: "ledger_once d \<Longrightarrow> ledger_once (createLedgerEntryOnce x d)"
  by (auto simp: ledger_once_def createLedgerEntryOnce_def ledgerEntryExists_def list_ex_iff)

lemma writeLedger_once [simp]: "ledger_once d \<Longrightarrow> ledger_once (writeLedger v s d)"
  by (simp add: writeLedger_def write_earning_def write_commission_def write_transport_def
      write_digital_def Let_def split: payment_type.split option.split)

lemma entry_frame [simp]:
  "payments (createLedgerEntryOnce x d) = payments d"
  "paymentEvents (createLedgerEntryOnce x d) = paymentEvents d"
  "orders (createLedgerEntryOnce x d) = orders d"
  "listings (createLedgerEntryOnce x d) = listings d"
  "payouts (createLedgerEntryOnce x d) = payouts d"
  "refunds (createLedgerEntryOnce x d) = refunds d"
  by (simp_all add: createLedgerEntryOnce_def)

lemma writeLedger_frame [simp]:
  "payments (writeLedger v s d) = payments d"
  "paymentEvents (writeLedger v s d) = paymentEvents d"
  "orders (writeLedger v s d) = orders d"
  "listings (writeLedger v s d) = listings d"
  "payouts (writeLedger v s d) = payouts d"
  "refunds (writeLedger v s d) = refunds d"
  by (simp_all add: writeLedger_def write_earning_def write_commission_def write_transport_def
      write_digital_def Let_def split: payment_type.split option.split)

lemma ledger_once_books: "books d' = books d \<Longrightarrow> ledger_once d' = ledger_once d"
  by (simp add: ledger_once_def books_def)

text \<open>What is written depends on the ledger alone.\<close>

definition book :: "ledger_entry \<Rightarrow> ledger_entry list \<Rightarrow> ledger_entry list" where
  "book x l = (if list_ex (\<lambda>y. le_paymentId y = le_paymentId x \<and> le_type y = le_type x) l then l
     else insert_row x l)"

lemma ledger_entry [simp]: "ledger (createLedgerEntryOnce x d) = book x (ledger d)"
  by (simp add: createLedgerEntryOnce_def ledgerEntryExists_def book_def)

lemma ledger_earning [simp]: "ledger (write_earning p t u d) =
    (if 0 < paid_net p then book (ledger_entry_for p u t (paid_net p)) (ledger d) else ledger d)"
  by (simp add: write_earning_def)

lemma ledger_commission [simp]: "ledger (write_commission p d) =
    (if 0 < paid_commission p
     then book (ledger_entry_for p None PLATFORM_COMMISSION (paid_commission p)) (ledger d) else ledger d)"
  by (simp add: write_commission_def)

lemma writeLedger_cong:
  assumes "ledger d = ledger d'"
  shows "ledger (writeLedger v s d) = ledger (writeLedger v s d')"
proof -
  have "ledger (write_transport v d) = ledger (write_transport v d')"
    using assms by (cases "ld_job v") (auto simp: write_transport_def)
  moreover have "ledger (write_digital v d) = ledger (write_digital v d')"
    using assms by (cases "ld_product v") (simp_all add: write_digital_def)
  ultimately show ?thesis
    using assms by (cases "p_type (ld_payment v)"; cases "ld_order v"; cases "ld_inspection v")
      (simp_all add: writeLedger_def Let_def)
qed

section \<open>The transaction\<close>

text \<open>A paid event writes the ledger and leaves the payments and the events alone.\<close>

lemma paid_effects_books:
  assumes "paid_effects e now a v d = Inr d'"
  shows "payments d' = payments d" and "paymentEvents d' = paymentEvents d"
    and "ledger d' = ledger (writeLedger v P_PAID d)" and "refunds d' = refunds d"
proof -
  have "payments d' = payments d \<and> paymentEvents d' = paymentEvents d \<and> refunds d' = refunds d \<and>
      ledger d' = ledger (writeLedger v P_PAID d)"
  proof (cases "case ld_order v of None \<Rightarrow> False | Some ord \<Rightarrow> o_status ord = DISPUTED")
    case True
    with assms have "d' = createReconciliationIssue now (p_id (ld_payment v)) (p_amount (ld_payment v))
        (observed_amount a) PAYMENT_RECEIVED_WHILE_ORDER_DISPUTED (writeLedger v P_PAID d)"
      by (simp add: paid_effects_def Let_def)
    then have "books d' = books (writeLedger v P_PAID d)" by simp
    then show ?thesis by (simp add: books_def)
  next
    case False
    with assms obtain d1 d2 d3 where steps: "pay_goods e now a v d = Inr d1"
        "pay_transport now v d1 = Inr d2" "pay_inspection now v d2 = Inr d3"
      and d': "d' = writeLedger v P_PAID (pay_advertisement now v
          (if p_type (ld_payment v) = DIGITAL
           then set_purchase Dp_COMPLETED (ld_purchase v) (hold_service_payouts e now v d3)
           else hold_service_payouts e now v d3))"
      by (auto simp: paid_effects_def bindr_eq_Inr Let_def)
    let ?d4 = "pay_advertisement now v (if p_type (ld_payment v) = DIGITAL
           then set_purchase Dp_COMPLETED (ld_purchase v) (hold_service_payouts e now v d3)
           else hold_service_payouts e now v d3)"
    have "books ?d4 = books d"
      using steps by (simp add: books_goods books_transport books_inspection)
    then show ?thesis unfolding d'
      using books_eq [of ?d4 d] writeLedger_cong [of ?d4 d v P_PAID] by simp
  qed
  then show "payments d' = payments d" and "paymentEvents d' = paymentEvents d"
    and "ledger d' = ledger (writeLedger v P_PAID d)" and "refunds d' = refunds d" by simp_all
qed

text \<open>The row a settled payment becomes.\<close>

definition settled_row :: "settle_args \<Rightarrow> payment \<Rightarrow> payment \<Rightarrow> payment" where
  "settled_row a p r =
     (let q = provider_fields a (sa_status a) p r in
      if sa_status a = P_FAILED \<and> p_obligationId p \<noteq> None then q\<lparr>p_obligationId := None\<rparr> else q)"

lemma provider_fields_sel [simp]:
  "p_id (provider_fields a s p r) = p_id r"
  "p_status (provider_fields a s p r) = s"
  "p_amount (provider_fields a s p r) = p_amount r"
  "p_currency (provider_fields a s p r) = p_currency r"
  "p_type (provider_fields a s p r) = p_type r"
  "p_orderId (provider_fields a s p r) = p_orderId r"
  "p_obligationId (provider_fields a s p r) = p_obligationId r"
  "p_parentPaymentId (provider_fields a s p r) = p_parentPaymentId r"
  "p_installmentCount (provider_fields a s p r) = p_installmentCount r"
  "p_installmentSequence (provider_fields a s p r) = p_installmentSequence r"
  by (simp_all add: provider_fields_def)

lemma settled_row_sel [simp]:
  "p_id (settled_row a p r) = p_id r"
  "p_status (settled_row a p r) = sa_status a"
  "p_amount (settled_row a p r) = p_amount r"
  "p_currency (settled_row a p r) = p_currency r"
  "p_type (settled_row a p r) = p_type r"
  "p_orderId (settled_row a p r) = p_orderId r"
  "p_parentPaymentId (settled_row a p r) = p_parentPaymentId r"
  "p_installmentCount (settled_row a p r) = p_installmentCount r"
  "p_installmentSequence (settled_row a p r) = p_installmentSequence r"
  by (simp_all add: settled_row_def Let_def)

lemma put_payment_Inr [simp]:
  "put_payment i f d = Inr d' \<longleftrightarrow> payments_unique (update_rows (\<lambda>p. p_id p = i) f (payments d)) \<and>
     d' = d\<lparr>payments := update_rows (\<lambda>p. p_id p = i) f (payments d)\<rparr>"
  by (auto simp: put_payment_def Let_def)

lemma settle_obligation_Inr:
  assumes "settle_obligation s u d = Inr (d', r)"
  shows "payments d' = (if s = P_FAILED \<and> p_obligationId u \<noteq> None
      then update_rows (\<lambda>p. p_id p = p_id u) (\<lambda>q. q\<lparr>p_obligationId := None\<rparr>) (payments d) else payments d)"
    and "ledger d' = ledger d" and "paymentEvents d' = paymentEvents d"
    and "orders d' = orders d \<and> listings d' = listings d \<and> payouts d' = payouts d \<and> refunds d' = refunds d"
    and "r = (if s = P_FAILED then u\<lparr>p_obligationId := None\<rparr> else u)"
  using assms by (auto simp: settle_obligation_def Let_def bindr_eq_Inr split: option.splits if_splits)

lemma apply_payment_status_Inr:
  assumes "apply_payment_status now a p d = Inr (d', r)"
  shows "payments d' = update_rows (\<lambda>q. p_id q = p_id p) (settled_row a p) (payments d)"
    and "ledger d' = ledger d" and "paymentEvents d' = paymentEvents d"
    and "r = settled_row a p p"
    and "orders d' = orders d" and "listings d' = listings d" and "payouts d' = payouts d"
    and "refunds d' = refunds d"
proof -
  obtain d1 d2 where d1: "put_payment (p_id p) (provider_fields a (sa_status a) p) d = Inr d1"
    and d2: "settle_obligation (sa_status a) (provider_fields a (sa_status a) p p) d1 = Inr (d2, r)"
    and d': "d' = recordAuditEvent now None (Money_Act PAYMENT_STATUS_CHANGED) (p_id p) None
        (case p_orderId r of None \<Rightarrow> d2 | Some i \<Rightarrow> recordOrderEvent now i Ev_PAYMENT_STATUS_CHANGED d2)"
    using assms by (auto simp: apply_payment_status_def bindr_eq_Inr Let_def)
  note o = settle_obligation_Inr [OF d2]
  have c: "update_rows (\<lambda>q. p_id q = p_id p) (\<lambda>q. q\<lparr>p_obligationId := None\<rparr>)
      (update_rows (\<lambda>q. p_id q = p_id p) (provider_fields a s p) t) =
    update_rows (\<lambda>q. p_id q = p_id p) (\<lambda>q. (provider_fields a s p q)\<lparr>p_obligationId := None\<rparr>) t"
    for s t by (induction t) (auto simp: update_rows_def)
  show "payments d' = update_rows (\<lambda>q. p_id q = p_id p) (settled_row a p) (payments d)"
    using d1 o(1) by (auto simp: d' c settled_row_def Let_def split: option.splits intro!: update_rows_cong)
  show "r = settled_row a p p"
    using o(5) by (cases "p_obligationId p") (auto simp: settled_row_def Let_def provider_fields_def)
  show "ledger d' = ledger d" "paymentEvents d' = paymentEvents d"
    using d1 o(2,3) by (auto simp: d' split: option.splits)
  show "orders d' = orders d" "listings d' = listings d" "payouts d' = payouts d" "refunds d' = refunds d"
    using d1 o(4) by (auto simp: d' split: option.splits)
qed

lemma load_payment_Some:
  assumes "load_payment i d = Some v"
  shows "find_unique p_id i (payments d) = Some (ld_payment v)" and "p_id (ld_payment v) = i"
  using assms by (auto simp: load_payment_def dest: find_unique_Some)

lemma createReconciliationIssue_frame [simp]:
  "payments (createReconciliationIssue now i x y rs d) = payments d"
  "ledger (createReconciliationIssue now i x y rs d) = ledger d"
  "paymentEvents (createReconciliationIssue now i x y rs d) = paymentEvents d"
  "refunds (createReconciliationIssue now i x y rs d) = refunds d"
  "orders (createReconciliationIssue now i x y rs d) = orders d"
  "listings (createReconciliationIssue now i x y rs d) = listings d"
  "reconciliations (createReconciliationIssue now i x y rs d) = insert_row
     \<lparr>rc_id = next_id d, rc_paymentId = i, rc_expectedAmount = x, rc_observedAmount = y, rc_reason = rs,
      rc_status = Rc_OPEN\<rparr> (reconciliations d)"
  by (simp_all add: createReconciliationIssue_def Let_def split: option.split)

lemma flag_Inr:
  assumes "flag_for_reconciliation now a reason audit p d = Inr (d', r)"
  shows "canTransition (p_status p) P_RECONCILIATION_REQUIRED \<and>
      payments d' = update_rows (\<lambda>q. p_id q = p_id p) (provider_fields a P_RECONCILIATION_REQUIRED p) (payments d) \<or>
      payments d' = payments d"
    and "ledger d' = ledger d" and "paymentEvents d' = paymentEvents d"
  using assms by (auto simp: flag_for_reconciliation_def Let_def bindr_eq_Inr split: if_splits)

lemma find_first_insert_row:
  "find_first P (insert_row r t) =
     (case find_first P t of Some x \<Rightarrow> Some x | None \<Rightarrow> if P r then Some r else None)"
  by (induction t) (auto simp: find_first_def insert_row_def)

lemma record_event_Inr:
  assumes "record_payment_event a p d = Inr (d', new)"
  shows "payments d' = payments d" and "ledger d' = ledger d" and "orders d' = orders d"
    and "listings d' = listings d" and "payouts d' = payouts d" and "refunds d' = refunds d" and "\<not> new \<Longrightarrow> d' = d"
    and "sa_eventId a = Some eid \<Longrightarrow> eid \<noteq> [] \<Longrightarrow>
      \<exists>x. find_first (\<lambda>y. pe_eventId y = eid) (paymentEvents d') = Some x \<and> pe_paymentId x = p_id p"
  using assms by (auto simp: record_payment_event_def find_first_insert_row
      split: option.splits if_splits)

lemma settle_bodyE:
  assumes "settle_body e now a d = Inr (d', r)"
  obtains
    (flagged) v reason audit where "load_payment (sa_paymentId a) d = Some v"
      and "mismatch a (ld_payment v) = Some (reason, audit)"
      and "flag_for_reconciliation now a reason audit (ld_payment v) d = Inr (d', r)"
  | (unchanged) v new where "load_payment (sa_paymentId a) d = Some v"
      and "mismatch a (ld_payment v) = None"
      and "record_payment_event a (ld_payment v) d = Inr (d', new)"
      and "\<not> new \<or> ignored (p_status (ld_payment v)) (sa_status a)" and "r = ld_payment v"
  | (applied) v d1 d2 where "load_payment (sa_paymentId a) d = Some v"
      and "mismatch a (ld_payment v) = None"
      and "record_payment_event a (ld_payment v) d = Inr (d1, True)"
      and "\<not> ignored (p_status (ld_payment v)) (sa_status a)"
      and "apply_payment_status now a (ld_payment v) d1 = Inr (d2, r)"
      and "sa_status a = P_PAID \<Longrightarrow> paid_effects e now a v d2 = Inr d'"
      and "sa_status a = P_REFUNDED \<Longrightarrow>
        d' = writeLedger v P_REFUNDED (set_purchase Dp_REFUNDED (ld_purchase v) d2)"
      and "sa_status a \<notin> {P_PAID, P_REFUNDED} \<Longrightarrow> d' = d2"
proof -
  from assms obtain v where v: "load_payment (sa_paymentId a) d = Some v"
    by (auto simp: settle_body_def split: option.splits)
  show thesis
  proof (cases "mismatch a (ld_payment v)")
    case (Some x)
    obtain reason audit where "x = (reason, audit)" by (cases x)
    with Some v assms show thesis by (intro flagged) (auto simp: settle_body_def Let_def)
  next
    case None
    with v assms obtain d1 new where rec: "record_payment_event a (ld_payment v) d = Inr (d1, new)"
      and rest: "(if \<not> new \<or> ignored (p_status (ld_payment v)) (sa_status a) then Inr (d1, ld_payment v)
         else bindr (apply_payment_status now a (ld_payment v) d1) (\<lambda>(d2, updated).
           if sa_status a = P_PAID then bindr (paid_effects e now a v d2) (\<lambda>d3. Inr (d3, updated))
           else if sa_status a = P_REFUNDED then
             Inr (writeLedger v P_REFUNDED (set_purchase Dp_REFUNDED (ld_purchase v) d2), updated)
           else Inr (d2, updated))) = Inr (d', r)"
      by (auto simp: settle_body_def Let_def bindr_eq_Inr)
    show thesis
    proof (cases "\<not> new \<or> ignored (p_status (ld_payment v)) (sa_status a)")
      case True
      with rest have "d1 = d'" "r = ld_payment v" by auto
      with None v rec True show thesis by (intro unchanged) auto
    next
      case False
      then have new: "new = True" and i: "\<not> ignored (p_status (ld_payment v)) (sa_status a)" by auto
      from rest False obtain d2 where ap: "apply_payment_status now a (ld_payment v) d1 = Inr (d2, r)"
        and "sa_status a = P_PAID \<Longrightarrow> paid_effects e now a v d2 = Inr d'"
        and "sa_status a = P_REFUNDED \<Longrightarrow>
          d' = writeLedger v P_REFUNDED (set_purchase Dp_REFUNDED (ld_purchase v) d2)"
        and "sa_status a \<notin> {P_PAID, P_REFUNDED} \<Longrightarrow> d' = d2"
        by (auto simp: bindr_eq_Inr split: if_splits)
      then show thesis using None v rec [unfolded new] i by (intro applied)
    qed
  qed
qed

text \<open>What a settlement does to the payments.\<close>

lemma settle_body_payments:
  assumes "settle_body e now a d = Inr (d', r)"
  obtains p where "find_unique p_id (sa_paymentId a) (payments d) = Some p" and "p_id p = sa_paymentId a"
    and "payments d' = payments d \<or>
      mismatch a p = None \<and> \<not> ignored (p_status p) (sa_status a) \<and>
        payments d' = update_rows (\<lambda>q. p_id q = p_id p) (settled_row a p) (payments d) \<or>
      canTransition (p_status p) P_RECONCILIATION_REQUIRED \<and>
        payments d' = update_rows (\<lambda>q. p_id q = p_id p) (provider_fields a P_RECONCILIATION_REQUIRED p) (payments d)"
  using assms
proof (cases rule: settle_bodyE)
  case (flagged v reason audit)
  show thesis by (rule that [OF load_payment_Some [OF flagged(1)]])
      (use flag_Inr(1) [OF flagged(3)] in blast)
next
  case (unchanged v new)
  show thesis by (rule that [OF load_payment_Some [OF unchanged(1)]])
      (simp add: record_event_Inr(1) [OF unchanged(3)])
next
  case (applied v d1 d2)
  have d2: "payments d2 = update_rows (\<lambda>q. p_id q = p_id (ld_payment v)) (settled_row a (ld_payment v)) (payments d)"
    using apply_payment_status_Inr(1) [OF applied(5)] record_event_Inr(1) [OF applied(3)] by simp
  have "payments d' = payments d2"
  proof (cases "sa_status a = P_PAID")
    case True
    then show ?thesis using paid_effects_books(1) applied(6) by blast
  next
    case False
    then show ?thesis using applied(7,8) books_eq(1) [OF books_purchase]
      by (cases "sa_status a = P_REFUNDED") auto
  qed
  with applied(2,4) d2 show thesis by (intro that [OF load_payment_Some [OF applied(1)]]) simp
qed

lemma settle_body_ledger_once:
  assumes "settle_body e now a d = Inr (d', r)" and "ledger_once d"
  shows "ledger_once d'"
  using assms(1)
proof (cases rule: settle_bodyE)
  case (flagged v reason audit)
  then show ?thesis using flag_Inr(2) [OF flagged(3)] assms(2) by (simp add: ledger_once_def)
next
  case (unchanged v new)
  then show ?thesis using record_event_Inr(2) [OF unchanged(3)] assms(2) by (simp add: ledger_once_def)
next
  case (applied v d1 d2)
  have d2: "ledger_once d2"
    using apply_payment_status_Inr(2) [OF applied(5)] record_event_Inr(2) [OF applied(3)] assms(2)
    by (simp add: ledger_once_def)
  show ?thesis
  proof (cases "sa_status a = P_PAID")
    case True
    have "ledger d' = ledger (writeLedger v P_PAID d2)"
      by (rule paid_effects_books(3) [OF applied(6) [OF True]])
    with writeLedger_once [OF d2, of v P_PAID] show ?thesis by (simp add: ledger_once_def)
  next
    case False
    have "ledger_once (set_purchase Dp_REFUNDED (ld_purchase v) d2)"
      using d2 ledger_once_books [OF books_purchase] by blast
    with False d2 applied(7,8) show ?thesis by (cases "sa_status a = P_REFUNDED") auto
  qed
qed

section \<open>From the payments before to the payments after\<close>

text \<open>What was agreed for a payment: no event changes it.\<close>

definition terms :: "payment \<Rightarrow> uid \<times> number \<times> string \<times> payment_type \<times> uid option \<times> uid option \<times>
    nat option \<times> nat option" where
  "terms p = (p_id p, p_amount p, p_currency p, p_type p, p_orderId p, p_parentPaymentId p,
     p_installmentCount p, p_installmentSequence p)"

lemma terms_rows [simp]:
  "terms (settled_row a p r) = terms r"
  "terms (provider_fields a s p r) = terms r"
  by (simp_all add: terms_def)

text \<open>
  \<open>row_moves P d d'\<close>: every payment keeps its terms, and its status only moves as \<open>P\<close> allows.
\<close>

definition row_moves :: "(payment \<Rightarrow> payment_status \<Rightarrow> bool) \<Rightarrow> db \<Rightarrow> db \<Rightarrow> bool" where
  "row_moves P d d' = (\<forall>i q. find_unique p_id i (payments d') = Some q \<longrightarrow>
     (\<exists>p. find_unique p_id i (payments d) = Some p \<and> terms p = terms q \<and>
        (p_status q = p_status p \<or> P p (p_status q))))"

lemma row_movesE:
  assumes "row_moves P d d'" and "find_unique p_id i (payments d') = Some q"
  obtains p where "find_unique p_id i (payments d) = Some p" and "terms p = terms q"
    and "p_status q = p_status p \<or> P p (p_status q)"
  using assms unfolding row_moves_def by blast

lemma row_moves_same: "payments d' = payments d \<Longrightarrow> row_moves P d d'"
  by (auto simp: row_moves_def)

lemma row_moves_mono: "row_moves P d d' \<Longrightarrow> (\<And>p s. P p s \<Longrightarrow> Q p s) \<Longrightarrow> row_moves Q d d'"
  unfolding row_moves_def by blast

lemma row_moves_update:
  assumes p: "find_unique p_id (p_id p) (payments d) = Some p"
    and d': "payments d' = update_rows (\<lambda>q. p_id q = p_id p) f (payments d)"
    and f: "\<And>r. p_id (f r) = p_id r" "terms (f p) = terms p" and ok: "P p (p_status (f p))"
  shows "row_moves P d d'"
proof -
  have "\<exists>r. find_unique p_id i (payments d) = Some r \<and> terms r = terms q \<and>
      (p_status q = p_status r \<or> P r (p_status q))"
    if "find_unique p_id i (payments d') = Some q" for i q
  proof (cases "i = p_id p")
    case True
    with that p have "q = f p" by (auto simp: d' find_unique_update_rows f(1))
    with p True f(2) ok show ?thesis by auto
  next
    case False
    from that obtain r where r: "find_unique p_id i (payments d) = Some r"
      and q: "q = (if p_id r = p_id p then f r else r)"
      by (auto simp: d' find_unique_update_rows f(1))
    moreover have "p_id r = i" using r by (auto dest: find_unique_Some)
    ultimately show ?thesis using False by auto
  qed
  then show ?thesis by (auto simp: row_moves_def)
qed

definition event_moves :: "settle_args \<Rightarrow> payment \<Rightarrow> payment_status \<Rightarrow> bool" where
  "event_moves a p s = (p_id p = sa_paymentId a \<and>
     (s = sa_status a \<and> mismatch a p = None \<and> \<not> ignored (p_status p) s \<or>
      s = P_RECONCILIATION_REQUIRED \<and> canTransition (p_status p) P_RECONCILIATION_REQUIRED))"

lemma core_moves:
  assumes "settlePaymentCore e now a d = (d', r)"
  shows "row_moves (event_moves a) d d'"
proof (cases "settle_body e now a d")
  case (Inl x)
  with assms show ?thesis by (auto simp: settlePaymentCore_def intro: row_moves_same)
next
  case (Inr y)
  with assms obtain q where b: "settle_body e now a d = Inr (d', q)"
    by (cases y) (auto simp: settlePaymentCore_def)
  show ?thesis
  proof (rule settle_body_payments [OF b])
    fix p
    assume p: "find_unique p_id (sa_paymentId a) (payments d) = Some p" and i: "p_id p = sa_paymentId a"
      and "payments d' = payments d \<or>
        mismatch a p = None \<and> \<not> ignored (p_status p) (sa_status a) \<and>
          payments d' = update_rows (\<lambda>q. p_id q = p_id p) (settled_row a p) (payments d) \<or>
        canTransition (p_status p) P_RECONCILIATION_REQUIRED \<and>
          payments d' = update_rows (\<lambda>q. p_id q = p_id p) (provider_fields a P_RECONCILIATION_REQUIRED p) (payments d)"
    then show ?thesis
    proof (elim disjE conjE)
      assume "payments d' = payments d"
      then show ?thesis by (rule row_moves_same)
    next
      assume "mismatch a p = None" "\<not> ignored (p_status p) (sa_status a)"
        and d': "payments d' = update_rows (\<lambda>q. p_id q = p_id p) (settled_row a p) (payments d)"
      with p i show ?thesis by (intro row_moves_update [OF _ d']) (auto simp: event_moves_def)
    next
      assume "canTransition (p_status p) P_RECONCILIATION_REQUIRED"
        and d': "payments d' = update_rows (\<lambda>q. p_id q = p_id p) (provider_fields a P_RECONCILIATION_REQUIRED p) (payments d)"
      with p i show ?thesis by (intro row_moves_update [OF _ d']) (auto simp: event_moves_def)
    qed
  qed
qed

lemma shortage_moves:
  assumes "stock_shortage now a d = Inr (d', r)"
  shows "row_moves (event_moves a) d d'" and "ledger d' = ledger d"
proof -
  obtain p d1 where p: "find_unique p_id (sa_paymentId a) (payments d) = Some p"
    and d1: "(if p_status p \<noteq> P_RECONCILIATION_REQUIRED
      then bindr (assertTransition (p_status p) P_RECONCILIATION_REQUIRED) (\<lambda>_.
             put_payment (p_id p) (provider_fields a P_RECONCILIATION_REQUIRED p) d)
      else Inr d) = Inr d1"
    and d': "d' = recordAuditEvent now None (Money_Act PAYMENT_RECONCILIATION_REQUIRED) (p_id p) None
        (createReconciliationIssue now (p_id p) (p_amount p) (observed_amount a)
          INSUFFICIENT_INVENTORY_AFTER_PROVIDER_PAYMENT d1)"
    using assms unfolding stock_shortage_def
    by (auto simp: bindr_eq_Inr Let_def simp del: put_payment_Inr split: option.splits)
  have "books d' = books d1" by (simp add: d')
  note b = books_eq [OF this]
  have i: "p_id p = sa_paymentId a" using p by (auto dest: find_unique_Some)
  show "ledger d' = ledger d"
    using d1 b(2) by (auto simp: bindr_eq_Inr split: if_splits)
  show "row_moves (event_moves a) d d'"
  proof (cases "p_status p = P_RECONCILIATION_REQUIRED")
    case True
    with d1 b(1) show ?thesis by (intro row_moves_same) simp
  next
    case False
    with d1 b(1) have d': "payments d' = update_rows (\<lambda>q. p_id q = p_id p) (provider_fields a P_RECONCILIATION_REQUIRED p) (payments d)"
      and "canTransition (p_status p) P_RECONCILIATION_REQUIRED"
      by (auto simp: bindr_eq_Inr assertTransition_def split: if_splits)
    with p i show ?thesis by (intro row_moves_update [OF _ d']) (auto simp: event_moves_def)
  qed
qed

lemma settle_or_flag_moves:
  assumes "settle_or_flag e now a d = (d', r)"
  shows "row_moves (event_moves a) d d'"
proof (cases "settlePaymentCore e now a d")
  case (Pair d1 r1)
  note core = core_moves [OF Pair]
  show ?thesis
  proof (cases r1)
    case (Inr p)
    with Pair assms core show ?thesis by (simp add: settle_or_flag_def)
  next
    case (Inl err)
    with Pair have same: "d1 = d"
      by (auto simp: settlePaymentCore_def transact_def split: sum.splits)
    show ?thesis
    proof (cases "stock_shortage now a d")
      case (Inl x)
      with Pair assms core same \<open>r1 = Inl err\<close> show ?thesis
        by (auto simp: settle_or_flag_def split: if_splits)
    next
      case (Inr y)
      with Pair assms same \<open>r1 = Inl err\<close> have "d' = d \<or> stock_shortage now a d = Inr (d', snd y)"
        by (cases y) (auto simp: settle_or_flag_def split: if_splits)
      then show ?thesis using shortage_moves(1) row_moves_same by blast
    qed
  qed
qed

text \<open>All the installments of a goods payment are paid, and there are as many as it was split into.\<close>

definition plan_paid :: "payment \<Rightarrow> db \<Rightarrow> bool" where
  "plan_paid p d = (p_installmentCount p = Some (length (plan_children (p_id p) d)) \<and>
     list_all (\<lambda>c. p_status c = P_PAID) (plan_children (p_id p) d))"

definition plan_moves :: "db \<Rightarrow> payment \<Rightarrow> payment_status \<Rightarrow> bool" where
  "plan_moves d p s = (plan_paid p d \<and> s \<in> {P_PAID, P_RECONCILIATION_REQUIRED} \<and>
     p_status p \<notin> {P_PAID, P_REFUNDED, P_REFUND_PENDING, P_FAILED})"

lemma plan_args_sel [simp]: "sa_paymentId (plan_args p) = p_id p" "sa_status (plan_args p) = P_PAID"
  by (simp_all add: plan_args_def)

lemma settle_plan_moves:
  assumes "settle_plan e now parentId d = (d', r)"
  shows "row_moves (plan_moves d) d d'"
proof (cases "d' = d")
  case True
  then show ?thesis by (simp add: row_moves_same)
next
  case False
  with assms obtain parent r1 where p: "find_unique p_id parentId (payments d) = Some parent"
    and plan: "plan_paid parent d" and st: "p_status parent \<notin> {P_PAID, P_REFUNDED, P_REFUND_PENDING, P_FAILED}"
    and core: "settlePaymentCore e now (plan_args parent) d = (d', r1)"
    by (auto simp: settle_plan_def finalizeInstallmentPlan_def plan_paid_def Let_def
        dest: find_unique_Some split: option.splits if_splits prod.splits sum.splits)
  from core_moves [OF core] show ?thesis
    unfolding row_moves_def
  proof (intro allI impI)
    fix i q
    assume "\<forall>i q. find_unique p_id i (payments d') = Some q \<longrightarrow>
        (\<exists>p. find_unique p_id i (payments d) = Some p \<and> terms p = terms q \<and>
          (p_status q = p_status p \<or> event_moves (plan_args parent) p (p_status q)))"
      and "find_unique p_id i (payments d') = Some q"
    then obtain p1 where p1: "find_unique p_id i (payments d) = Some p1" "terms p1 = terms q"
      and m: "p_status q = p_status p1 \<or> event_moves (plan_args parent) p1 (p_status q)" by blast
    have "plan_moves d p1 (p_status q)" if e: "event_moves (plan_args parent) p1 (p_status q)"
    proof -
      have "i = parentId"
        using find_unique_Some [OF p] find_unique_Some [OF p1(1)] e by (simp add: event_moves_def)
      then have "p1 = parent" using p p1(1) by simp
      with e plan st show ?thesis by (auto simp: plan_moves_def event_moves_def)
    qed
    with m p1 show "\<exists>p. find_unique p_id i (payments d) = Some p \<and> terms p = terms q \<and>
        (p_status q = p_status p \<or> plan_moves d p (p_status q))" by blast
  qed
qed

lemma settled_for_release_moves:
  assumes "settled_for_release e now p d = (d', q)"
  shows "row_moves (plan_moves d) d d'"
proof -
  have "d' = d \<or> (\<exists>parentId r. settle_plan e now parentId d = (d', r))"
    using assms by (auto simp: settled_for_release_def split: option.splits if_splits prod.splits sum.splits)
  then show ?thesis using settle_plan_moves row_moves_same by blast
qed

text \<open>A settlement is the event, then the end of the installment plan, then the waiting list.\<close>

lemma settlePayment_moves:
  assumes "settlePayment e now a d = (d', r)"
  obtains d1 r1 where "settle_or_flag e now a d = (d1, r1)" and "row_moves (event_moves a) d d1"
    and "row_moves (plan_moves d1) d1 d'"
proof (cases "settle_or_flag e now a d")
  case (Pair d1 r1)
  note m = settle_or_flag_moves [OF Pair]
  show thesis
  proof (cases r1)
    case (Inl x)
    with Pair assms m show thesis by (intro that [OF Pair]) (auto simp: settlePayment_def intro: row_moves_same)
  next
    case (Inr p)
    obtain d2 q where s: "settled_for_release e now p d1 = (d2, q)" by fastforce
    with Pair Inr assms have d': "d' = release_after_payment now q d2" by (simp add: settlePayment_def)
    then have "payments d' = payments d2" by (simp add: books_eq(1) [OF books_release])
    with settled_for_release_moves [OF s] have "row_moves (plan_moves d1) d1 d'"
      by (simp add: row_moves_def)
    with Pair m show thesis by (rule that)
  qed
qed

section \<open>The ledger of every settlement\<close>

lemma core_ledger_once: "settlePaymentCore e now a d = (d', r) \<Longrightarrow> ledger_once d \<Longrightarrow> ledger_once d'"
  using settle_body_ledger_once
  by (auto simp: settlePaymentCore_def transact_def split: sum.splits prod.splits)

lemma settlePayment_ledger_once:
  assumes "settlePayment e now a d = (d', r)" and "ledger_once d"
  shows "ledger_once d'"
proof -
  obtain d1 r1 where c: "settlePaymentCore e now a d = (d1, r1)" by fastforce
  note l1 = core_ledger_once [OF c assms(2)]
  obtain d2 r2 where f: "settle_or_flag e now a d = (d2, r2)" by fastforce
  have l2: "ledger_once d2"
  proof (cases "stock_shortage now a d1")
    case (Inl x)
    with f c l1 show ?thesis by (auto simp: settle_or_flag_def split: sum.splits if_splits)
  next
    case (Inr y)
    obtain d3 p where y: "y = (d3, p)" by (cases y)
    have "ledger_once d3" using shortage_moves(2) [of now a d1 d3 p] Inr y l1 by (simp add: ledger_once_def)
    with f c l1 Inr y show ?thesis by (auto simp: settle_or_flag_def split: sum.splits if_splits)
  qed
  show ?thesis
  proof (cases r2)
    case (Inl x)
    with f l2 assms(1) show ?thesis by (simp add: settlePayment_def)
  next
    case (Inr p)
    obtain d3 q where s: "settled_for_release e now p d2 = (d3, q)" by fastforce
    have "d3 = d2 \<or> (\<exists>i x. settlePaymentCore e now x d2 = (d3, i))"
      using s by (auto simp: settled_for_release_def settle_plan_def finalizeInstallmentPlan_def Let_def
          split: option.splits if_splits prod.splits sum.splits)
    then have "ledger_once d3" using l2 core_ledger_once by blast
    moreover have "d' = release_after_payment now q d3"
      using f s Inr assms(1) by (simp add: settlePayment_def)
    ultimately show ?thesis using ledger_once_books [OF books_release] by blast
  qed
qed

end
