(* ===== verification/Settled_Payments.thy ===== *)
theory Settled_Payments
  imports Settlement_Safety Refund_Safety
begin

text \<open>
  The properties of the settlement of payments, over its definitions in \<open>Settlement\<close> and the
  facts of \<open>Settlement_Safety\<close>.
\<close>

section \<open>A history of settlements\<close>

text \<open>
  Provider events in any order, with any content, between steps of the rest of the program,
  none of which writes the ledger.
\<close>

inductive settling :: "db \<Rightarrow> db \<Rightarrow> bool" where
  event: "settlePayment e now a d = (d', r) \<Longrightarrow> settling d d'"
| replay: "replayDisputedPaidPayment e now i d = Inr (d', r) \<Longrightarrow> settling d d'"
| elsewhere: "ledger d' = ledger d \<Longrightarrow> settling d d'"

lemma books_replay_goods: "replay_goods e now v ord d = Inr d' \<Longrightarrow> books d' = books d"
  by (auto simp: replay_goods_def bindr_eq_Inr dest!: books_stock books_transition split: if_splits)

lemma books_replay_transport: "replay_transport e now v job d = Inr d' \<Longrightarrow> books d' = books d"
  unfolding replay_transport_def
  by (auto simp: bindr_eq_Inr Let_def dest!: books_transition split: if_splits option.splits)
    (simp_all add: books_def accept_job_def)

lemma books_replay_inspection: "books (replay_inspection e now v r d) = books d"
proof -
  have "books (d\<lparr>inspections := t\<rparr>) = books d" for t by (simp add: books_def)
  then show ?thesis by (simp add: replay_inspection_def Let_def)
qed

lemma books_replay:
  assumes "replayDisputedPaidPayment e now i d = Inr (d', r)"
  shows "books d' = books d"
  using assms
  by (auto simp: replayDisputedPaidPayment_def bindr_eq_Inr Let_def books_replay_inspection
      dest!: books_replay_goods books_replay_transport split: option.splits if_splits)

interpretation ledger_system: invariant_system settling ledger_once
proof
  fix d d'
  assume "settling d d'" and l: "ledger_once d"
  then show "ledger_once d'"
  proof cases
    case (event e now a r)
    then show ?thesis using l by (rule settlePayment_ledger_once)
  next
    case (replay e now i r)
    then show ?thesis using l ledger_once_books [OF books_replay] by blast
  next
    case elsewhere
    with l show ?thesis by (simp add: ledger_once_def)
  qed
qed

section \<open>A goods payment\<close>

text \<open>What the ledger holds for a payment.\<close>

definition booked :: "uid \<Rightarrow> ledger_entry list \<Rightarrow> number" where
  "booked i l = sum_list (map le_amount (filter (\<lambda>x. le_paymentId x = i) l))"

lemma booked_none: "\<forall>x \<in> set l. le_paymentId x \<noteq> i \<Longrightarrow> booked i l = 0"
  by (simp add: booked_def filter_False)

lemma booked_book:
  assumes "\<forall>y \<in> set l. \<not> (le_paymentId y = le_paymentId x \<and> le_type y = le_type x)"
  shows "booked i (book x l) = booked i l + (if le_paymentId x = i then le_amount x else 0)"
  using assms by (auto simp: booked_def book_def insert_row_def list_ex_iff)

lemma set_book: "set (book x l) \<subseteq> insert x (set l)"
  by (auto simp: book_def)

lemma ledger_entry_for_sel [simp]:
  "le_paymentId (ledger_entry_for p u t x) = p_id p" "le_type (ledger_entry_for p u t x) = t"
  "le_amount (ledger_entry_for p u t x) = x"
  by (simp_all add: ledger_entry_for_def)

lemma booked_entry:
  assumes "\<forall>y \<in> set l. le_type y = t \<longrightarrow> le_paymentId y \<noteq> p_id p" and "0 \<le> x"
  shows "booked (p_id p) (if 0 < x then book (ledger_entry_for p u t x) l else l) = booked (p_id p) l + x"
  using booked_book [of l "ledger_entry_for p u t x" "p_id p"] assms by auto

text \<open>The commission and the earning of a payment in cents are all of it.\<close>

definition commission_ok :: "payment \<Rightarrow> bool" where
  "commission_ok p = (is_money (p_amount p) \<and> 0 \<le> p_amount p \<and>
     (case p_commissionAmount p of None \<Rightarrow> True | Some c \<Rightarrow> is_money c \<and> 0 \<le> c \<and> c \<le> p_amount p))"

lemma earning_and_commission:
  assumes "commission_ok p"
  shows "paid_net p + paid_commission p = p_amount p" and "0 \<le> paid_net p" and "0 \<le> paid_commission p"
proof -
  have c: "is_money (paid_commission p)" "0 \<le> paid_commission p" "paid_commission p \<le> p_amount p"
    using assms by (auto simp: commission_ok_def paid_commission_def roundMoney_def round2_nonneg
        split: option.splits)
  have "is_money (p_amount p - paid_commission p)"
    using assms c(1) by (intro is_money_diff) (auto simp: commission_ok_def)
  with c have n: "paid_net p = p_amount p - paid_commission p"
    by (simp add: paid_net_def roundMoney_def)
  show "paid_net p + paid_commission p = p_amount p" "0 \<le> paid_net p" "0 \<le> paid_commission p"
    using n c by simp_all
qed

lemma writeLedger_goods:
  assumes "p_type (ld_payment v) = MARKETPLACE" and "ld_order v = Some ord" and "commission_ok (ld_payment v)"
    and "\<forall>x \<in> set (ledger d). le_paymentId x \<noteq> p_id (ld_payment v)"
  shows "booked (p_id (ld_payment v)) (ledger (writeLedger v P_PAID d)) = p_amount (ld_payment v)"
proof -
  let ?p = "ld_payment v"
  let ?e = "ledger_entry_for ?p (Some (o_sellerId ord)) SELLER_EARNING (paid_net ?p)"
  let ?c = "ledger_entry_for ?p None PLATFORM_COMMISSION (paid_commission ?p)"
  let ?l = "if 0 < paid_net ?p then book ?e (ledger d) else ledger d"
  have l: "booked (p_id ?p) ?l = paid_net ?p"
    using booked_entry [of "ledger d" SELLER_EARNING ?p "paid_net ?p"] assms(4)
      earning_and_commission(2) [OF assms(3)] by (simp add: booked_none)
  have "\<forall>y \<in> set ?l. le_type y = PLATFORM_COMMISSION \<longrightarrow> le_paymentId y \<noteq> p_id ?p"
    using assms(4) set_book [of ?e "ledger d"] by auto
  then have "booked (p_id ?p) (if 0 < paid_commission ?p then book ?c ?l else ?l)
      = paid_net ?p + paid_commission ?p"
    using booked_entry [OF _ earning_and_commission(3) [OF assms(3)], of ?l PLATFORM_COMMISSION ?p None]
    unfolding l by blast
  moreover have "ledger (writeLedger v P_PAID d) = (if 0 < paid_commission ?p then book ?c ?l else ?l)"
    using assms(1,2) by (simp add: writeLedger_def Let_def)
  ultimately show ?thesis using earning_and_commission(1) [OF assms(3)] by simp
qed

text \<open>Only the goods are handled for a goods payment.\<close>

lemma not_transport: "p_type (ld_payment v) \<noteq> TRANSPORT \<Longrightarrow> pay_transport now v d = Inr d"
  by (simp add: pay_transport_def split: option.split)

lemma not_inspector: "p_type (ld_payment v) \<noteq> INSPECTOR \<Longrightarrow> pay_inspection now v d = Inr d"
  by (simp add: pay_inspection_def split: option.split)

lemma no_service: "p_type (ld_payment v) = MARKETPLACE \<Longrightarrow> hold_service_payouts e now v d = d"
  by (simp add: hold_service_payouts_def Let_def split: option.split)

lemma no_ad: "p_type (ld_payment v) = MARKETPLACE \<Longrightarrow> pay_advertisement now v d = d"
  by (simp add: pay_advertisement_def split: option.split)

lemma paid_effects_goods:
  assumes "p_type (ld_payment v) = MARKETPLACE" and "ld_order v = Some ord" and "o_status ord \<noteq> DISPUTED"
  shows "paid_effects e now a v d = bindr (pay_goods e now a v d) (\<lambda>d1. Inr (writeLedger v P_PAID d1))"
  using assms by (simp add: paid_effects_def Let_def not_transport not_inspector no_service no_ad)

lemma pay_goods_pending:
  assumes "p_type (ld_payment v) = MARKETPLACE" and "ld_order v = Some ord" and "o_status ord = PENDING_PAYMENT"
  shows "pay_goods e now a v d =
    bindr (commit_order_stock now ord d) (\<lambda>d1.
    bindr (transitionOrderStatus now (o_id ord) PENDING_PAYMENT CONFIRMED (\<lambda>o1. o1) d1) (\<lambda>(d2, _).
    Inr (fst (createPayoutHold e now (Some (o_id ord)) (Some Payee_SELLER) (Some (o_sellerId ord)) (ld_payment v) d2))))"
  using assms by (simp add: pay_goods_def Let_def)

lemma commit_order_stock_eq:
  assumes "distinct (map l_id (listings d))" and "listing_of (o_listingId ord) d = Some l"
    and "physical_category (l_category l)" and "0 < o_quantity ord"
  shows "commit_order_stock now ord d =
    (if stock_open (o_quantity ord) l
     then Inr (d\<lparr>listings := update_rows (\<lambda>l. l_id l = o_listingId ord) (take_stock (o_quantity ord)) (listings d),
            offers := (if l_available l - o_quantity ord \<le> EPSILON
                       then close_bids now (o_listingId ord) (offers d) else offers d)\<rparr>)
     else Inl (Stock_Err 409 INSUFFICIENT_INVENTORY))"
  using assms by (simp add: commit_order_stock_def commit_eq)

text \<open>The order of a paid goods payment is confirmed, its stock taken and its payout held.\<close>

lemma pay_goods_effect:
  assumes od: "distinct (map o_id (orders d))" and ld: "distinct (map l_id (listings d))"
    and v: "p_type (ld_payment v) = MARKETPLACE" "ld_order v = Some ord"
    and ord: "find_unique o_id (o_id ord) (orders d) = Some ord" "o_status ord = PENDING_PAYMENT" "0 < o_quantity ord"
    and l: "listing_of (o_listingId ord) d = Some l" "physical_category (l_category l)"
      "stock_open (o_quantity ord) l"
    and po: "find_unique po_paymentId (p_id (ld_payment v)) (payouts d) = None"
  obtains d3 where "pay_goods e now a v d = Inr d3"
    and "find_unique o_id (o_id ord) (orders d3) = Some (set_order_status now CONFIRMED (\<lambda>o1. o1) ord)"
    and "listing_of (o_listingId ord) d3 = Some (take_stock (o_quantity ord) l)"
    and "\<exists>i. new_payout e now i (Some (o_id ord)) Payee_SELLER (o_sellerId ord) (ld_payment v) \<in> set (payouts d3)"
proof -
  obtain fs where c: "commit_order_stock now ord d = Inr (d\<lparr>listings := update_rows (\<lambda>l. l_id l = o_listingId ord)
      (take_stock (o_quantity ord)) (listings d), offers := fs\<rparr>)" (is "_ = Inr ?d1")
    using commit_order_stock_eq [OF ld l(1,2) ord(3)] l(3) by auto
  have "count_where (\<lambda>o1. o_id o1 = o_id ord \<and> o_status o1 = PENDING_PAYMENT) (orders ?d1) = 1"
    using ord(1,2) by (simp add: count_where_key [OF od])
  moreover have "canTransitionOrder PENDING_PAYMENT CONFIRMED" by code_simp
  ultimately obtain d2 r where t: "transitionOrderStatus now (o_id ord) PENDING_PAYMENT CONFIRMED (\<lambda>o1. o1) ?d1 = Inr (d2, r)"
    and d2: "d2 = ?d1\<lparr>orders := update_rows (\<lambda>o1. o_id o1 = o_id ord \<and> o_status o1 = PENDING_PAYMENT)
        (set_order_status now CONFIRMED (\<lambda>o1. o1)) (orders d)\<rparr>"
    by (simp add: transitionOrderStatus_Inr)
  let ?d3 = "fst (createPayoutHold e now (Some (o_id ord)) (Some Payee_SELLER) (Some (o_sellerId ord)) (ld_payment v) d2)"
  have d3: "?d3 = d2\<lparr>payouts := insert_row (new_payout e now (next_id d2) (Some (o_id ord)) Payee_SELLER
      (o_sellerId ord) (ld_payment v)) (payouts d2), next_id := Suc (next_id d2)\<rparr>"
    using po by (simp add: createPayoutHold_def d2 Let_def)
  have p: "pay_goods e now a v d = Inr ?d3"
    using pay_goods_pending [OF v ord(2)] c t by simp
  have o: "find_unique o_id (o_id ord) (orders ?d3) = Some (set_order_status now CONFIRMED (\<lambda>o1. o1) ord)"
    using ord(1,2) unfolding d3 by (simp add: d2 find_unique_update_rows)
  have k: "l_id (take_stock q k) = l_id k" for q k by (simp add: take_stock_def)
  have "l_id l = o_listingId ord" using l(1) by (auto dest: find_unique_Some)
  then have s: "listing_of (o_listingId ord) ?d3 = Some (take_stock (o_quantity ord) l)"
    using l(1) unfolding d3 by (simp add: d2 find_unique_update_rows k)
  show thesis by (rule that [OF p o s], unfold d3) auto
qed

lemma record_event_new:
  assumes "\<forall>x \<in> set (paymentEvents d). Some (pe_eventId x) \<noteq> sa_eventId a"
  obtains d1 where "record_payment_event a p d = Inr (d1, True)"
proof (cases "sa_eventId a")
  case None
  then show thesis by (intro that) (simp add: record_payment_event_def)
next
  case (Some eid)
  with assms have "find_first (\<lambda>x. pe_eventId x = eid) (paymentEvents d) = None"
    by (auto simp: find_first_None)
  with Some show thesis
    by (cases "eid = []") (auto simp: record_payment_event_def intro: that)
qed

lemma apply_paid:
  assumes "sa_status a = P_PAID"
    and "payments_unique (update_rows (\<lambda>r. p_id r = p_id p) (provider_fields a P_PAID p) (payments d))"
  obtains d2 where "apply_payment_status now a p d = Inr (d2, settled_row a p p)"
proof -
  have "\<exists>d2 r. apply_payment_status now a p d = Inr (d2, r)"
    using assms by (auto simp: apply_payment_status_def settle_obligation_def put_payment_def Let_def
        split: option.split)
  then show thesis using apply_payment_status_Inr(4) that by blast
qed

section \<open>Properties\<close>

definition demo_due :: db where
  "demo_due = empty_db\<lparr>listings := [demo_listing], orders := [demo_order\<lparr>o_status := PENDING_PAYMENT\<rparr>],
     payments := [demo_payment\<lparr>p_status := P_PROCESSING\<rparr>], next_id := 10\<rparr>"

definition demo_event :: settle_args where
  "demo_event = \<lparr>sa_paymentId = 3, sa_status = P_PAID, sa_provider = Some ''chapa'',
     sa_providerTransactionId = Some ''T1'', sa_eventId = Some ''ev-1'', sa_amount = Some (Some 100),
     sa_currency = Some ''ETB''\<rparr>"

text \<open>C35. A payment becomes \<open>PAID\<close> only for its money. Whatever event is settled, a payment that is
  \<open>PAID\<close> afterwards has the terms it had, and was paid already, or the event was for it and reported
  its amount and no other currency, or it is a goods payment all of whose installments are paid.\<close>

theorem paid_only_for_money:
  assumes "settlePayment e now a d = (d', r)"
    and "find_unique p_id i (payments d') = Some q" and "p_status q = P_PAID"
  shows "\<exists>p. find_unique p_id i (payments d) = Some p \<and> terms p = terms q \<and>
    (p_status p = P_PAID \<or>
     i = sa_paymentId a \<and> sa_status a = P_PAID \<and> amount_matches a p \<and> \<not> currency_differs a p \<and>
       p_status p \<noteq> P_REFUNDED \<or>
     plan_paid p (fst (settle_or_flag e now a d)))"
proof -
  obtain d1 r1 where f: "settle_or_flag e now a d = (d1, r1)" and m1: "row_moves (event_moves a) d d1"
    and m2: "row_moves (plan_moves d1) d1 d'"
    by (rule settlePayment_moves [OF assms(1)])
  obtain p1 where p1: "find_unique p_id i (payments d1) = Some p1" "terms p1 = terms q"
    and s1: "p_status q = p_status p1 \<or> plan_moves d1 p1 (p_status q)"
    by (rule row_movesE [OF m2 assms(2)])
  obtain p where p: "find_unique p_id i (payments d) = Some p" "terms p = terms p1"
    and s: "p_status p1 = p_status p \<or> event_moves a p (p_status p1)"
    by (rule row_movesE [OF m1 p1(1)])
  have plan: "plan_paid p d1" if "plan_moves d1 p1 (p_status q)"
    using that p(2) by (simp add: plan_moves_def plan_paid_def terms_def)
  have event: "sa_status a = P_PAID \<and> amount_matches a p \<and> \<not> currency_differs a p \<and>
      p_status p \<noteq> P_REFUNDED \<and> i = sa_paymentId a" if "event_moves a p P_PAID"
    using that find_unique_Some [OF p(1)]
    by (auto simp: event_moves_def mismatch_def ignored_def amount_matches_def split: if_splits option.splits)
  show ?thesis using p p1(2) s s1 plan event assms(3) f by auto
qed

theorem paid_only_for_money_witness:
  "\<exists>d' r q. settlePayment env_default 0 demo_event demo_due = (d', r) \<and>
     find_unique p_id 3 (payments d') = Some q \<and> p_status q = P_PAID \<and> amount_matches demo_event q"
proof -
  have run: "settlePayment env_default 0 demo_event demo_due =
      (fst (settlePayment env_default 0 demo_event demo_due), snd (settlePayment env_default 0 demo_event demo_due))"
    by simp
  have "map_option p_status (find_unique p_id 3 (payments (fst (settlePayment env_default 0 demo_event demo_due)))) = Some P_PAID"
    by code_simp
  then obtain q where q: "find_unique p_id 3 (payments (fst (settlePayment env_default 0 demo_event demo_due))) = Some q"
    "p_status q = P_PAID" by auto
  from paid_only_for_money [OF run q] obtain p where p: "find_unique p_id 3 (payments demo_due) = Some p"
    and t: "terms p = terms q" and c: "p_status p = P_PAID \<or> amount_matches demo_event p \<or>
      plan_paid p (fst (settle_or_flag env_default 0 demo_event demo_due))" by blast
  have "p = demo_payment\<lparr>p_status := P_PROCESSING\<rparr>" using p by (simp add: demo_due_def find_unique_def demo_payment_def)
  then have "p_status p \<noteq> P_PAID" "p_installmentCount p = None" by (simp_all add: demo_payment_def)
  with c t have "amount_matches demo_event q" by (simp add: plan_paid_def amount_matches_def terms_def demo_event_def)
  with q run show ?thesis by blast
qed

text \<open>C36. The ledger books a payment once. After any events and replays, in any order and however
  often they are repeated, a payment has at most one entry of each type.\<close>

theorem ledger_books_once:
  assumes "reachable settling d d'" and "ledger d = []" and "x \<in> set (ledger d')" and "y \<in> set (ledger d')"
    and "le_paymentId x = le_paymentId y" and "le_type x = le_type y"
  shows "x = y \<and> count_where (\<lambda>z. le_paymentId z = le_paymentId x \<and> le_type z = le_type x) (ledger d') = 1"
proof -
  have "ledger_once d" using assms(2) by (simp add: ledger_once_def)
  with assms(1) have "ledger_once d'" by (rule ledger_system.reachable_inv)
  then have dist: "distinct (map (\<lambda>x. (le_paymentId x, le_type x)) (ledger d'))" by (simp add: ledger_once_def)
  then have "x = y" using assms(3-6) key_inj [OF dist] by simp
  moreover have "count_where (\<lambda>z. (le_paymentId z, le_type z) = (le_paymentId x, le_type x) \<and> True) (ledger d') = 1"
    using find_unique_in [OF dist assms(3)] by (subst count_where_key [OF dist]) simp
  ultimately show ?thesis by simp
qed

theorem ledger_books_once_witness:
  "count_where (\<lambda>z. le_paymentId z = 3 \<and> le_type z = SELLER_EARNING)
     (ledger (fst (settlePayment env_default 1 demo_event (fst (settlePayment env_default 0 demo_event demo_due))))) = 1"
proof -
  let ?d1 = "fst (settlePayment env_default 0 demo_event demo_due)"
  let ?d2 = "fst (settlePayment env_default 1 demo_event ?d1)"
  have "settling demo_due ?d1" "settling ?d1 ?d2" by (rule settling.event, rule prod.collapse [symmetric])+
  then have r: "reachable settling demo_due ?d2" by (blast intro: reachable_step reachable_refl)
  have z: "ledger demo_due = []" by code_simp
  let ?x = "ledger_entry_for demo_payment (Some 7) SELLER_EARNING 95"
  have "?x \<in> set (ledger ?d2)" by code_simp
  with ledger_books_once [OF r z this this] show ?thesis by (simp add: demo_payment_def)
qed

text \<open>C37. A paid goods payment is carried out whole. An event that reports the amount of a goods payment
  in progress, of an order awaiting payment with enough stock, settles it: the payment is \<open>PAID\<close>, the
  order confirmed, its quantity taken from the listing, the seller's net amount held as a payout, and
  the ledger holds exactly the amount.\<close>

theorem goods_payment_settles:
  assumes "distinct (map o_id (orders d))" and "distinct (map l_id (listings d))"
    and "find_unique p_id (sa_paymentId a) (payments d) = Some p" and "p_type p = MARKETPLACE"
    and "p_status p \<in> {P_PENDING, P_PROCESSING}" and "commission_ok p" and "p_orderId p = Some (o_id ord)"
    and "find_unique o_id (o_id ord) (orders d) = Some ord" and "o_status ord = PENDING_PAYMENT"
    and "0 < o_quantity ord" and "listing_of (o_listingId ord) d = Some l"
    and "physical_category (l_category l)" and "stock_open (o_quantity ord) l"
    and "sa_status a = P_PAID" and "mismatch a p = None"
    and "\<forall>x \<in> set (paymentEvents d). Some (pe_eventId x) \<noteq> sa_eventId a"
    and "\<forall>x \<in> set (ledger d). le_paymentId x \<noteq> p_id p"
    and "find_unique po_paymentId (p_id p) (payouts d) = None"
    and "payments_unique (update_rows (\<lambda>r. p_id r = p_id p) (provider_fields a P_PAID p) (payments d))"
  shows "\<exists>d'. settlePaymentCore e now a d = (d', Inr (settled_row a p p)) \<and>
    find_unique p_id (p_id p) (payments d') = Some (settled_row a p p) \<and>
    find_unique o_id (o_id ord) (orders d') = Some (set_order_status now CONFIRMED (\<lambda>o1. o1) ord) \<and>
    listing_of (o_listingId ord) d' = Some (take_stock (o_quantity ord) l) \<and>
    (\<exists>i. new_payout e now i (Some (o_id ord)) Payee_SELLER (o_sellerId ord) p \<in> set (payouts d')) \<and>
    booked (p_id p) (ledger d') = p_amount p"
proof -
  obtain v where v: "load_payment (sa_paymentId a) d = Some v" "ld_payment v = p" "ld_order v = Some ord"
    using assms(3,7,8) by (auto simp: load_payment_def included_def)
  obtain d1 where e1: "record_payment_event a p d = Inr (d1, True)"
    by (rule record_event_new [OF assms(16)])
  note f1 = record_event_Inr [OF e1]
  obtain d2 where e2: "apply_payment_status now a p d1 = Inr (d2, settled_row a p p)"
    using apply_paid [OF assms(14), of p d1 now] assms(19) f1(1) by auto
  note f2 = apply_payment_status_Inr [OF e2]
  obtain d3 where g: "pay_goods e now a v d2 = Inr d3"
    and o: "find_unique o_id (o_id ord) (orders d3) = Some (set_order_status now CONFIRMED (\<lambda>o1. o1) ord)"
    and l: "listing_of (o_listingId ord) d3 = Some (take_stock (o_quantity ord) l)"
    and po: "\<exists>i. new_payout e now i (Some (o_id ord)) Payee_SELLER (o_sellerId ord) p \<in> set (payouts d3)"
    by (rule pay_goods_effect [of d2 v ord l e now a])
      (use assms v f1 f2 in simp_all)
  have eff: "paid_effects e now a v d2 = Inr (writeLedger v P_PAID d3)"
    using paid_effects_goods [of v ord] v assms(4,9) g by simp
  have b: "payments d3 = payments d2" "ledger d3 = ledger d2" using books_eq [OF books_goods [OF g]] by simp_all
  have "\<not> ignored (p_status p) P_PAID" using assms(5) by (auto simp: ignored_def)
  then have run: "settlePaymentCore e now a d = (writeLedger v P_PAID d3, Inr (settled_row a p p))"
    using v assms(14,15) e1 e2 eff by (simp add: settlePaymentCore_def settle_body_def Let_def)
  have "booked (p_id p) (ledger (writeLedger v P_PAID d3)) = p_amount p"
    using writeLedger_goods [of v ord d3] v assms(4,6,17) b(2) f1(2) f2(2) by simp
  moreover have "find_unique p_id (p_id p) (payments d3) = Some (settled_row a p p)"
    using find_unique_Some [OF assms(3)] assms(3) f1(1) f2(1) b(1) by (simp add: find_unique_update_rows)
  ultimately show ?thesis using run o l po by auto
qed

theorem goods_payment_settles_witness:
  "\<exists>d'. settlePaymentCore env_default 0 demo_event demo_due =
       (d', Inr (settled_row demo_event (demo_payment\<lparr>p_status := P_PROCESSING\<rparr>) (demo_payment\<lparr>p_status := P_PROCESSING\<rparr>))) \<and>
     booked 3 (ledger d') = 100"
proof -
  have "\<exists>d'. settlePaymentCore env_default 0 demo_event demo_due =
       (d', Inr (settled_row demo_event (demo_payment\<lparr>p_status := P_PROCESSING\<rparr>) (demo_payment\<lparr>p_status := P_PROCESSING\<rparr>))) \<and>
     find_unique p_id (p_id (demo_payment\<lparr>p_status := P_PROCESSING\<rparr>)) (payments d') = Some (settled_row demo_event
       (demo_payment\<lparr>p_status := P_PROCESSING\<rparr>) (demo_payment\<lparr>p_status := P_PROCESSING\<rparr>)) \<and>
     find_unique o_id (o_id (demo_order\<lparr>o_status := PENDING_PAYMENT\<rparr>)) (orders d') =
       Some (set_order_status 0 CONFIRMED (\<lambda>o1. o1) (demo_order\<lparr>o_status := PENDING_PAYMENT\<rparr>)) \<and>
     listing_of (o_listingId (demo_order\<lparr>o_status := PENDING_PAYMENT\<rparr>)) d' =
       Some (take_stock (o_quantity (demo_order\<lparr>o_status := PENDING_PAYMENT\<rparr>)) demo_listing) \<and>
     (\<exists>i. new_payout env_default 0 i (Some (o_id (demo_order\<lparr>o_status := PENDING_PAYMENT\<rparr>))) Payee_SELLER
       (o_sellerId (demo_order\<lparr>o_status := PENDING_PAYMENT\<rparr>)) (demo_payment\<lparr>p_status := P_PROCESSING\<rparr>) \<in> set (payouts d')) \<and>
     booked (p_id (demo_payment\<lparr>p_status := P_PROCESSING\<rparr>)) (ledger d') = p_amount (demo_payment\<lparr>p_status := P_PROCESSING\<rparr>)"
    by (rule goods_payment_settles) code_simp+
  then show ?thesis by (auto simp: demo_payment_def)
qed




definition demo_sold_out :: db where
  "demo_sold_out = demo_due\<lparr>listings := [demo_listing\<lparr>l_available := 1\<rparr>]\<rparr>"



definition demo_refunding :: db where
  "demo_refunding = demo_refunds\<lparr>payments := [demo_payment\<lparr>p_status := P_REFUND_PENDING\<rparr>],
     refunds := [\<lparr>r_id = 20, r_paymentId = 3, r_requestedById = Some 8, r_amount = 100, r_currency = ''ETB'',
       r_status = Rf_PROCESSING, r_provider = Some ''chapa'', r_providerRefundId = None, r_uncertain = False,
       r_createdAt = 0, r_completedAt = None\<rparr>]\<rparr>"


end
