(* ===== verification/Spec2Isabelle.thy ===== *)
theory Spec2Isabelle
  imports Payment_Machine Unwinding Bargaining Penalties Obligation_Safety Settled_Payments
begin

text \<open>
  A model of the backend of MarketBridge, an agricultural marketplace.
\<close>

end
